(* ===== verification/Prelude.thy ===== *)
theory Prelude
  imports Main "HOL-Library.Word" "HOL-Library.Char_ord" "HOL-Library.List_Lexorder"
begin

text \<open>
  Shared vocabulary of the development: the C++ exceptions as a sum type with its bind, machine
  integer widths, \<open>size_t\<close> arithmetic, checked container access, \<open>std::to_string\<close> and
  \<open>std::map\<close> as a key-sorted association list behind the locale \<open>ordered_map\<close>.
\<close>

unbundle bit_operations_syntax

named_theorems result_simps \<open>rewriting and case splits for computations that may throw\<close>
named_theorems bounds \<open>index and size facts that keep an access in range\<close>

section \<open>Exceptions\<close>

text \<open>
  \<open>JsonError\<close> is \<open>mapagent::JsonError\<close>, the exception \<open>fail\<close> throws; \<open>OutOfRange\<close> is
  \<open>std::out_of_range\<close> (thrown by \<open>Span::operator[]\<close> and the Scenario accessors).
  \<open>ChkError\<close> is an exception class of \<open>Chk.h\<close>, with its name.
  \<open>Undefined\<close> marks an access the C++ code makes without a check and that has no defined
  behaviour outside the container; it is an error value so that theorems can state it never happens.
  \<open>OutOfFuel\<close> is the end of the recursion budget of a model function, never of the program.
\<close>

datatype cxx_error =
    JsonError string
  | OutOfRange string
  | ChkError string
  | Undefined string
  | OutOfFuel

type_synonym 'a result = "cxx_error + 'a"

definition bindE :: "'e + 'a \<Rightarrow> ('a \<Rightarrow> 'e + 'b) \<Rightarrow> 'e + 'b" where
  "bindE m f = (case m of Inl e \<Rightarrow> Inl e | Inr x \<Rightarrow> f x)"

abbreviation fail :: "string \<Rightarrow> 'a result" where
  "fail message \<equiv> Inl (JsonError message)"

definition requireE :: "bool \<Rightarrow> 'e \<Rightarrow> 'e + unit" where
  "requireE c e = (if c then Inr () else Inl e)"

lemma bindE_simps [simp, result_simps]:
  "bindE (Inl e) f = Inl e"
  "bindE (Inr x) f = f x"
  by (simp_all add: bindE_def)

lemma bindE_Inr [result_simps]:
  "bindE m f = Inr y \<longleftrightarrow> (\<exists>x. m = Inr x \<and> f x = Inr y)"
  by (cases m) auto

lemma bindE_Inl [result_simps]:
  "bindE m f = Inl e \<longleftrightarrow> m = Inl e \<or> (\<exists>x. m = Inr x \<and> f x = Inl e)"
  by (cases m) auto

lemma bindE_assoc [simp]: "bindE (bindE m f) g = bindE m (\<lambda>x. bindE (f x) g)"
  by (cases m) auto

lemma bindE_return [simp]: "bindE m Inr = m"
  by (cases m) auto

lemma bindE_cong [fundef_cong]:
  assumes "m = m'" and "\<And>x. m' = Inr x \<Longrightarrow> f x = g x"
  shows "bindE m f = bindE m' g"
  using assms by (cases m') auto

lemma bindE_split:
  "P (bindE m f) \<longleftrightarrow> (\<forall>e. m = Inl e \<longrightarrow> P (Inl e)) \<and> (\<forall>x. m = Inr x \<longrightarrow> P (f x))"
  by (cases m) auto

lemma requireE_simps [simp, result_simps]:
  "requireE c e = Inr u \<longleftrightarrow> c"
  "requireE c e = Inl e' \<longleftrightarrow> \<not> c \<and> e' = e"
  by (auto simp: requireE_def)

lemma requireE_bind [simp]:
  "bindE (requireE c e) f = (if c then f () else Inl e)"
  by (simp add: requireE_def)

text \<open>A loop over a list that stops at the first exception, threading a state.\<close>

fun foldE :: "('s \<Rightarrow> 'a \<Rightarrow> 'e + 's) \<Rightarrow> 's \<Rightarrow> 'a list \<Rightarrow> 'e + 's" where
  "foldE f s [] = Inr s"
| "foldE f s (x # xs) = bindE (f s x) (\<lambda>s'. foldE f s' xs)"

fun mapE :: "('a \<Rightarrow> 'e + 'b) \<Rightarrow> 'a list \<Rightarrow> 'e + 'b list" where
  "mapE f [] = Inr []"
| "mapE f (x # xs) = bindE (f x) (\<lambda>y. bindE (mapE f xs) (\<lambda>ys. Inr (y # ys)))"

lemma foldE_cong [fundef_cong]:
  assumes "xs = ys" and "s = t" and "\<And>u x. x \<in> set ys \<Longrightarrow> f u x = g u x"
  shows "foldE f s xs = foldE g t ys"
  using assms(3) unfolding assms(1,2)
  by (induction ys arbitrary: t) (auto intro!: bindE_cong)

lemma foldE_append: "foldE f s (xs @ ys) = bindE (foldE f s xs) (\<lambda>s'. foldE f s' ys)"
  by (induction xs arbitrary: s) auto

lemma foldE_invariant:
  assumes "foldE f s xs = Inr t" and "I s"
    and "\<And>u x v. x \<in> set xs \<Longrightarrow> I u \<Longrightarrow> f u x = Inr v \<Longrightarrow> I v"
  shows "I t"
  using assms
proof (induction xs arbitrary: s)
  case Nil
  then show ?case by simp
next
  case (Cons x xs)
  from Cons.prems(1) obtain v where v: "f s x = Inr v" "foldE f v xs = Inr t"
    by (auto simp: bindE_Inr)
  have "I v" using Cons.prems(2,3) v(1) by (metis list.set_intros(1))
  with v(2) show ?case
    by (rule Cons.IH) (metis Cons.prems(3) list.set_intros(2))
qed

lemma foldE_total:
  assumes "I s" and "\<And>u x. x \<in> set xs \<Longrightarrow> I u \<Longrightarrow> \<exists>v. f u x = Inr v \<and> I v"
  shows "\<exists>t. foldE f s xs = Inr t \<and> I t"
  using assms
proof (induction xs arbitrary: s)
  case Nil
  then show ?case by simp
next
  case (Cons x xs)
  from Cons.prems obtain v where v: "f s x = Inr v" "I v"
    by (metis list.set_intros(1))
  with Cons.IH[of v] Cons.prems(2) show ?case by (simp add: v)
qed

text \<open>Each round establishes its own fact and keeps those of the others.\<close>

lemma foldE_establishes:
  assumes "foldE f s xs = Inr t" and "K s"
    and step: "\<And>u x v. x \<in> set xs \<Longrightarrow> K u \<Longrightarrow> f u x = Inr v \<Longrightarrow> K v \<and> P x v"
    and keep: "\<And>u x v y. x \<in> set xs \<Longrightarrow> K u \<Longrightarrow> f u x = Inr v \<Longrightarrow> P y u \<Longrightarrow> P y v"
  shows "K t \<and> (\<forall>x \<in> set xs. P x t)"
  using assms
proof (induction xs arbitrary: s)
  case Nil
  then show ?case by simp
next
  case (Cons x xs)
  from Cons.prems(1) obtain v where v: "f s x = Inr v" "foldE f v xs = Inr t"
    by (auto simp: bindE_Inr)
  have kv: "K v" "P x v" using Cons.prems(3) [OF _ Cons.prems(2) v(1)] by simp_all
  have rest: "K t \<and> (\<forall>x \<in> set xs. P x t)"
  proof (rule Cons.IH [OF v(2) kv(1)])
    show "K w' \<and> P y w'" if "y \<in> set xs" "K w" "f w y = Inr w'" for w y w'
      using that Cons.prems(3) [of y w w'] by simp
    show "P z w'" if "y \<in> set xs" "K w" "f w y = Inr w'" "P z w" for w y w' z
      using that Cons.prems(4) [of y w w' z] by simp
  qed
  have "P x t"
  proof -
    have "K t \<and> P x t"
      using v(2)
    proof (rule foldE_invariant [where I = "\<lambda>w. K w \<and> P x w"])
      show "K v \<and> P x v" using kv by simp
      show "K w' \<and> P x w'" if "y \<in> set xs" "K w \<and> P x w" "f w y = Inr w'" for w y w'
        using that Cons.prems(3) [of y w w'] Cons.prems(4) [of y w w' x] by simp
    qed
    then show ?thesis by simp
  qed
  with rest show ?case by simp
qed

text \<open>A loop in which every round succeeds, establishes facts of its own and keeps all others.\<close>

lemma foldE_total_establishes:
  assumes "K s" and "\<And>u x. x \<in> set xs \<Longrightarrow> K u \<Longrightarrow>
    \<exists>v. f u x = Inr v \<and> K v \<and> (\<forall>i \<in> G x. P i v) \<and> (\<forall>i. P i u \<longrightarrow> P i v)"
  shows "\<exists>t. foldE f s xs = Inr t \<and> K t \<and> (\<forall>x \<in> set xs. \<forall>i \<in> G x. P i t) \<and> (\<forall>i. P i s \<longrightarrow> P i t)"
  using assms
proof (induction xs arbitrary: s)
  case Nil
  then show ?case by simp
next
  case (Cons x xs)
  obtain v where v: "f s x = Inr v" "K v" "\<forall>i \<in> G x. P i v" "\<forall>i. P i s \<longrightarrow> P i v"
    using Cons.prems(2) [of x s] Cons.prems(1) by auto
  obtain t where "foldE f v xs = Inr t" "K t" "\<forall>x \<in> set xs. \<forall>i \<in> G x. P i t" "\<forall>i. P i v \<longrightarrow> P i t"
    using Cons.IH [OF v(2)] Cons.prems(2) by auto
  with v show ?case by auto
qed

lemma length_mapE: "mapE f xs = Inr ys \<Longrightarrow> length ys = length xs"
  by (induction xs arbitrary: ys) (auto simp: bindE_Inr)

lemma mapE_nth: "mapE f xs = Inr ys \<Longrightarrow> i < length xs \<Longrightarrow> f (xs ! i) = Inr (ys ! i)"
  by (induction xs arbitrary: ys i) (auto simp: bindE_Inr nth_Cons split: nat.splits)

text \<open>Reading a list at a position.\<close>

lemma nth_update: "j < length xs \<Longrightarrow> xs[i := x] ! j = (if i = j then x else xs ! j)"
  by simp

lemma drop_ConsD:
  assumes "drop p s = c # cs"
  shows "p < length s" and "s ! p = c" and "drop (Suc p) s = cs"
proof -
  show "p < length s" using assms by (metis drop_all list.distinct(1) not_less)
  then show "s ! p = c" using assms by (metis Cons_nth_drop_Suc list.inject)
  show "drop (Suc p) s = cs" using assms by (metis drop_Suc drop_tl list.sel(3))
qed

lemma drop_appendD: "drop p s = t @ u \<Longrightarrow> drop (p + length t) s = u"
  by (metis add.commute append_eq_conv_conj drop_drop)

section \<open>Machine integers\<close>

type_synonym u8 = "8 word"
type_synonym u16 = "16 word"
type_synonym u32 = "32 word"
type_synonym u64 = "64 word"

text \<open>
  \<open>size_t\<close> is 64 bits wide in every supported build; the model keeps it as \<open>nat\<close> and writes the
  wrap-around out where an expression can leave the range.
\<close>

definition size_limit :: nat where
  "size_limit = 2 ^ 64"

definition size_add :: "nat \<Rightarrow> nat \<Rightarrow> nat" where
  "size_add a b = (a + b) mod size_limit"

definition size_sub :: "nat \<Rightarrow> nat \<Rightarrow> nat" where
  "size_sub a b = (a + (size_limit - b mod size_limit)) mod size_limit"

definition size_mul :: "nat \<Rightarrow> nat \<Rightarrow> nat" where
  "size_mul a b = (a * b) mod size_limit"

definition size_max :: nat where
  "size_max = size_limit - 1"

lemma unat_of_nat_small [simp]: "n < 2 ^ LENGTH('a::len) \<Longrightarrow> unat (of_nat n :: 'a word) = n"
  by (simp add: unsigned_of_nat take_bit_nat_eq_self)

lemma unat_u16_less [bounds]: "unat (w :: u16) < 0x10000"
  by (rule order.strict_trans2 [OF unsigned_less]) simp

lemma unat_u8_less [bounds]: "unat (w :: u8) < 0x100"
  by (rule order.strict_trans2 [OF unsigned_less]) simp

lemma unat_u32_less [bounds]: "unat (w :: u32) < 0x100000000"
  by (rule order.strict_trans2 [OF unsigned_less]) simp

lemma size_limit_pos [simp]: "0 < size_limit"
  by (simp add: size_limit_def)

lemma size_add_small [simp, bounds]: "a + b < size_limit \<Longrightarrow> size_add a b = a + b"
  by (simp add: size_add_def)

lemma size_sub_small [simp, bounds]:
  assumes "b \<le> a" and "a < size_limit"
  shows "size_sub a b = a - b"
proof -
  have "a + (size_limit - b mod size_limit) = (a - b) + size_limit" using assms by simp
  then have "size_sub a b = (a - b) mod size_limit"
    by (simp only: size_sub_def mod_add_self2)
  then show ?thesis using assms by simp
qed

lemma size_sub_wrap:
  assumes "a < b" and "b < size_limit"
  shows "size_sub a b = a + (size_limit - b)"
  using assms by (simp add: size_sub_def)

section \<open>Unchecked container access\<close>

text \<open>\<open>std::vector::operator[]\<close> does not check its index; outside the vector the behaviour is undefined.\<close>

definition vec_get :: "'a list \<Rightarrow> nat \<Rightarrow> 'a result" where
  "vec_get xs i = (if i < length xs then Inr (xs ! i) else Inl (Undefined ''vector index''))"

definition vec_set :: "'a list \<Rightarrow> nat \<Rightarrow> 'a \<Rightarrow> 'a list result" where
  "vec_set xs i x = (if i < length xs then Inr (xs[i := x]) else Inl (Undefined ''vector index''))"

lemma vec_get_simps [simp]:
  "vec_get xs i = Inr x \<longleftrightarrow> i < length xs \<and> x = xs ! i"
  "i < length xs \<Longrightarrow> vec_get xs i = Inr (xs ! i)"
  by (auto simp: vec_get_def)

lemma vec_set_simps [simp]:
  "vec_set xs i x = Inr ys \<longleftrightarrow> i < length xs \<and> ys = xs[i := x]"
  "i < length xs \<Longrightarrow> vec_set xs i x = Inr (xs[i := x])"
  by (auto simp: vec_set_def)

text \<open>\<open>Span::operator[]\<close> of \<open>MappingCoreLib/Basics.h\<close> does check and throws.\<close>

definition span_get :: "'a list \<Rightarrow> nat \<Rightarrow> 'a result" where
  "span_get xs i =
     (if i < length xs then Inr (xs ! i) else Inl (OutOfRange ''Span index out of bounds''))"

lemma span_get_simps [simp]:
  "span_get xs i = Inr x \<longleftrightarrow> i < length xs \<and> x = xs ! i"
  "i < length xs \<Longrightarrow> span_get xs i = Inr (xs ! i)"
  by (auto simp: span_get_def)

lemma span_get_Inl: "span_get xs i = Inl e \<longleftrightarrow>
    length xs \<le> i \<and> e = OutOfRange ''Span index out of bounds''"
  by (auto simp: span_get_def)

section \<open>Numbers as text\<close>

definition digit_char :: "nat \<Rightarrow> char" where
  "digit_char d = char_of (48 + d)"

fun nat_to_string :: "nat \<Rightarrow> string" where
  "nat_to_string n = (if n < 10 then [digit_char n]
     else nat_to_string (n div 10) @ [digit_char (n mod 10)])"

declare nat_to_string.simps [simp del]

definition int_to_string :: "int \<Rightarrow> string" where
  "int_to_string i = (if i < 0 then CHR ''-'' # nat_to_string (nat (- i)) else nat_to_string (nat i))"

definition is_digit :: "char \<Rightarrow> bool" where
  "is_digit c \<longleftrightarrow> 48 \<le> (of_char c :: nat) \<and> (of_char c :: nat) \<le> 57"

definition digit_value :: "char \<Rightarrow> nat" where
  "digit_value c = of_char c - 48"

fun digits_value_from :: "nat \<Rightarrow> string \<Rightarrow> nat" where
  "digits_value_from acc [] = acc"
| "digits_value_from acc (c # cs) = digits_value_from (10 * acc + digit_value c) cs"

definition digits_value :: "string \<Rightarrow> nat" where
  "digits_value = digits_value_from 0"

lemma digit_char_zero [simp]: "digit_char 0 = CHR ''0''"
  by code_simp

lemma of_char_digit_char [simp]: "d < 10 \<Longrightarrow> (of_char (digit_char d) :: nat) = 48 + d"
  by (simp add: digit_char_def)

lemma is_digit_digit_char [simp]: "d < 10 \<Longrightarrow> is_digit (digit_char d)"
  by (simp add: is_digit_def)

lemma digit_value_digit_char [simp]: "d < 10 \<Longrightarrow> digit_value (digit_char d) = d"
  by (simp add: digit_value_def)

lemma nat_to_string_digits: "list_all is_digit (nat_to_string n)"
proof (induction n rule: nat_to_string.induct)
  case (1 n)
  then show ?case by (subst nat_to_string.simps) simp
qed

lemma nat_to_string_nonempty [simp]: "nat_to_string n \<noteq> []"
  by (subst nat_to_string.simps) simp

lemma digits_value_from_append:
  "digits_value_from acc (xs @ ys) = digits_value_from (digits_value_from acc xs) ys"
  by (induction xs arbitrary: acc) auto

lemma digits_value_nat_to_string [simp]: "digits_value (nat_to_string n) = n"
proof (induction n rule: nat_to_string.induct)
  case (1 n)
  then show ?case
    by (subst nat_to_string.simps) (auto simp: digits_value_def digits_value_from_append)
qed

text \<open>Only the number 0 is printed with a leading zero.\<close>

lemma nat_to_string_hd: "hd (nat_to_string n) = CHR ''0'' \<longleftrightarrow> n = 0"
proof (induction n rule: nat_to_string.induct)
  case (1 n)
  show ?case
  proof (cases "n < 10")
    case True
    have "(digit_char n = CHR ''0'') = (n = 0)"
    proof
      assume "digit_char n = CHR ''0''"
      then have "(of_char (digit_char n) :: nat) = of_char (CHR ''0'')" by simp
      with True show "n = 0" by simp
    qed simp
    with True show ?thesis by (subst nat_to_string.simps) simp
  next
    case False
    then have "n div 10 \<noteq> 0" by arith
    with False "1.IH" show ?thesis by (subst nat_to_string.simps) simp
  qed
qed

lemma nat_to_string_zero [simp]: "nat_to_string 0 = ''0''"
  by (subst nat_to_string.simps) simp

end
