(* ===== verification/StdMap.thy ===== *)
theory StdMap
  imports Prelude
begin

text \<open>
  \<open>std::map\<close> as the code uses it: JSON objects (\<open>Json::Object\<close>), MPQ inventories
  (\<open>AssetInventory\<close>) and the palette caches. A map is the list of its entries in key order, so
  iteration (serialisation, digests, unknown-field reports) is the list itself.
  The locale \<open>ordered_map\<close> states what the clients rely on.
\<close>

type_synonym ('k, 'v) std_map = "('k \<times> 'v) list"

text \<open>\<open>operator[] =\<close> / \<open>insert_or_assign\<close>: replaces the value of a present key.\<close>

fun map_assign :: "'k::linorder \<Rightarrow> 'v \<Rightarrow> ('k, 'v) std_map \<Rightarrow> ('k, 'v) std_map" where
  "map_assign k v [] = [(k, v)]"
| "map_assign k v ((k', v') # m) =
     (if k < k' then (k, v) # (k', v') # m
      else if k = k' then (k, v) # m
      else (k', v') # map_assign k v m)"

text \<open>\<open>emplace\<close>: keeps the value of a present key.\<close>

definition map_emplace :: "'k::linorder \<Rightarrow> 'v \<Rightarrow> ('k, 'v) std_map \<Rightarrow> ('k, 'v) std_map" where
  "map_emplace k v m = (case map_of m k of None \<Rightarrow> map_assign k v m | Some _ \<Rightarrow> m)"

definition map_erase :: "'k \<Rightarrow> ('k, 'v) std_map \<Rightarrow> ('k, 'v) std_map" where
  "map_erase k m = filter (\<lambda>e. fst e \<noteq> k) m"

definition map_ok :: "('k::linorder, 'v) std_map \<Rightarrow> bool" where
  "map_ok m \<longleftrightarrow> sorted_wrt (<) (map fst m)"

text \<open>An initializer list \<open>{{k, v}, ...}\<close> inserts its entries in turn; the first of equal keys stays.\<close>

definition map_init :: "('k::linorder \<times> 'v) list \<Rightarrow> ('k, 'v) std_map" where
  "map_init es = fold (\<lambda>(k, v) m. map_emplace k v m) es []"

section \<open>The interface\<close>

locale ordered_map =
  fixes empty :: 'm
    and find :: "'m \<Rightarrow> 'k::linorder \<Rightarrow> 'v option"
    and assign :: "'k \<Rightarrow> 'v \<Rightarrow> 'm \<Rightarrow> 'm"
    and emplace :: "'k \<Rightarrow> 'v \<Rightarrow> 'm \<Rightarrow> 'm"
    and erase :: "'k \<Rightarrow> 'm \<Rightarrow> 'm"
    and entries :: "'m \<Rightarrow> ('k \<times> 'v) list"
    and invar :: "'m \<Rightarrow> bool"
  assumes find_entries: "find m k = map_of (entries m) k"
    and entries_sorted: "invar m \<Longrightarrow> sorted_wrt (<) (map fst (entries m))"
    and entries_empty: "entries empty = []"
    and find_assign: "find (assign k v m) = (find m)(k \<mapsto> v)"
    and find_emplace: "find (emplace k v m) = (if find m k = None then (find m)(k \<mapsto> v) else find m)"
    and find_erase: "find (erase k m) = (find m)(k := None)"
    and invar_empty: "invar empty"
    and invar_assign: "invar m \<Longrightarrow> invar (assign k v m)"
    and invar_emplace: "invar m \<Longrightarrow> invar (emplace k v m)"
    and invar_erase: "invar m \<Longrightarrow> invar (erase k m)"
begin

lemmas map_specs = find_assign find_emplace find_erase invar_empty invar_assign invar_emplace invar_erase

lemma find_empty: "find empty k = None"
  by (simp add: find_entries entries_empty)

lemma entries_distinct: "invar m \<Longrightarrow> distinct (map fst (entries m))"
  using entries_sorted by (metis strict_sorted_iff)

lemma entries_find: "invar m \<Longrightarrow> (k, v) \<in> set (entries m) \<longleftrightarrow> find m k = Some v"
  by (simp add: find_entries entries_distinct)

text \<open>Two maps with the same lookups have the same entries in the same order: \<open>operator==\<close>.\<close>

lemma same_entries:
  assumes "invar m" and "invar n" and "\<And>k. find m k = find n k"
  shows "entries m = entries n"
proof -
  have "map_of (entries m) = map_of (entries n)"
    using assms(3) by (auto simp: fun_eq_iff find_entries)
  then have "set (entries m) = set (entries n)"
    by (metis assms(1,2) entries_distinct map_of_eqI map_of_inject_set)
  moreover have "map fst (entries m) = map fst (entries n)"
    using calculation assms(1,2)
    by (intro strict_sorted_equal) (simp_all add: entries_sorted)
  ultimately show ?thesis
    using assms(1,2) \<open>map_of (entries m) = map_of (entries n)\<close>
    by (metis map_of_zip_inject entries_distinct length_map zip_map_fst_snd)
qed

text \<open>A staged addition followed by the removal of the added key is the original map.\<close>

lemma erase_emplace_fresh:
  assumes "invar m" and "find m k = None"
  shows "entries (erase k (emplace k v m)) = entries m"
proof (rule same_entries)
  show "invar (erase k (emplace k v m))" by (intro invar_erase invar_emplace assms(1))
  show "find (erase k (emplace k v m)) k' = find m k'" for k'
    using assms(2) by (simp add: find_erase find_emplace)
qed (rule assms(1))

end

section \<open>The model is such a map\<close>

lemma map_of_assign: "map_of (map_assign k v m) = (map_of m)(k \<mapsto> v)"
  by (induction k v m rule: map_assign.induct) auto

lemma map_of_emplace:
  "map_of (map_emplace k v m) = (if map_of m k = None then (map_of m)(k \<mapsto> v) else map_of m)"
  by (simp add: map_emplace_def map_of_assign split: option.split)

lemma map_of_erase: "map_of (map_erase k m) = (map_of m)(k := None)"
  unfolding map_erase_def by (induction m) (auto simp: fun_eq_iff)

lemma keys_assign: "fst ` set (map_assign k v m) = insert k (fst ` set m)"
  by (induction k v m rule: map_assign.induct) auto

lemma map_ok_assign: "map_ok m \<Longrightarrow> map_ok (map_assign k v m)"
  unfolding map_ok_def
proof (induction k v m rule: map_assign.induct)
  case (2 k v k' v' m)
  show ?case
  proof (cases "k < k'")
    case True
    with "2.prems" show ?thesis by (auto intro: less_trans)
  next
    case False
    with 2 have "sorted_wrt (<) (map fst (map_assign k v m))" if "k \<noteq> k'" using that by simp
    with False "2.prems" show ?thesis
      using keys_assign[of k v m] by auto
  qed
qed simp

lemma map_ok_emplace: "map_ok m \<Longrightarrow> map_ok (map_emplace k v m)"
  by (simp add: map_emplace_def map_ok_assign split: option.split)

lemma map_ok_erase: "map_ok m \<Longrightarrow> map_ok (map_erase k m)"
  unfolding map_ok_def map_erase_def
  by (induction m) (auto simp: sorted_wrt_map)

lemma map_ok_Nil [simp]: "map_ok []"
  by (simp add: map_ok_def)

lemma map_ok_sorted: "map_ok m \<Longrightarrow> sorted_wrt (<) (map fst m)"
  by (simp add: map_ok_def)

interpretation smap: ordered_map "[]" map_of map_assign map_emplace map_erase "\<lambda>m. m" map_ok
  by unfold_locales
    (auto simp: map_of_assign map_of_emplace map_of_erase map_ok_assign map_ok_emplace
      map_ok_erase map_ok_Nil map_ok_sorted)

lemma map_ok_init: "map_ok (map_init es)"
proof -
  have "map_ok (fold (\<lambda>(k, v) m. map_emplace k v m) es m)" if "map_ok m" for m
    using that by (induction es arbitrary: m) (auto simp: map_ok_emplace)
  then show ?thesis by (simp add: map_init_def smap.invar_empty)
qed

text \<open>Emplacing the entries of a sorted map one by one rebuilds the map.\<close>

lemma emplace_last:
  assumes "map_ok (m @ [(k, v)])"
  shows "map_emplace k v m = m @ [(k, v)]"
proof -
  have lt: "\<forall>k' \<in> fst ` set m. k' < k"
    using assms by (auto simp: map_ok_def sorted_wrt_append)
  then have "map_of m k = None" by (auto simp: map_of_eq_None_iff)
  moreover have "map_assign k v m = m @ [(k, v)]"
    using lt by (induction m) auto
  ultimately show ?thesis by (simp add: map_emplace_def)
qed

lemma map_ok_appendD: "map_ok (m @ n) \<Longrightarrow> map_ok m"
  by (simp add: map_ok_def sorted_wrt_append)

end
