(* ===== verification/Float64.thy ===== *)
theory Float64
  imports Prelude Complex_Main
begin

text \<open>
  The finite \<open>double\<close> values of the JSON layer and the two standard-library conversions it uses:
  \<open>std::from_chars\<close> (general format, correctly rounded, \<open>result_out_of_range\<close> on overflow and on
  underflow to zero) and \<open>std::to_chars\<close> in general format with 17 significant digits
  (\<open>max_digits10\<close>, the same text as \<open>printf\<close> with \<open>%.17g\<close>). All arithmetic is exact integer
  arithmetic on the value \<open>significand * 2 ^ exponent\<close>.
\<close>

datatype f64 = F64 (f64_neg: bool) (f64_sig: nat) (f64_exp: int)

definition f64_ok :: "f64 \<Rightarrow> bool" where
  "f64_ok x \<longleftrightarrow> f64_sig x < 2 ^ 53 \<and> -1074 \<le> f64_exp x \<and> f64_exp x \<le> 971
     \<and> (2 ^ 52 \<le> f64_sig x \<or> f64_exp x = -1074)"

text \<open>A positive ratio \<open>num / den\<close> against a power of \<open>b\<close>, and its floor logarithm.\<close>

definition scaled :: "nat \<Rightarrow> nat \<Rightarrow> nat \<Rightarrow> int \<Rightarrow> nat \<times> nat" where
  "scaled b num den e = (if 0 \<le> e then (num, den * b ^ nat e) else (num * b ^ nat (- e), den))"

definition ratio_ge :: "nat \<Rightarrow> nat \<Rightarrow> nat \<Rightarrow> int \<Rightarrow> bool" where
  "ratio_ge b num den e = (let (n, d) = scaled b num den e in d \<le> n)"

fun num_digits :: "nat \<Rightarrow> nat \<Rightarrow> nat" where
  "num_digits b n = (if n = 0 \<or> b < 2 then 0 else Suc (num_digits b (n div b)))"

declare num_digits.simps [simp del]

definition floor_log :: "nat \<Rightarrow> nat \<Rightarrow> nat \<Rightarrow> int" where
  "floor_log b num den =
     (let l = int (num_digits b num) - int (num_digits b den)
      in if ratio_ge b num den l then l else l - 1)"

text \<open>Rounding to nearest, ties to even.\<close>

definition round_half_even :: "nat \<Rightarrow> nat \<Rightarrow> nat" where
  "round_half_even n d =
     (let q = n div d; r = n mod d
      in if d < 2 * r \<or> (2 * r = d \<and> odd q) then q + 1 else q)"

definition round_f64 :: "bool \<Rightarrow> nat \<Rightarrow> nat \<Rightarrow> f64 option" where
  "round_f64 neg num den =
     (if num = 0 then Some (F64 neg 0 (-1074))
      else
        let e = max (floor_log 2 num den - 52) (-1074);
            (n, d) = scaled 2 num den e;
            q = round_half_even n d;
            (q', e') = (if q = 2 ^ 53 then (2 ^ 52, e + 1) else (q, e))
        in if q' = 0 \<or> 971 < e' then None else Some (F64 neg q' e'))"

text \<open>The decimal text the parser has already validated: \<open>-?digits(.digits)?([eE][+-]?digits)?\<close>.\<close>

definition exponent_value :: "string \<Rightarrow> int" where
  "exponent_value s =
     (case s of
        [] \<Rightarrow> 0
      | _ # [] \<Rightarrow> 0
      | _ # c # cs \<Rightarrow>
          if c = CHR ''-'' then - int (digits_value cs)
          else if c = CHR ''+'' then int (digits_value cs)
          else int (digits_value (c # cs)))"

definition from_chars_f64 :: "string \<Rightarrow> f64 option" where
  "from_chars_f64 s =
     (let neg = (s \<noteq> [] \<and> hd s = CHR ''-'');
          body = (if neg then tl s else s);
          whole = takeWhile is_digit body;
          rest = dropWhile is_digit body;
          fracs = (if rest \<noteq> [] \<and> hd rest = CHR ''.'' then takeWhile is_digit (tl rest) else []);
          tail = (if rest \<noteq> [] \<and> hd rest = CHR ''.'' then dropWhile is_digit (tl rest) else rest);
          sig = digits_value (whole @ fracs);
          e = exponent_value tail - int (length fracs)
      in if 0 \<le> e then round_f64 neg (sig * 10 ^ nat e) 1
         else round_f64 neg sig (10 ^ nat (- e)))"

section \<open>Printing with 17 significant digits\<close>

definition strip_zeros :: "string \<Rightarrow> string" where
  "strip_zeros s = rev (dropWhile (\<lambda>c. c = CHR ''0'') (rev s))"

definition with_fraction :: "string \<Rightarrow> string \<Rightarrow> string" where
  "with_fraction whole fracs =
     (let f = strip_zeros fracs in if f = [] then whole else whole @ ''.'' @ f)"

definition exponent_text :: "int \<Rightarrow> string" where
  "exponent_text x =
     (let d = nat_to_string (nat \<bar>x\<bar>)
      in ''e'' @ (if x < 0 then ''-'' else ''+'') @ (if length d < 2 then ''0'' @ d else d))"

definition to_chars_f64 :: "f64 \<Rightarrow> string" where
  "to_chars_f64 x =
     (let sign = (if f64_neg x then ''-'' else '''')
      in if f64_sig x = 0 then sign @ ''0''
         else
           let (num, den) = scaled 2 (f64_sig x) 1 (- f64_exp x);
               x0 = floor_log 10 num den;
               (n, d) = scaled 10 num den (x0 - 16);
               r = round_half_even n d;
               (m, ex) = (if r = 10 ^ 17 then (10 ^ 16, x0 + 1) else (r, x0));
               ds = nat_to_string m
           in if -4 \<le> ex \<and> ex < 17
              then (if 0 \<le> ex
                    then sign @ with_fraction (take (nat ex + 1) ds) (drop (nat ex + 1) ds)
                    else sign @ with_fraction ''0'' (replicate (nat (- ex) - 1) (CHR ''0'') @ ds))
              else sign @ with_fraction (take 1 ds) (drop 1 ds) @ exponent_text ex)"

section \<open>Rounding gives a finite double\<close>

lemma num_digits_bounds:
  assumes "2 \<le> b" and "0 < n"
  shows "b ^ (num_digits b n - 1) \<le> n \<and> n < b ^ num_digits b n \<and> 0 < num_digits b n"
  using assms
proof (induction b n rule: num_digits.induct)
  case (1 b n)
  show ?case
  proof (cases "n div b = 0")
    case True
    then have "n < b" using "1.prems" by (simp add: div_eq_0_iff)
    then show ?thesis using "1.prems" by (simp add: num_digits.simps [of b n] num_digits.simps [of b 0])
  next
    case False
    with 1 have ih: "b ^ (num_digits b (n div b) - 1) \<le> n div b"
      "n div b < b ^ num_digits b (n div b)" "0 < num_digits b (n div b)" by auto
    then obtain k where k: "num_digits b (n div b) = Suc k" by (metis gr0_implies_Suc)
    have "b ^ k \<le> n div b" using ih(1) k by simp
    then have "b ^ k * b \<le> n div b * b" by (rule mult_le_mono1)
    also have "\<dots> \<le> n" by simp
    finally have "b ^ Suc k \<le> n" by (simp add: mult.commute)
    moreover have "n < b * b ^ Suc k"
      using ih(2) k "1.prems" by (simp add: div_less_iff_less_mult mult.commute)
    ultimately show ?thesis
      using "1.prems" k by (simp add: num_digits.simps [of b n])
  qed
qed

lemma round_half_even_le: "0 < d \<Longrightarrow> n < k * d \<Longrightarrow> round_half_even n d \<le> k"
  by (auto simp: round_half_even_def Let_def Suc_le_eq div_less_iff_less_mult less_imp_le)

lemma round_half_even_ge: "0 < d \<Longrightarrow> k * d \<le> n \<Longrightarrow> k \<le> round_half_even n d"
  by (auto simp: round_half_even_def Let_def less_eq_div_iff_mult_less_eq intro: le_SucI)

lemma scaled_real:
  assumes "scaled b num den e = (n, d)" and "0 < b" and "0 < den"
  shows "0 < d" and "real n / real d = real num / real den / real b powi e"
proof -
  show "0 < d" using assms by (auto simp: scaled_def split: if_splits)
  show "real n / real d = real num / real den / real b powi e"
    using assms by (auto simp: scaled_def power_int_def divide_simps split: if_splits)
qed

lemma ratio_ge_real:
  assumes "0 < b" and "0 < den"
  shows "ratio_ge b num den e \<longleftrightarrow> real b powi e \<le> real num / real den"
  using assms by (auto simp: ratio_ge_def scaled_def power_int_def field_simps simp flip: of_nat_power of_nat_mult)

lemma floor_log_real:
  assumes b: "2 \<le> b" and "0 < num" and "0 < den"
  shows "real b powi floor_log b num den \<le> real num / real den"
    and "real num / real den < real b powi (floor_log b num den + 1)"
proof -
  define i j where "i = num_digits b num" and "j = num_digits b den"
  have i: "real b ^ (i - 1) \<le> real num" "real num < real b ^ i" "0 < i"
    using num_digits_bounds[of b num] assms unfolding i_def
    by (simp_all flip: of_nat_power)
  have j: "real b ^ (j - 1) \<le> real den" "real den < real b ^ j" "0 < j"
    using num_digits_bounds[of b den] assms unfolding j_def
    by (simp_all flip: of_nat_power)
  have pos: "0 < real b" "real b \<noteq> 0" "0 < real den" using assms by auto
  have pj: "real b ^ (j - 1) > 0" using pos by simp
  have up: "real num / real den < real b powi (int i - int j + 1)"
  proof -
    have "real num / real den < real b ^ i / real den" using i pos by (simp add: divide_strict_right_mono)
    also have "\<dots> \<le> real b ^ i / real b ^ (j - 1)" using j pj pos by (intro divide_left_mono) auto
    also have "\<dots> = real b powi (int i - int (j - 1))" using pos by (simp add: power_int_diff)
    finally show ?thesis using j by (simp add: of_nat_diff algebra_simps)
  qed
  have lo: "real b powi (int i - int j - 1) \<le> real num / real den"
  proof -
    have "real b powi (int i - int j - 1) = real b powi (int (i - 1) - int j)"
      using i by (simp add: of_nat_diff algebra_simps)
    also have "\<dots> = real b ^ (i - 1) / real b ^ j" using pos by (simp add: power_int_diff)
    also have "\<dots> \<le> real num / real b ^ j" using i pos by (simp add: divide_right_mono)
    also have "\<dots> \<le> real num / real den" using j pos by (intro divide_left_mono) auto
    finally show ?thesis .
  qed
  show "real b powi floor_log b num den \<le> real num / real den"
    using lo assms pos
    by (simp add: floor_log_def Let_def ratio_ge_real i_def j_def)
  show "real num / real den < real b powi (floor_log b num den + 1)"
    using up assms pos
    by (auto simp: floor_log_def Let_def ratio_ge_real i_def j_def not_le)
qed

lemma round_f64_ok:
  assumes "round_f64 neg num den = Some x" and "0 < den"
  shows "f64_ok x"
proof (cases "num = 0")
  case True
  with assms show ?thesis by (auto simp: round_f64_def f64_ok_def)
next
  case False
  define E where "E = floor_log 2 num den"
  define e where "e = max (E - 52) (-1074)"
  obtain n d where nd: "scaled 2 num den e = (n, d)" by fastforce
  define q where "q = round_half_even n d"
  have d: "0 < d" and r: "real n / real d = real num / real den / 2 powi e"
    using scaled_real[OF nd] assms by auto
  have fl: "2 powi E \<le> real num / real den" "real num / real den < 2 powi (E + 1)"
    using floor_log_real[of 2 num den] False assms unfolding E_def by auto
  have "real num / real den < 2 powi (e + 53)"
    using fl(2) by (rule less_le_trans) (auto simp: e_def intro!: power_int_increasing)
  then have "real num / real den < 2 ^ 53 * 2 powi e"
    by (simp add: power_int_add mult.commute)
  then have "real n / real d < 2 ^ 53"
    unfolding r by (subst pos_divide_less_eq) simp_all
  then have "real n < real (2 ^ 53 * d)" using d by (simp add: divide_less_eq)
  then have "n < 2 ^ 53 * d" by (simp only: of_nat_less_iff)
  then have qle: "q \<le> 2 ^ 53" unfolding q_def by (rule round_half_even_le[OF d])
  have qge: "2 ^ 52 \<le> q" if "e \<noteq> -1074"
  proof -
    have "e + 52 = E" using that by (auto simp: e_def)
    then have "2 powi (e + 52) \<le> real num / real den" using fl(1) by simp
    then have "2 ^ 52 * 2 powi e \<le> real num / real den"
      by (simp add: power_int_add mult.commute)
    then have "2 ^ 52 \<le> real n / real d"
      unfolding r by (subst pos_le_divide_eq) simp_all
    then have "real (2 ^ 52 * d) \<le> real n" using d by (simp add: le_divide_eq)
    then have "2 ^ 52 * d \<le> n" by (simp only: of_nat_le_iff)
    then show ?thesis unfolding q_def by (rule round_half_even_ge[OF d])
  qed
  have "-1074 \<le> e" by (simp add: e_def)
  then show ?thesis
    using assms(1) False nd qle qge
    by (auto simp: round_f64_def Let_def f64_ok_def e_def[symmetric] E_def[symmetric] q_def[symmetric]
        split: if_splits)
qed

lemma from_chars_f64_ok: "from_chars_f64 s = Some x \<Longrightarrow> f64_ok x"
  by (auto simp: from_chars_f64_def Let_def intro: round_f64_ok split: if_splits)

end
