(* ===== verification/Json.thy ===== *)
theory Json
  imports StdMap Float64
begin

text \<open>
  The JSON values of \<open>IsomTerrain/MapAgentJson.h\<close> and their typed accessors
  (\<open>objectValue\<close> \dots \<open>allowedFields\<close> in \<open>MapAgentJson.cpp\<close>). \<open>std::variant\<close> is the datatype,
  \<open>std::int64_t\<close> an \<open>int\<close> that stays in the 64-bit range (\<open>json_ok\<close>).
\<close>

datatype json =
    JNull
  | JBool bool
  | JInt int
  | JReal f64
  | JStr string
  | JArr "json list"
  | JObj "(string \<times> json) list"

type_synonym json_object = "(string, json) std_map"

definition int64_min :: int where
  "int64_min = - (2 ^ 63)"

definition int64_max :: int where
  "int64_max = 2 ^ 63 - 1"

definition int64_ok :: "int \<Rightarrow> bool" where
  "int64_ok i \<longleftrightarrow> int64_min \<le> i \<and> i \<le> int64_max"

fun json_ok :: "json \<Rightarrow> bool" where
  "json_ok JNull = True"
| "json_ok (JBool b) = True"
| "json_ok (JInt i) = int64_ok i"
| "json_ok (JReal x) = f64_ok x"
| "json_ok (JStr s) = True"
| "json_ok (JArr vs) = (\<forall>v \<in> set vs. json_ok v)"
| "json_ok (JObj m) = (map_ok m \<and> (\<forall>e \<in> set m. json_ok (snd e)))"

text \<open>\<open>Json(std::size_t)\<close> converts with \<open>static_cast<std::int64_t>\<close>, which wraps.\<close>

definition json_size :: "nat \<Rightarrow> json" where
  "json_size n =
     (let k = int (n mod size_limit) in JInt (if k \<le> int64_max then k else k - 2 ^ 64))"

lemma json_size_ok: "json_ok (json_size n)"
proof -
  have "n mod 18446744073709551616 < 18446744073709551616" by simp
  then show ?thesis
    by (auto simp: json_size_def Let_def int64_ok_def int64_min_def int64_max_def size_limit_def)
qed

lemma json_size_small: "n < 2 ^ 63 \<Longrightarrow> json_size n = JInt (int n)"
  by (simp add: json_size_def int64_max_def size_limit_def)

section \<open>Typed accessors\<close>

definition object_value :: "json \<Rightarrow> string \<Rightarrow> json_object result" where
  "object_value v ctx = (case v of JObj m \<Rightarrow> Inr m | _ \<Rightarrow> fail (ctx @ '': expected an object''))"

definition array_value :: "json \<Rightarrow> string \<Rightarrow> json list result" where
  "array_value v ctx = (case v of JArr vs \<Rightarrow> Inr vs | _ \<Rightarrow> fail (ctx @ '': expected an array''))"

definition string_value :: "json \<Rightarrow> string \<Rightarrow> string result" where
  "string_value v ctx = (case v of JStr s \<Rightarrow> Inr s | _ \<Rightarrow> fail (ctx @ '': expected a string''))"

definition integer_value :: "json \<Rightarrow> string \<Rightarrow> int result" where
  "integer_value v ctx = (case v of JInt i \<Rightarrow> Inr i | _ \<Rightarrow> fail (ctx @ '': expected an integer''))"

definition size_value :: "json \<Rightarrow> string \<Rightarrow> bool \<Rightarrow> nat result" where
  "size_value v ctx positive =
     bindE (integer_value v ctx) (\<lambda>i.
       if i < 0 \<or> (positive \<and> i = 0)
       then fail (ctx @ (if positive then '': expected a positive integer''
                         else '': expected a non-negative integer''))
       else if size_max < nat i mod 2 ^ 64 then fail (ctx @ '': integer is too large'')
       else Inr (nat i mod size_limit))"

definition bool_value :: "json \<Rightarrow> string \<Rightarrow> bool result" where
  "bool_value v ctx = (case v of JBool b \<Rightarrow> Inr b | _ \<Rightarrow> fail (ctx @ '': expected a boolean''))"

definition quoted :: "string \<Rightarrow> string" where
  "quoted name = [CHR 0x27] @ name @ [CHR 0x27]"

definition missing_field :: "string \<Rightarrow> string \<Rightarrow> 'a result" where
  "missing_field name ctx = fail (ctx @ '': missing field '' @ quoted name)"

definition required_field :: "json_object \<Rightarrow> string \<Rightarrow> string \<Rightarrow> json result" where
  "required_field m name ctx =
     (case map_of m name of None \<Rightarrow> missing_field name ctx | Some v \<Rightarrow> Inr v)"

definition optional_field :: "json_object \<Rightarrow> string \<Rightarrow> json option" where
  "optional_field m name = map_of m name"

text \<open>Both loops report the first offender in the iteration order of the sorted container.\<close>

definition allowed_fields :: "json_object \<Rightarrow> string list \<Rightarrow> string \<Rightarrow> unit result" where
  "allowed_fields m allowed ctx =
     (case filter (\<lambda>e. fst e \<notin> set allowed) m of
        [] \<Rightarrow> Inr ()
      | e # _ \<Rightarrow> fail (ctx @ '': unknown field '' @ quoted (fst e)))"

definition exact_fields :: "json_object \<Rightarrow> string list \<Rightarrow> string \<Rightarrow> unit result" where
  "exact_fields m expected ctx =
     bindE (allowed_fields m expected ctx) (\<lambda>_.
       case filter (\<lambda>name. map_of m name = None) (sort expected) of
         [] \<Rightarrow> Inr ()
       | name # _ \<Rightarrow> missing_field name ctx)"

lemma object_value_Inr [simp, result_simps]: "object_value v ctx = Inr m \<longleftrightarrow> v = JObj m"
  by (auto simp: object_value_def split: json.splits)

lemma array_value_Inr [simp, result_simps]: "array_value v ctx = Inr vs \<longleftrightarrow> v = JArr vs"
  by (auto simp: array_value_def split: json.splits)

lemma string_value_Inr [simp, result_simps]: "string_value v ctx = Inr s \<longleftrightarrow> v = JStr s"
  by (auto simp: string_value_def split: json.splits)

lemma integer_value_Inr [simp, result_simps]: "integer_value v ctx = Inr i \<longleftrightarrow> v = JInt i"
  by (auto simp: integer_value_def split: json.splits)

lemma bool_value_Inr [simp, result_simps]: "bool_value v ctx = Inr b \<longleftrightarrow> v = JBool b"
  by (auto simp: bool_value_def split: json.splits)

lemma size_value_Inr [result_simps]:
  "size_value v ctx positive = Inr n \<longleftrightarrow>
     (\<exists>i. v = JInt i \<and> 0 \<le> i \<and> (positive \<longrightarrow> 0 < i) \<and> n = nat i mod size_limit)"
proof -
  have "(size_max < nat i mod 18446744073709551616) = False" for i :: int
    using mod_less_divisor[of "2 ^ 64" "nat i"] by (simp add: size_max_def size_limit_def not_less)
  then show ?thesis
    unfolding size_value_def by (cases v) (auto simp: bindE_Inr integer_value_def)
qed

lemma size_value_bounds [bounds]:
  assumes "size_value v ctx positive = Inr n" and "json_ok v"
  shows "n < 2 ^ 63" and "positive \<Longrightarrow> 0 < n"
  using assms
  by (auto simp: size_value_Inr int64_ok_def int64_max_def size_limit_def nat_less_iff)

lemma required_field_Inr [result_simps]: "required_field m name ctx = Inr v \<longleftrightarrow> map_of m name = Some v"
  by (auto simp: required_field_def missing_field_def split: option.splits)

lemma allowed_fields_Inr [result_simps]:
  "allowed_fields m allowed ctx = Inr u \<longleftrightarrow> fst ` set m \<subseteq> set allowed"
  by (auto simp: allowed_fields_def filter_empty_conv split: list.splits dest!: filter_eq_ConsD)

lemma set_sort_mem: "sort xs = us @ x # vs \<Longrightarrow> x \<in> set xs"
  by (metis in_set_conv_decomp set_sort)

lemma exact_fields_Inr [result_simps]:
  "exact_fields m expected ctx = Inr u \<longleftrightarrow> fst ` set m = set expected"
proof -
  have "(\<forall>name \<in> set expected. map_of m name \<noteq> None) \<longleftrightarrow> set expected \<subseteq> fst ` set m"
    by (auto simp: map_of_eq_None_iff)
  then show ?thesis
    unfolding exact_fields_def
    by (cases "filter (\<lambda>name. map_of m name = None) (sort expected)")
      (auto simp: bindE_Inr allowed_fields_Inr missing_field_def filter_empty_conv
        filter_eq_Cons_iff dest: set_sort_mem)
qed

lemma required_field_ok:
  assumes "required_field m name ctx = Inr v" and "json_ok (JObj m)"
  shows "json_ok v"
  using assms by (auto simp: required_field_Inr dest!: map_of_SomeD)

lemma optional_field_ok:
  assumes "optional_field m name = Some v" and "json_ok (JObj m)"
  shows "json_ok v"
  using assms by (auto simp: optional_field_def dest!: map_of_SomeD)

end
