(* ===== verification/JsonParser.thy ===== *)
theory JsonParser
  imports Json
begin

text \<open>
  The recursive-descent parser \<open>JsonParser\<close> of \<open>IsomTerrain/MapAgentJson.cpp\<close>. The text and the
  context are constant, \<open>position_\<close> is passed and returned. The mutual recursion of
  \<open>parseValue\<close>, \<open>parseObject\<close> and \<open>parseArray\<close> is cut at \<open>parse_value\<close>: its fuel bounds the nesting
  depth, and the member and element loops have a fuel of their own. Both get \<open>length + 1\<close>, and
  \<open>parse_json_never_out_of_fuel\<close> shows that this is always enough.
\<close>

section \<open>Positions and errors\<close>

fun line_column :: "string \<Rightarrow> nat \<times> nat \<Rightarrow> nat \<times> nat" where
  "line_column [] lc = lc"
| "line_column (c # cs) (l, k) =
     line_column cs (if c = CHR 0x0A then (Suc l, 1) else (l, Suc k))"

definition parse_error :: "string \<Rightarrow> string \<Rightarrow> nat \<Rightarrow> string \<Rightarrow> 'a result" where
  "parse_error ctx s p message =
     (let (l, k) = line_column (take p s) (1, 1)
      in fail (ctx @ '':'' @ nat_to_string l @ '':'' @ nat_to_string k @ '': '' @ message))"

definition is_json_space :: "char \<Rightarrow> bool" where
  "is_json_space c \<longleftrightarrow> c = CHR '' '' \<or> c = CHR 0x09 \<or> c = CHR 0x0D \<or> c = CHR 0x0A"

function skip_whitespace :: "string \<Rightarrow> nat \<Rightarrow> nat" where
  "skip_whitespace s p =
     (if p < length s \<and> is_json_space (s ! p) then skip_whitespace s (Suc p) else p)"
  by pat_completeness auto
termination by (relation "measure (\<lambda>(s, p). length s - p)") auto

definition consume :: "string \<Rightarrow> char \<Rightarrow> nat \<Rightarrow> bool \<times> nat" where
  "consume s c p = (if p < length s \<and> s ! p = c then (True, Suc p) else (False, p))"

definition expect :: "string \<Rightarrow> string \<Rightarrow> char \<Rightarrow> string \<Rightarrow> nat \<Rightarrow> nat result" where
  "expect ctx s c message p =
     (let (ok, p') = consume s c p in if ok then Inr p' else parse_error ctx s p' message)"

section \<open>Strings\<close>

definition hex_digit :: "char \<Rightarrow> nat option" where
  "hex_digit c =
     (let n = (of_char c :: nat)
      in if 48 \<le> n \<and> n \<le> 57 then Some (n - 48)
         else if 97 \<le> n \<and> n \<le> 102 then Some (n - 97 + 10)
         else if 65 \<le> n \<and> n \<le> 70 then Some (n - 65 + 10)
         else None)"

fun hex4_loop :: "string \<Rightarrow> string \<Rightarrow> nat \<Rightarrow> nat \<Rightarrow> nat \<Rightarrow> (nat \<times> nat) result" where
  "hex4_loop ctx s 0 p v = Inr (v, p)"
| "hex4_loop ctx s (Suc k) p v =
     (case hex_digit (s ! p) of
        None \<Rightarrow> parse_error ctx s (Suc p) ''invalid Unicode escape''
      | Some d \<Rightarrow> hex4_loop ctx s k (Suc p) ((push_bit 4 v OR d) mod 2 ^ 16))"

definition parse_hex4 :: "string \<Rightarrow> string \<Rightarrow> nat \<Rightarrow> (nat \<times> nat) result" where
  "parse_hex4 ctx s p =
     (if length s < p + 4 then parse_error ctx s p ''truncated Unicode escape''
      else hex4_loop ctx s 4 p 0)"

definition append_utf8 :: "nat \<Rightarrow> string" where
  "append_utf8 cp =
     (if cp \<le> 0x7f then [char_of cp]
      else if cp \<le> 0x7ff then
        [char_of (0xc0 OR drop_bit 6 cp), char_of (0x80 OR (cp AND 0x3f))]
      else if cp \<le> 0xffff then
        [char_of (0xe0 OR drop_bit 12 cp), char_of (0x80 OR (drop_bit 6 cp AND 0x3f)),
         char_of (0x80 OR (cp AND 0x3f))]
      else
        [char_of (0xf0 OR drop_bit 18 cp), char_of (0x80 OR (drop_bit 12 cp AND 0x3f)),
         char_of (0x80 OR (drop_bit 6 cp AND 0x3f)), char_of (0x80 OR (cp AND 0x3f))])"

definition simple_escape :: "char \<Rightarrow> char option" where
  "simple_escape e =
     (if e = CHR 0x22 then Some (CHR 0x22)
      else if e = CHR 0x5C then Some (CHR 0x5C)
      else if e = CHR ''/'' then Some (CHR ''/'')
      else if e = CHR ''b'' then Some (CHR 0x08)
      else if e = CHR ''f'' then Some (CHR 0x0C)
      else if e = CHR ''n'' then Some (CHR 0x0A)
      else if e = CHR ''r'' then Some (CHR 0x0D)
      else if e = CHR ''t'' then Some (CHR 0x09)
      else None)"

text \<open>The digits of a \<open>\u\<close> escape, with the second half of a surrogate pair.\<close>

definition parse_unicode :: "string \<Rightarrow> string \<Rightarrow> nat \<Rightarrow> (nat \<times> nat) result" where
  "parse_unicode ctx s p =
     bindE (parse_hex4 ctx s p) (\<lambda>(cp, p1).
       if 0xd800 \<le> cp \<and> cp \<le> 0xdbff then
         (if length s < p1 + 2 \<or> s ! p1 \<noteq> CHR 0x5C \<or> s ! Suc p1 \<noteq> CHR ''u''
          then parse_error ctx s p1 ''high surrogate without low surrogate''
          else bindE (parse_hex4 ctx s (p1 + 2)) (\<lambda>(low, p2).
            if low < 0xdc00 \<or> 0xdfff < low then parse_error ctx s p2 ''invalid low surrogate''
            else Inr (0x10000 + push_bit 10 (cp - 0xd800) + (low - 0xdc00), p2)))
       else if 0xdc00 \<le> cp \<and> cp \<le> 0xdfff
       then parse_error ctx s p1 ''low surrogate without high surrogate''
       else Inr (cp, p1))"

lemma parse_error_Inr [simp, result_simps]: "parse_error ctx s p message \<noteq> Inr x"
  by (simp add: parse_error_def split: prod.split)

lemma parse_error_fuel [simp]: "parse_error ctx s p message \<noteq> Inl OutOfFuel"
  by (simp add: parse_error_def split: prod.split)

lemma hex4_loop_pos: "hex4_loop ctx s k p v = Inr (v', p') \<Longrightarrow> p' = p + k"
  by (induction k arbitrary: p v) (fastforce split: option.splits)+

lemma parse_hex4_pos: "parse_hex4 ctx s p = Inr (v, p') \<Longrightarrow> p' = p + 4 \<and> p' \<le> length s"
  by (auto simp: parse_hex4_def dest: hex4_loop_pos split: if_splits prod.splits)

lemma parse_unicode_pos:
  assumes "parse_unicode ctx s p = Inr (cp, p')"
  shows "p < p'" and "p' \<le> length s"
  using assms
  by (auto simp: parse_unicode_def bindE_Inr dest!: parse_hex4_pos
      split: if_splits prod.splits)

function string_loop :: "string \<Rightarrow> string \<Rightarrow> nat \<Rightarrow> string \<Rightarrow> (string \<times> nat) result" where
  "string_loop ctx s p out =
     (if length s \<le> p then parse_error ctx s p ''unterminated string''
      else
        let c = s ! p
        in if c = CHR 0x22 then Inr (out, Suc p)
           else if (of_char c :: nat) < 0x20
           then parse_error ctx s (Suc p) ''unescaped control character in string''
           else if c \<noteq> CHR 0x5C then string_loop ctx s (Suc p) (out @ [c])
           else if length s \<le> Suc p then parse_error ctx s (Suc p) ''truncated string escape''
           else
             (case simple_escape (s ! Suc p) of
                Some e \<Rightarrow> string_loop ctx s (p + 2) (out @ [e])
              | None \<Rightarrow>
                  if s ! Suc p = CHR ''u''
                  then bindE (parse_unicode ctx s (p + 2)) (\<lambda>(cp, p').
                         string_loop ctx s p' (out @ append_utf8 cp))
                  else parse_error ctx s (p + 2) ''invalid string escape''))"
  by pat_completeness auto
termination
  by (relation "measure (\<lambda>(ctx, s, p, out). length s - p)") (auto, fastforce dest: parse_unicode_pos)

definition parse_string :: "string \<Rightarrow> string \<Rightarrow> nat \<Rightarrow> (string \<times> nat) result" where
  "parse_string ctx s p =
     bindE (expect ctx s (CHR 0x22) ''expected string'' p) (\<lambda>p'. string_loop ctx s p' [])"

section \<open>Numbers\<close>

function skip_digits :: "string \<Rightarrow> nat \<Rightarrow> nat" where
  "skip_digits s p = (if p < length s \<and> is_digit (s ! p) then skip_digits s (Suc p) else p)"
  by pat_completeness auto
termination by (relation "measure (\<lambda>(s, p). length s - p)") auto

definition some_digits :: "string \<Rightarrow> string \<Rightarrow> string \<Rightarrow> nat \<Rightarrow> nat result" where
  "some_digits ctx s message p =
     (let p' = skip_digits s p
      in if p' = p then parse_error ctx s p' message else Inr p')"

text \<open>\<open>std::from_chars\<close> for \<open>int64_t\<close>: an optional minus sign and digits, refused out of range.\<close>

definition from_chars_int64 :: "string \<Rightarrow> int option" where
  "from_chars_int64 s =
     (let i = (if s \<noteq> [] \<and> hd s = CHR ''-'' then - int (digits_value (tl s))
               else int (digits_value s))
      in if int64_ok i then Some i else None)"

definition parse_whole :: "string \<Rightarrow> string \<Rightarrow> nat \<Rightarrow> nat result" where
  "parse_whole ctx s p =
     (let (minus, p1) = consume s (CHR ''-'') p
      in if minus \<and> length s \<le> p1 then parse_error ctx s p1 ''truncated number''
         else if p1 < length s \<and> s ! p1 = CHR ''0'' then
           (if Suc p1 < length s \<and> is_digit (s ! Suc p1)
            then parse_error ctx s (Suc p1) ''leading zero in number'' else Inr (Suc p1))
         else some_digits ctx s ''number requires digits'' p1)"

definition parse_fraction :: "string \<Rightarrow> string \<Rightarrow> nat \<Rightarrow> (bool \<times> nat) result" where
  "parse_fraction ctx s p =
     (let (dot, p1) = consume s (CHR ''.'') p
      in if dot then bindE (some_digits ctx s ''fraction requires digits'' p1) (\<lambda>p2. Inr (True, p2))
         else Inr (False, p1))"

definition parse_exponent :: "string \<Rightarrow> string \<Rightarrow> nat \<Rightarrow> (bool \<times> nat) result" where
  "parse_exponent ctx s p =
     (if p < length s \<and> (s ! p = CHR ''e'' \<or> s ! p = CHR ''E'') then
        let p1 = Suc p;
            p2 = (if p1 < length s \<and> (s ! p1 = CHR ''+'' \<or> s ! p1 = CHR ''-'') then Suc p1 else p1)
        in bindE (some_digits ctx s ''exponent requires digits'' p2) (\<lambda>p3. Inr (True, p3))
      else Inr (False, p))"

definition parse_number :: "string \<Rightarrow> string \<Rightarrow> nat \<Rightarrow> (json \<times> nat) result" where
  "parse_number ctx s start =
     bindE (parse_whole ctx s start) (\<lambda>p1.
     bindE (parse_fraction ctx s p1) (\<lambda>(fracs, p2).
     bindE (parse_exponent ctx s p2) (\<lambda>(expo, p3).
       let span = take (p3 - start) (drop start s)
       in if \<not> (fracs \<or> expo) then
            (case from_chars_int64 span of
               None \<Rightarrow> parse_error ctx s p3 ''integer is out of range''
             | Some i \<Rightarrow> Inr (JInt i, p3))
          else
            (case from_chars_f64 span of
               None \<Rightarrow> parse_error ctx s p3 ''number is out of range''
             | Some x \<Rightarrow> Inr (JReal x, p3)))))"

section \<open>Values\<close>

definition starts_at :: "string \<Rightarrow> nat \<Rightarrow> string \<Rightarrow> bool" where
  "starts_at s p word \<longleftrightarrow> take (length word) (drop p s) = word"

primrec parse_members ::
  "(nat \<Rightarrow> (json \<times> nat) result) \<Rightarrow> string \<Rightarrow> string \<Rightarrow> nat \<Rightarrow> nat \<Rightarrow> json_object
     \<Rightarrow> (json_object \<times> nat) result"
where
  "parse_members pv ctx s 0 p m = Inl OutOfFuel"
| "parse_members pv ctx s (Suc k) p m =
     (if length s \<le> p \<or> s ! p \<noteq> CHR 0x22 then parse_error ctx s p ''object key must be a string''
      else
        bindE (parse_string ctx s p) (\<lambda>(key, p1).
        if map_of m key \<noteq> None
        then parse_error ctx s p1 (''duplicate object key '' @ quoted key)
        else
          bindE (expect ctx s (CHR '':'') (''expected '' @ quoted '':'' @ '' after object key'')
            (skip_whitespace s p1)) (\<lambda>p2.
          bindE (pv (skip_whitespace s p2)) (\<lambda>(v, p3).
            let m' = map_emplace key v m;
                (closed, p4) = consume s (CHR 0x7D) (skip_whitespace s p3)
            in if closed then Inr (m', p4)
               else
                 bindE (expect ctx s (CHR '','')
                   (''expected '' @ quoted '','' @ '' or '' @ quoted [CHR 0x7D] @ '' in object'')
                   p4) (\<lambda>p5. parse_members pv ctx s k (skip_whitespace s p5) m')))))"

definition parse_object ::
  "(nat \<Rightarrow> (json \<times> nat) result) \<Rightarrow> string \<Rightarrow> string \<Rightarrow> nat \<Rightarrow> (json_object \<times> nat) result"
where
  "parse_object pv ctx s p =
     bindE (expect ctx s (CHR 0x7B) (''expected '' @ quoted [CHR 0x7B]) p) (\<lambda>p1.
       let (closed, p2) = consume s (CHR 0x7D) (skip_whitespace s p1)
       in if closed then Inr ([], p2) else parse_members pv ctx s (Suc (length s)) p2 [])"

primrec parse_elements ::
  "(nat \<Rightarrow> (json \<times> nat) result) \<Rightarrow> string \<Rightarrow> string \<Rightarrow> nat \<Rightarrow> nat \<Rightarrow> json list
     \<Rightarrow> (json list \<times> nat) result"
where
  "parse_elements pv ctx s 0 p vs = Inl OutOfFuel"
| "parse_elements pv ctx s (Suc k) p vs =
     bindE (pv p) (\<lambda>(v, p1).
       let vs' = vs @ [v];
           (closed, p2) = consume s (CHR '']'') (skip_whitespace s p1)
       in if closed then Inr (vs', p2)
          else
            bindE (expect ctx s (CHR '','')
              (''expected '' @ quoted '','' @ '' or '' @ quoted '']'' @ '' in array'')
              p2) (\<lambda>p3. parse_elements pv ctx s k (skip_whitespace s p3) vs'))"

definition parse_array ::
  "(nat \<Rightarrow> (json \<times> nat) result) \<Rightarrow> string \<Rightarrow> string \<Rightarrow> nat \<Rightarrow> (json list \<times> nat) result"
where
  "parse_array pv ctx s p =
     bindE (expect ctx s (CHR ''['') (''expected '' @ quoted ''['') p) (\<lambda>p1.
       let (closed, p2) = consume s (CHR '']'') (skip_whitespace s p1)
       in if closed then Inr ([], p2) else parse_elements pv ctx s (Suc (length s)) p2 [])"

primrec parse_value :: "string \<Rightarrow> string \<Rightarrow> nat \<Rightarrow> nat \<Rightarrow> (json \<times> nat) result" where
  "parse_value ctx s 0 p = Inl OutOfFuel"
| "parse_value ctx s (Suc n) p =
     (if length s \<le> p then parse_error ctx s p ''unexpected end of JSON''
      else
        let c = s ! p
        in if c = CHR 0x7B
           then bindE (parse_object (parse_value ctx s n) ctx s p) (\<lambda>(m, p'). Inr (JObj m, p'))
           else if c = CHR ''[''
           then bindE (parse_array (parse_value ctx s n) ctx s p) (\<lambda>(vs, p'). Inr (JArr vs, p'))
           else if c = CHR 0x22 then bindE (parse_string ctx s p) (\<lambda>(t, p'). Inr (JStr t, p'))
           else if c = CHR ''-'' \<or> is_digit c then parse_number ctx s p
           else if starts_at s p ''true'' then Inr (JBool True, p + 4)
           else if starts_at s p ''false'' then Inr (JBool False, p + 5)
           else if starts_at s p ''null'' then Inr (JNull, p + 4)
           else parse_error ctx s p ''invalid JSON value'')"

definition parse_json :: "string \<Rightarrow> string \<Rightarrow> json result" where
  "parse_json s ctx =
     bindE (parse_value ctx s (Suc (length s)) (skip_whitespace s 0)) (\<lambda>(v, p).
       let p' = skip_whitespace s p
       in if p' \<noteq> length s then parse_error ctx s p' ''unexpected trailing JSON content''
          else Inr v)"

end
