(* ===== verification/JsonParserProps.thy ===== *)
theory JsonParserProps
  imports JsonParser
begin

text \<open>
  What every run of the JSON parser keeps: positions move forward and stay inside the text, the
  fuel of the model is never exhausted, and the value is well formed (64-bit integers, finite
  doubles, objects sorted without duplicate keys). The recursion is tied through the locale
  \<open>value_parser\<close>: what the object and array loops may assume of the parser of the nested values.
\<close>

section \<open>Lexical parts\<close>

declare skip_whitespace.simps [simp del] skip_digits.simps [simp del] string_loop.simps [simp del]

lemma skip_whitespace_bounds [bounds]:
  "p \<le> skip_whitespace s p" "p \<le> length s \<Longrightarrow> skip_whitespace s p \<le> length s"
proof (induction s p rule: skip_whitespace.induct)
  case (1 s p)
  { case 1 then show ?case using "1.IH" by (subst skip_whitespace.simps) auto }
  { case 2 then show ?case using "1.IH" by (subst skip_whitespace.simps) auto }
qed

lemma skip_digits_bounds [bounds]:
  "p \<le> skip_digits s p" "p \<le> length s \<Longrightarrow> skip_digits s p \<le> length s"
proof (induction s p rule: skip_digits.induct)
  case (1 s p)
  { case 1 then show ?case using "1.IH" by (subst skip_digits.simps) auto }
  { case 2 then show ?case using "1.IH" by (subst skip_digits.simps) auto }
qed

lemma consume_bounds [bounds]:
  assumes "consume s c p = (ok, p')"
  shows "p' = (if ok then Suc p else p)" and "ok \<longleftrightarrow> p < length s \<and> s ! p = c"
  using assms by (auto simp: consume_def split: if_splits)

lemma expect_Inr [result_simps]:
  "expect ctx s c message p = Inr p' \<longleftrightarrow> p < length s \<and> s ! p = c \<and> p' = Suc p"
  by (auto simp: expect_def consume_def)

lemma expect_fuel [simp]: "expect ctx s c message p \<noteq> Inl OutOfFuel"
  by (simp add: expect_def split: prod.split)

lemma string_loop_bounds:
  "string_loop ctx s p out = Inr (t, p') \<Longrightarrow> p < p' \<and> p' \<le> length s"
proof (induction ctx s p out arbitrary: t p' rule: string_loop.induct)
  case (1 ctx s p out)
  note ih = "1.IH" [unfolded add_2_eq_Suc']
  from "1.prems" have in_range: "p < length s"
    by (subst (asm) string_loop.simps) (simp split: if_splits)
  have step: "p < p' \<and> p' \<le> length s" if "q < p' \<and> p' \<le> length s" and "p < q" for q
    using that by auto
  show ?case
  proof (cases "s ! p = CHR 0x5C \<and> Suc p < length s")
    case False
    with "1.prems" in_range show ?thesis
      by (subst (asm) string_loop.simps)
        (auto simp: Let_def split: if_splits dest!: ih(1) [rotated -1, OF _ _ refl])
  next
    case True
    then have esc: "s ! p = CHR 0x5C" "\<not> length s \<le> p" "\<not> length s \<le> Suc p" by auto
    show ?thesis
    proof (cases "simple_escape (s ! Suc p)")
      case (Some e)
      with "1.prems" esc have "string_loop ctx s (Suc (Suc p)) (out @ [e]) = Inr (t, p')"
        by (subst (asm) string_loop.simps) (simp add: Let_def)
      from ih(3) [OF esc(2) refl _ _ _ esc(3) Some this] esc step show ?thesis by simp
    next
      case None
      with "1.prems" esc obtain cp q where u: "s ! Suc p = CHR ''u''"
        "parse_unicode ctx s (Suc (Suc p)) = Inr (cp, q)"
        "string_loop ctx s q (out @ append_utf8 cp) = Inr (t, p')"
        by (subst (asm) string_loop.simps) (auto simp: Let_def bindE_Inr split: if_splits)
      from ih(2) [OF esc(2) refl _ _ _ esc(3) None u(1,2) refl u(3)] esc
        parse_unicode_pos [OF u(2)] step show ?thesis by simp
    qed
  qed
qed

lemma hex4_fuel [simp]: "hex4_loop ctx s k p v \<noteq> Inl OutOfFuel"
  by (induction k arbitrary: p v) (auto split: option.splits)

lemma parse_hex4_fuel [simp]: "parse_hex4 ctx s p \<noteq> Inl OutOfFuel"
  by (simp add: parse_hex4_def)

lemma parse_unicode_fuel [simp]: "parse_unicode ctx s p \<noteq> Inl OutOfFuel"
  by (auto simp: parse_unicode_def bindE_Inl split: if_splits)

lemma string_loop_fuel [simp]: "string_loop ctx s p out \<noteq> Inl OutOfFuel"
proof (induction ctx s p out rule: string_loop.induct)
  case (1 ctx s p out)
  then show ?case
    by (subst string_loop.simps) (auto simp: Let_def bindE_Inl split: option.splits)
qed

lemma parse_string_bounds:
  "parse_string ctx s p = Inr (t, p') \<Longrightarrow> p < p' \<and> p' \<le> length s"
  by (auto simp: parse_string_def bindE_Inr expect_Inr dest!: string_loop_bounds)

lemma parse_string_fuel [simp]: "parse_string ctx s p \<noteq> Inl OutOfFuel"
  by (auto simp: parse_string_def bindE_Inl)

lemma some_digits_bounds:
  "some_digits ctx s message p = Inr p' \<Longrightarrow> p < p' \<and> (p \<le> length s \<longrightarrow> p' \<le> length s)"
  using skip_digits_bounds[where s = s and p = p]
  by (auto simp: some_digits_def Let_def split: if_splits)

lemma some_digits_fuel [simp]: "some_digits ctx s message p \<noteq> Inl OutOfFuel"
  by (simp add: some_digits_def Let_def)

lemma parse_whole_bounds:
  assumes "parse_whole ctx s p = Inr p'" and "p < length s"
  shows "p < p' \<and> p' \<le> length s"
  using assms
  by (auto simp: parse_whole_def consume_def dest!: some_digits_bounds split: if_splits)

lemma parse_fraction_bounds:
  assumes "parse_fraction ctx s p = Inr (b, p')" and "p \<le> length s"
  shows "p \<le> p' \<and> p' \<le> length s"
  using assms
  by (auto simp: parse_fraction_def consume_def bindE_Inr dest!: some_digits_bounds split: if_splits)

lemma parse_exponent_bounds:
  assumes "parse_exponent ctx s p = Inr (b, p')" and "p \<le> length s"
  shows "p \<le> p' \<and> p' \<le> length s"
  using assms
  by (auto simp: parse_exponent_def Let_def bindE_Inr dest!: some_digits_bounds split: if_splits)

lemma parse_number_bounds:
  assumes "parse_number ctx s p = Inr (v, p')" and "p < length s"
  shows "p < p' \<and> p' \<le> length s"
proof -
  from assms(1) obtain p1 b p2 c where p1: "parse_whole ctx s p = Inr p1"
    and p2: "parse_fraction ctx s p1 = Inr (b, p2)"
    and p3: "parse_exponent ctx s p2 = Inr (c, p')"
    by (auto simp: parse_number_def Let_def bindE_Inr split: if_splits option.splits)
  from parse_whole_bounds[OF p1 assms(2)] parse_fraction_bounds[OF p2] parse_exponent_bounds[OF p3]
  show ?thesis by auto
qed

lemma parse_number_fuel [simp]: "parse_number ctx s p \<noteq> Inl OutOfFuel"
  by (auto simp: parse_number_def parse_whole_def parse_fraction_def parse_exponent_def Let_def
      bindE_Inl split: if_splits option.splits prod.splits)

lemma parse_number_ok: "parse_number ctx s p = Inr (v, p') \<Longrightarrow> json_ok v"
  by (auto simp: parse_number_def Let_def bindE_Inr from_chars_int64_def
      split: if_splits option.splits dest: from_chars_f64_ok)

section \<open>One round of the loops\<close>

lemma members_step:
  assumes "parse_members pv ctx s (Suc k) p m = Inr (m', r)"
  shows "\<exists>key p1 v p3. parse_string ctx s p = Inr (key, p1) \<and> map_of m key = None
     \<and> pv (skip_whitespace s (Suc (skip_whitespace s p1))) = Inr (v, p3)
     \<and> skip_whitespace s p3 < length s
     \<and> ((m' = map_emplace key v m \<and> r = Suc (skip_whitespace s p3))
        \<or> parse_members pv ctx s k (skip_whitespace s (Suc (skip_whitespace s p3))) (map_emplace key v m)
            = Inr (m', r))"
proof -
  from assms obtain key p1 where key: "parse_string ctx s p = Inr (key, p1)" "map_of m key = None"
    by (auto simp: bindE_Inr split: if_splits)
  with assms obtain v p3 where v: "pv (skip_whitespace s (Suc (skip_whitespace s p1))) = Inr (v, p3)"
    by (auto simp: bindE_Inr expect_Inr split: if_splits)
  from assms key v show ?thesis
    by (auto simp: bindE_Inr expect_Inr consume_def Let_def split: if_splits)
qed

lemma elements_step:
  assumes "parse_elements pv ctx s (Suc k) p vs = Inr (vs', r)"
  shows "\<exists>v p1. pv p = Inr (v, p1) \<and> skip_whitespace s p1 < length s
     \<and> ((vs' = vs @ [v] \<and> r = Suc (skip_whitespace s p1))
        \<or> parse_elements pv ctx s k (skip_whitespace s (Suc (skip_whitespace s p1))) (vs @ [v])
            = Inr (vs', r))"
proof -
  from assms obtain v p1 where v: "pv p = Inr (v, p1)" by (auto simp: bindE_Inr)
  with assms show ?thesis
    by (auto simp: bindE_Inr expect_Inr consume_def Let_def split: if_splits)
qed

lemma json_ok_emplace:
  assumes "json_ok (JObj m)" and "json_ok v"
  shows "json_ok (JObj (map_emplace k v m))"
proof -
  have "set (map_assign k v m) \<subseteq> insert (k, v) (set m)"
    by (induction k v m rule: map_assign.induct) auto
  then show ?thesis
    using assms by (auto simp: map_emplace_def map_ok_assign split: option.split)
qed

lemma members_fuel_step:
  assumes "parse_members pv ctx s (Suc k) p m = Inl OutOfFuel"
  shows "\<exists>key p1. parse_string ctx s p = Inr (key, p1)
     \<and> (pv (skip_whitespace s (Suc (skip_whitespace s p1))) = Inl OutOfFuel
        \<or> (\<exists>v p3 m'. pv (skip_whitespace s (Suc (skip_whitespace s p1))) = Inr (v, p3)
              \<and> parse_members pv ctx s k (skip_whitespace s (Suc (skip_whitespace s p3))) m' = Inl OutOfFuel))"
proof -
  from assms obtain key p1 where key: "parse_string ctx s p = Inr (key, p1)" "map_of m key = None"
    by (auto simp: bindE_Inl split: if_splits)
  with assms show ?thesis
    by (auto simp: bindE_Inl expect_Inr consume_def Let_def split: if_splits)
qed

lemma elements_fuel_step:
  assumes "parse_elements pv ctx s (Suc k) p vs = Inl OutOfFuel"
  shows "pv p = Inl OutOfFuel
     \<or> (\<exists>v p1 vs'. pv p = Inr (v, p1)
           \<and> parse_elements pv ctx s k (skip_whitespace s (Suc (skip_whitespace s p1))) vs' = Inl OutOfFuel)"
  using assms by (auto simp: bindE_Inl expect_Inr consume_def Let_def split: if_splits)

declare parse_members.simps(2) [simp del] parse_elements.simps(2) [simp del]

lemma object_cases:
  assumes "parse_object pv ctx s p = Inr (m, r)"
  shows "(m = [] \<and> r = Suc (skip_whitespace s (Suc p)) \<and> r \<le> length s)
    \<or> parse_members pv ctx s (Suc (length s)) (skip_whitespace s (Suc p)) [] = Inr (m, r)"
  using assms by (auto simp: parse_object_def bindE_Inr expect_Inr consume_def Let_def split: if_splits)

lemma array_cases:
  assumes "parse_array pv ctx s p = Inr (vs, r)"
  shows "(vs = [] \<and> r = Suc (skip_whitespace s (Suc p)) \<and> r \<le> length s)
    \<or> parse_elements pv ctx s (Suc (length s)) (skip_whitespace s (Suc p)) [] = Inr (vs, r)"
  using assms by (auto simp: parse_array_def bindE_Inr expect_Inr consume_def Let_def split: if_splits)

section \<open>The contract of the parser of nested values\<close>

locale value_parser =
  fixes pv :: "nat \<Rightarrow> (json \<times> nat) result"
    and s :: string
    and budget :: nat
  assumes progress: "pv p = Inr (v, p') \<Longrightarrow> p < p' \<and> p' \<le> length s"
    and total: "length s - p < budget \<Longrightarrow> pv p \<noteq> Inl OutOfFuel"
    and well_formed: "pv p = Inr (v, p') \<Longrightarrow> json_ok v"
begin

lemma skipped_total: "length s - p < budget \<Longrightarrow> pv (skip_whitespace s p) \<noteq> Inl OutOfFuel"
  by (rule total) (meson diff_le_mono2 le_less_trans skip_whitespace_bounds(1))

lemma skipped_progress: "pv (skip_whitespace s p) = Inr (v, p') \<Longrightarrow> p < p' \<and> p' \<le> length s"
  using progress skip_whitespace_bounds(1) le_less_trans by blast

lemma members_progress:
  "parse_members pv ctx s k p m = Inr (m', r) \<Longrightarrow> p < r \<and> r \<le> length s"
proof (induction k arbitrary: p m)
  case (Suc k)
  from members_step [OF Suc.prems] obtain key p1 v p3 where key: "parse_string ctx s p = Inr (key, p1)"
    and v: "pv (skip_whitespace s (Suc (skip_whitespace s p1))) = Inr (v, p3)"
    and rest: "skip_whitespace s p3 < length s"
      "r = Suc (skip_whitespace s p3) \<or>
       parse_members pv ctx s k (skip_whitespace s (Suc (skip_whitespace s p3))) (map_emplace key v m) = Inr (m', r)"
    by blast
  have "p < p1" using parse_string_bounds [OF key] by simp
  also have "p1 \<le> skip_whitespace s p1" by (rule skip_whitespace_bounds)
  also have "\<dots> < p3" using skipped_progress [OF v] by simp
  also have "p3 \<le> skip_whitespace s p3" by (rule skip_whitespace_bounds)
  finally have "p < skip_whitespace s p3" .
  with rest Suc.IH skip_whitespace_bounds(1) [of "Suc (skip_whitespace s p3)" s] show ?case by fastforce
qed simp

lemma elements_progress:
  "parse_elements pv ctx s k p vs = Inr (vs', r) \<Longrightarrow> p < r \<and> r \<le> length s"
proof (induction k arbitrary: p vs)
  case (Suc k)
  from elements_step [OF Suc.prems] obtain v p1 where v: "pv p = Inr (v, p1)"
    and rest: "skip_whitespace s p1 < length s"
      "r = Suc (skip_whitespace s p1) \<or>
       parse_elements pv ctx s k (skip_whitespace s (Suc (skip_whitespace s p1))) (vs @ [v]) = Inr (vs', r)"
    by blast
  have "p < p1" using progress [OF v] by simp
  also have "p1 \<le> skip_whitespace s p1" by (rule skip_whitespace_bounds)
  finally have "p < skip_whitespace s p1" .
  with rest Suc.IH skip_whitespace_bounds(1) [of "Suc (skip_whitespace s p1)" s] show ?case by fastforce
qed simp

lemma members_well_formed:
  "parse_members pv ctx s k p m = Inr (m', r) \<Longrightarrow> json_ok (JObj m) \<Longrightarrow> json_ok (JObj m')"
proof (induction k arbitrary: p m)
  case (Suc k)
  from members_step [OF Suc.prems(1)] obtain key v q q' where v: "pv q = Inr (v, q')"
    and rest: "m' = map_emplace key v m \<or> (\<exists>q. parse_members pv ctx s k q (map_emplace key v m) = Inr (m', r))"
    by blast
  have "json_ok (JObj (map_emplace key v m))"
    using Suc.prems(2) well_formed [OF v] by (rule json_ok_emplace)
  with rest Suc.IH show ?case by blast
qed simp

lemma elements_well_formed:
  "parse_elements pv ctx s k p vs = Inr (vs', r) \<Longrightarrow> json_ok (JArr vs) \<Longrightarrow> json_ok (JArr vs')"
proof (induction k arbitrary: p vs)
  case (Suc k)
  from elements_step [OF Suc.prems(1)] obtain v p1 where v: "pv p = Inr (v, p1)"
    and rest: "vs' = vs @ [v] \<or> (\<exists>q. parse_elements pv ctx s k q (vs @ [v]) = Inr (vs', r))"
    by blast
  have "json_ok (JArr (vs @ [v]))" using Suc.prems(2) well_formed [OF v] by auto
  with rest Suc.IH show ?case by blast
qed simp

lemma members_total:
  "length s - p < k \<Longrightarrow> length s - p \<le> budget \<Longrightarrow> parse_members pv ctx s k p m \<noteq> Inl OutOfFuel"
proof (induction k arbitrary: p m)
  case (Suc k)
  show ?case
  proof
    assume "parse_members pv ctx s (Suc k) p m = Inl OutOfFuel"
    from members_fuel_step [OF this] obtain key p1 where key: "parse_string ctx s p = Inr (key, p1)"
      and rest: "pv (skip_whitespace s (Suc (skip_whitespace s p1))) = Inl OutOfFuel
        \<or> (\<exists>v p3 m'. pv (skip_whitespace s (Suc (skip_whitespace s p1))) = Inr (v, p3)
              \<and> parse_members pv ctx s k (skip_whitespace s (Suc (skip_whitespace s p3))) m' = Inl OutOfFuel)"
      by blast
    let ?q = "skip_whitespace s (Suc (skip_whitespace s p1))"
    have q: "p < ?q" and in_range: "p < length s"
      using parse_string_bounds [OF key] skip_whitespace_bounds(1) [of "Suc (skip_whitespace s p1)" s]
        skip_whitespace_bounds(1) [of p1 s] by auto
    then have "pv ?q \<noteq> Inl OutOfFuel" using Suc.prems(2) by (intro total) linarith
    with rest obtain v p3 m' where v: "pv ?q = Inr (v, p3)"
      and m': "parse_members pv ctx s k (skip_whitespace s (Suc (skip_whitespace s p3))) m' = Inl OutOfFuel"
      by blast
    let ?r = "skip_whitespace s (Suc (skip_whitespace s p3))"
    have "p < ?r"
      using progress [OF v] q skip_whitespace_bounds(1) [of "Suc (skip_whitespace s p3)" s]
        skip_whitespace_bounds(1) [of p3 s] by linarith
    with in_range Suc.prems have "length s - ?r < k" "length s - ?r \<le> budget" by linarith+
    with Suc.IH m' show False by blast
  qed
qed simp

lemma elements_total:
  "length s - p < k \<Longrightarrow> length s - p < budget \<Longrightarrow> parse_elements pv ctx s k p vs \<noteq> Inl OutOfFuel"
proof (induction k arbitrary: p vs)
  case (Suc k)
  show ?case
  proof
    assume "parse_elements pv ctx s (Suc k) p vs = Inl OutOfFuel"
    from elements_fuel_step [OF this] total [OF Suc.prems(2)] obtain v p1 vs'
      where v: "pv p = Inr (v, p1)"
        and vs': "parse_elements pv ctx s k (skip_whitespace s (Suc (skip_whitespace s p1))) vs' = Inl OutOfFuel"
      by blast
    let ?r = "skip_whitespace s (Suc (skip_whitespace s p1))"
    have "p < ?r" "p < length s"
      using progress [OF v] skip_whitespace_bounds(1) [of "Suc (skip_whitespace s p1)" s]
        skip_whitespace_bounds(1) [of p1 s] by linarith+
    with Suc.prems have "length s - ?r < k" "length s - ?r < budget" by linarith+
    with Suc.IH vs' show False by blast
  qed
qed simp

lemma object_contract:
  assumes "parse_object pv ctx s p = Inr (m, r)"
  shows "p < r \<and> r \<le> length s \<and> json_ok (JObj m)"
proof -
  have skip: "Suc p \<le> skip_whitespace s (Suc p)" by (rule skip_whitespace_bounds)
  from object_cases [OF assms] show ?thesis
  proof (elim disjE)
    assume loop: "parse_members pv ctx s (Suc (length s)) (skip_whitespace s (Suc p)) [] = Inr (m, r)"
    from members_progress [OF this] members_well_formed [OF this] skip show ?thesis by simp
  qed (use skip in auto)
qed

lemma array_contract:
  assumes "parse_array pv ctx s p = Inr (vs, r)"
  shows "p < r \<and> r \<le> length s \<and> json_ok (JArr vs)"
proof -
  have skip: "Suc p \<le> skip_whitespace s (Suc p)" by (rule skip_whitespace_bounds)
  from array_cases [OF assms] show ?thesis
  proof (elim disjE)
    assume loop: "parse_elements pv ctx s (Suc (length s)) (skip_whitespace s (Suc p)) [] = Inr (vs, r)"
    from elements_progress [OF this] elements_well_formed [OF this] skip show ?thesis by simp
  qed (use skip in auto)
qed

lemma object_total:
  assumes "length s - p \<le> budget"
  shows "parse_object pv ctx s p \<noteq> Inl OutOfFuel"
proof
  assume fuel: "parse_object pv ctx s p = Inl OutOfFuel"
  then have "parse_members pv ctx s (Suc (length s)) (skip_whitespace s (Suc p)) [] = Inl OutOfFuel"
    by (auto simp: parse_object_def bindE_Inl expect_Inr consume_def Let_def split: if_splits)
  moreover have "length s - skip_whitespace s (Suc p) \<le> budget"
    using assms skip_whitespace_bounds(1) [of "Suc p" s] by linarith
  ultimately show False using members_total [of "skip_whitespace s (Suc p)" "Suc (length s)"] by simp
qed

lemma array_total:
  assumes "length s - p \<le> budget"
  shows "parse_array pv ctx s p \<noteq> Inl OutOfFuel"
proof
  assume fuel: "parse_array pv ctx s p = Inl OutOfFuel"
  then have "p < length s"
    and "parse_elements pv ctx s (Suc (length s)) (skip_whitespace s (Suc p)) [] = Inl OutOfFuel"
    by (auto simp: parse_array_def bindE_Inl expect_Inr consume_def Let_def split: if_splits)
  moreover have "length s - skip_whitespace s (Suc p) < budget"
    using assms \<open>p < length s\<close> skip_whitespace_bounds(1) [of "Suc p" s] by linarith
  ultimately show False using elements_total [of "skip_whitespace s (Suc p)" "Suc (length s)"] by simp
qed

end

section \<open>Tying the recursion\<close>

lemma starts_at_bounds: "starts_at s p word \<Longrightarrow> p + length word \<le> length s \<or> word = []"
  by (cases word; cases "length word \<le> length s - p")
    (auto simp: starts_at_def dest!: arg_cong [where f = length])

lemma value_step_contract:
  assumes "value_parser (parse_value ctx s n) s n" and "parse_value ctx s (Suc n) p = Inr (v, p')"
  shows "p < p' \<and> p' \<le> length s \<and> json_ok v"
  using assms(2) value_parser.object_contract [OF assms(1)] value_parser.array_contract [OF assms(1)]
    parse_number_bounds parse_number_ok parse_string_bounds starts_at_bounds
  by (fastforce simp: Let_def bindE_Inr split: if_splits)

lemma value_step_total:
  assumes "value_parser (parse_value ctx s n) s n" and "length s - p < Suc n"
  shows "parse_value ctx s (Suc n) p \<noteq> Inl OutOfFuel"
  using assms(2) value_parser.object_total [OF assms(1)] value_parser.array_total [OF assms(1)]
  by (auto simp: Let_def bindE_Inl)

declare parse_value.simps(2) [simp del]

lemma parse_value_contract: "value_parser (parse_value ctx s n) s n"
proof (induction n)
  case 0
  show ?case by unfold_locales simp_all
next
  case (Suc n)
  show ?case
    by unfold_locales (use value_step_contract [OF Suc] value_step_total [OF Suc] in fast)+
qed

interpretation jp: value_parser "parse_value ctx s n" s n for ctx s n
  by (rule parse_value_contract)

text \<open>C18: The fuel of the model is always enough, so every text is parsed to a value or refused with an
  error: the recursion and the loops of the parser terminate.\<close>

theorem parse_json_never_out_of_fuel: "parse_json s ctx \<noteq> Inl OutOfFuel"
proof -
  have "length s - skip_whitespace s 0 < Suc (length s)" by simp
  then have "parse_value ctx s (Suc (length s)) (skip_whitespace s 0) \<noteq> Inl OutOfFuel"
    by (rule jp.total)
  then show ?thesis by (auto simp: parse_json_def bindE_Inl Let_def split: if_splits)
qed

lemma parse_json_ok: "parse_json s ctx = Inr v \<Longrightarrow> json_ok v"
  by (auto simp: parse_json_def bindE_Inr Let_def split: if_splits dest!: jp.well_formed)

end
