(* ===== verification/JsonSerializer.thy ===== *)
theory JsonSerializer
  imports JsonParserProps
begin

text \<open>
  \<open>appendEscaped\<close>, \<open>appendJson\<close> and \<open>serializeJson\<close> of \<open>IsomTerrain/MapAgentJson.cpp\<close>, and the
  round trip: the parser reads a serialised value back.
\<close>

section \<open>Serialisation\<close>

definition hex_char :: "nat \<Rightarrow> char" where
  "hex_char d = ''0123456789abcdef'' ! d"

definition escape_char :: "char \<Rightarrow> string" where
  "escape_char c =
     (if c = CHR 0x22 then [CHR 0x5C, CHR 0x22]
      else if c = CHR 0x5C then [CHR 0x5C, CHR 0x5C]
      else if c = CHR 0x08 then [CHR 0x5C, CHR ''b'']
      else if c = CHR 0x0C then [CHR 0x5C, CHR ''f'']
      else if c = CHR 0x0A then [CHR 0x5C, CHR ''n'']
      else if c = CHR 0x0D then [CHR 0x5C, CHR ''r'']
      else if c = CHR 0x09 then [CHR 0x5C, CHR ''t'']
      else if (of_char c :: nat) < 0x20
      then [CHR 0x5C, CHR ''u'', CHR ''0'', CHR ''0'',
            hex_char (drop_bit 4 (of_char c)), hex_char (of_char c AND 0x0f)]
      else [c])"

definition append_escaped :: "string \<Rightarrow> string" where
  "append_escaped t = [CHR 0x22] @ concat (map escape_char t) @ [CHR 0x22]"

fun comma_separated :: "string list \<Rightarrow> string" where
  "comma_separated [] = []"
| "comma_separated [t] = t"
| "comma_separated (t # u # ts) = t @ '','' @ comma_separated (u # ts)"

fun append_json :: "json \<Rightarrow> string" where
  "append_json JNull = ''null''"
| "append_json (JBool b) = (if b then ''true'' else ''false'')"
| "append_json (JInt i) = int_to_string i"
| "append_json (JReal x) = to_chars_f64 x"
| "append_json (JStr t) = append_escaped t"
| "append_json (JArr vs) = ''['' @ comma_separated (map append_json vs) @ '']''"
| "append_json (JObj m) =
     [CHR 0x7B] @ comma_separated (map (\<lambda>e. append_escaped (fst e) @ '':'' @ append_json (snd e)) m)
       @ [CHR 0x7D]"

definition serialize_json :: "json \<Rightarrow> string" where
  "serialize_json = append_json"

text \<open>Values without doubles: everything the engine itself reports.\<close>

fun no_reals :: "json \<Rightarrow> bool" where
  "no_reals (JReal x) = False"
| "no_reals (JArr vs) = (\<forall>v \<in> set vs. no_reals v)"
| "no_reals (JObj m) = (\<forall>e \<in> set m. no_reals (snd e))"
| "no_reals v = True"

section \<open>Reading text at a position\<close>

lemma skip_whitespace_at:
  assumes "drop p s = c # cs" and "\<not> is_json_space c"
  shows "skip_whitespace s p = p"
  using drop_ConsD [OF assms(1)] assms(2) by (subst skip_whitespace.simps) simp

lemma expect_at: "drop p s = c # cs \<Longrightarrow> expect ctx s c message p = Inr (Suc p)"
  by (simp add: expect_Inr drop_ConsD)

lemma consume_at: "drop p s = c # cs \<Longrightarrow> consume s d p = (if c = d then (True, Suc p) else (False, p))"
  by (auto simp: consume_def dest: drop_ConsD)

lemma consume_end: "drop p s = [] \<Longrightarrow> consume s d p = (False, p)"
  by (simp add: consume_def)

section \<open>Strings come back\<close>

lemma escape_unicode:
  assumes "(of_char c :: nat) < 0x20"
    and "drop p s = [CHR ''0'', CHR ''0'', hex_char (drop_bit 4 (of_char c)), hex_char (of_char c AND 0x0f)] @ t"
  shows "parse_unicode ctx s p = Inr (of_char c, p + 4)"
proof -
  have hex: "\<forall>d \<in> set [0..<16]. hex_digit (hex_char d) = Some d" by code_simp
  define n where "n = (of_char c :: nat)"
  have "n < 32" using assms(1) by (simp add: n_def)
  moreover have "\<forall>m \<in> set [0..<32]. drop_bit 4 m < 16 \<and> m AND 0x0f < 16
      \<and> push_bit 4 (drop_bit 4 m) OR (m AND 0x0f) = (m::nat)" by code_simp
  ultimately have hi: "drop_bit 4 n < 16" and lo: "n AND 0x0f < 16"
    and split: "push_bit 4 (drop_bit 4 n) OR (n AND 0x0f) = n" by auto
  note d0 = drop_ConsD [OF assms(2) [simplified]]
  note d1 = drop_ConsD [OF d0(3)]
  note d2 = drop_ConsD [OF d1(3)]
  note d3 = drop_ConsD [OF d2(3)]
  have zero: "hex_digit (CHR ''0'') = Some 0" by code_simp
  have digits: "hex_digit (hex_char (drop_bit 4 n)) = Some (drop_bit 4 n)"
    "hex_digit (hex_char (n AND 0x0f)) = Some (n AND 0x0f)"
    using hex hi lo by auto
  have small: "drop_bit 4 n mod 2 ^ 16 = drop_bit 4 n" "n mod 2 ^ 16 = n"
    using hi \<open>n < 32\<close> by simp_all
  have four: "(4::nat) = Suc (Suc (Suc (Suc 0)))" by simp
  have "length s \<ge> p + 4" using d3(1) by simp
  moreover have "hex4_loop ctx s 4 p 0 = Inr (n, p + 4)"
    unfolding four using d0(2) d1(2) d2(2) d3(2) digits split small zero
    by (simp add: n_def)
  ultimately have "parse_hex4 ctx s p = Inr (n, p + 4)" by (simp add: parse_hex4_def)
  with \<open>n < 32\<close> show ?thesis by (simp add: parse_unicode_def n_def)
qed

lemma escape_char_cases:
  obtains (raw) "escape_char c = [c]" "c \<noteq> CHR 0x22" "c \<noteq> CHR 0x5C" "\<not> (of_char c :: nat) < 0x20"
  | (short) e where "escape_char c = [CHR 0x5C, e]" "simple_escape e = Some c"
  | (unicode) "(of_char c :: nat) < 0x20" "escape_char c = [CHR 0x5C, CHR ''u'', CHR ''0'', CHR ''0'',
      hex_char (drop_bit 4 (of_char c)), hex_char (of_char c AND 0x0f)]"
proof -
  have short: "\<forall>(c, e) \<in> set [(CHR 0x22, CHR 0x22), (CHR 0x5C, CHR 0x5C), (CHR 0x08, CHR ''b''),
      (CHR 0x0C, CHR ''f''), (CHR 0x0A, CHR ''n''), (CHR 0x0D, CHR ''r''), (CHR 0x09, CHR ''t'')].
      simple_escape e = Some c" by code_simp
  show ?thesis
    by (cases "c = CHR 0x22 \<or> c = CHR 0x5C \<or> c = CHR 0x08 \<or> c = CHR 0x0C \<or> c = CHR 0x0A
        \<or> c = CHR 0x0D \<or> c = CHR 0x09"; cases "(of_char c :: nat) < 0x20")
      (use short that in \<open>auto simp: escape_char_def\<close>)
qed

lemma string_loop_char:
  assumes at: "drop p s = escape_char c @ u"
  shows "string_loop ctx s p out = string_loop ctx s (p + length (escape_char c)) (out @ [c])"
proof (cases rule: escape_char_cases [of c])
  case raw
  with drop_ConsD [of p s c u] at show ?thesis
    by (subst string_loop.simps) (simp add: Let_def not_le)
next
  case (short e)
  note d0 = drop_ConsD [OF at [unfolded short(1), simplified]]
  note d1 = drop_ConsD [OF d0(3)]
  have "(of_char (CHR 0x5C) :: nat) \<ge> 0x20" "CHR 0x5C \<noteq> CHR 0x22" by simp_all
  with d0 d1 short show ?thesis
    by (subst string_loop.simps) (simp add: Let_def not_le)
next
  case unicode
  note d0 = drop_ConsD [OF at [unfolded unicode(2), simplified]]
  note d1 = drop_ConsD [OF d0(3)]
  have "parse_unicode ctx s (p + 2) = Inr (of_char c, p + 2 + 4)"
    using d1(3) unicode(1) by (intro escape_unicode) simp_all
  moreover have "append_utf8 (of_char c) = [c]" using unicode(1) by (simp add: append_utf8_def)
  moreover have "simple_escape (CHR ''u'') = None" by code_simp
  moreover have "(of_char (CHR 0x5C) :: nat) \<ge> 0x20" "CHR 0x5C \<noteq> CHR 0x22" by simp_all
  moreover have "p + length (escape_char c) = p + 2 + 4" by (simp add: unicode(2))
  ultimately show ?thesis
    using d0 d1 unicode(1) by (subst string_loop.simps) (simp add: Let_def not_le add.commute)
qed

lemma string_loop_at:
  "drop p s = concat (map escape_char t) @ CHR 0x22 # u \<Longrightarrow>
     string_loop ctx s p out = Inr (out @ t, p + length (concat (map escape_char t)) + 1)"
proof (induction t arbitrary: p out)
  case Nil
  then show ?case
    using drop_ConsD [of p s] by (subst string_loop.simps) (simp add: Let_def)
next
  case (Cons c t)
  let ?rest = "concat (map escape_char t) @ CHR 0x22 # u"
  have at: "drop p s = escape_char c @ ?rest" using Cons.prems by simp
  have next_pos: "drop (p + length (escape_char c)) s = ?rest" using at by (rule drop_appendD)
  have "string_loop ctx s p out = string_loop ctx s (p + length (escape_char c)) (out @ [c])"
    using at by (rule string_loop_char)
  then show ?case using Cons.IH [OF next_pos, of "out @ [c]"] by simp
qed

lemma parse_string_at:
  assumes "drop p s = append_escaped t @ u"
  shows "parse_string ctx s p = Inr (t, p + length (append_escaped t))"
proof -
  have at: "drop p s = CHR 0x22 # concat (map escape_char t) @ CHR 0x22 # u"
    using assms by (simp add: append_escaped_def)
  note d = drop_ConsD [OF at]
  show ?thesis
    using expect_at [OF at] string_loop_at [OF d(3)]
    by (simp add: parse_string_def append_escaped_def)
qed

section \<open>Integers come back\<close>

definition ends_number :: "string \<Rightarrow> bool" where
  "ends_number u \<longleftrightarrow> u = [] \<or> hd u \<in> {CHR '','', CHR '']'', CHR 0x7D}"

lemma ends_number_char:
  assumes "ends_number (c # u)"
  shows "\<not> is_digit c" "c \<noteq> CHR ''.''" "c \<noteq> CHR ''e''" "c \<noteq> CHR ''E''" "\<not> is_json_space c"
  using assms by (auto simp: ends_number_def is_digit_def is_json_space_def)

lemma skip_digits_at:
  assumes "drop p s = ds @ u" and "list_all is_digit ds" and "u = [] \<or> \<not> is_digit (hd u)"
  shows "skip_digits s p = p + length ds"
  using assms(1,2)
proof (induction ds arbitrary: p)
  case Nil
  then show ?case
    using assms(3) drop_ConsD [of p s "hd u" "tl u"] drop_eq_Nil [of p s]
    by (subst skip_digits.simps) (cases u; auto)
next
  case (Cons d ds)
  note d = drop_ConsD [OF Cons.prems(1) [unfolded append_Cons]]
  from Cons.IH [OF d(3)] Cons.prems(2) d show ?case by (subst skip_digits.simps) simp
qed

lemma parse_whole_nat_at:
  assumes "drop p s = nat_to_string n @ u" and "ends_number u"
  shows "(if p < length s \<and> s ! p = CHR ''0'' then
           (if Suc p < length s \<and> is_digit (s ! Suc p) then bad else Inr (Suc p))
         else some_digits ctx s message p) = Inr (p + length (nat_to_string n))"
proof -
  obtain d ds where ds: "nat_to_string n = d # ds" by (cases "nat_to_string n") auto
  have u: "u = [] \<or> \<not> is_digit (hd u)" using assms(2) by (cases u) (auto dest: ends_number_char)
  note d = drop_ConsD [OF assms(1) [unfolded ds append_Cons]]
  have skip: "skip_digits s p = p + length (nat_to_string n)"
    using assms(1) nat_to_string_digits u by (rule skip_digits_at)
  show ?thesis
  proof (cases "n = 0")
    case True
    with ds have "d = CHR ''0''" "ds = []" by simp_all
    with d u drop_ConsD [of "Suc p" s "hd u" "tl u"] ds show ?thesis by (cases u) auto
  next
    case False
    with ds nat_to_string_hd [of n] d skip show ?thesis by (simp add: some_digits_def)
  qed
qed

lemma int_to_string_value:
  "int64_ok i \<Longrightarrow> from_chars_int64 (int_to_string i) = Some i"
proof (cases "i < 0")
  case False
  moreover have "hd (nat_to_string (nat i)) \<noteq> CHR ''-''"
    using nat_to_string_digits [of "nat i"] by (cases "nat_to_string (nat i)") (auto simp: is_digit_def)
  moreover assume "int64_ok i"
  ultimately show ?thesis by (simp add: from_chars_int64_def int_to_string_def Let_def)
qed (simp add: from_chars_int64_def int_to_string_def)

lemma parse_number_at:
  assumes at: "drop p s = int_to_string i @ u" and "ends_number u" and "int64_ok i"
  shows "parse_number ctx s p = Inr (JInt i, p + length (int_to_string i))"
proof -
  let ?q = "p + length (int_to_string i)"
  have whole: "parse_whole ctx s p = Inr ?q"
  proof (cases "i < 0")
    case True
    have at': "drop p s = CHR ''-'' # nat_to_string (nat (- i)) @ u"
      using at True by (simp add: int_to_string_def)
    note d = drop_ConsD [OF at']
    have "Suc p < length s" using d(3) by (cases "Suc p < length s") auto
    with d parse_whole_nat_at [OF d(3) assms(2)] True show ?thesis
      by (simp add: parse_whole_def consume_at [OF at'] int_to_string_def Let_def)
  next
    case False
    then have at': "drop p s = nat_to_string (nat i) @ u" using at by (simp add: int_to_string_def)
    obtain d ds where ds: "nat_to_string (nat i) = d # ds" by (cases "nat_to_string (nat i)") auto
    then have "is_digit d" using nat_to_string_digits [of "nat i"] by simp
    then have "d \<noteq> CHR ''-''" by (auto simp: is_digit_def)
    with parse_whole_nat_at [OF at' assms(2)] False show ?thesis
      using at' ds by (simp add: parse_whole_def consume_at int_to_string_def Let_def)
  qed
  have rest: "drop ?q s = u" using at by (rule drop_appendD)
  have "parse_fraction ctx s ?q = Inr (False, ?q)" and "parse_exponent ctx s ?q = Inr (False, ?q)"
    using rest assms(2) drop_ConsD [of ?q s "hd u" "tl u"] drop_eq_Nil [of ?q s] ends_number_char [of "hd u" "tl u"]
    by (cases u; auto simp: parse_fraction_def parse_exponent_def consume_def)+
  moreover have "take (?q - p) (drop p s) = int_to_string i" using at by simp
  ultimately show ?thesis
    using whole int_to_string_value [OF assms(3)] by (simp add: parse_number_def Let_def)
qed

section \<open>Values come back\<close>

lemma int_to_string_hd: "\<exists>c cs. int_to_string i = c # cs \<and> (c = CHR ''-'' \<or> is_digit c)"
proof -
  obtain c cs where "nat_to_string (nat i) = c # cs" "is_digit c"
    using nat_to_string_digits [of "nat i"] by (cases "nat_to_string (nat i)") auto
  then show ?thesis by (auto simp: int_to_string_def)
qed

lemma append_json_hd:
  assumes "no_reals v"
  obtains c cs where "append_json v = c # cs" "\<not> is_json_space c" "c \<noteq> CHR '']''"
proof (cases v)
  case (JInt i)
  obtain c cs where c: "int_to_string i = c # cs" "c = CHR ''-'' \<or> is_digit c"
    using int_to_string_hd by blast
  then have "\<not> is_json_space c" "c \<noteq> CHR '']''" by (auto simp: is_digit_def is_json_space_def)
  with c JInt that show ?thesis by simp
next
  case (JBool b)
  with that show ?thesis by (cases b) (simp_all add: is_json_space_def)
qed (use assms that in \<open>auto simp: append_escaped_def is_json_space_def split: if_splits\<close>)

lemma skip_to_value:
  assumes "drop p s = append_json v @ u" and "no_reals v"
  shows "skip_whitespace s p = p"
  using assms append_json_hd [OF assms(2)] skip_whitespace_at by (metis append_Cons)

lemma comma_separated_Cons:
  "comma_separated (t # ts) = t @ (if ts = [] then [] else '','' @ comma_separated ts)"
  by (cases ts) simp_all

definition reads :: "(nat \<Rightarrow> (json \<times> nat) result) \<Rightarrow> string \<Rightarrow> nat \<Rightarrow> json \<Rightarrow> bool" where
  "reads pv s p0 v \<longleftrightarrow>
     (\<forall>q u. p0 \<le> q \<longrightarrow> drop q s = append_json v @ u \<longrightarrow> ends_number u
        \<longrightarrow> pv q = Inr (v, q + length (append_json v)))"

lemma readsD:
  "reads pv s p0 v \<Longrightarrow> p0 \<le> q \<Longrightarrow> drop q s = append_json v @ u \<Longrightarrow> ends_number u
     \<Longrightarrow> pv q = Inr (v, q + length (append_json v))"
  by (simp add: reads_def)

lemma ends_number_simps [simp]:
  "ends_number (c # u) \<longleftrightarrow> c \<in> {CHR '','', CHR '']'', CHR 0x7D}"
  by (simp add: ends_number_def)

lemma is_json_space_punct [simp]:
  "\<not> is_json_space (CHR '','')" "\<not> is_json_space (CHR '']'')" "\<not> is_json_space (CHR 0x7D)"
  "\<not> is_json_space (CHR '':'')" "\<not> is_json_space (CHR 0x22)"
  by (simp_all add: is_json_space_def)

lemma parse_elements_at:
  assumes "drop p s = comma_separated (map append_json vs) @ CHR '']'' # u" and "vs \<noteq> []"
    and "\<forall>v \<in> set vs. no_reals v \<and> reads pv s p0 v" and "p0 \<le> p" and "length s - p < k"
  shows "parse_elements pv ctx s k p acc
     = Inr (acc @ vs, p + length (comma_separated (map append_json vs)) + 1)"
  using assms
proof (induction vs arbitrary: p k acc)
  case (Cons v vs)
  from Cons.prems(5) obtain k' where k: "k = Suc k'" by (cases k) auto
  let ?tail = "(if vs = [] then [] else '','' @ comma_separated (map append_json vs)) @ CHR '']'' # u"
  have at: "drop p s = append_json v @ ?tail"
    using Cons.prems(1) by (simp add: comma_separated_Cons)
  have v: "no_reals v" "reads pv s p0 v" using Cons.prems(3) by auto
  let ?q = "p + length (append_json v)"
  have pv: "pv p = Inr (v, ?q)"
    using v(2) Cons.prems(4) at by (rule readsD) simp
  have rest: "drop ?q s = ?tail" using at by (rule drop_appendD)
  show ?case
  proof (cases "vs = []")
    case True
    then have close: "drop ?q s = CHR '']'' # u" using rest by simp
    show ?thesis
      using pv True by (simp add: k parse_elements.simps(2) skip_whitespace_at [OF close] consume_at [OF close])
  next
    case False
    then have comma: "drop ?q s = CHR '','' # comma_separated (map append_json vs) @ CHR '']'' # u"
      using rest by simp
    note d = drop_ConsD [OF comma]
    obtain w ws where ws: "vs = w # ws" using False by (cases vs) auto
    have skip: "skip_whitespace s (Suc ?q) = Suc ?q"
      using d(3) Cons.prems(3) unfolding ws
      by (intro skip_to_value) (auto simp: comma_separated_Cons)
    have "parse_elements pv ctx s k' (Suc ?q) (acc @ [v])
        = Inr ((acc @ [v]) @ vs, Suc ?q + length (comma_separated (map append_json vs)) + 1)"
      using d(1,3) False Cons.prems(3-5) k by (intro Cons.IH) auto
    with pv skip False show ?thesis
      by (simp add: k parse_elements.simps(2) skip_whitespace_at [OF comma] consume_at [OF comma]
          expect_at [OF comma] comma_separated_Cons)
  qed
qed simp

lemma parse_array_at:
  assumes at: "drop p s = append_json (JArr vs) @ u"
    and "\<forall>v \<in> set vs. no_reals v \<and> reads pv s (Suc p) v"
  shows "parse_array pv ctx s p = Inr (vs, p + length (append_json (JArr vs)))"
proof -
  have at': "drop p s = CHR ''['' # comma_separated (map append_json vs) @ CHR '']'' # u"
    using at by simp
  note d = drop_ConsD [OF at']
  show ?thesis
  proof (cases vs)
    case Nil
    then have close: "drop (Suc p) s = CHR '']'' # u" using d(3) by simp
    show ?thesis
      using Nil by (simp add: parse_array_def expect_at [OF at'] skip_whitespace_at [OF close] consume_at [OF close])
  next
    case (Cons v vs')
    then have "no_reals v" using assms(2) by simp
    then obtain c cs where "append_json v = c # cs" and c': "\<not> is_json_space c" "c \<noteq> CHR '']''"
      by (rule append_json_hd)
    then obtain cs' where c: "drop (Suc p) s = c # cs'" "\<not> is_json_space c" "c \<noteq> CHR '']''"
      using d(3) Cons c' by (simp add: comma_separated_Cons)
    have "parse_elements pv ctx s (Suc (length s)) (Suc p) []
        = Inr ([] @ vs, Suc p + length (comma_separated (map append_json vs)) + 1)"
      using d(3) assms(2) Cons by (intro parse_elements_at [where p0 = "Suc p"]) auto
    then show ?thesis
      using c by (simp add: parse_array_def expect_at [OF at'] skip_whitespace_at [OF c(1,2)] consume_at [OF c(1)])
  qed
qed

abbreviation append_member :: "string \<times> json \<Rightarrow> string" where
  "append_member e \<equiv> append_escaped (fst e) @ '':'' @ append_json (snd e)"

lemma append_escaped_hd: "append_escaped t = CHR 0x22 # concat (map escape_char t) @ [CHR 0x22]"
  by (simp add: append_escaped_def)

lemma parse_members_at:
  assumes "drop p s = comma_separated (map append_member es) @ CHR 0x7D # u" and "es \<noteq> []"
    and "\<forall>e \<in> set es. no_reals (snd e) \<and> reads pv s p0 (snd e)" and "p0 \<le> p" and "length s - p < k"
    and "map_ok (m @ es)"
  shows "parse_members pv ctx s k p m
     = Inr (m @ es, p + length (comma_separated (map append_member es)) + 1)"
  using assms
proof (induction es arbitrary: p k m)
  case (Cons e es)
  obtain key v where e: "e = (key, v)" by (cases e)
  from Cons.prems(5) obtain k' where k: "k = Suc k'" by (cases k) auto
  let ?tail = "(if es = [] then [] else '','' @ comma_separated (map append_member es)) @ CHR 0x7D # u"
  let ?q = "p + length (append_escaped key)" and ?vtail = "append_json v @ ?tail"
  have at: "drop p s = append_escaped key @ CHR '':'' # ?vtail"
    using Cons.prems(1) by (simp add: comma_separated_Cons e)
  have quote: "p < length s" "s ! p = CHR 0x22"
    using drop_ConsD [OF at [unfolded append_escaped_hd append_Cons]] by simp_all
  have key: "parse_string ctx s p = Inr (key, ?q)" using at by (rule parse_string_at)
  have colon: "drop ?q s = CHR '':'' # ?vtail" using at by (rule drop_appendD)
  note dv = drop_ConsD(3) [OF colon]
  have v: "no_reals v" "reads pv s p0 v" using Cons.prems(3) e by auto
  let ?r = "Suc (?q + length (append_json v))"
  have skip_v: "skip_whitespace s (Suc ?q) = Suc ?q" using dv v(1) by (rule skip_to_value)
  have "p0 \<le> Suc ?q" using Cons.prems(4) by simp
  then have pv: "pv (Suc ?q) = Inr (v, ?r)" using readsD [OF v(2) _ dv] by simp
  have rest: "drop ?r s = ?tail" using drop_appendD [OF dv] by simp
  have ok: "map_ok (m @ [(key, v)])"
    using Cons.prems(6) e map_ok_appendD [of "m @ [(key, v)]" es] by simp
  have emplace: "map_emplace key v m = m @ [(key, v)]" using ok by (rule emplace_last)
  have fresh: "map_of m key = None"
    using ok by (force simp: map_ok_def sorted_wrt_append map_of_eq_None_iff)
  show ?case
  proof (cases "es = []")
    case True
    then have close: "drop ?r s = CHR 0x7D # u" using rest by simp
    show ?thesis
      using quote key fresh skip_v pv True emplace
      by (simp add: k e parse_members.simps(2) skip_whitespace_at [OF colon] expect_at [OF colon]
          skip_whitespace_at [OF close] consume_at [OF close] not_le)
  next
    case False
    then have comma: "drop ?r s = CHR '','' # comma_separated (map append_member es) @ CHR 0x7D # u"
      using rest by simp
    note d = drop_ConsD [OF comma]
    obtain f fs where fs: "es = f # fs" using False by (cases es) auto
    have skip: "skip_whitespace s (Suc ?r) = Suc ?r"
      using d(3) unfolding fs by (intro skip_whitespace_at [where c = "CHR 0x22"])
        (auto simp: comma_separated_Cons append_escaped_def)
    have "parse_members pv ctx s k' (Suc ?r) (m @ [(key, v)])
        = Inr ((m @ [(key, v)]) @ es, Suc ?r + length (comma_separated (map append_member es)) + 1)"
      using d(1,3) False Cons.prems(3-6) k e by (intro Cons.IH) auto
    with quote key fresh skip_v pv skip emplace False show ?thesis
      by (simp add: k e parse_members.simps(2) skip_whitespace_at [OF colon] expect_at [OF colon]
          skip_whitespace_at [OF comma] consume_at [OF comma] expect_at [OF comma] comma_separated_Cons
          not_le)
  qed
qed simp

lemma parse_object_at:
  assumes at: "drop p s = append_json (JObj m) @ u" and "map_ok m"
    and "\<forall>e \<in> set m. no_reals (snd e) \<and> reads pv s (Suc p) (snd e)"
  shows "parse_object pv ctx s p = Inr (m, p + length (append_json (JObj m)))"
proof -
  have at': "drop p s = CHR 0x7B # comma_separated (map append_member m) @ CHR 0x7D # u"
    using at by simp
  note d = drop_ConsD [OF at']
  show ?thesis
  proof (cases m)
    case Nil
    then have close: "drop (Suc p) s = CHR 0x7D # u" using d(3) by simp
    show ?thesis
      using Nil by (simp add: parse_object_def expect_at [OF at'] skip_whitespace_at [OF close] consume_at [OF close])
  next
    case (Cons e m')
    then obtain cs where c: "drop (Suc p) s = CHR 0x22 # cs"
      using d(3) by (auto simp: comma_separated_Cons append_escaped_def)
    have "parse_members pv ctx s (Suc (length s)) (Suc p) []
        = Inr ([] @ m, Suc p + length (comma_separated (map append_member m)) + 1)"
      using d(3) assms(2,3) Cons by (intro parse_members_at [where p0 = "Suc p"]) auto
    then show ?thesis
      by (simp add: parse_object_def expect_at [OF at'] skip_whitespace_at [OF c] consume_at [OF c])
  qed
qed

lemma starts_at_append: "drop p s = word @ u \<Longrightarrow> starts_at s p word"
  by (simp add: starts_at_def)

lemma parse_value_at:
  "json_ok v \<Longrightarrow> no_reals v \<Longrightarrow> drop p s = append_json v @ u \<Longrightarrow> ends_number u
     \<Longrightarrow> length s - p < n \<Longrightarrow> parse_value ctx s n p = Inr (v, p + length (append_json v))"
proof (induction v arbitrary: p u n)
  case (JInt i)
  then obtain n' where n: "n = Suc n'" by (cases n) auto
  obtain c cs where c: "int_to_string i = c # cs" "c = CHR ''-'' \<or> is_digit c"
    using int_to_string_hd by blast
  then have other: "c \<noteq> CHR 0x7B" "c \<noteq> CHR ''[''" "c \<noteq> CHR 0x22" by (auto simp: is_digit_def)
  have "drop p s = c # cs @ u" using JInt.prems(3) c by simp
  note d = drop_ConsD [OF this]
  show ?case
    using parse_number_at [of p s i u ctx] JInt.prems c other d
    by (simp add: n parse_value.simps(2) not_le)
next
  case (JStr t)
  then obtain n' where n: "n = Suc n'" by (cases n) auto
  have "drop p s = CHR 0x22 # concat (map escape_char t) @ CHR 0x22 # u"
    using JStr.prems(3) by (simp add: append_escaped_def)
  note d = drop_ConsD [OF this]
  show ?case using parse_string_at [of p s t u ctx] JStr.prems d
    by (simp add: n parse_value.simps(2) not_le)
next
  case (JArr vs)
  then obtain n' where n: "n = Suc n'" by (cases n) auto
  have "drop p s = CHR ''['' # comma_separated (map append_json vs) @ CHR '']'' # u"
    using JArr.prems(3) by simp
  note d = drop_ConsD [OF this]
  have "no_reals v \<and> reads (parse_value ctx s n') s (Suc p) v" if "v \<in> set vs" for v
    using JArr.IH [OF that] JArr.prems that d(1) by (auto simp: reads_def n)
  with parse_array_at [OF JArr.prems(3)] d show ?case
    by (simp add: n parse_value.simps(2) not_le)
next
  case (JObj m)
  then obtain n' where n: "n = Suc n'" by (cases n) auto
  have "drop p s = CHR 0x7B # comma_separated (map append_member m) @ CHR 0x7D # u"
    using JObj.prems(3) by simp
  note d = drop_ConsD [OF this]
  have "no_reals (snd e) \<and> reads (parse_value ctx s n') s (Suc p) (snd e)" if "e \<in> set m" for e
  proof -
    have "json_ok (snd e)" "no_reals (snd e)" using JObj.prems(1,2) that by auto
    with JObj.IH [OF that, of "snd e"] JObj.prems(5) d(1) show ?thesis
      by (cases e) (auto simp: reads_def n)
  qed
  with parse_object_at [OF JObj.prems(3)] JObj.prems(1) d show ?case
    by (simp add: n parse_value.simps(2) not_le)
next
  case JNull
  then obtain n' where n: "n = Suc n'" by (cases n) auto
  have at: "drop p s = ''null'' @ u" using JNull.prems(3) by simp
  note d = drop_ConsD [OF at [simplified]] and w = starts_at_append [OF at]
  have "\<not> starts_at s p ''true''" "\<not> starts_at s p ''false''"
    using at by (simp_all add: starts_at_def)
  with d w show ?case by (simp add: n parse_value.simps(2) not_le is_digit_def)
next
  case (JBool b)
  then obtain n' where n: "n = Suc n'" by (cases n) auto
  have at: "drop p s = (if b then ''true'' else ''false'') @ u" using JBool.prems(3) by simp
  note w = starts_at_append [OF at]
  show ?case
    using at w drop_ConsD [of p s] by (cases b)
      (auto simp: n parse_value.simps(2) not_le is_digit_def starts_at_def)
qed simp

lemma read_serialized:
  assumes "json_ok v" and "no_reals v"
  shows "parse_json (serialize_json v) ctx = Inr v"
proof -
  have at: "drop 0 (append_json v) = append_json v @ []" by simp
  have "parse_value ctx (append_json v) (Suc (length (append_json v))) 0
      = Inr (v, 0 + length (append_json v))"
    using assms at by (rule parse_value_at) (simp_all add: ends_number_def)
  moreover have "skip_whitespace (append_json v) 0 = 0"
    using at assms(2) by (rule skip_to_value)
  moreover have "skip_whitespace (append_json v) (length (append_json v)) = length (append_json v)"
    by (subst skip_whitespace.simps) simp
  ultimately show ?thesis by (simp add: parse_json_def serialize_json_def)
qed

text \<open>C15: Reading a serialised value gives the value back, for every well-formed value without doubles.\<close>

theorem parse_serialize_json:
  assumes "json_ok v" and "no_reals v"
  shows "parse_json (serialize_json v) ctx = Inr v"
  using assms by (rule read_serialized)

lemma parse_serialize_json_witness:
  "parse_json (serialize_json (JObj [(''a'', JArr [JInt (- 5), JNull]), (''b'', JStr [CHR 0x0A])])) ''ctx''
     = Inr (JObj [(''a'', JArr [JInt (- 5), JNull]), (''b'', JStr [CHR 0x0A])])"
  by (rule parse_serialize_json) (simp_all add: map_ok_def int64_ok_def int64_min_def int64_max_def)

end
