(* ===== verification/Sha256.thy ===== *)
theory Sha256
  imports Prelude
begin

text \<open>
  The class \<open>SHA256\<close> of \<open>MappingCoreLib/sha256.h\<close> and \<open>sha256.cpp\<close>: the object as the record
  \<open>sha\<close>, its unrolled compression function line by line, the buffered \<open>add\<close> and the padding of
  \<open>processBuffer\<close>. The reference is the hash of FIPS 180-4 over whole messages; the locale
  \<open>digest_stream\<close> is what clients that hash in chunks rely on.
\<close>

section \<open>The object\<close>

type_synonym sha_words = "u32 \<times> u32 \<times> u32 \<times> u32 \<times> u32 \<times> u32 \<times> u32 \<times> u32"

record sha =
  m_num_bytes :: u64
  m_buffer_size :: nat
  m_buffer :: "u8 list"
  m_hash :: sha_words

definition block_size :: nat where
  "block_size = 64"

definition initial_hash :: sha_words where
  "initial_hash = (0x6a09e667, 0xbb67ae85, 0x3c6ef372, 0xa54ff53a,
                   0x510e527f, 0x9b05688c, 0x1f83d9ab, 0x5be0cd19)"

text \<open>\<open>reset\<close> leaves the bytes of \<open>m_buffer\<close> alone.\<close>

definition sha_reset :: "sha \<Rightarrow> sha" where
  "sha_reset s = s\<lparr>m_num_bytes := 0, m_buffer_size := 0, m_hash := initial_hash\<rparr>"

section \<open>The compression function\<close>

definition sha_rotate :: "u32 \<Rightarrow> nat \<Rightarrow> u32" where
  "sha_rotate a c = drop_bit c a OR push_bit (32 - c) a"

definition sha_swap :: "u32 \<Rightarrow> u32" where
  "sha_swap x = drop_bit 24 x OR (drop_bit 8 x AND 0x0000FF00) OR (push_bit 8 x AND 0x00FF0000)
     OR push_bit 24 x"

definition sha_f1 :: "u32 \<Rightarrow> u32 \<Rightarrow> u32 \<Rightarrow> u32" where
  "sha_f1 e f g =
     (let term1 = sha_rotate e 6 XOR sha_rotate e 11 XOR sha_rotate e 25;
          term2 = (e AND f) XOR (NOT e AND g)
      in term1 + term2)"

definition sha_f2 :: "u32 \<Rightarrow> u32 \<Rightarrow> u32 \<Rightarrow> u32" where
  "sha_f2 a b c =
     (let term1 = sha_rotate a 2 XOR sha_rotate a 13 XOR sha_rotate a 22;
          term2 = ((a OR b) AND c) OR (a AND b)
      in term1 + term2)"

text \<open>Eight source lines: one round of the comments. \<open>k\<close> are its constants, \<open>w\<close> its words.\<close>

definition sha_round8 :: "u32 list \<Rightarrow> u32 list \<Rightarrow> sha_words \<Rightarrow> sha_words" where
  "sha_round8 k w = (\<lambda>(a, b, c, d, e, f, g, h).
     let x = h + sha_f1 e f g + k ! 0 + w ! 0; y = sha_f2 a b c; d = d + x; h = x + y;
         x = g + sha_f1 d e f + k ! 1 + w ! 1; y = sha_f2 h a b; c = c + x; g = x + y;
         x = f + sha_f1 c d e + k ! 2 + w ! 2; y = sha_f2 g h a; b = b + x; f = x + y;
         x = e + sha_f1 b c d + k ! 3 + w ! 3; y = sha_f2 f g h; a = a + x; e = x + y;
         x = d + sha_f1 a b c + k ! 4 + w ! 4; y = sha_f2 e f g; h = h + x; d = x + y;
         x = c + sha_f1 h a b + k ! 5 + w ! 5; y = sha_f2 d e f; g = g + x; c = x + y;
         x = b + sha_f1 g h a + k ! 6 + w ! 6; y = sha_f2 c d e; f = f + x; b = x + y;
         x = a + sha_f1 f g h + k ! 7 + w ! 7; y = sha_f2 b c d; e = e + x; a = x + y
     in (a, b, c, d, e, f, g, h))"

text \<open>The assignment to \<open>words[i]\<close>, \<open>i\<close> being the number of words present; eight of them extend.\<close>

definition extend_word :: "u32 list \<Rightarrow> u32 list" where
  "extend_word ws =
     (let i = length ws
      in ws @ [ws ! (i - 16) +
               (sha_rotate (ws ! (i - 15)) 7 XOR sha_rotate (ws ! (i - 15)) 18
                  XOR drop_bit 3 (ws ! (i - 15))) +
               ws ! (i - 7) +
               (sha_rotate (ws ! (i - 2)) 17 XOR sha_rotate (ws ! (i - 2)) 19
                  XOR drop_bit 10 (ws ! (i - 2)))])"

definition extend8 :: "u32 list \<Rightarrow> u32 list" where
  "extend8 ws = (extend_word ^^ 8) ws"

text \<open>A little-endian load of \<open>input[i]\<close>, then the swap.\<close>

definition load_word :: "u8 list \<Rightarrow> nat \<Rightarrow> u32" where
  "load_word bs i =
     ucast (bs ! (4 * i)) OR push_bit 8 (ucast (bs ! (4 * i + 1)))
       OR push_bit 16 (ucast (bs ! (4 * i + 2))) OR push_bit 24 (ucast (bs ! (4 * i + 3)))"

definition input_words :: "u8 list \<Rightarrow> u32 list" where
  "input_words bs = map (\<lambda>i. sha_swap (load_word bs i)) [0..<16]"

definition round_constants :: "u32 list list" where
  "round_constants =
    [[0x428a2f98, 0x71374491, 0xb5c0fbcf, 0xe9b5dba5, 0x3956c25b, 0x59f111f1, 0x923f82a4, 0xab1c5ed5],
     [0xd807aa98, 0x12835b01, 0x243185be, 0x550c7dc3, 0x72be5d74, 0x80deb1fe, 0x9bdc06a7, 0xc19bf174],
     [0xe49b69c1, 0xefbe4786, 0x0fc19dc6, 0x240ca1cc, 0x2de92c6f, 0x4a7484aa, 0x5cb0a9dc, 0x76f988da],
     [0x983e5152, 0xa831c66d, 0xb00327c8, 0xbf597fc7, 0xc6e00bf3, 0xd5a79147, 0x06ca6351, 0x14292967],
     [0x27b70a85, 0x2e1b2138, 0x4d2c6dfc, 0x53380d13, 0x650a7354, 0x766a0abb, 0x81c2c92e, 0x92722c85],
     [0xa2bfe8a1, 0xa81a664b, 0xc24b8b70, 0xc76c51a3, 0xd192e819, 0xd6990624, 0xf40e3585, 0x106aa070],
     [0x19a4c116, 0x1e376c08, 0x2748774c, 0x34b0bcb5, 0x391c0cb3, 0x4ed8aa4a, 0x5b9cca4f, 0x682e6ff3],
     [0x748f82ee, 0x78a5636f, 0x84c87814, 0x8cc70208, 0x90befffa, 0xa4506ceb, 0xbef9a3f7, 0xc67178f2]]"

definition add_words :: "sha_words \<Rightarrow> sha_words \<Rightarrow> sha_words" where
  "add_words = (\<lambda>(a, b, c, d, e, f, g, h) (a', b', c', d', e', f', g', h').
     (a + a', b + b', c + c', d + d', e + e', f + f', g + g', h + h'))"

definition block_words :: "u8 list \<Rightarrow> sha_words \<Rightarrow> sha_words" where
  "block_words bs regs =
     (let w = input_words bs;
          regs = sha_round8 (round_constants ! 0) (take 8 w) regs;
          regs = sha_round8 (round_constants ! 1) (drop 8 w) regs;
          w = extend8 w; regs = sha_round8 (round_constants ! 2) (drop 16 w) regs;
          w = extend8 w; regs = sha_round8 (round_constants ! 3) (drop 24 w) regs;
          w = extend8 w; regs = sha_round8 (round_constants ! 4) (drop 32 w) regs;
          w = extend8 w; regs = sha_round8 (round_constants ! 5) (drop 40 w) regs;
          w = extend8 w; regs = sha_round8 (round_constants ! 6) (drop 48 w) regs;
          w = extend8 w; regs = sha_round8 (round_constants ! 7) (drop 56 w) regs
      in regs)"

definition process_block :: "u8 list \<Rightarrow> sha \<Rightarrow> sha" where
  "process_block bs s = s\<lparr>m_hash := add_words (m_hash s) (block_words bs (m_hash s))\<rparr>"

section \<open>Adding bytes\<close>

definition store_byte :: "u8 \<Rightarrow> sha \<Rightarrow> sha" where
  "store_byte b s =
     s\<lparr>m_buffer := (m_buffer s)[m_buffer_size s := b], m_buffer_size := m_buffer_size s + 1\<rparr>"

fun fill_buffer :: "sha \<Rightarrow> u8 list \<Rightarrow> sha \<times> u8 list" where
  "fill_buffer s [] = (s, [])"
| "fill_buffer s (b # bs) =
     (if m_buffer_size s < block_size then fill_buffer (store_byte b s) bs else (s, b # bs))"

definition count_block :: "sha \<Rightarrow> sha" where
  "count_block s = s\<lparr>m_num_bytes := m_num_bytes s + of_nat block_size\<rparr>"

function full_blocks :: "sha \<Rightarrow> u8 list \<Rightarrow> sha \<times> u8 list" where
  "full_blocks s bs =
     (if block_size \<le> length bs
      then full_blocks (count_block (process_block (take block_size bs) s)) (drop block_size bs)
      else (s, bs))"
  by pat_completeness auto
termination by (relation "measure (\<lambda>(s, bs). length bs)") (auto simp: block_size_def)

definition sha_add :: "sha \<Rightarrow> u8 list \<Rightarrow> sha" where
  "sha_add s bs =
     (let (s, bs) = (if 0 < m_buffer_size s then fill_buffer s bs else (s, bs));
          s = (if m_buffer_size s = block_size
               then (count_block (process_block (m_buffer s) s))\<lparr>m_buffer_size := 0\<rparr> else s)
      in if bs = [] then s
         else let (s, bs) = full_blocks s bs in fold store_byte bs s)"

section \<open>The digest\<close>

definition padded_length :: "nat \<Rightarrow> nat" where
  "padded_length buffered =
     (let bits = buffered * 8 + 1;
          lower11 = bits AND 511
      in (if lower11 \<le> 448 then bits + (448 - lower11) else bits + (512 + 448 - lower11)) div 8)"

definition length_bytes :: "u64 \<Rightarrow> u8 list" where
  "length_bytes n = map (\<lambda>k. ucast (drop_bit k n AND 0xFF)) [56, 48, 40, 32, 24, 16, 8, 0]"

definition write_zeros :: "u8 list \<Rightarrow> nat list \<Rightarrow> u8 list" where
  "write_zeros bs is = foldl (\<lambda>b i. b[i := 0]) bs is"

fun write_bytes :: "u8 list \<Rightarrow> nat \<Rightarrow> u8 list \<Rightarrow> u8 list" where
  "write_bytes bs p [] = bs"
| "write_bytes bs p (x # xs) = write_bytes (bs[p := x]) (Suc p) xs"

text \<open>
  \<open>junk\<close> is the content of the uninitialised array \<open>extra\<close>; the digest will not depend on it.
\<close>

definition process_buffer :: "(nat \<Rightarrow> u8) \<Rightarrow> sha \<Rightarrow> sha" where
  "process_buffer junk s =
     (let n = m_buffer_size s;
          padded = padded_length n;
          extra = map junk [0..<block_size];
          (buffer, extra) = (if n < block_size then ((m_buffer s)[n := 128], extra)
                             else (m_buffer s, extra[0 := 128]));
          buffer = write_zeros buffer [n + 1..<block_size];
          extra = write_zeros extra (map (\<lambda>i. i - block_size) [max (n + 1) block_size..<padded]);
          bits = 8 * (m_num_bytes s + of_nat n);
          (buffer, extra) =
            (if padded < block_size then (write_bytes buffer padded (length_bytes bits), extra)
             else (buffer, write_bytes extra (padded - block_size) (length_bytes bits)));
          s = process_block buffer (s\<lparr>m_buffer := buffer\<rparr>)
      in if block_size < padded then process_block extra s else s)"

definition word_bytes :: "u32 \<Rightarrow> u8 list" where
  "word_bytes w = map (\<lambda>k. ucast (drop_bit k w AND 0xFF)) [24, 16, 8, 0]"

definition hash_bytes :: "sha_words \<Rightarrow> u8 list" where
  "hash_bytes = (\<lambda>(a, b, c, d, e, f, g, h). concat (map word_bytes [a, b, c, d, e, f, g, h]))"

text \<open>\<open>getHash(unsigned char*)\<close>: the hash is saved before the padding and restored afterwards.\<close>

definition raw_hash :: "(nat \<Rightarrow> u8) \<Rightarrow> sha \<Rightarrow> u8 list \<times> sha" where
  "raw_hash junk s =
     (let old = m_hash s; t = process_buffer junk s
      in (hash_bytes (m_hash t), t\<lparr>m_hash := old\<rparr>))"

definition hex_nibble :: "nat \<Rightarrow> char" where
  "hex_nibble d = ''0123456789abcdef'' ! d"

definition hex_string :: "u8 list \<Rightarrow> string" where
  "hex_string bs =
     concat (map (\<lambda>b. [hex_nibble (unat (drop_bit 4 b AND 15)), hex_nibble (unat (b AND 15))]) bs)"

definition get_hash :: "(nat \<Rightarrow> u8) \<Rightarrow> sha \<Rightarrow> string \<times> sha" where
  "get_hash junk s = (let (raw, s) = raw_hash junk s in (hex_string raw, s))"

text \<open>The two call operators hash one memory block; \<open>store\<close> is what \<open>m_buffer\<close> held before.\<close>

definition new_sha :: "u8 list \<Rightarrow> sha" where
  "new_sha store = sha_reset \<lparr>m_num_bytes = 0, m_buffer_size = 0, m_buffer = store, m_hash = initial_hash\<rparr>"

definition sha_apply :: "(nat \<Rightarrow> u8) \<Rightarrow> sha \<Rightarrow> u8 list \<Rightarrow> string \<times> sha" where
  "sha_apply junk s bs = get_hash junk (sha_add (sha_reset s) bs)"

end
