(* ===== verification/Sha256Props.thy ===== *)
theory Sha256Props
  imports Sha256
begin

text \<open>
  FIPS 180-4 as the reference, and the class of \<open>sha256.cpp\<close> against it: the unrolled compression
  function is the 64-round loop, the buffered \<open>add\<close> absorbs the message in any chunks, the digest is
  the hash of all bytes added so far, whatever \<open>extra\<close> held, and reading it does not disturb the stream.
\<close>

section \<open>The reference\<close>

definition fips_sigma0 :: "u32 \<Rightarrow> u32" where
  "fips_sigma0 x = sha_rotate x 7 XOR sha_rotate x 18 XOR drop_bit 3 x"

definition fips_sigma1 :: "u32 \<Rightarrow> u32" where
  "fips_sigma1 x = sha_rotate x 17 XOR sha_rotate x 19 XOR drop_bit 10 x"

definition fips_Sigma0 :: "u32 \<Rightarrow> u32" where
  "fips_Sigma0 x = sha_rotate x 2 XOR sha_rotate x 13 XOR sha_rotate x 22"

definition fips_Sigma1 :: "u32 \<Rightarrow> u32" where
  "fips_Sigma1 x = sha_rotate x 6 XOR sha_rotate x 11 XOR sha_rotate x 25"

definition fips_ch :: "u32 \<Rightarrow> u32 \<Rightarrow> u32 \<Rightarrow> u32" where
  "fips_ch x y z = (x AND y) XOR (NOT x AND z)"

definition fips_maj :: "u32 \<Rightarrow> u32 \<Rightarrow> u32 \<Rightarrow> u32" where
  "fips_maj x y z = (x AND y) XOR (x AND z) XOR (y AND z)"

definition be_word :: "u8 list \<Rightarrow> nat \<Rightarrow> u32" where
  "be_word m t = push_bit 24 (ucast (m ! (4 * t))) OR push_bit 16 (ucast (m ! (4 * t + 1)))
     OR push_bit 8 (ucast (m ! (4 * t + 2))) OR ucast (m ! (4 * t + 3))"

fun fips_w :: "u8 list \<Rightarrow> nat \<Rightarrow> u32" where
  "fips_w m t =
     (if t < 16 then be_word m t
      else fips_sigma1 (fips_w m (t - 2)) + fips_w m (t - 7) + fips_sigma0 (fips_w m (t - 15))
             + fips_w m (t - 16))"

declare fips_w.simps [simp del]

definition fips_k :: "nat \<Rightarrow> u32" where
  "fips_k t = concat round_constants ! t"

definition fips_round :: "u8 list \<Rightarrow> nat \<Rightarrow> sha_words \<Rightarrow> sha_words" where
  "fips_round m t = (\<lambda>(a, b, c, d, e, f, g, h).
     let t1 = h + fips_Sigma1 e + fips_ch e f g + fips_k t + fips_w m t;
         t2 = fips_Sigma0 a + fips_maj a b c
     in (t1 + t2, a, b, c, d + t1, e, f, g))"

definition fips_compress :: "u8 list \<Rightarrow> sha_words \<Rightarrow> sha_words" where
  "fips_compress m h = add_words h (fold (fips_round m) [0..<64] h)"

definition fips_pad :: "u8 list \<Rightarrow> u8 list" where
  "fips_pad m =
     m @ [0x80] @ replicate ((119 - length m mod 64) mod 64) 0
       @ length_bytes (of_nat (8 * length m))"

function fips_fold :: "sha_words \<Rightarrow> u8 list \<Rightarrow> sha_words" where
  "fips_fold h m = (if length m < 64 then h else fips_fold (fips_compress (take 64 m) h) (drop 64 m))"
  by pat_completeness auto
termination by (relation "measure (\<lambda>(h, m). length m)") auto

declare fips_fold.simps [simp del]

definition fips_sha256 :: "u8 list \<Rightarrow> string" where
  "fips_sha256 m = hex_string (hash_bytes (fips_fold initial_hash (fips_pad m)))"

section \<open>The compression function\<close>

declare upt_rec_numeral [simp del] full_blocks.simps [simp del]

lemma majority: "((a OR b) AND c) OR (a AND b) = fips_maj a b c"
  unfolding fips_maj_def by (rule bit_eqI) (auto simp: bit_simps)

lemma sha_f1_fips: "sha_f1 e f g = fips_Sigma1 e + fips_ch e f g"
  by (simp add: sha_f1_def fips_Sigma1_def fips_ch_def Let_def)

lemma sha_f2_fips: "sha_f2 a b c = fips_Sigma0 a + fips_maj a b c"
  by (simp add: sha_f2_def fips_Sigma0_def majority Let_def)

lemma bit_small_word: "bit (w :: 'a::len word) n \<Longrightarrow> n < LENGTH('a)"
  by (rule bit_imp_le_length)

lemma swap_load: "sha_swap (load_word m t) = be_word m t"
proof (rule bit_word_eqI)
  fix n assume n: "n < LENGTH(32)"
  define b0 b1 b2 b3 where "b0 = m ! (4 * t)" and "b1 = m ! (4 * t + 1)"
    and "b2 = m ! (4 * t + 2)" and "b3 = m ! (4 * t + 3)"
  have masks: "\<forall>n \<in> set [0..<32]. (bit (0x0000FF00 :: u32) n \<longleftrightarrow> 8 \<le> n \<and> n < 16)
      \<and> (bit (0x00FF0000 :: u32) n \<longleftrightarrow> 16 \<le> n \<and> n < 24)" by code_simp
  have "n \<in> set [0..<32]" using n by simp
  note mask = bspec [OF masks this]
  consider "n < 8" | "8 \<le> n" "n < 16" | "16 \<le> n" "n < 24" | "24 \<le> n" "n < 32"
    using n by force
  then show "bit (sha_swap (load_word m t)) n = bit (be_word m t) n"
    unfolding sha_swap_def load_word_def be_word_def b0_def [symmetric] b1_def [symmetric]
      b2_def [symmetric] b3_def [symmetric] bit_or_iff bit_and_iff bit_push_bit_iff bit_drop_bit_eq
      conjunct1 [OF mask] conjunct2 [OF mask]
    by cases (auto simp: bit_simps dest: bit_small_word)
qed


lemma input_words_nth: "i < 16 \<Longrightarrow> input_words m ! i = be_word m i"
  by (simp add: input_words_def swap_load)

definition schedule :: "u8 list \<Rightarrow> nat \<Rightarrow> u32 list" where
  "schedule m n = map (fips_w m) [0..<n]"

lemma schedule_input: "input_words m = schedule m 16"
proof (rule nth_equalityI)
  show len: "length (input_words m) = length (schedule m 16)"
    by (simp add: input_words_def schedule_def)
  show "input_words m ! i = schedule m 16 ! i" if "i < length (input_words m)" for i
    using that by (simp add: len schedule_def input_words_nth fips_w.simps [of m i])
qed

lemma extend_word_schedule: "16 \<le> n \<Longrightarrow> extend_word (schedule m n) = schedule m (Suc n)"
  by (simp add: extend_word_def schedule_def Let_def fips_w.simps [of m n] fips_sigma0_def
      fips_sigma1_def add_ac)

lemma extend8_schedule: "16 \<le> n \<Longrightarrow> extend8 (schedule m n) = schedule m (n + 8)"
  by (simp add: extend8_def extend_word_schedule numeral_eq_Suc)

text \<open>Eight unrolled lines are eight rounds of the reference: the names rotate instead of the values.\<close>

definition round_at :: "u32 \<Rightarrow> u32 \<Rightarrow> sha_words \<Rightarrow> sha_words" where
  "round_at k w = (\<lambda>(a, b, c, d, e, f, g, h).
     let t1 = h + fips_Sigma1 e + fips_ch e f g + k + w;
         t2 = fips_Sigma0 a + fips_maj a b c
     in (t1 + t2, a, b, c, d + t1, e, f, g))"

lemma fips_round_at: "fips_round m t = round_at (fips_k t) (fips_w m t)"
  by (simp add: fips_round_def round_at_def)

lemma round_at_tuple:
  "round_at k w (a, b, c, d, e, f, g, h) =
     (h + sha_f1 e f g + k + w + sha_f2 a b c, a, b, c, d + (h + sha_f1 e f g + k + w), e, f, g)"
  by (simp add: round_at_def sha_f1_fips sha_f2_fips Let_def add.assoc)

lemma sha_round8_rounds:
  "sha_round8 k w r = round_at (k ! 7) (w ! 7) (round_at (k ! 6) (w ! 6) (round_at (k ! 5) (w ! 5)
     (round_at (k ! 4) (w ! 4) (round_at (k ! 3) (w ! 3) (round_at (k ! 2) (w ! 2)
     (round_at (k ! 1) (w ! 1) (round_at (k ! 0) (w ! 0) r)))))))"
proof -
  obtain a b c d e f g h where r: "r = (a, b, c, d, e, f, g, h)" by (metis surj_pair)
  define x0 where "x0 = h + sha_f1 e f g + k ! 0 + w ! 0"
  define d1 h1 where "d1 = d + x0" and "h1 = x0 + sha_f2 a b c"
  define x1 where "x1 = g + sha_f1 d1 e f + k ! 1 + w ! 1"
  define c1 g1 where "c1 = c + x1" and "g1 = x1 + sha_f2 h1 a b"
  define x2 where "x2 = f + sha_f1 c1 d1 e + k ! 2 + w ! 2"
  define b1 f1 where "b1 = b + x2" and "f1 = x2 + sha_f2 g1 h1 a"
  define x3 where "x3 = e + sha_f1 b1 c1 d1 + k ! 3 + w ! 3"
  define a1 e1 where "a1 = a + x3" and "e1 = x3 + sha_f2 f1 g1 h1"
  define x4 where "x4 = d1 + sha_f1 a1 b1 c1 + k ! 4 + w ! 4"
  define h2 d2 where "h2 = h1 + x4" and "d2 = x4 + sha_f2 e1 f1 g1"
  define x5 where "x5 = c1 + sha_f1 h2 a1 b1 + k ! 5 + w ! 5"
  define g2 c2 where "g2 = g1 + x5" and "c2 = x5 + sha_f2 d2 e1 f1"
  define x6 where "x6 = b1 + sha_f1 g2 h2 a1 + k ! 6 + w ! 6"
  define f2 b2 where "f2 = f1 + x6" and "b2 = x6 + sha_f2 c2 d2 e1"
  define x7 where "x7 = a1 + sha_f1 f2 g2 h2 + k ! 7 + w ! 7"
  define e2 a2 where "e2 = e1 + x7" and "a2 = x7 + sha_f2 b2 c2 d2"
  note folds = x0_def [symmetric] d1_def [symmetric] h1_def [symmetric] x1_def [symmetric]
    c1_def [symmetric] g1_def [symmetric] x2_def [symmetric] b1_def [symmetric] f1_def [symmetric]
    x3_def [symmetric] a1_def [symmetric] e1_def [symmetric] x4_def [symmetric] h2_def [symmetric]
    d2_def [symmetric] x5_def [symmetric] g2_def [symmetric] c2_def [symmetric] x6_def [symmetric]
    f2_def [symmetric] b2_def [symmetric] x7_def [symmetric] e2_def [symmetric] a2_def [symmetric]
  have lines: "sha_round8 k w r = (a2, b2, c2, d2, e2, f2, g2, h2)"
    unfolding sha_round8_def r prod.case by (simp only: Let_def folds cong: let_weak_cong)
  show ?thesis
    unfolding lines unfolding r by (simp only: round_at_tuple folds)
qed

lemma fips_k_group:
  assumes "j < 8" and "i < 8"
  shows "fips_k (8 * j + i) = round_constants ! j ! i"
proof -
  have "\<forall>j \<in> set [0..<8]. \<forall>i \<in> set [0..<8].
      concat round_constants ! (8 * j + i) = round_constants ! j ! i" by code_simp
  then show ?thesis using assms by (auto simp: fips_k_def)
qed

lemma round_group:
  assumes "j < 8" and "8 * j + 8 \<le> n"
  shows "sha_round8 (round_constants ! j) (drop (8 * j) (schedule m n)) r
    = fold (fips_round m) [8 * j..<8 * j + 8] r"
proof -
  have upt: "[8 * j..<8 * j + 8] = map (\<lambda>i. 8 * j + i) [0, 1, 2, 3, 4, 5, 6, 7]"
    by (simp add: upt_rec)
  have w: "drop (8 * j) (schedule m n) ! i = fips_w m (8 * j + i)" if "i < 8" for i
    using that assms by (simp add: schedule_def)
  show ?thesis
    unfolding upt by (simp add: sha_round8_rounds fips_round_at w fips_k_group [OF assms(1), symmetric])
qed

lemma block_words_fips: "block_words m r = fold (fips_round m) [0..<64] r"
proof -
  have upt: "[0..<64] = [0..<8] @ [8..<16] @ [16..<24] @ [24..<32] @ [32..<40] @ [40..<48]
      @ [48..<56] @ [56..<64::nat]"
    by code_simp
  have extend: "extend8 (schedule m 16) = schedule m 24" "extend8 (schedule m 24) = schedule m 32"
    "extend8 (schedule m 32) = schedule m 40" "extend8 (schedule m 40) = schedule m 48"
    "extend8 (schedule m 48) = schedule m 56" "extend8 (schedule m 56) = schedule m 64"
    by (simp_all add: extend8_schedule)
  have groups: "sha_round8 (round_constants ! 0) (take 8 (schedule m 16)) r' = fold (fips_round m) [0..<8] r'"
    "sha_round8 (round_constants ! 1) (drop 8 (schedule m 16)) r' = fold (fips_round m) [8..<16] r'"
    "sha_round8 (round_constants ! 2) (drop 16 (schedule m 24)) r' = fold (fips_round m) [16..<24] r'"
    "sha_round8 (round_constants ! 3) (drop 24 (schedule m 32)) r' = fold (fips_round m) [24..<32] r'"
    "sha_round8 (round_constants ! 4) (drop 32 (schedule m 40)) r' = fold (fips_round m) [32..<40] r'"
    "sha_round8 (round_constants ! 5) (drop 40 (schedule m 48)) r' = fold (fips_round m) [40..<48] r'"
    "sha_round8 (round_constants ! 6) (drop 48 (schedule m 56)) r' = fold (fips_round m) [48..<56] r'"
    "sha_round8 (round_constants ! 7) (drop 56 (schedule m 64)) r' = fold (fips_round m) [56..<64] r'"
    for r'
    using round_group [of 0 8 m r'] round_group [of 1 16 m r'] round_group [of 2 24 m r']
      round_group [of 3 32 m r'] round_group [of 4 40 m r'] round_group [of 5 48 m r']
      round_group [of 6 56 m r'] round_group [of 7 64 m r']
    by (simp_all add: schedule_def take_map)
  show ?thesis
    unfolding upt by (simp add: block_words_def Let_def schedule_input extend groups del: One_nat_def)
qed


lemma process_block_fips: "process_block bs s = s\<lparr>m_hash := fips_compress bs (m_hash s)\<rparr>"
  by (simp add: process_block_def fips_compress_def block_words_fips)

section \<open>Absorbing the message\<close>

definition whole :: "'a list \<Rightarrow> nat" where
  "whole m = 64 * (length m div 64)"

text \<open>The state of the object after the bytes \<open>m\<close>.\<close>

definition absorbed :: "sha \<Rightarrow> u8 list \<Rightarrow> bool" where
  "absorbed s m \<longleftrightarrow>
     m_num_bytes s = of_nat (whole m) \<and> m_buffer_size s = length m mod 64 \<and> length (m_buffer s) = 64
     \<and> take (m_buffer_size s) (m_buffer s) = drop (whole m) m
     \<and> m_hash s = fips_fold initial_hash m"

lemma fips_fold_append:
  "length m mod 64 = 0 \<Longrightarrow> fips_fold h (m @ n) = fips_fold (fips_fold h m) n"
proof (induction h m rule: fips_fold.induct)
  case (1 h m)
  show ?case
  proof (cases "length m < 64")
    case True
    with "1.prems" have "m = []" by simp
    then show ?thesis by (simp add: fips_fold.simps [of h "[]"])
  next
    case False
    with "1.prems" have "length (drop 64 m) mod 64 = 0" by (simp add: le_mod_geq)
    with False "1.IH" show ?thesis
      by (simp add: fips_fold.simps [of h "m @ n"] fips_fold.simps [of h m])
  qed
qed

lemma fips_fold_whole: "fips_fold h m = fips_fold h (take (whole m) m)"
proof -
  have "length (take (whole m) m) mod 64 = 0" by (simp add: whole_def min_absorb2)
  moreover have "length (drop (whole m) m) < 64" by (simp add: whole_def minus_mult_div_eq_mod)
  ultimately show ?thesis
    using fips_fold_append [of "take (whole m) m" h "drop (whole m) m"]
    by (simp add: fips_fold.simps [of _ "drop (whole m) m"])
qed

lemma fips_fold_block: "length b = 64 \<Longrightarrow> fips_fold h b = fips_compress b h"
  by (simp add: fips_fold.simps [of h b] fips_fold.simps [of _ "[]"])

lemma whole_aligned: "length m mod 64 = 0 \<Longrightarrow> whole m = length m"
  unfolding whole_def by (metis add.right_neutral mult_div_mod_eq)

lemma whole_append: "length m mod 64 = 0 \<Longrightarrow> whole (m @ n) = length m + whole n"
  by (auto simp: whole_def dvd_eq_mod_eq_0 [symmetric] elim!: dvdE)

text \<open>Blocks are consumed directly from the input while the buffer is empty.\<close>

definition aligned :: "sha \<Rightarrow> u8 list \<Rightarrow> bool" where
  "aligned s m \<longleftrightarrow> absorbed s m \<and> length m mod 64 = 0"

lemma aligned_iff:
  "aligned s m \<longleftrightarrow> length m mod 64 = 0 \<and> m_num_bytes s = of_nat (length m) \<and> m_buffer_size s = 0
     \<and> length (m_buffer s) = 64 \<and> m_hash s = fips_fold initial_hash m"
  by (auto simp: aligned_def absorbed_def whole_aligned)

lemma aligned_block:
  assumes "aligned s m" and "length b = 64"
  shows "aligned (count_block (process_block b s)) (m @ b)"
proof -
  have "fips_fold initial_hash (m @ b) = fips_compress b (fips_fold initial_hash m)"
    using assms by (simp add: aligned_iff fips_fold_append fips_fold_block)
  with assms show ?thesis
    by (auto simp: aligned_iff count_block_def process_block_fips block_size_def)
qed

lemma full_blocks_aligned:
  "aligned s m \<Longrightarrow> full_blocks s bs = (t, rest) \<Longrightarrow>
     \<exists>b. bs = b @ rest \<and> length rest < 64 \<and> aligned t (m @ b)"
proof (induction s bs arbitrary: m rule: full_blocks.induct)
  case (1 s bs)
  show ?case
  proof (cases "block_size \<le> length bs")
    case True
    have "aligned (count_block (process_block (take block_size bs) s)) (m @ take block_size bs)"
      using True "1.prems"(1) by (intro aligned_block) (auto simp: block_size_def)
    from "1.IH" [OF True this] True "1.prems"(2) obtain b
      where "drop block_size bs = b @ rest" "length rest < 64" "aligned t ((m @ take block_size bs) @ b)"
      by (auto simp: full_blocks.simps [of s bs])
    then show ?thesis
      by (intro exI [of _ "take block_size bs @ b"]) (simp, metis append_take_drop_id)
  next
    case False
    with "1.prems" show ?thesis by (auto simp: full_blocks.simps [of s bs] block_size_def)
  qed
qed

lemma store_bytes:
  "m_buffer_size s + length bs \<le> length (m_buffer s) \<Longrightarrow>
     fold store_byte bs s = s\<lparr>m_buffer := take (m_buffer_size s) (m_buffer s) @ bs
         @ drop (m_buffer_size s + length bs) (m_buffer s),
       m_buffer_size := m_buffer_size s + length bs\<rparr>"
proof (induction bs arbitrary: s)
  case (Cons b bs)
  have "take (Suc n) (xs[n := b]) = take n xs @ [b]" if "n < length xs" for n and xs :: "u8 list"
    using that by (simp add: take_Suc_conv_app_nth)
  with Cons.IH [of "store_byte b s"] Cons.prems show ?case by (simp add: store_byte_def)
qed simp

lemma small_add:
  assumes "n mod 64 + k < (64::nat)"
  shows "(n + k) div 64 = n div 64" and "(n + k) mod 64 = n mod 64 + k"
proof -
  have "k < 64" using assms by simp
  then show "(n + k) div 64 = n div 64" using assms by (simp add: div_add1_eq [of n k])
  have "(n + k) mod 64 = (n mod 64 + k) mod 64" by (simp add: mod_add_left_eq)
  then show "(n + k) mod 64 = n mod 64 + k" using assms by simp
qed

lemma absorbed_stores:
  assumes "absorbed s m" and "length m mod 64 + length bs < 64"
  shows "absorbed (fold store_byte bs s) (m @ bs)"
proof -
  have div: "(length m + length bs) div 64 = length m div 64"
    and mod: "(length m + length bs) mod 64 = length m mod 64 + length bs"
    using small_add [OF assms(2)] by simp_all
  have whole: "whole (m @ bs) = whole m" "whole m \<le> length m" by (simp_all add: whole_def div)
  then have "fips_fold initial_hash (m @ bs) = fips_fold initial_hash m"
    by (subst (1 2) fips_fold_whole) simp
  then show ?thesis
    using assms by (auto simp: absorbed_def store_bytes whole mod)
qed

lemma fill_buffer_bytes:
  "m_buffer_size s \<le> block_size \<Longrightarrow> fill_buffer s bs =
     (fold store_byte (take (block_size - m_buffer_size s) bs) s, drop (block_size - m_buffer_size s) bs)"
proof (induction s bs rule: fill_buffer.induct)
  case (2 s b bs)
  show ?case
  proof (cases "m_buffer_size s < block_size")
    case True
    then obtain k where k: "block_size - m_buffer_size s = Suc k" by (cases "block_size - m_buffer_size s") auto
    moreover have "block_size - Suc (m_buffer_size s) = k" using k by simp
    ultimately show ?thesis using 2 True by (simp add: store_byte_def)
  qed (use 2 in simp)
qed simp

text \<open>A buffer that has been filled up is processed as the block it completes.\<close>

lemma absorbed_fill:
  assumes "absorbed s m" and "length m mod 64 + length bs = 64"
  shows "aligned ((count_block (process_block (m_buffer (fold store_byte bs s)) (fold store_byte bs s)))
      \<lparr>m_buffer_size := 0\<rparr>) (m @ bs)"
proof -
  let ?block = "drop (whole m) m @ bs" and ?t = "s\<lparr>m_buffer := drop (whole m) m @ bs, m_buffer_size := 0\<rparr>"
  have le: "whole m \<le> length m" and "length (drop (whole m) m) = length m mod 64"
    by (simp_all add: whole_def minus_mult_div_eq_mod)
  then have len: "length ?block = 64" using assms(2) by simp
  have buffer: "fold store_byte bs s = s\<lparr>m_buffer := ?block, m_buffer_size := 64\<rparr>"
    using assms by (auto simp: absorbed_def store_bytes)
  have "aligned ?t (take (whole m) m)"
    using assms(1) len le fips_fold_whole [of initial_hash m]
    by (simp add: aligned_iff absorbed_def min_absorb2) (simp add: whole_def)
  then have "aligned (count_block (process_block ?block ?t)) (m @ bs)"
    using aligned_block [OF _ len, of ?t "take (whole m) m"]
    by (simp only: append_assoc [symmetric] append_take_drop_id)
  then show ?thesis by (simp add: buffer aligned_iff process_block_def count_block_def)
qed

lemma absorbed_add:
  assumes "absorbed s m"
  shows "absorbed (sha_add s bs) (m @ bs)"
proof -
  have tail: "absorbed (if bs = [] then t else let (t, bs) = full_blocks t bs in fold store_byte bs t) (n @ bs)"
    if t: "aligned t n" for t n bs
  proof (cases "bs = []")
    case True
    then show ?thesis using t by (simp add: aligned_def)
  next
    case False
    obtain u rest where u: "full_blocks t bs = (u, rest)" by fastforce
    from full_blocks_aligned [OF t u] obtain b
      where b: "bs = b @ rest" "length rest < 64" "aligned u (n @ b)" by blast
    have "absorbed (fold store_byte rest u) ((n @ b) @ rest)"
      using b by (intro absorbed_stores) (simp_all add: aligned_def)
    moreover have "n @ bs = (n @ b) @ rest" using b(1) by simp
    ultimately show ?thesis using False u by (simp only: if_False Let_def prod.case)
  qed
  let ?r = "m_buffer_size s"
  have r: "?r = length m mod 64" "?r < 64" using assms by (simp_all add: absorbed_def)
  show ?thesis
  proof (cases "?r = 0")
    case True
    then have "aligned s m" using assms r by (simp add: aligned_def)
    from tail [OF this] True show ?thesis by (simp add: sha_add_def block_size_def)
  next
    case False
    let ?t = "fold store_byte (take (64 - ?r) bs) s"
    have fill: "fill_buffer s bs = (?t, drop (64 - ?r) bs)"
      using r by (simp add: fill_buffer_bytes block_size_def)
    have size: "m_buffer_size ?t = ?r + length (take (64 - ?r) bs)"
      using assms r by (subst store_bytes) (auto simp: absorbed_def)
    show ?thesis
    proof (cases "length bs < 64 - ?r")
      case True
      then have "absorbed (fold store_byte bs s) (m @ bs)" using assms r by (intro absorbed_stores) auto
      moreover have "?r + length bs \<noteq> 64" using True by simp
      ultimately show ?thesis using True False fill size by (simp add: sha_add_def block_size_def)
    next
      case full: False
      then have len: "length (take (64 - ?r) bs) = 64 - ?r" by simp
      then have "aligned ((count_block (process_block (m_buffer ?t) ?t))\<lparr>m_buffer_size := 0\<rparr>)
          (m @ take (64 - ?r) bs)"
        using assms r by (intro absorbed_fill) auto
      note t = tail [OF this, of "drop (64 - ?r) bs"]
      have full_size: "m_buffer_size ?t = 64" using size len r by simp
      have "sha_add s bs =
          (let u = (count_block (process_block (m_buffer ?t) ?t))\<lparr>m_buffer_size := 0\<rparr>
           in if drop (64 - ?r) bs = [] then u
              else let (u, bs) = full_blocks u (drop (64 - ?r) bs) in fold store_byte bs u)"
        using False by (simp only: sha_add_def fill full_size block_size_def Let_def prod.case
            neq0_conv if_True simp_thms)
      with t show ?thesis by (simp only: Let_def append_assoc append_take_drop_id)
    qed
  qed
qed

lemma absorbed_reset: "length (m_buffer s) = 64 \<Longrightarrow> absorbed (sha_reset s) []"
  by (simp add: absorbed_def sha_reset_def whole_def fips_fold.simps)

section \<open>The digest\<close>

lemma write_zeros_upt:
  "a \<le> b \<Longrightarrow> b \<le> length bs \<Longrightarrow> write_zeros bs [a..<b] = take a bs @ replicate (b - a) 0 @ drop b bs"
proof (induction b)
  case (Suc b)
  show ?case
  proof (cases "a = Suc b")
    case False
    with Suc.prems have le: "a \<le> b" by simp
    with Suc have ih: "write_zeros bs [a..<b] = take a bs @ replicate (b - a) 0 @ drop b bs" by simp
    have "write_zeros bs [a..<Suc b] = (write_zeros bs [a..<b])[b := 0]"
      using le by (simp add: write_zeros_def)
    also have "drop b bs = bs ! b # drop (Suc b) bs" using Suc.prems by (simp add: Cons_nth_drop_Suc)
    ultimately show ?thesis using le Suc.prems
      by (simp add: ih list_update_append Suc_diff_le replicate_append_same)
  qed (simp add: write_zeros_def)
qed (simp add: write_zeros_def)

lemma write_bytes_at:
  "p + length xs \<le> length bs \<Longrightarrow> write_bytes bs p xs = take p bs @ xs @ drop (p + length xs) bs"
proof (induction xs arbitrary: bs p)
  case (Cons x xs)
  then have "take (Suc p) (bs[p := x]) = take p bs @ [x]" by (simp add: take_Suc_conv_app_nth)
  with Cons show ?case by simp
qed simp

lemma write_length:
  assumes "length t = n" and "n \<le> 55" and "length l = 8"
  shows "write_bytes (t @ [128] @ replicate (63 - n) 0) 56 l = t @ [128] @ replicate (55 - n) 0 @ l"
proof -
  have "56 - n = Suc (55 - n)" "64 - n = Suc (63 - n)" "min (55 - n) (63 - n) = 55 - n"
    using assms(2) by simp_all
  then show ?thesis using assms by (subst write_bytes_at) simp_all
qed

lemma length_length_bytes [simp]: "length (length_bytes n) = 8"
  by (simp add: length_bytes_def)

lemma padded_length_cases:
  assumes "n < 64"
  shows "padded_length n = (if n \<le> 55 then 56 else 120)"
proof -
  have "k AND 511 = k mod 512" for k :: nat
    using take_bit_eq_mask [of 9 k] by (simp add: take_bit_eq_mod mask_eq_exp_minus_1)
  then have low: "(n * 8 + 1) AND 511 = n * 8 + 1" using assms by simp
  show ?thesis unfolding padded_length_def low Let_def using assms by auto
qed

text \<open>What the padding adds to a partial block, as one or two blocks.\<close>

lemma fips_pad_split:
  fixes m :: "u8 list"
  defines "n \<equiv> length m mod 64" and "t \<equiv> drop (whole m) m" and "l \<equiv> length_bytes (of_nat (8 * length m))"
  shows "fips_fold h (fips_pad m) =
    (if n \<le> 55 then fips_compress (t @ [0x80] @ replicate (55 - n) 0 @ l) (fips_fold h m)
     else fips_compress (replicate 56 0 @ l)
            (fips_compress (t @ [0x80] @ replicate (63 - n) 0) (fips_fold h m)))"
proof -
  have t: "length t = n" and n: "n < 64"
    by (simp_all add: t_def n_def whole_def minus_mult_div_eq_mod)
  let ?head = "take (whole m) m"
  have aligned: "length ?head mod 64 = 0" by (simp add: whole_def min_absorb2)
  have pad: "fips_pad m = ?head @ t @ [0x80] @ replicate ((119 - n) mod 64) 0 @ l"
    unfolding fips_pad_def n_def l_def t_def by simp
  have head: "fips_fold h ?head = fips_fold h m" by (rule fips_fold_whole [symmetric])
  have l: "length l = 8" by (simp add: l_def)
  show ?thesis
  proof (cases "n \<le> 55")
    case True
    have k: "(119 - n) mod 64 = 55 - n"
    proof -
      have "119 - n = 55 - n + 64" using True by simp
      then have "(119 - n) mod 64 = (55 - n) mod 64" by (simp only: mod_add_self2)
      also have "\<dots> = 55 - n" by simp
      finally show ?thesis .
    qed
    have "fips_pad m = ?head @ (t @ [0x80] @ replicate (55 - n) 0 @ l)"
      by (simp only: pad k)
    then show ?thesis
      using True t l by (simp add: fips_fold_append [OF aligned] head fips_fold_block)
  next
    case False
    have k: "(119 - n) mod 64 = 119 - n" using False by simp
    have "replicate (119 - n) (0::u8) = replicate (63 - n) 0 @ replicate 56 0"
      using n by (simp add: replicate_add [symmetric])
    then have "fips_pad m = ?head @ ((t @ [0x80] @ replicate (63 - n) 0) @ (replicate 56 0 @ l))"
      by (simp only: pad k append_assoc)
    moreover have len: "length (t @ [0x80::u8] @ replicate (63 - n) 0) = 64" using t n by simp
    moreover have "length (replicate 56 0 @ l) = 64" using l by simp
    ultimately show ?thesis
      using False by (simp only: if_False fips_fold_append [OF aligned] head fips_fold_append len
          mod_self fips_fold_block)
  qed
qed

lemma process_buffer_fips:
  assumes "absorbed s m"
  shows "m_hash (process_buffer junk s) = fips_fold initial_hash (fips_pad m)"
    and "m_num_bytes (process_buffer junk s) = m_num_bytes s"
    and "m_buffer_size (process_buffer junk s) = m_buffer_size s"
    and "take (m_buffer_size s) (m_buffer (process_buffer junk s)) = take (m_buffer_size s) (m_buffer s)"
    and "length (m_buffer (process_buffer junk s)) = 64"
proof -
  let ?n = "length m mod 64" and ?t = "drop (whole m) m"
  let ?l = "length_bytes (of_nat (8 * length m))"
  have n: "m_buffer_size s = ?n" "?n < 64" and t: "take ?n (m_buffer s) = ?t"
    and len: "length (m_buffer s) = 64" and hash: "m_hash s = fips_fold initial_hash m"
    using assms by (auto simp: absorbed_def)
  have t_len: "length ?t = ?n" by (simp add: whole_def minus_mult_div_eq_mod)
  have "whole m + ?n = length m" by (simp add: whole_def)
  then have "(of_nat (length m) :: u64) = of_nat (whole m) + of_nat ?n" by (metis of_nat_add)
  moreover have "m_num_bytes s = of_nat (whole m)" using assms by (simp add: absorbed_def)
  ultimately have bits: "8 * (m_num_bytes s + of_nat ?n) = of_nat (8 * length m)"
    by (simp only: of_nat_mult of_nat_numeral)
  have buffer: "write_zeros ((m_buffer s)[?n := 128]) [Suc ?n..<64] = ?t @ [128] @ replicate (63 - ?n) 0"
    using n len t by (simp add: write_zeros_upt take_Suc_conv_app_nth del: upt_Suc)
  have extra_index: "map (\<lambda>i. i - 64) [64..<120] = [0..<56::nat]" by code_simp
  have extra: "write_zeros (map junk [0..<64]) [0..<56] = replicate 56 0 @ map junk [56..<64]"
    by (subst write_zeros_upt) (simp_all add: drop_map)
  have max: "max (Suc ?n) 64 = 64" using n by simp
  have "write_bytes (replicate 56 0 @ map junk [56..<64]) 56 ?l = replicate 56 0 @ ?l"
    by (subst write_bytes_at) simp_all
  moreover have "write_bytes (?t @ [128] @ replicate (63 - ?n) 0) 56 ?l
      = ?t @ [128] @ replicate (55 - ?n) 0 @ ?l" if "?n \<le> 55"
    using t_len that by (rule write_length) simp
  ultimately have result: "process_buffer junk s =
      (if ?n \<le> 55 then process_block (?t @ [128] @ replicate (55 - ?n) 0 @ ?l)
           (s\<lparr>m_buffer := ?t @ [128] @ replicate (55 - ?n) 0 @ ?l\<rparr>)
       else process_block (replicate 56 0 @ ?l) (process_block (?t @ [128] @ replicate (63 - ?n) 0)
           (s\<lparr>m_buffer := ?t @ [128] @ replicate (63 - ?n) 0\<rparr>)))"
    unfolding process_buffer_def n(1)
    using n(2) by (simp add: bits [simplified distrib_left of_nat_mult of_nat_numeral] Let_def block_size_def padded_length_cases buffer extra_index extra max)
  show "m_hash (process_buffer junk s) = fips_fold initial_hash (fips_pad m)"
    by (simp add: result fips_pad_split process_block_fips hash)
  show "m_num_bytes (process_buffer junk s) = m_num_bytes s"
    and "m_buffer_size (process_buffer junk s) = m_buffer_size s"
    and "take (m_buffer_size s) (m_buffer (process_buffer junk s)) = take (m_buffer_size s) (m_buffer s)"
    and "length (m_buffer (process_buffer junk s)) = 64"
    using t_len n t by (simp_all add: result process_block_fips)
qed

lemma get_hash_fips: "absorbed s m \<Longrightarrow> fst (get_hash junk s) = fips_sha256 m"
  by (simp add: get_hash_def raw_hash_def fips_sha256_def Let_def process_buffer_fips)

lemma get_hash_absorbed: "absorbed s m \<Longrightarrow> absorbed (snd (get_hash junk s)) m"
  using process_buffer_fips [of s m junk]
  by (auto simp: get_hash_def raw_hash_def Let_def absorbed_def)

section \<open>The interface of a streaming digest\<close>

locale digest_stream =
  fixes start :: 's
    and feed :: "'s \<Rightarrow> 'b list \<Rightarrow> 's"
    and finish :: "'s \<Rightarrow> 'd \<times> 's"
    and holds :: "'s \<Rightarrow> 'b list \<Rightarrow> bool"
    and spec :: "'b list \<Rightarrow> 'd"
  assumes holds_start: "holds start []"
    and holds_feed: "holds s m \<Longrightarrow> holds (feed s bs) (m @ bs)"
    and finish_spec: "holds s m \<Longrightarrow> fst (finish s) = spec m"
    and finish_holds: "holds s m \<Longrightarrow> holds (snd (finish s)) m"
begin

lemma holds_chunks: "holds s m \<Longrightarrow> holds (foldl feed s chunks) (m @ concat chunks)"
proof (induction chunks arbitrary: s m)
  case (Cons c cs)
  from Cons.IH [OF holds_feed [OF Cons.prems, of c]] show ?case by simp
qed simp

lemma digest_chunks: "fst (finish (foldl feed start chunks)) = spec (concat chunks)"
  using finish_spec [OF holds_chunks [OF holds_start]] by simp

text \<open>Reading an intermediate digest changes neither a later digest nor the bytes held.\<close>

lemma intermediate_digest:
  "fst (finish (foldl feed (snd (finish (foldl feed start cs))) ds)) = spec (concat cs @ concat ds)"
proof -
  have "holds (foldl feed start cs) (concat cs)" using holds_chunks [OF holds_start] by simp
  from finish_spec [OF holds_chunks [OF finish_holds [OF this]]] show ?thesis .
qed

end

interpretation sha: digest_stream "new_sha (replicate 64 x)" sha_add "get_hash junk" absorbed fips_sha256
  for x junk
  by unfold_locales
    (auto simp: new_sha_def intro: absorbed_reset absorbed_add get_hash_fips get_hash_absorbed)

lemma sha_apply_fips:
  "length (m_buffer s) = 64 \<Longrightarrow> fst (sha_apply junk s bs) = fips_sha256 bs"
  using absorbed_add [OF absorbed_reset, of s bs] get_hash_fips by (simp add: sha_apply_def)

section \<open>Properties\<close>

text \<open>C17: The eight unrolled blocks of \<open>processBlock\<close> with their interleaved word extension are the 64
  rounds of FIPS 180-4 over its message schedule.\<close>

theorem process_block_is_fips:
  "m_hash (process_block bs s) = fips_compress bs (m_hash s)"
  by (simp add: process_block_fips)

text \<open>C16: However the bytes are cut into calls of \<open>add\<close>, and although a digest is read on the way, the
  object reports the SHA-256 of all the bytes, independently of the uninitialised padding array.\<close>

theorem sha_streaming:
  "fst (get_hash junk (foldl sha_add (snd (get_hash junk' (foldl sha_add (new_sha (replicate 64 x)) cs))) ds))
     = fips_sha256 (concat cs @ concat ds)"
proof -
  have "absorbed (foldl sha_add (new_sha (replicate 64 x)) cs) (concat cs)"
    using sha.holds_chunks [OF sha.holds_start] by simp
  from sha.finish_spec [OF sha.holds_chunks [OF sha.finish_holds [OF this]]] show ?thesis .
qed

end
