(* ===== verification/IsomBrushes.thy ===== *)
theory IsomBrushes
  imports Prelude
begin

text \<open>
  The constant tables \<open>Sc::Isom::Brush\<close> of \<open>IsomTerrain/IsomApi.h\<close>: the terrain types of each
  tileset, the compressed map of the types a search for transition shapes starts at (rows that end
  in zero, the first entry being the type the row belongs to), and the default brushes.
\<close>

record terrain_type_info =
  tti_index :: u16
  tti_isom_value :: u16
  tti_brush_sort_order :: int
  tti_link_id :: u16
  tti_name :: string

definition brush_type :: "u16 \<Rightarrow> u16 \<Rightarrow> int \<Rightarrow> u16 \<Rightarrow> string \<Rightarrow> terrain_type_info" where
  "brush_type i v order link name =
     \<lparr>tti_index = i, tti_isom_value = v, tti_brush_sort_order = order, tti_link_id = link, tti_name = name\<rparr>"

text \<open>The members an initialiser leaves out: no sort order, no link id, no name.\<close>

definition plain_type :: "u16 \<Rightarrow> u16 \<Rightarrow> terrain_type_info" where
  "plain_type i v = brush_type i v (- 1) 0 []"

section \<open>Badlands\<close>

definition badlands_types :: "terrain_type_info list" where
  "badlands_types =
    [plain_type 0 10,
     plain_type 1 0,
     brush_type 2 1 0 1 ''Dirt'',
     brush_type 3 2 2 2 ''High Dirt'',
     brush_type 4 9 1 4 ''Mud'',
     brush_type 5 3 3 3 ''Water'',
     brush_type 6 4 4 5 ''Grass'',
     brush_type 7 7 5 6 ''High Grass'',
     plain_type 8 0,
     plain_type 9 0,
     plain_type 10 0,
     plain_type 11 0,
     plain_type 12 0,
     plain_type 13 0,
     brush_type 14 5 7 9 ''Asphalt'',
     brush_type 15 6 8 10 ''Rocky Ground'',
     plain_type 16 0,
     plain_type 17 0,
     brush_type 18 8 6 7 ''Structure'',
     plain_type 19 0,
     plain_type 20 41,
     plain_type 21 69,
     plain_type 22 111,
     plain_type 23 0,
     plain_type 24 0,
     plain_type 25 0,
     plain_type 26 0,
     plain_type 27 83,
     plain_type 28 55,
     plain_type 29 0,
     plain_type 30 0,
     plain_type 31 97,
     plain_type 32 0,
     plain_type 33 0,
     plain_type 34 13,
     plain_type 35 27]"

definition badlands_type_map :: "u16 list" where
  "badlands_type_map =
    [5, 35, 0,
     35, 5, 2, 20, 27, 28, 34, 22, 0,
     2, 34, 35, 20, 27, 28, 22, 0,
     34, 2, 3, 20, 21, 27, 28, 35, 22, 0,
     3, 34, 21, 0,
     6, 20, 0,
     20, 6, 2, 35, 34, 27, 28, 22, 0,
     14, 27, 31, 0,
     27, 14, 20, 2, 35, 34, 28, 22, 0,
     15, 28, 0,
     28, 15, 2, 34, 35, 20, 27, 22, 0,
     7, 21, 0,
     21, 7, 3, 34, 0,
     18, 31, 0,
     31, 18, 14, 0,
     4, 22, 0,
     22, 4, 2, 34, 35, 20, 27, 28, 0,
     0]"

definition badlands_default :: nat where
  "badlands_default = 2"

section \<open>Space\<close>

definition space_types :: "terrain_type_info list" where
  "space_types =
    [plain_type 0 3,
     plain_type 1 0,
     brush_type 2 1 0 1 ''Space'',
     brush_type 3 2 3 3 ''Platform'',
     brush_type 4 11 5 4 ''Plating'',
     brush_type 5 4 7 5 ''High Platform'',
     brush_type 6 12 8 6 ''High Plating'',
     brush_type 7 8 6 7 ''Solar Array'',
     brush_type 8 9 1 8 ''Low Platform'',
     brush_type 9 10 2 9 ''Rusty Pit'',
     brush_type 10 13 9 10 ''Elevated Catwalk'',
     brush_type 11 14 4 2 ''Dark Platform'',
     plain_type 12 0,
     plain_type 13 136,
     plain_type 14 94,
     plain_type 15 108,
     plain_type 16 52,
     plain_type 17 66,
     plain_type 18 80,
     plain_type 19 122,
     plain_type 20 24,
     plain_type 21 38]"

definition space_type_map :: "u16 list" where
  "space_type_map =
    [2, 20, 0,
     20, 2, 3, 16, 14, 21, 13, 0,
     3, 20, 21, 16, 17, 18, 14, 19, 13, 0,
     21, 3, 5, 14, 16, 15, 19, 20, 17, 13, 0,
     5, 21, 15, 0,
     7, 16, 0,
     16, 7, 3, 20, 21, 17, 18, 14, 19, 13, 0,
     8, 17, 0,
     17, 8, 3, 16, 14, 21, 13, 0,
     9, 18, 0,
     18, 9, 3, 16, 14, 13, 0,
     4, 14, 0,
     14, 4, 3, 20, 21, 16, 17, 18, 19, 13, 0,
     6, 15, 0,
     15, 6, 5, 21, 0,
     10, 19, 0,
     19, 10, 3, 16, 14, 21, 13, 0,
     11, 13, 0,
     13, 11, 3, 20, 21, 16, 17, 18, 14, 19, 0,
     0]"

definition space_default :: nat where
  "space_default = 3"

section \<open>Installation\<close>

definition installation_types :: "terrain_type_info list" where
  "installation_types =
    [plain_type 0 8,
     plain_type 1 0,
     brush_type 2 1 0 1 ''Substructure'',
     brush_type 3 2 1 2 ''Floor'',
     brush_type 4 4 3 4 ''Substructure Plating'',
     brush_type 5 5 4 5 ''Plating'',
     brush_type 6 3 2 3 ''Roof'',
     brush_type 7 7 6 7 ''Bottomless Pit'',
     brush_type 8 6 5 6 ''Substructure Panels'',
     plain_type 9 0,
     plain_type 10 50,
     plain_type 11 64,
     plain_type 12 22,
     plain_type 13 36,
     plain_type 14 78,
     plain_type 15 92]"

definition installation_type_map :: "u16 list" where
  "installation_type_map =
    [2, 12, 10, 14, 15, 0,
     12, 2, 3, 10, 11, 13, 14, 15, 0,
     3, 12, 13, 11, 0,
     13, 6, 3, 11, 12, 0,
     6, 13, 0,
     4, 10, 0,
     10, 4, 2, 12, 14, 15, 0,
     5, 11, 0,
     11, 5, 3, 12, 13, 0,
     8, 14, 0,
     14, 8, 2, 12, 10, 15, 0,
     7, 15, 0,
     15, 7, 2, 12, 10, 14, 0,
     0]"

definition installation_default :: nat where
  "installation_default = 3"

section \<open>Ashworld\<close>

definition ashworld_types :: "terrain_type_info list" where
  "ashworld_types =
    [plain_type 0 9,
     plain_type 1 0,
     brush_type 2 2 1 2 ''Dirt'',
     brush_type 3 3 2 3 ''Lava'',
     brush_type 4 5 5 5 ''High Dirt'',
     brush_type 5 6 6 6 ''High Lava'',
     brush_type 6 4 3 4 ''Shale'',
     brush_type 7 7 7 7 ''High Shale'',
     brush_type 8 1 0 1 ''Magma'',
     brush_type 9 8 4 8 ''Broken Rock'',
     plain_type 10 0,
     plain_type 11 55,
     plain_type 12 69,
     plain_type 13 83,
     plain_type 14 97,
     plain_type 15 111,
     plain_type 16 41,
     plain_type 17 27]"

definition ashworld_type_map :: "u16 list" where
  "ashworld_type_map =
    [8, 17, 0,
     17, 8, 2, 11, 13, 16, 15, 0,
     2, 17, 16, 11, 13, 15, 0,
     3, 11, 0,
     11, 3, 2, 17, 16, 13, 15, 0,
     6, 13, 0,
     13, 6, 2, 17, 16, 11, 15, 0,
     9, 15, 0,
     15, 9, 13, 2, 17, 16, 11, 0,
     16, 2, 4, 11, 13, 12, 14, 17, 15, 0,
     4, 16, 12, 14, 0,
     5, 12, 0,
     12, 5, 4, 16, 14, 0,
     7, 14, 0,
     14, 7, 4, 16, 12, 0,
     0]"

definition ashworld_default :: nat where
  "ashworld_default = 2"

section \<open>Jungle\<close>

definition jungle_types :: "terrain_type_info list" where
  "jungle_types =
    [plain_type 0 14,
     plain_type 1 0,
     brush_type 2 1 1 1 ''Dirt'',
     brush_type 3 2 8 2 ''High Dirt'',
     brush_type 4 13 2 4 ''Mud'',
     brush_type 5 3 0 3 ''Water'',
     plain_type 6 0,
     plain_type 7 0,
     brush_type 8 4 3 8 ''Jungle'',
     brush_type 9 5 6 11 ''Raised Jungle'',
     brush_type 10 9 9 14 ''High Jungle'',
     brush_type 11 7 5 12 ''Ruins'',
     brush_type 12 10 10 15 ''High Ruins'',
     brush_type 13 11 11 16 ''High Raised Jungle'',
     plain_type 14 0,
     brush_type 15 6 4 10 ''Rocky Ground'',
     brush_type 16 8 7 13 ''Temple'',
     brush_type 17 12 12 17 ''High Temple'',
     plain_type 18 0,
     plain_type 19 0,
     plain_type 20 0,
     plain_type 21 0,
     plain_type 22 171,
     plain_type 23 45,
     plain_type 24 115,
     plain_type 25 87,
     plain_type 26 129,
     plain_type 27 0,
     plain_type 28 59,
     plain_type 29 73,
     plain_type 30 143,
     plain_type 31 0,
     plain_type 32 101,
     plain_type 33 157,
     plain_type 34 17,
     plain_type 35 31]"

definition jungle_type_map :: "u16 list" where
  "jungle_type_map =
    [5, 35, 0,
     35, 5, 2, 23, 28, 34, 22, 0,
     2, 34, 35, 23, 28, 22, 0,
     34, 2, 3, 24, 23, 28, 35, 22, 0,
     3, 34, 24, 0,
     8, 23, 29, 25, 32, 0,
     4, 22, 0,
     22, 4, 2, 34, 35, 23, 28, 0,
     23, 8, 2, 35, 34, 28, 25, 29, 22, 0,
     15, 28, 0,
     28, 15, 2, 34, 35, 23, 22, 0,
     9, 29, 0,
     29, 9, 8, 25, 32, 23, 0,
     11, 25, 0,
     25, 11, 8, 23, 29, 32, 0,
     16, 32, 0,
     32, 16, 8, 25, 29, 0,
     10, 24, 26, 30, 33, 0,
     24, 10, 3, 34, 26, 30, 0,
     12, 26, 0,
     26, 12, 10, 24, 30, 33, 0,
     13, 30, 0,
     30, 13, 10, 26, 24, 33, 0,
     17, 33, 0,
     33, 17, 10, 26, 30, 0,
     0]"

definition jungle_default :: nat where
  "jungle_default = 8"

section \<open>Desert\<close>

definition desert_types :: "terrain_type_info list" where
  "desert_types =
    [plain_type 0 14,
     plain_type 1 0,
     brush_type 2 1 1 1 ''Dirt'',
     brush_type 3 2 8 2 ''High Dirt'',
     brush_type 4 13 2 4 ''Dried Mud'',
     brush_type 5 3 0 3 ''Tar'',
     plain_type 6 0,
     plain_type 7 0,
     brush_type 8 4 3 8 ''Sand Dunes'',
     brush_type 9 5 6 11 ''Sandy Sunken Pit'',
     brush_type 10 9 9 14 ''High Sand Dunes'',
     brush_type 11 7 5 12 ''Crags'',
     brush_type 12 10 10 15 ''High Crags'',
     brush_type 13 11 11 16 ''High Sandy Sunken Pit'',
     plain_type 14 0,
     brush_type 15 6 4 10 ''Rocky Ground'',
     brush_type 16 8 7 13 ''Compound'',
     brush_type 17 12 12 17 ''High Compound'',
     plain_type 18 0,
     plain_type 19 0,
     plain_type 20 0,
     plain_type 21 0,
     plain_type 22 171,
     plain_type 23 45,
     plain_type 24 115,
     plain_type 25 87,
     plain_type 26 129,
     plain_type 27 0,
     plain_type 28 59,
     plain_type 29 73,
     plain_type 30 143,
     plain_type 31 0,
     plain_type 32 101,
     plain_type 33 157,
     plain_type 34 17,
     plain_type 35 31]"

definition desert_type_map :: "u16 list" where
  "desert_type_map = jungle_type_map"

definition desert_default :: nat where
  "desert_default = 8"

section \<open>Arctic\<close>

definition arctic_types :: "terrain_type_info list" where
  "arctic_types =
    [plain_type 0 14,
     plain_type 1 0,
     brush_type 2 1 1 1 ''Snow'',
     brush_type 3 2 8 2 ''High Snow'',
     brush_type 4 13 2 4 ''Moguls'',
     brush_type 5 3 0 3 ''Ice'',
     plain_type 6 0,
     plain_type 7 0,
     brush_type 8 4 3 8 ''Dirt'',
     brush_type 9 5 6 11 ''Water'',
     brush_type 10 9 9 14 ''High Dirt'',
     brush_type 11 7 5 12 ''Grass'',
     brush_type 12 10 10 15 ''High Grass'',
     brush_type 13 11 11 16 ''High Water'',
     plain_type 14 0,
     brush_type 15 6 4 10 ''Rocky Snow'',
     brush_type 16 8 7 13 ''Outpost'',
     brush_type 17 12 12 17 ''High Outpost'',
     plain_type 18 0,
     plain_type 19 0,
     plain_type 20 0,
     plain_type 21 0,
     plain_type 22 171,
     plain_type 23 45,
     plain_type 24 115,
     plain_type 25 87,
     plain_type 26 129,
     plain_type 27 0,
     plain_type 28 59,
     plain_type 29 73,
     plain_type 30 143,
     plain_type 31 0,
     plain_type 32 101,
     plain_type 33 157,
     plain_type 34 17,
     plain_type 35 31]"

definition arctic_type_map :: "u16 list" where
  "arctic_type_map = jungle_type_map"

definition arctic_default :: nat where
  "arctic_default = 2"

section \<open>Twilight\<close>

definition twilight_types :: "terrain_type_info list" where
  "twilight_types =
    [plain_type 0 14,
     plain_type 1 0,
     brush_type 2 1 1 1 ''Dirt'',
     brush_type 3 2 8 2 ''High Dirt'',
     brush_type 4 13 2 4 ''Mud'',
     brush_type 5 3 0 3 ''Water'',
     plain_type 6 0,
     plain_type 7 0,
     brush_type 8 4 3 8 ''Crushed Rock'',
     brush_type 9 5 6 11 ''Sunken Ground'',
     brush_type 10 9 9 14 ''High Crushed Rock'',
     brush_type 11 7 5 12 ''Flagstones'',
     brush_type 12 10 10 15 ''High Flagstones'',
     brush_type 13 11 11 16 ''High Sunken Ground'',
     plain_type 14 0,
     brush_type 15 6 4 10 ''Crevices'',
     brush_type 16 8 7 13 ''Basilica'',
     brush_type 17 12 12 17 ''High Basilica'',
     plain_type 18 0,
     plain_type 19 0,
     plain_type 20 0,
     plain_type 21 0,
     plain_type 22 171,
     plain_type 23 45,
     plain_type 24 115,
     plain_type 25 87,
     plain_type 26 129,
     plain_type 27 0,
     plain_type 28 59,
     plain_type 29 73,
     plain_type 30 143,
     plain_type 31 0,
     plain_type 32 101,
     plain_type 33 157,
     plain_type 34 17,
     plain_type 35 31]"

definition twilight_type_map :: "u16 list" where
  "twilight_type_map = jungle_type_map"

definition twilight_default :: nat where
  "twilight_default = 2"

section \<open>Per tileset\<close>

definition tileset_terrain_types :: "terrain_type_info list list" where
  "tileset_terrain_types = [badlands_types, space_types, installation_types, ashworld_types,
     jungle_types, desert_types, arctic_types, twilight_types]"

definition compressed_terrain_type_maps :: "u16 list list" where
  "compressed_terrain_type_maps = [badlands_type_map, space_type_map, installation_type_map,
     ashworld_type_map, jungle_type_map, desert_type_map, arctic_type_map, twilight_type_map]"

definition default_brush_index :: "nat list" where
  "default_brush_index = [badlands_default, space_default, installation_default, ashworld_default,
     jungle_default, desert_default, arctic_default, twilight_default]"

end
