(* ===== verification/IsomData.thy ===== *)
theory IsomData
  imports IsomBrushes
begin

text \<open>
  The data of \<open>Sc::Isom\<close> in \<open>IsomTerrain/IsomApi.h\<close>: links and link ids, CV5 tile groups, the four
  quadrants a diamond projects to, the links of a shape (\<open>ShapeLinks\<close>, one row of the ISOM link table)
  and the fourteen shape patterns that tile groups are matched against.
\<close>

section \<open>Links\<close>

type_synonym link = u16

definition soft_links :: link where "soft_links = 48"
definition link_BL :: link where "link_BL = 49"
definition link_TR :: link where "link_TR = 50"
definition link_BR :: link where "link_BR = 51"
definition link_TL :: link where "link_TL = 52"
definition link_FR :: link where "link_FR = 53"
definition link_FL :: link where "link_FL = 54"
definition link_LH :: link where "link_LH = 55"
definition link_RH :: link where "link_RH = 56"

lemmas link_defs = soft_links_def link_BL_def link_TR_def link_BR_def link_TL_def link_FR_def
  link_FL_def link_LH_def link_RH_def

definition link_id_TRBL_NW :: u16 where "link_id_TRBL_NW = 255"
definition link_id_TRBL_SE :: u16 where "link_id_TRBL_SE = 256"
definition link_id_TLBR_NE :: u16 where "link_id_TLBR_NE = 257"
definition link_id_TLBR_SW :: u16 where "link_id_TLBR_SW = 258"

definition only_match_same_type :: u16 where
  "only_match_same_type = link_id_TRBL_NW"

lemmas link_id_defs = link_id_TRBL_NW_def link_id_TRBL_SE_def link_id_TLBR_NE_def
  link_id_TLBR_SW_def only_match_same_type_def

record directional_links =
  dl_left :: link
  dl_top :: link
  dl_right :: link
  dl_bottom :: link

definition has_no_hard_links :: "directional_links \<Rightarrow> bool" where
  "has_no_hard_links l \<longleftrightarrow> dl_left l \<le> soft_links \<and> dl_top l \<le> soft_links
     \<and> dl_right l \<le> soft_links \<and> dl_bottom l \<le> soft_links"

definition is_all_hard_links :: "directional_links \<Rightarrow> bool" where
  "is_all_hard_links l \<longleftrightarrow> soft_links < dl_left l \<and> soft_links < dl_top l
     \<and> soft_links < dl_right l \<and> soft_links < dl_bottom l"

definition is_shape_quadrant :: "directional_links \<Rightarrow> bool" where
  "is_shape_quadrant l \<longleftrightarrow> \<not> is_all_hard_links l \<and> \<not> has_no_hard_links l"

text \<open>\<open>Rect\<close> of the CV5 file: four 16-bit words.\<close>

record rect16 =
  rc_left :: u16
  rc_top :: u16
  rc_right :: u16
  rc_bottom :: u16

record tile_group =
  tg_terrain_type :: u16
  tg_buildability :: u8
  tg_ground_height :: u8
  tg_links :: directional_links
  tg_stack :: rect16
  tg_mega_tile_index :: "u16 list"

section \<open>Sides, quadrants and edge flags\<close>

datatype side = LeftSide | TopSide | RightSide | BottomSide

definition sides :: "side list" where
  "sides = [LeftSide, TopSide, RightSide, BottomSide]"

datatype quadrant = TopLeft | TopRight | BottomRight | BottomLeft

definition quadrants :: "quadrant list" where
  "quadrants = [TopLeft, TopRight, BottomRight, BottomLeft]"

fun opposite_quadrant :: "quadrant \<Rightarrow> quadrant" where
  "opposite_quadrant TopLeft = BottomRight"
| "opposite_quadrant TopRight = BottomLeft"
| "opposite_quadrant BottomRight = TopLeft"
| "opposite_quadrant BottomLeft = TopRight"

definition edge_flags_mask :: u16 where
  "edge_flags_mask = 0xE"

record projected_quadrant =
  first_side :: side
  second_side :: side
  first_edge_flags :: u16
  second_edge_flags :: u16

fun projected :: "quadrant \<Rightarrow> projected_quadrant" where
  "projected TopLeft = \<lparr>first_side = RightSide, second_side = BottomSide,
     first_edge_flags = 0x0, second_edge_flags = 0x2\<rparr>"
| "projected TopRight = \<lparr>first_side = LeftSide, second_side = BottomSide,
     first_edge_flags = 0x4, second_edge_flags = 0x6\<rparr>"
| "projected BottomRight = \<lparr>first_side = LeftSide, second_side = TopSide,
     first_edge_flags = 0x8, second_edge_flags = 0xA\<rparr>"
| "projected BottomLeft = \<lparr>first_side = TopSide, second_side = RightSide,
     first_edge_flags = 0xC, second_edge_flags = 0xE\<rparr>"

section \<open>Rows of the ISOM link table\<close>

record top_left_quadrant =
  tl_right :: link
  tl_bottom :: link
  tl_link_id :: u16

record top_right_quadrant =
  tr_left :: link
  tr_bottom :: link
  tr_link_id :: u16

record bottom_right_quadrant =
  br_left :: link
  br_top :: link
  br_link_id :: u16

record bottom_left_quadrant =
  bl_top :: link
  bl_right :: link
  bl_link_id :: u16

record shape_links =
  sl_terrain_type :: u8
  sl_top_left :: top_left_quadrant
  sl_top_right :: top_right_quadrant
  sl_bottom_right :: bottom_right_quadrant
  sl_bottom_left :: bottom_left_quadrant

definition shape_links_of :: "u8 \<Rightarrow> shape_links" where
  "shape_links_of t = \<lparr>sl_terrain_type = t,
     sl_top_left = \<lparr>tl_right = 0, tl_bottom = 0, tl_link_id = 0\<rparr>,
     sl_top_right = \<lparr>tr_left = 0, tr_bottom = 0, tr_link_id = 0\<rparr>,
     sl_bottom_right = \<lparr>br_left = 0, br_top = 0, br_link_id = 0\<rparr>,
     sl_bottom_left = \<lparr>bl_top = 0, bl_right = 0, bl_link_id = 0\<rparr>\<rparr>"

fun get_link_id :: "shape_links \<Rightarrow> quadrant \<Rightarrow> u16" where
  "get_link_id s TopLeft = tl_link_id (sl_top_left s)"
| "get_link_id s TopRight = tr_link_id (sl_top_right s)"
| "get_link_id s BottomRight = br_link_id (sl_bottom_right s)"
| "get_link_id s BottomLeft = bl_link_id (sl_bottom_left s)"

definition get_edge_link :: "shape_links \<Rightarrow> u16 \<Rightarrow> link" where
  "get_edge_link s isom_value =
     (let flags = isom_value AND edge_flags_mask
      in if flags = 0x0 then tl_right (sl_top_left s)
         else if flags = 0x2 then tl_bottom (sl_top_left s)
         else if flags = 0x4 then tr_left (sl_top_right s)
         else if flags = 0x6 then tr_bottom (sl_top_right s)
         else if flags = 0x8 then br_left (sl_bottom_right s)
         else if flags = 0xA then br_top (sl_bottom_right s)
         else if flags = 0xC then bl_top (sl_bottom_left s)
         else bl_right (sl_bottom_left s))"

section \<open>Shapes\<close>

record shape_quadrant =
  sq_left :: link
  sq_top :: link
  sq_right :: link
  sq_bottom :: link
  sq_link_id :: u16
  sq_is_stack_top :: bool

definition no_quadrant :: shape_quadrant where
  "no_quadrant = \<lparr>sq_left = 0, sq_top = 0, sq_right = 0, sq_bottom = 0, sq_link_id = 0,
     sq_is_stack_top = False\<rparr>"

definition link_matches :: "link \<Rightarrow> link \<Rightarrow> bool" where
  "link_matches a b \<longleftrightarrow> a = b \<or> (a \<le> soft_links \<and> b \<le> soft_links)"

definition quadrant_matches :: "shape_quadrant \<Rightarrow> directional_links \<Rightarrow> bool \<Rightarrow> bool" where
  "quadrant_matches q l no_stack_above \<longleftrightarrow>
     link_matches (dl_left l) (sq_left q) \<and> link_matches (dl_top l) (sq_top q)
     \<and> link_matches (dl_right l) (sq_right q) \<and> link_matches (dl_bottom l) (sq_bottom q)
     \<and> (no_stack_above \<or> \<not> sq_is_stack_top q)"

record shape =
  sh_top_left :: shape_quadrant
  sh_top_right :: shape_quadrant
  sh_bottom_right :: shape_quadrant
  sh_bottom_left :: shape_quadrant

fun shape_matches :: "shape \<Rightarrow> quadrant \<Rightarrow> directional_links \<Rightarrow> bool \<Rightarrow> bool" where
  "shape_matches s TopLeft = quadrant_matches (sh_top_left s)"
| "shape_matches s TopRight = quadrant_matches (sh_top_right s)"
| "shape_matches s BottomRight = quadrant_matches (sh_bottom_right s)"
| "shape_matches s BottomLeft = quadrant_matches (sh_bottom_left s)"

definition no_shape :: shape where
  "no_shape = \<lparr>sh_top_left = no_quadrant, sh_top_right = no_quadrant,
     sh_bottom_right = no_quadrant, sh_bottom_left = no_quadrant\<rparr>"

definition shape_edge_north_west :: shape where
  "shape_edge_north_west = no_shape\<lparr>
     sh_top_right := no_quadrant\<lparr>sq_right := link_BR, sq_bottom := link_BR, sq_link_id := link_id_TRBL_NW, sq_is_stack_top := True\<rparr>,
     sh_bottom_right := no_quadrant\<lparr>sq_left := link_BR, sq_top := link_BR\<rparr>,
     sh_bottom_left := no_quadrant\<lparr>sq_right := link_BR, sq_bottom := link_FR, sq_link_id := link_id_TRBL_NW, sq_is_stack_top := True\<rparr>\<rparr>"

definition shape_edge_north_east :: shape where
  "shape_edge_north_east = no_shape\<lparr>
     sh_top_left := no_quadrant\<lparr>sq_left := link_BL, sq_bottom := link_BL, sq_link_id := link_id_TLBR_NE, sq_is_stack_top := True\<rparr>,
     sh_bottom_right := no_quadrant\<lparr>sq_left := link_BL, sq_bottom := link_FL, sq_link_id := link_id_TLBR_NE, sq_is_stack_top := True\<rparr>,
     sh_bottom_left := no_quadrant\<lparr>sq_top := link_BL, sq_right := link_BL\<rparr>\<rparr>"

definition shape_edge_south_east :: shape where
  "shape_edge_south_east = no_shape\<lparr>
     sh_top_left := no_quadrant\<lparr>sq_right := link_TL, sq_bottom := link_TL\<rparr>,
     sh_top_right := no_quadrant\<lparr>sq_left := link_TL, sq_top := link_FL, sq_link_id := link_id_TRBL_SE\<rparr>,
     sh_bottom_left := no_quadrant\<lparr>sq_left := link_TL, sq_top := link_TL, sq_link_id := link_id_TRBL_SE\<rparr>\<rparr>"

definition shape_edge_south_west :: shape where
  "shape_edge_south_west = no_shape\<lparr>
     sh_top_left := no_quadrant\<lparr>sq_top := link_FR, sq_right := link_TR, sq_link_id := link_id_TLBR_SW\<rparr>,
     sh_top_right := no_quadrant\<lparr>sq_left := link_TR, sq_bottom := link_TR\<rparr>,
     sh_bottom_right := no_quadrant\<lparr>sq_top := link_TR, sq_right := link_TR, sq_link_id := link_id_TLBR_SW\<rparr>\<rparr>"

definition shape_jut_out_north :: shape where
  "shape_jut_out_north = no_shape\<lparr>
     sh_bottom_right := no_quadrant\<lparr>sq_left := link_BL, sq_bottom := link_BL, sq_link_id := link_id_TLBR_NE, sq_is_stack_top := True\<rparr>,
     sh_bottom_left := no_quadrant\<lparr>sq_right := link_BR, sq_bottom := link_BR, sq_link_id := link_id_TRBL_NW, sq_is_stack_top := True\<rparr>\<rparr>"

definition shape_jut_out_east :: shape where
  "shape_jut_out_east = no_shape\<lparr>
     sh_top_left := no_quadrant\<lparr>sq_left := link_BL, sq_bottom := link_FL, sq_link_id := link_id_TLBR_NE, sq_is_stack_top := True\<rparr>,
     sh_bottom_left := no_quadrant\<lparr>sq_left := link_TL, sq_top := link_FL, sq_link_id := link_id_TRBL_SE\<rparr>\<rparr>"

definition shape_jut_out_south :: shape where
  "shape_jut_out_south = no_shape\<lparr>
     sh_top_left := no_quadrant\<lparr>sq_top := link_TR, sq_right := link_TR, sq_link_id := link_id_TLBR_SW\<rparr>,
     sh_top_right := no_quadrant\<lparr>sq_left := link_TL, sq_top := link_TL, sq_link_id := link_id_TRBL_SE\<rparr>\<rparr>"

definition shape_jut_out_west :: shape where
  "shape_jut_out_west = no_shape\<lparr>
     sh_top_right := no_quadrant\<lparr>sq_right := link_BR, sq_bottom := link_FR, sq_link_id := link_id_TRBL_NW, sq_is_stack_top := True\<rparr>,
     sh_bottom_right := no_quadrant\<lparr>sq_top := link_FR, sq_right := link_TR, sq_link_id := link_id_TLBR_SW\<rparr>\<rparr>"

definition shape_jut_in_east :: shape where
  "shape_jut_in_east = no_shape\<lparr>
     sh_top_left := no_quadrant\<lparr>sq_top := link_FR, sq_right := link_TR, sq_link_id := link_id_TLBR_SW\<rparr>,
     sh_top_right := no_quadrant\<lparr>sq_left := link_RH, sq_bottom := link_RH\<rparr>,
     sh_bottom_right := no_quadrant\<lparr>sq_left := link_RH, sq_top := link_RH\<rparr>,
     sh_bottom_left := no_quadrant\<lparr>sq_right := link_BR, sq_bottom := link_FR, sq_link_id := link_id_TRBL_NW\<rparr>\<rparr>"

definition shape_jut_in_west :: shape where
  "shape_jut_in_west = no_shape\<lparr>
     sh_top_left := no_quadrant\<lparr>sq_right := link_LH, sq_bottom := link_LH\<rparr>,
     sh_top_right := no_quadrant\<lparr>sq_left := link_TL, sq_top := link_FL, sq_link_id := link_id_TRBL_SE\<rparr>,
     sh_bottom_right := no_quadrant\<lparr>sq_left := link_BL, sq_bottom := link_FL, sq_link_id := link_id_TLBR_NE\<rparr>,
     sh_bottom_left := no_quadrant\<lparr>sq_top := link_LH, sq_right := link_LH\<rparr>\<rparr>"

definition shape_jut_in_north :: shape where
  "shape_jut_in_north = no_shape\<lparr>
     sh_top_left := no_quadrant\<lparr>sq_left := link_BL, sq_bottom := link_BL, sq_link_id := link_id_TLBR_NE, sq_is_stack_top := True\<rparr>,
     sh_top_right := no_quadrant\<lparr>sq_right := link_BR, sq_bottom := link_BR, sq_link_id := link_id_TRBL_NW, sq_is_stack_top := True\<rparr>,
     sh_bottom_right := no_quadrant\<lparr>sq_left := link_BR, sq_top := link_BR\<rparr>,
     sh_bottom_left := no_quadrant\<lparr>sq_top := link_BL, sq_right := link_BL\<rparr>\<rparr>"

definition shape_jut_in_south :: shape where
  "shape_jut_in_south = no_shape\<lparr>
     sh_top_left := no_quadrant\<lparr>sq_right := link_TL, sq_bottom := link_TL\<rparr>,
     sh_top_right := no_quadrant\<lparr>sq_left := link_TR, sq_bottom := link_TR\<rparr>,
     sh_bottom_right := no_quadrant\<lparr>sq_top := link_TR, sq_right := link_TR, sq_link_id := link_id_TLBR_SW\<rparr>,
     sh_bottom_left := no_quadrant\<lparr>sq_left := link_TL, sq_top := link_TL, sq_link_id := link_id_TRBL_SE\<rparr>\<rparr>"

definition shape_horizontal :: shape where
  "shape_horizontal = no_shape\<lparr>
     sh_top_left := no_quadrant\<lparr>sq_top := link_TR, sq_right := link_TR, sq_link_id := link_id_TLBR_SW\<rparr>,
     sh_top_right := no_quadrant\<lparr>sq_left := link_TL, sq_top := link_TL, sq_link_id := link_id_TRBL_SE\<rparr>,
     sh_bottom_right := no_quadrant\<lparr>sq_left := link_BL, sq_bottom := link_BL, sq_link_id := link_id_TLBR_NE\<rparr>,
     sh_bottom_left := no_quadrant\<lparr>sq_right := link_BR, sq_bottom := link_BR, sq_link_id := link_id_TRBL_NW\<rparr>\<rparr>"

definition shape_vertical :: shape where
  "shape_vertical = no_shape\<lparr>
     sh_top_left := no_quadrant\<lparr>sq_left := link_BL, sq_bottom := link_FL, sq_link_id := link_id_TLBR_NE\<rparr>,
     sh_top_right := no_quadrant\<lparr>sq_right := link_BR, sq_bottom := link_FR, sq_link_id := link_id_TRBL_NW\<rparr>,
     sh_bottom_right := no_quadrant\<lparr>sq_top := link_FR, sq_right := link_TR, sq_link_id := link_id_TLBR_SW\<rparr>,
     sh_bottom_left := no_quadrant\<lparr>sq_left := link_TL, sq_top := link_FL, sq_link_id := link_id_TRBL_SE\<rparr>\<rparr>"

definition shapes :: "shape list" where
  "shapes = [shape_edge_north_west, shape_edge_north_east, shape_edge_south_east, shape_edge_south_west,
     shape_jut_out_north, shape_jut_out_east, shape_jut_out_south, shape_jut_out_west,
     shape_jut_in_east, shape_jut_in_west, shape_jut_in_north, shape_jut_in_south,
     shape_horizontal, shape_vertical]"

lemmas shape_defs = shape_edge_north_west_def shape_edge_north_east_def shape_edge_south_east_def
  shape_edge_south_west_def shape_jut_out_north_def shape_jut_out_east_def shape_jut_out_south_def
  shape_jut_out_west_def shape_jut_in_east_def shape_jut_in_west_def shape_jut_in_north_def
  shape_jut_in_south_def shape_horizontal_def shape_vertical_def no_shape_def no_quadrant_def

lemma length_shapes [simp]: "length shapes = 14"
  by (simp add: shapes_def)

text \<open>Two quadrants that overlap carry the same kind of link id on both sides: the link ids reserved
  for one terrain type sit on opposite corners of the shapes that meet there.\<close>

lemma opposite_quadrant_involution [simp]: "opposite_quadrant (opposite_quadrant q) = q"
  by (cases q) simp_all

lemma set_quadrants [simp]: "set quadrants = UNIV"
proof -
  have "q \<in> set quadrants" for q by (cases q) (simp_all add: quadrants_def)
  then show ?thesis by auto
qed

lemma projected_sides_distinct: "first_side (projected q) \<noteq> second_side (projected q)"
  by (cases q) simp_all

text \<open>A quadrant and the opposite one write the two complementary pairs of sides of a rectangle.\<close>

lemma projected_opposite_sides:
  "{first_side (projected q), second_side (projected q)}
     \<inter> {first_side (projected (opposite_quadrant q)), second_side (projected (opposite_quadrant q))} = {}"
  by (cases q) simp_all

end
