(* ===== verification/IsomTables.thy ===== *)
theory IsomTables
  imports IsomData
begin

text \<open>
  Building the tables of a tileset: \<open>TerrainTypeShapes\<close> (the fourteen consecutive rows of the link
  table that belong to one terrain type) and \<open>Terrain_::Tiles\<close> with \<open>populateTerrainTypeMap\<close>,
  \<open>generateIsomLinks\<close> and \<open>loadIsom\<close> of \<open>IsomTerrain/IsomApi.h\<close>.
\<close>

section \<open>The fourteen shapes of a terrain type\<close>

text \<open>\<open>Shape::Id\<close>: the row of each shape. The struct is the list of its fourteen members.\<close>

definition edge_north_west :: nat where "edge_north_west = 0"
definition edge_north_east :: nat where "edge_north_east = 1"
definition edge_south_east :: nat where "edge_south_east = 2"
definition edge_south_west :: nat where "edge_south_west = 3"
definition jut_out_north :: nat where "jut_out_north = 4"
definition jut_out_east :: nat where "jut_out_east = 5"
definition jut_out_south :: nat where "jut_out_south = 6"
definition jut_out_west :: nat where "jut_out_west = 7"
definition jut_in_east :: nat where "jut_in_east = 8"
definition jut_in_west :: nat where "jut_in_west = 9"
definition jut_in_north :: nat where "jut_in_north = 10"
definition jut_in_south :: nat where "jut_in_south = 11"
definition horizontal :: nat where "horizontal = 12"
definition vertical :: nat where "vertical = 13"

lemmas shape_ids = edge_north_west_def edge_north_east_def edge_south_east_def edge_south_west_def jut_out_north_def jut_out_east_def jut_out_south_def jut_out_west_def jut_in_east_def jut_in_west_def jut_in_north_def jut_in_south_def horizontal_def vertical_def

text \<open>Reading and assigning the members of a row.\<close>

definition get_tl_right :: "nat \<Rightarrow> shape_links list \<Rightarrow> u16" where
  "get_tl_right i s = tl_right (sl_top_left (s ! i))"

definition set_tl_right :: "nat \<Rightarrow> u16 \<Rightarrow> shape_links list \<Rightarrow> shape_links list" where
  "set_tl_right i v s = s[i := (s ! i)\<lparr>sl_top_left := (sl_top_left (s ! i))\<lparr>tl_right := v\<rparr>\<rparr>]"

definition get_tl_bottom :: "nat \<Rightarrow> shape_links list \<Rightarrow> u16" where
  "get_tl_bottom i s = tl_bottom (sl_top_left (s ! i))"

definition set_tl_bottom :: "nat \<Rightarrow> u16 \<Rightarrow> shape_links list \<Rightarrow> shape_links list" where
  "set_tl_bottom i v s = s[i := (s ! i)\<lparr>sl_top_left := (sl_top_left (s ! i))\<lparr>tl_bottom := v\<rparr>\<rparr>]"

definition get_tl_link_id :: "nat \<Rightarrow> shape_links list \<Rightarrow> u16" where
  "get_tl_link_id i s = tl_link_id (sl_top_left (s ! i))"

definition set_tl_link_id :: "nat \<Rightarrow> u16 \<Rightarrow> shape_links list \<Rightarrow> shape_links list" where
  "set_tl_link_id i v s = s[i := (s ! i)\<lparr>sl_top_left := (sl_top_left (s ! i))\<lparr>tl_link_id := v\<rparr>\<rparr>]"

definition get_tr_left :: "nat \<Rightarrow> shape_links list \<Rightarrow> u16" where
  "get_tr_left i s = tr_left (sl_top_right (s ! i))"

definition set_tr_left :: "nat \<Rightarrow> u16 \<Rightarrow> shape_links list \<Rightarrow> shape_links list" where
  "set_tr_left i v s = s[i := (s ! i)\<lparr>sl_top_right := (sl_top_right (s ! i))\<lparr>tr_left := v\<rparr>\<rparr>]"

definition get_tr_bottom :: "nat \<Rightarrow> shape_links list \<Rightarrow> u16" where
  "get_tr_bottom i s = tr_bottom (sl_top_right (s ! i))"

definition set_tr_bottom :: "nat \<Rightarrow> u16 \<Rightarrow> shape_links list \<Rightarrow> shape_links list" where
  "set_tr_bottom i v s = s[i := (s ! i)\<lparr>sl_top_right := (sl_top_right (s ! i))\<lparr>tr_bottom := v\<rparr>\<rparr>]"

definition get_tr_link_id :: "nat \<Rightarrow> shape_links list \<Rightarrow> u16" where
  "get_tr_link_id i s = tr_link_id (sl_top_right (s ! i))"

definition set_tr_link_id :: "nat \<Rightarrow> u16 \<Rightarrow> shape_links list \<Rightarrow> shape_links list" where
  "set_tr_link_id i v s = s[i := (s ! i)\<lparr>sl_top_right := (sl_top_right (s ! i))\<lparr>tr_link_id := v\<rparr>\<rparr>]"

definition get_br_left :: "nat \<Rightarrow> shape_links list \<Rightarrow> u16" where
  "get_br_left i s = br_left (sl_bottom_right (s ! i))"

definition set_br_left :: "nat \<Rightarrow> u16 \<Rightarrow> shape_links list \<Rightarrow> shape_links list" where
  "set_br_left i v s = s[i := (s ! i)\<lparr>sl_bottom_right := (sl_bottom_right (s ! i))\<lparr>br_left := v\<rparr>\<rparr>]"

definition get_br_top :: "nat \<Rightarrow> shape_links list \<Rightarrow> u16" where
  "get_br_top i s = br_top (sl_bottom_right (s ! i))"

definition set_br_top :: "nat \<Rightarrow> u16 \<Rightarrow> shape_links list \<Rightarrow> shape_links list" where
  "set_br_top i v s = s[i := (s ! i)\<lparr>sl_bottom_right := (sl_bottom_right (s ! i))\<lparr>br_top := v\<rparr>\<rparr>]"

definition get_br_link_id :: "nat \<Rightarrow> shape_links list \<Rightarrow> u16" where
  "get_br_link_id i s = br_link_id (sl_bottom_right (s ! i))"

definition set_br_link_id :: "nat \<Rightarrow> u16 \<Rightarrow> shape_links list \<Rightarrow> shape_links list" where
  "set_br_link_id i v s = s[i := (s ! i)\<lparr>sl_bottom_right := (sl_bottom_right (s ! i))\<lparr>br_link_id := v\<rparr>\<rparr>]"

definition get_bl_top :: "nat \<Rightarrow> shape_links list \<Rightarrow> u16" where
  "get_bl_top i s = bl_top (sl_bottom_left (s ! i))"

definition set_bl_top :: "nat \<Rightarrow> u16 \<Rightarrow> shape_links list \<Rightarrow> shape_links list" where
  "set_bl_top i v s = s[i := (s ! i)\<lparr>sl_bottom_left := (sl_bottom_left (s ! i))\<lparr>bl_top := v\<rparr>\<rparr>]"

definition get_bl_right :: "nat \<Rightarrow> shape_links list \<Rightarrow> u16" where
  "get_bl_right i s = bl_right (sl_bottom_left (s ! i))"

definition set_bl_right :: "nat \<Rightarrow> u16 \<Rightarrow> shape_links list \<Rightarrow> shape_links list" where
  "set_bl_right i v s = s[i := (s ! i)\<lparr>sl_bottom_left := (sl_bottom_left (s ! i))\<lparr>bl_right := v\<rparr>\<rparr>]"

definition get_bl_link_id :: "nat \<Rightarrow> shape_links list \<Rightarrow> u16" where
  "get_bl_link_id i s = bl_link_id (sl_bottom_left (s ! i))"

definition set_bl_link_id :: "nat \<Rightarrow> u16 \<Rightarrow> shape_links list \<Rightarrow> shape_links list" where
  "set_bl_link_id i v s = s[i := (s ! i)\<lparr>sl_bottom_left := (sl_bottom_left (s ! i))\<lparr>bl_link_id := v\<rparr>\<rparr>]"


record shape_tile_group =
  stg_top_left :: nat
  stg_top_right :: nat
  stg_bottom_right :: nat
  stg_bottom_left :: nat

definition no_tile_group :: shape_tile_group where
  "no_tile_group = \<lparr>stg_top_left = 65535, stg_top_right = 65535, stg_bottom_right = 65535,
     stg_bottom_left = 65535\<rparr>"

definition group_links :: "tile_group list \<Rightarrow> nat \<Rightarrow> directional_links result" where
  "group_links cv5s i = bindE (span_get cv5s i) (\<lambda>g. Inr (tg_links g))"

definition populate_jut_in_east_west ::
  "tile_group list \<Rightarrow> shape_tile_group list \<Rightarrow> shape_links list \<Rightarrow> shape_links list result"
where
  "populate_jut_in_east_west cv5s groups s =
     bindE
       (if get_tr_left jut_in_east s = 0 then
          bindE (span_get groups edge_north_east) (\<lambda>ne.
          bindE (group_links cv5s (stg_bottom_left ne)) (\<lambda>l.
            let s = set_tr_left jut_in_east (dl_left l) s;
                s = set_tr_bottom jut_in_east (dl_bottom l) s
            in bindE (span_get groups edge_south_east) (\<lambda>se.
               bindE (group_links cv5s (stg_top_left se)) (\<lambda>l.
                 let s = set_br_left jut_in_east (dl_left l) s;
                     s = set_br_top jut_in_east (dl_top l) s
                 in Inr s))))
        else Inr s)
       (\<lambda>s.
         if get_tl_right jut_in_west s = 0 then
           bindE (span_get groups edge_north_west) (\<lambda>nw.
           bindE (group_links cv5s (stg_bottom_right nw)) (\<lambda>l.
             let s = set_tl_right jut_in_west (dl_right l) s;
                 s = set_tl_bottom jut_in_west (dl_bottom l) s
             in bindE (span_get groups edge_south_west) (\<lambda>sw.
                bindE (group_links cv5s (stg_top_right sw)) (\<lambda>l.
                  let s = set_bl_top jut_in_west (dl_top l) s;
                      s = set_bl_right jut_in_west (dl_right l) s
                  in Inr s))))
         else Inr s)"

definition populate_empty_quadrant_links :: "shape_links list \<Rightarrow> shape_links list" where
  "populate_empty_quadrant_links s =
     (let s = set_tl_right edge_north_west (get_tr_left edge_north_west s) s;
          s = set_tl_bottom edge_north_west (get_bl_top edge_north_west s) s;
          s = set_tr_left edge_north_east (get_tl_right edge_north_east s) s;
          s = set_tr_bottom edge_north_east (get_br_top edge_north_east s) s;
          s = set_br_left edge_south_east (get_bl_right edge_south_east s) s;
          s = set_br_top edge_south_east (get_tr_bottom edge_south_east s) s;
          s = set_bl_top edge_south_west (get_tl_bottom edge_south_west s) s;
          s = set_bl_right edge_south_west (get_br_left edge_south_west s) s;
          s = set_tl_bottom jut_out_north (get_bl_top jut_out_north s) s;
          s = set_tl_right jut_out_north (get_tl_bottom jut_out_north s) s;
          s = set_tr_bottom jut_out_north (get_br_top jut_out_north s) s;
          s = set_tr_left jut_out_north (get_tr_bottom jut_out_north s) s;
          fill_link = get_tl_right jut_out_east s;
          s = set_tr_left jut_out_east fill_link s;
          s = set_tr_bottom jut_out_east fill_link s;
          s = set_br_left jut_out_east fill_link s;
          s = set_br_top jut_out_east fill_link s;
          s = set_br_top jut_out_south (get_tr_bottom jut_out_south s) s;
          s = set_br_left jut_out_south (get_br_top jut_out_south s) s;
          s = set_bl_top jut_out_south (get_tl_bottom jut_out_south s) s;
          s = set_bl_right jut_out_south (get_bl_top jut_out_south s) s;
          fill_link = get_tr_left jut_out_west s;
          s = set_tl_right jut_out_west fill_link s;
          s = set_tl_bottom jut_out_west fill_link s;
          s = set_bl_right jut_out_west fill_link s;
          s = set_bl_top jut_out_west fill_link s
      in s)"

definition populate_hardcoded_row :: "shape \<Rightarrow> shape_links \<Rightarrow> shape_links" where
  "populate_hardcoded_row sh r =
     (let r = (if only_match_same_type \<le> sq_link_id (sh_top_left sh)
               then r\<lparr>sl_top_left := (sl_top_left r)\<lparr>tl_link_id := sq_link_id (sh_top_left sh)\<rparr>\<rparr> else r);
          r = (if only_match_same_type \<le> sq_link_id (sh_top_right sh)
               then r\<lparr>sl_top_right := (sl_top_right r)\<lparr>tr_link_id := sq_link_id (sh_top_right sh)\<rparr>\<rparr> else r);
          r = (if only_match_same_type \<le> sq_link_id (sh_bottom_right sh)
               then r\<lparr>sl_bottom_right := (sl_bottom_right r)\<lparr>br_link_id := sq_link_id (sh_bottom_right sh)\<rparr>\<rparr> else r);
          r = (if only_match_same_type \<le> sq_link_id (sh_bottom_left sh)
               then r\<lparr>sl_bottom_left := (sl_bottom_left r)\<lparr>bl_link_id := sq_link_id (sh_bottom_left sh)\<rparr>\<rparr> else r)
      in r)"

definition populate_hardcoded_link_ids :: "shape_links list \<Rightarrow> shape_links list" where
  "populate_hardcoded_link_ids s =
     map (\<lambda>i. populate_hardcoded_row (shapes ! i) (s ! i)) [0..<length shapes]"

definition fill_outer_link_ids :: "u16 \<Rightarrow> shape_links list \<Rightarrow> shape_links list" where
  "fill_outer_link_ids link_id s =
     (let s = set_tl_link_id edge_north_west link_id s;
          s = set_tr_link_id edge_north_east link_id s;
          s = set_br_link_id edge_south_east link_id s;
          s = set_bl_link_id edge_south_west link_id s;
          s = set_tl_link_id jut_out_north link_id s;
          s = set_tr_link_id jut_out_north link_id s;
          s = set_tr_link_id jut_out_east link_id s;
          s = set_br_link_id jut_out_east link_id s;
          s = set_tl_link_id jut_out_west link_id s;
          s = set_bl_link_id jut_out_west link_id s;
          s = set_br_link_id jut_out_south link_id s;
          s = set_bl_link_id jut_out_south link_id s
      in s)"

definition fill_inner_link_ids :: "u16 \<Rightarrow> shape_links list \<Rightarrow> shape_links list" where
  "fill_inner_link_ids link_id s =
     (let s = set_br_link_id edge_north_west link_id s;
          s = set_bl_link_id edge_north_east link_id s;
          s = set_tl_link_id edge_south_east link_id s;
          s = set_tr_link_id edge_south_west link_id s;
          s = set_tr_link_id jut_in_east link_id s;
          s = set_br_link_id jut_in_east link_id s;
          s = set_tl_link_id jut_in_west link_id s;
          s = set_bl_link_id jut_in_west link_id s;
          s = set_br_link_id jut_in_north link_id s;
          s = set_bl_link_id jut_in_north link_id s;
          s = set_tl_link_id jut_in_south link_id s;
          s = set_tr_link_id jut_in_south link_id s
      in s)"

text \<open>One solid brush row \<open>row\<close> of the link table against the outer and inner links of the shapes.\<close>

definition populate_solid_brush ::
  "tile_group list \<Rightarrow> shape_tile_group list \<Rightarrow> shape_links list \<Rightarrow> shape_links \<Rightarrow> shape_links list result"
where
  "populate_solid_brush cv5s groups s row =
     (let brush_link = tl_right (sl_top_left row);
          brush_link_id = tl_link_id (sl_top_left row)
      in bindE (span_get groups edge_north_west) (\<lambda>nw.
         bindE (group_links cv5s (stg_top_right nw)) (\<lambda>outer.
           let s = (if brush_link = dl_left outer then fill_outer_link_ids brush_link_id s else s)
           in bindE (group_links cv5s (stg_bottom_right nw)) (\<lambda>inner.
                Inr (if brush_link = dl_right inner then fill_inner_link_ids brush_link_id s else s)))))"

definition populate_link_ids_to_solid_brushes ::
  "tile_group list \<Rightarrow> shape_tile_group list \<Rightarrow> shape_links list \<Rightarrow> shape_links list \<Rightarrow> shape_links list result"
where
  "populate_link_ids_to_solid_brushes cv5s groups brush_rows s =
     foldE (populate_solid_brush cv5s groups) s brush_rows"

section \<open>Matching tile groups\<close>

text \<open>What one tile group contributes to one shape: links of the quadrants it matches, and its index.\<close>

definition match_tile_group ::
  "tile_group \<Rightarrow> nat \<Rightarrow> nat \<Rightarrow> shape_links list \<times> shape_tile_group list
     \<Rightarrow> shape_links list \<times> shape_tile_group list"
where
  "match_tile_group g index i = (\<lambda>(s, groups).
     let l = tg_links g; no_stack_above = (rc_top (tg_stack g) = 0); sh = shapes ! i
     in if \<not> is_shape_quadrant l then (s, groups)
        else
          let (s, groups) =
                (if shape_matches sh TopLeft l no_stack_above
                 then (set_tl_bottom i (dl_bottom l) (set_tl_right i (dl_right l) s),
                       groups[i := (groups ! i)\<lparr>stg_top_left := index\<rparr>])
                 else (s, groups));
              (s, groups) =
                (if shape_matches sh TopRight l no_stack_above
                 then (set_tr_bottom i (dl_bottom l) (set_tr_left i (dl_left l) s),
                       groups[i := (groups ! i)\<lparr>stg_top_right := index\<rparr>])
                 else (s, groups));
              (s, groups) =
                (if shape_matches sh BottomRight l no_stack_above
                 then (set_br_top i (dl_top l) (set_br_left i (dl_left l) s),
                       groups[i := (groups ! i)\<lparr>stg_bottom_right := index\<rparr>])
                 else (s, groups))
          in if shape_matches sh BottomLeft l no_stack_above
             then (set_bl_right i (dl_right l) (set_bl_top i (dl_top l) s),
                   groups[i := (groups ! i)\<lparr>stg_bottom_left := index\<rparr>])
             else (s, groups))"

definition match_tile_groups ::
  "tile_group list \<Rightarrow> nat list \<Rightarrow> shape_links list \<times> shape_tile_group list
     \<Rightarrow> (shape_links list \<times> shape_tile_group list) result"
where
  "match_tile_groups cv5s indexes st =
     foldE (\<lambda>st index. bindE (span_get cv5s index) (\<lambda>g.
       Inr (fold (match_tile_group g index) [0..<length shapes] st))) st indexes"

text \<open>The even tile groups by terrain type; the vector of vectors is indexed without a check.\<close>

definition tile_groups_by_type :: "tile_group list \<Rightarrow> nat \<Rightarrow> nat list list result" where
  "tile_groups_by_type cv5s types =
     foldE (\<lambda>by i. bindE (span_get cv5s i) (\<lambda>g.
         let t = unat (tg_terrain_type g)
         in if 0 < t then bindE (vec_get by t) (\<lambda>is. vec_set by t (is @ [i])) else Inr by))
       (replicate types []) (filter even [0..<length cv5s])"

definition pad_rows :: "nat \<Rightarrow> shape_links list \<Rightarrow> shape_links list" where
  "pad_rows n rows = rows @ replicate (n - length rows) (shape_links_of 0)"

definition solid_brush_row :: "terrain_type_info \<Rightarrow> directional_links \<Rightarrow> shape_links" where
  "solid_brush_row brush l =
     \<lparr>sl_terrain_type = ucast (tti_index brush),
      sl_top_left = \<lparr>tl_right = dl_right l, tl_bottom = dl_bottom l, tl_link_id = tti_link_id brush\<rparr>,
      sl_top_right = \<lparr>tr_left = dl_left l, tr_bottom = dl_bottom l, tr_link_id = tti_link_id brush\<rparr>,
      sl_bottom_right = \<lparr>br_left = dl_left l, br_top = dl_top l, br_link_id = tti_link_id brush\<rparr>,
      sl_bottom_left = \<lparr>bl_top = dl_top l, bl_right = dl_right l, bl_link_id = tti_link_id brush\<rparr>\<rparr>"

definition add_solid_brush ::
  "tile_group list \<Rightarrow> nat list list \<Rightarrow> shape_links list \<Rightarrow> terrain_type_info \<Rightarrow> shape_links list result"
where
  "add_solid_brush cv5s by rows brush =
     bindE (vec_get by (unat (tti_index brush))) (\<lambda>indexes.
     bindE (vec_get indexes 0) (\<lambda>g.
     bindE (group_links cv5s g) (\<lambda>l.
       Inr (pad_rows (unat (tti_isom_value brush)) rows @ [solid_brush_row brush l]))))"

definition add_shapes ::
  "tile_group list \<Rightarrow> nat list list \<Rightarrow> nat \<Rightarrow> shape_links list \<Rightarrow> terrain_type_info \<Rightarrow> shape_links list result"
where
  "add_shapes cv5s by total_solid rows t =
     bindE (vec_get by (unat (tti_index t))) (\<lambda>indexes.
     bindE (match_tile_groups cv5s indexes
         (replicate 14 (shape_links_of (ucast (tti_index t))), replicate 14 no_tile_group)) (\<lambda>(s, groups).
     bindE (populate_jut_in_east_west cv5s groups s) (\<lambda>s.
       let s = populate_hardcoded_link_ids (populate_empty_quadrant_links s)
       in bindE (populate_link_ids_to_solid_brushes cv5s groups (take total_solid rows) s) (\<lambda>s.
            Inr (rows @ s)))))"

text \<open>
  \<open>std::sort\<close> is not stable, but the isom values of a tileset's types are distinct, so the sorted
  sequence is the only one (\<open>tileset_tables_ok\<close>).
\<close>

definition solid_brushes :: "terrain_type_info list \<Rightarrow> terrain_type_info list result" where
  "solid_brushes types =
     bindE (mapE (span_get types) [1..<length types div 2 + 1]) (\<lambda>ts.
       Inr (sort_key (\<lambda>t. unat (tti_isom_value t)) (filter (\<lambda>t. tti_isom_value t \<noteq> 0) ts)))"

definition other_terrain_types :: "terrain_type_info list \<Rightarrow> terrain_type_info list result" where
  "other_terrain_types types =
     bindE (mapE (\<lambda>i. bindE (span_get types i) (\<lambda>t. Inr (plain_type (of_nat i) (tti_isom_value t))))
         [max 1 (length types div 2 + 1)..<length types]) (\<lambda>ts.
       Inr (sort_key (\<lambda>t. unat (tti_isom_value t)) (filter (\<lambda>t. tti_isom_value t \<noteq> 0) ts)))"

definition generate_isom_links ::
  "tile_group list \<Rightarrow> terrain_type_info list \<Rightarrow> shape_links list \<Rightarrow> shape_links list result"
where
  "generate_isom_links tile_groups types rows =
     bindE (vec_get tile_groups 0) (\<lambda>_.
     let cv5s = take 1024 tile_groups
     in bindE (tile_groups_by_type cv5s (length types)) (\<lambda>by.
        bindE (solid_brushes types) (\<lambda>solids.
        bindE (other_terrain_types types) (\<lambda>others.
        bindE (foldE (add_solid_brush cv5s by) rows solids) (\<lambda>rows.
        bindE (vec_get others 0) (\<lambda>first.
          foldE (add_shapes cv5s by (length rows)) (pad_rows (unat (tti_isom_value first)) rows) others))))))"

section \<open>The map of search starts\<close>

function decompress_row :: "u16 list \<Rightarrow> nat \<Rightarrow> nat \<Rightarrow> u16 list \<Rightarrow> (nat \<times> u16 list) result" where
  "decompress_row c i j tmp =
     bindE (span_get c i) (\<lambda>v.
       if v = 0 then Inr (i, tmp)
       else bindE (vec_set tmp j v) (\<lambda>tmp. decompress_row c (Suc i) (Suc j) tmp))"
  by pat_completeness auto
termination by (relation "measure (\<lambda>(c, i, j, tmp). length c - i)") (auto simp: bindE_Inr)

declare decompress_row.simps [simp del]

lemma decompress_row_progress: "decompress_row c i j tmp = Inr (i', tmp') \<Longrightarrow> i \<le> i' \<and> i' < length c"
proof (induction c i j tmp rule: decompress_row.induct)
  case (1 c i j tmp)
  then show ?case
    by (subst (asm) decompress_row.simps) (fastforce simp: bindE_Inr split: if_splits)
qed

function decompress :: "u16 list \<Rightarrow> nat \<Rightarrow> nat \<Rightarrow> u16 list \<Rightarrow> u16 list result" where
  "decompress c n_types i tmp =
     bindE (span_get c i) (\<lambda>v.
       if v = 0 then Inr tmp
       else bindE (decompress_row c (Suc i) (n_types * unat v) tmp) (\<lambda>(i', tmp).
              decompress c n_types (Suc i') tmp))"
  by pat_completeness auto
termination
  by (relation "measure (\<lambda>(c, n_types, i, tmp). length c - i)")
    (auto simp: bindE_Inr dest: decompress_row_progress)

declare decompress.simps [simp del]

text \<open>The state of the expansion: the square map, the row data and the queue of types to visit.\<close>

record type_search =
  ts_map :: "u16 list"
  ts_row :: "u16 list"
  ts_queue :: "u16 list"

function scan_paths :: "u16 list \<Rightarrow> nat \<Rightarrow> nat \<Rightarrow> nat \<Rightarrow> type_search \<Rightarrow> type_search result" where
  "scan_paths tmp dest start j st =
     bindE (vec_get tmp j) (\<lambda>path.
       if path = 0 then Inr st
       else
         bindE (bindE (vec_get (ts_map st) (start + unat path)) (\<lambda>v.
             if v = 0 then
               bindE (vec_get (ts_row st) dest) (\<lambda>r.
                 let next = (if r = 0 then path else r)
                 in bindE (vec_set (ts_map st) (start + unat path) next) (\<lambda>m.
                    bindE (vec_set (ts_row st) (unat path) next) (\<lambda>row.
                      Inr \<lparr>ts_map = m, ts_row = row, ts_queue = ts_queue st @ [path]\<rparr>)))
             else Inr st))
           (\<lambda>st. scan_paths tmp dest start (Suc j) st))"
  by pat_completeness auto
termination by (relation "measure (\<lambda>(tmp, dest, start, j, st). length tmp - j)") (auto simp: bindE_Inr)

declare scan_paths.simps [simp del]

text \<open>Every type that is queued takes one zero entry of the map.\<close>

definition search_work :: "type_search \<Rightarrow> nat" where
  "search_work st = length (filter (\<lambda>v. v = 0) (ts_map st)) + length (ts_queue st)"

lemma filter_update_zero:
  fixes m :: "u16 list"
  assumes "i < length m" and "m ! i = 0" and "v \<noteq> 0"
  shows "Suc (length (filter (\<lambda>v. v = 0) (m[i := v]))) = length (filter (\<lambda>v. v = 0) m)"
  using assms by (induction m arbitrary: i) (auto simp: nth_Cons split: nat.splits)

lemma scan_paths_work:
  "scan_paths tmp dest start j st = Inr st' \<Longrightarrow> search_work st' = search_work st"
proof (induction tmp dest start j st rule: scan_paths.induct)
  case (1 tmp dest start j st)
  from "1.prems" have j: "j < length tmp"
    by (subst (asm) scan_paths.simps) (auto simp: bindE_Inr)
  show ?case
  proof (cases "tmp ! j = 0")
    case True
    with "1.prems" j show ?thesis by (subst (asm) scan_paths.simps) simp
  next
    case False
    let ?k = "start + unat (tmp ! j)"
    let ?step = "bindE (vec_get (ts_map st) ?k) (\<lambda>v. if v = 0 then
               bindE (vec_get (ts_row st) dest) (\<lambda>r.
                 let next = (if r = 0 then tmp ! j else r)
                 in bindE (vec_set (ts_map st) ?k next) (\<lambda>m.
                    bindE (vec_set (ts_row st) (unat (tmp ! j)) next) (\<lambda>row.
                      Inr \<lparr>ts_map = m, ts_row = row, ts_queue = ts_queue st @ [tmp ! j]\<rparr>)))
             else Inr st)"
    from "1.prems" j False obtain st1 where st1: "?step = Inr st1"
      and rest: "scan_paths tmp dest start (Suc j) st1 = Inr st'"
      by (subst (asm) scan_paths.simps) (auto simp: bindE_Inr)
    have "search_work st1 = search_work st"
      using st1 False filter_update_zero [of ?k "ts_map st"]
      by (auto simp: bindE_Inr Let_def search_work_def split: if_splits)
    moreover have "search_work st' = search_work st1"
      using j False st1 rest by (intro "1.IH" [of "tmp ! j"]) simp_all
    ultimately show ?thesis by simp
  qed
qed

function search_types :: "u16 list \<Rightarrow> nat \<Rightarrow> nat \<Rightarrow> type_search \<Rightarrow> type_search result" where
  "search_types tmp n_types i st =
     (case ts_queue st of
        [] \<Rightarrow> Inr st
      | dest # queue \<Rightarrow>
          bindE (scan_paths tmp (unat dest) (i * n_types) (unat dest * n_types) (st\<lparr>ts_queue := queue\<rparr>))
            (\<lambda>st. search_types tmp n_types i st))"
  by pat_completeness auto
termination
proof (relation "measure (\<lambda>(tmp, n_types, i, st). search_work st)", goal_cases)
  case (2 tmp n_types i st dest queue st')
  from scan_paths_work [OF 2(2)] 2(1) show ?case by (simp add: search_work_def)
qed simp

declare search_types.simps [simp del]

definition expand_row :: "u16 list \<Rightarrow> nat \<Rightarrow> u16 list \<Rightarrow> nat \<Rightarrow> u16 list result" where
  "expand_row tmp n_types m i =
     bindE (vec_set m (n_types * i + unat (of_nat i :: u16)) (of_nat i)) (\<lambda>m.
     bindE (search_types tmp n_types i
         \<lparr>ts_map = m, ts_row = replicate n_types 0, ts_queue = [of_nat i]\<rparr>) (\<lambda>st.
       Inr (ts_map st)))"

definition populate_terrain_type_map :: "u16 list \<Rightarrow> nat \<Rightarrow> u16 list result" where
  "populate_terrain_type_map c n_types =
     bindE (decompress c n_types 0 (replicate (n_types * n_types) 0)) (\<lambda>tmp.
       foldE (expand_row tmp n_types) (replicate (n_types * n_types) 0) (rev [0..<n_types]))"

section \<open>Loading a tileset\<close>

record tileset_data =
  td_tile_groups :: "tile_group list"
  td_terrain_type_map :: "u16 list"
  td_hash_to_tile_group :: "u32 \<rightharpoonup> u16 list"
  td_isom_links :: "shape_links list"
  td_terrain_types :: "terrain_type_info list"
  td_brushes :: "terrain_type_info list"
  td_default_brush :: terrain_type_info

definition tile_group_hash :: "tile_group \<Rightarrow> u32" where
  "tile_group_hash g =
     (let l = tg_links g;
          left = ucast (dl_left l) :: u32; top = ucast (dl_top l) :: u32;
          right = ucast (dl_right l) :: u32; bottom = ucast (dl_bottom l) :: u32;
          h = push_bit 6 (push_bit 6 (push_bit 6 (push_bit 6 left OR top) OR right) OR bottom)
      in if 48 \<le> left \<or> 48 \<le> top \<or> 48 \<le> right \<or> 48 \<le> bottom
         then h OR ucast (tg_terrain_type g) else h)"

definition hash_insert :: "u32 \<Rightarrow> u16 \<Rightarrow> (u32 \<rightharpoonup> u16 list) \<Rightarrow> (u32 \<rightharpoonup> u16 list)" where
  "hash_insert h i m = m(h \<mapsto> (case m h of Some is \<Rightarrow> is @ [i] | None \<Rightarrow> [i]))"

definition hash_tile_groups :: "tile_group list \<Rightarrow> (u32 \<rightharpoonup> u16 list) \<Rightarrow> (u32 \<rightharpoonup> u16 list)" where
  "hash_tile_groups groups m =
     fold (\<lambda>i. hash_insert (tile_group_hash (groups ! i)) (of_nat i)) (filter even [0..<length groups]) m"

definition load_isom :: "nat \<Rightarrow> tileset_data \<Rightarrow> tileset_data result" where
  "load_isom tileset td =
     bindE (vec_get tileset_terrain_types tileset) (\<lambda>types.
     bindE (vec_get compressed_terrain_type_maps tileset) (\<lambda>c.
     bindE (populate_terrain_type_map c (length types)) (\<lambda>m.
     let hash = hash_tile_groups (td_tile_groups td) (td_hash_to_tile_group td)
     in bindE (generate_isom_links (td_tile_groups td) types (td_isom_links td)) (\<lambda>rows.
        let brushes = sort_key tti_brush_sort_order
              (td_brushes td @ filter (\<lambda>t. 0 \<le> tti_brush_sort_order t) types)
        in bindE (span_get default_brush_index tileset) (\<lambda>k.
           bindE (span_get types k) (\<lambda>default.
             Inr (td\<lparr>td_terrain_type_map := m, td_hash_to_tile_group := hash, td_isom_links := rows,
               td_terrain_types := types, td_brushes := brushes, td_default_brush := default\<rparr>)))))))"

end
