(* ===== verification/IsomTablesProps.thy ===== *)
theory IsomTablesProps
  imports IsomTables
begin

text \<open>
  The constant tables are consistent, \<open>populateTerrainTypeMap\<close> stays in bounds for each of them and
  yields terrain types only, and the link ids of the fourteen shapes are complete.
\<close>

section \<open>The constant tables\<close>

definition types_ok :: "terrain_type_info list \<Rightarrow> bool" where
  "types_ok ts \<longleftrightarrow> list_all2 (\<lambda>i t. unat (tti_index t) = i) [0..<length ts] ts
     \<and> distinct (filter (\<lambda>v. v \<noteq> 0) (map tti_isom_value ts)) \<and> 1 < length ts \<and> length ts \<le> 36"

lemma tileset_tables_ok: "list_all types_ok tileset_terrain_types"
  unfolding tileset_terrain_types_def list.pred_inject types_ok_def
  by (intro conjI; code_simp)

text \<open>The rows of a compressed map: the type a row belongs to and the types it leads to.\<close>

function split_rows :: "u16 list \<Rightarrow> (u16 \<times> u16 list) list" where
  "split_rows [] = []"
| "split_rows (v # c) =
     (if v = 0 then []
      else (v, takeWhile (\<lambda>x. x \<noteq> 0) c) # split_rows (tl (dropWhile (\<lambda>x. x \<noteq> 0) c)))"
  by pat_completeness auto
termination
proof (relation "measure length", goal_cases)
  case (2 v c)
  have "length (dropWhile (\<lambda>x. x \<noteq> 0) c) \<le> length c" by (rule length_dropWhile_le)
  then show ?case by simp
qed simp

definition join_rows :: "(u16 \<times> u16 list) list \<Rightarrow> u16 list" where
  "join_rows rows = concat (map (\<lambda>(h, es). h # es @ [0]) rows) @ [0]"

definition row_ok :: "nat \<Rightarrow> u16 \<times> u16 list \<Rightarrow> bool" where
  "row_ok n = (\<lambda>(h, es). h \<noteq> 0 \<and> unat h < n \<and> length es < n \<and> list_all (\<lambda>e. e \<noteq> 0 \<and> unat e < n) es)"

definition compressed_ok :: "u16 list \<Rightarrow> nat \<Rightarrow> bool" where
  "compressed_ok c n \<longleftrightarrow> c = join_rows (split_rows c) \<and> list_all (row_ok n) (split_rows c)"

lemma compressed_maps_ok:
  "list_all2 (\<lambda>c ts. compressed_ok c (length ts)) compressed_terrain_type_maps tileset_terrain_types"
  unfolding compressed_terrain_type_maps_def tileset_terrain_types_def list.rel_inject compressed_ok_def
  by (intro conjI; code_simp)

section \<open>Expanding the compressed map\<close>

text \<open>The scratch table during the decompression: terrain types, and the last cell stays empty.\<close>

definition paths_ok :: "nat \<Rightarrow> u16 list \<Rightarrow> bool" where
  "paths_ok n tmp \<longleftrightarrow> length tmp = n * n \<and> (\<forall>v \<in> set tmp. unat v < n) \<and> tmp ! (n * n - 1) = 0"

lemma paths_ok_update:
  assumes "paths_ok n tmp" and "unat v < n" and "j < n * n - 1"
  shows "paths_ok n (tmp[j := v])"
  using assms set_update_subset_insert [of tmp j v] by (auto simp: paths_ok_def)

lemma decompress_row_total:
  "drop i c = es @ 0 # rest \<Longrightarrow> list_all (\<lambda>e. e \<noteq> 0 \<and> unat e < n) es \<Longrightarrow> paths_ok n tmp
     \<Longrightarrow> j + length es < n * n \<Longrightarrow>
     \<exists>tmp'. decompress_row c i j tmp = Inr (i + length es, tmp') \<and> paths_ok n tmp'
       \<and> drop (i + length es) c = 0 # rest"
proof (induction es arbitrary: i j tmp)
  case Nil
  then show ?case using drop_ConsD [of i c 0 rest] by (simp add: decompress_row.simps)
next
  case (Cons e es)
  note d = drop_ConsD [OF Cons.prems(1) [unfolded append_Cons]]
  have ok: "paths_ok n (tmp[j := e])" using Cons.prems by (intro paths_ok_update) simp_all
  have "j < length tmp" using Cons.prems(3,4) by (simp add: paths_ok_def)
  with Cons.IH [of "Suc i" "tmp[j := e]" "Suc j"] d ok Cons.prems(2,4)
  show ?case by (subst decompress_row.simps) simp
qed

lemma decompress_total:
  "drop i c = join_rows rows \<Longrightarrow> list_all (row_ok n) rows \<Longrightarrow> paths_ok n tmp \<Longrightarrow>
     \<exists>tmp'. decompress c n i tmp = Inr tmp' \<and> paths_ok n tmp'"
proof (induction rows arbitrary: i tmp)
  case Nil
  then show ?case using drop_ConsD [of i c 0 "[]"] by (simp add: join_rows_def decompress.simps)
next
  case (Cons row rows)
  obtain h es where row: "row = (h, es)" by (cases row)
  have at: "drop i c = h # es @ 0 # join_rows rows"
    using Cons.prems(1) by (simp add: join_rows_def row)
  note d = drop_ConsD [OF at]
  have h: "h \<noteq> 0" "unat h < n" "length es < n" "list_all (\<lambda>e. e \<noteq> 0 \<and> unat e < n) es"
    using Cons.prems(2) by (simp_all add: row row_ok_def)
  have "n * unat h + n \<le> n * n"
    using h(2) by (metis Suc_leI mult_Suc_right mult_le_mono2 add.commute)
  then have "n * unat h + length es < n * n" using h(3) by simp
  from decompress_row_total [OF _ h(4) Cons.prems(3) this] d obtain tmp'
    where "decompress_row c (Suc i) (n * unat h) tmp = Inr (Suc i + length es, tmp')" "paths_ok n tmp'"
      and rest: "drop (Suc i + length es) c = 0 # join_rows rows" by blast
  moreover have "drop (Suc (Suc i + length es)) c = join_rows rows"
    using drop_ConsD(3) [OF rest] by simp
  ultimately show ?case
    using Cons.IH Cons.prems(2) d h(1) by (subst decompress.simps) simp
qed

section \<open>The search for transition types\<close>

definition search_ok :: "nat \<Rightarrow> type_search \<Rightarrow> bool" where
  "search_ok n st \<longleftrightarrow> length (ts_map st) = n * n \<and> length (ts_row st) = n
     \<and> (\<forall>v \<in> set (ts_map st). unat v < n) \<and> (\<forall>v \<in> set (ts_row st). unat v < n)
     \<and> (\<forall>v \<in> set (ts_queue st). unat v < n)"

lemma search_ok_visit:
  assumes "search_ok n st" and "unat path < n" and "unat v < n"
  shows "search_ok n \<lparr>ts_map = (ts_map st)[k := v], ts_row = (ts_row st)[unat path := v],
    ts_queue = ts_queue st @ [path]\<rparr>"
  using assms set_update_subset_insert [of "ts_map st" k v]
    set_update_subset_insert [of "ts_row st" "unat path" v]
  by (auto simp: search_ok_def)

lemma row_index: "i < n \<Longrightarrow> k < n \<Longrightarrow> i * n + k < n * (n::nat)"
proof -
  assume "i < n" "k < n"
  then have "i * n + k < i * n + n" by simp
  also have "\<dots> = Suc i * n" by simp
  also have "\<dots> \<le> n * n" using \<open>i < n\<close> by (intro mult_le_mono1) simp
  finally show ?thesis .
qed

lemma scan_paths_total:
  "paths_ok n tmp \<Longrightarrow> j < n * n \<Longrightarrow> dest < n \<Longrightarrow> i < n \<Longrightarrow> search_ok n st \<Longrightarrow>
     \<exists>st'. scan_paths tmp dest (i * n) j st = Inr st' \<and> search_ok n st'"
proof (induction "n * n - j" arbitrary: j st)
  case (Suc d)
  have j: "j < length tmp" using Suc.prems by (simp add: paths_ok_def)
  show ?case
  proof (cases "tmp ! j = 0")
    case True
    then show ?thesis using j Suc.prems by (subst scan_paths.simps) simp
  next
    case False
    let ?p = "tmp ! j" and ?k = "i * n + unat (tmp ! j)"
    have p: "unat ?p < n" using j Suc.prems(1) by (simp add: paths_ok_def)
    have k: "?k < length (ts_map st)" using row_index [OF Suc.prems(4) p] Suc.prems(5) by (simp add: search_ok_def)
    have next_j: "Suc j < n * n" using False Suc.prems(1,2) by (cases "j = n * n - 1") (auto simp: paths_ok_def)
    have ih: "\<exists>st'. scan_paths tmp dest (i * n) (Suc j) st1 = Inr st' \<and> search_ok n st'" if "search_ok n st1" for st1
      using Suc.hyps(2) next_j Suc.prems that by (intro Suc.hyps(1)) simp_all
    show ?thesis
    proof (cases "ts_map st ! ?k = 0")
      case True
      let ?r = "ts_row st ! dest" and ?next = "if ts_row st ! dest = 0 then tmp ! j else ts_row st ! dest"
      have r: "dest < length (ts_row st)" "unat ?p < length (ts_row st)"
        using Suc.prems(3,5) p by (simp_all add: search_ok_def)
      have "unat ?next < n" using p Suc.prems(5) r by (auto simp: search_ok_def)
      from ih [OF search_ok_visit [OF Suc.prems(5) p this, of ?k]] show ?thesis
        using False True j k r by (subst scan_paths.simps) (simp add: Let_def)
    next
      case visited: False
      with False j k ih [OF Suc.prems(5)] show ?thesis by (subst scan_paths.simps) simp
    qed
  qed
qed simp

lemma search_types_total:
  "paths_ok n tmp \<Longrightarrow> i < n \<Longrightarrow> search_ok n st \<Longrightarrow>
     \<exists>st'. search_types tmp n i st = Inr st' \<and> search_ok n st'"
proof (induction tmp n i st rule: search_types.induct)
  case (1 tmp n i st)
  show ?case
  proof (cases "ts_queue st")
    case Nil
    then show ?thesis using "1.prems" by (subst search_types.simps) simp
  next
    case (Cons dest queue)
    then have dest: "unat dest < n" and ok: "search_ok n (st\<lparr>ts_queue := queue\<rparr>)"
      using "1.prems"(3) by (auto simp: search_ok_def)
    have "unat dest * n < n * n" using row_index [OF dest, of 0] dest by simp
    from scan_paths_total [OF "1.prems"(1) this dest "1.prems"(2) ok] obtain st'
      where st': "scan_paths tmp (unat dest) (i * n) (unat dest * n) (st\<lparr>ts_queue := queue\<rparr>) = Inr st'"
        "search_ok n st'" by blast
    from "1.IH" [OF Cons st'(1) "1.prems"(1,2) st'(2)] show ?thesis
      using Cons st'(1) by (subst search_types.simps) simp
  qed
qed

lemma expand_row_total:
  assumes "paths_ok n tmp" and "i < n" and "n \<le> 36"
    and "length m = n * n" and "\<forall>v \<in> set m. unat v < n"
  shows "\<exists>m'. expand_row tmp n m i = Inr m' \<and> length m' = n * n \<and> (\<forall>v \<in> set m'. unat v < n)"
proof -
  have i: "unat (of_nat i :: u16) = i" using assms(2,3) by simp
  have k: "n * i + i < n * n" using row_index [OF assms(2,2)] by (simp add: mult.commute)
  let ?st = "\<lparr>ts_map = m[n * i + i := of_nat i], ts_row = replicate n 0, ts_queue = [of_nat i]\<rparr>"
  have "search_ok n ?st"
    using assms i set_update_subset_insert [of m "n * i + i" "of_nat i"] by (auto simp: search_ok_def)
  from search_types_total [OF assms(1,2) this] obtain st
    where "search_types tmp n i ?st = Inr st" "search_ok n st" by blast
  with k assms(4) i show ?thesis by (simp add: expand_row_def search_ok_def)
qed

lemma populate_total:
  assumes "compressed_ok c n" and "0 < n" and "n \<le> 36"
  shows "\<exists>m. populate_terrain_type_map c n = Inr m \<and> length m = n * n \<and> (\<forall>v \<in> set m. unat v < n)"
proof -
  have "paths_ok n (replicate (n * n) 0)" using assms(2) by (simp add: paths_ok_def)
  moreover have "drop 0 c = join_rows (split_rows c)" "list_all (row_ok n) (split_rows c)"
    using assms(1) by (simp_all add: compressed_ok_def)
  ultimately obtain tmp where tmp: "decompress c n 0 (replicate (n * n) 0) = Inr tmp" "paths_ok n tmp"
    using decompress_total by blast
  have "\<exists>m. foldE (expand_row tmp n) (replicate (n * n) 0) (rev [0..<n]) = Inr m
      \<and> length m = n * n \<and> (\<forall>v \<in> set m. unat v < n)"
  proof (rule foldE_total)
    show "length (replicate (n * n) 0) = n * n \<and> (\<forall>v \<in> set (replicate (n * n) (0::u16)). unat v < n)"
      using assms(2) by simp
    show "\<exists>v. expand_row tmp n u x = Inr v \<and> length v = n * n \<and> (\<forall>w \<in> set v. unat w < n)"
      if "x \<in> set (rev [0..<n])" "length u = n * n \<and> (\<forall>v \<in> set u. unat v < n)" for u x
      using expand_row_total [OF tmp(2) _ assms(3)] that by auto
  qed
  with tmp(1) show ?thesis by (simp add: populate_terrain_type_map_def)
qed

text \<open>C20: For each of the eight tilesets the expansion of the compressed table runs without leaving its
  vectors, and the map it yields holds terrain types of that tileset only.\<close>

theorem terrain_type_maps_total:
  assumes "k < 8"
  shows "\<exists>m. populate_terrain_type_map (compressed_terrain_type_maps ! k)
        (length (tileset_terrain_types ! k)) = Inr m
      \<and> length m = length (tileset_terrain_types ! k) * length (tileset_terrain_types ! k)
      \<and> (\<forall>v \<in> set m. unat v < length (tileset_terrain_types ! k))"
proof (rule populate_total)
  have k: "k < length tileset_terrain_types" "k < length compressed_terrain_type_maps"
    using assms by (simp_all add: tileset_terrain_types_def compressed_terrain_type_maps_def)
  then show "compressed_ok (compressed_terrain_type_maps ! k) (length (tileset_terrain_types ! k))"
    using compressed_maps_ok by (simp add: list_all2_conv_all_nth)
  have "types_ok (tileset_terrain_types ! k)"
    using tileset_tables_ok k(1) by (simp add: list_all_length)
  then show "0 < length (tileset_terrain_types ! k)" "length (tileset_terrain_types ! k) \<le> 36"
    by (auto simp: types_ok_def)
qed

lemma terrain_type_maps_total_witness:
  "\<exists>m. populate_terrain_type_map (compressed_terrain_type_maps ! 2) (length (tileset_terrain_types ! 2)) = Inr m
      \<and> length m = length (tileset_terrain_types ! 2) * length (tileset_terrain_types ! 2)
      \<and> (\<forall>v \<in> set m. unat v < length (tileset_terrain_types ! 2))"
  using terrain_type_maps_total [of 2] by simp

section \<open>Link ids of the shapes\<close>

definition all_link_ids :: "shape_links \<Rightarrow> bool" where
  "all_link_ids r \<longleftrightarrow> (\<forall>q \<in> set quadrants. get_link_id r q \<noteq> 0)"

lemma all_link_ids_iff:
  "all_link_ids r \<longleftrightarrow> tl_link_id (sl_top_left r) \<noteq> 0 \<and> tr_link_id (sl_top_right r) \<noteq> 0
     \<and> br_link_id (sl_bottom_right r) \<noteq> 0 \<and> bl_link_id (sl_bottom_left r) \<noteq> 0"
  by (simp add: all_link_ids_def quadrants_def del: set_quadrants)

lemma nth_set_link_id [simp]:
  "length (set_tl_link_id i v s) = length s"
  "j < length s \<Longrightarrow> set_tl_link_id i v s ! j
     = (if i = j then (s ! j)\<lparr>sl_top_left := (sl_top_left (s ! j))\<lparr>tl_link_id := v\<rparr>\<rparr> else s ! j)"
  "length (set_tr_link_id i v s) = length s"
  "j < length s \<Longrightarrow> set_tr_link_id i v s ! j
     = (if i = j then (s ! j)\<lparr>sl_top_right := (sl_top_right (s ! j))\<lparr>tr_link_id := v\<rparr>\<rparr> else s ! j)"
  "length (set_br_link_id i v s) = length s"
  "j < length s \<Longrightarrow> set_br_link_id i v s ! j
     = (if i = j then (s ! j)\<lparr>sl_bottom_right := (sl_bottom_right (s ! j))\<lparr>br_link_id := v\<rparr>\<rparr> else s ! j)"
  "length (set_bl_link_id i v s) = length s"
  "j < length s \<Longrightarrow> set_bl_link_id i v s ! j
     = (if i = j then (s ! j)\<lparr>sl_bottom_left := (sl_bottom_left (s ! j))\<lparr>bl_link_id := v\<rparr>\<rparr> else s ! j)"
  by (simp_all add: set_tl_link_id_def set_tr_link_id_def set_br_link_id_def set_bl_link_id_def
      nth_list_update)

lemma length_populate_hardcoded [simp]: "length (populate_hardcoded_link_ids s) = 14"
  by (simp add: populate_hardcoded_link_ids_def)

lemma nth_populate_hardcoded:
  "i < 14 \<Longrightarrow> populate_hardcoded_link_ids s ! i = populate_hardcoded_row (shapes ! i) (s ! i)"
  by (simp add: populate_hardcoded_link_ids_def)

text \<open>C21: The hard-coded link ids together with those of the outer and the inner solid brush reach
  every quadrant of the fourteen shapes of a terrain type.\<close>

theorem shape_link_ids_complete:
  assumes "outer \<noteq> 0" and "inner \<noteq> 0" and "i < 14"
  shows "all_link_ids
    (fill_inner_link_ids inner (fill_outer_link_ids outer (populate_hardcoded_link_ids s)) ! i)"
proof -
  have "i \<in> {0, 1, 2, 3, 4, 5, 6, 7, 8, 9, 10, 11, 12, 13}"
  proof -
    have "i \<in> set [0..<14]" using assms(3) by simp
    also have "[0..<14] = [0, 1, 2, 3, 4, 5, 6, 7, 8, 9, 10, 11, 12, 13]" by (simp add: upt_rec)
    finally show ?thesis by simp
  qed
  then show ?thesis
    using assms(1,2)
    by (elim insertE emptyE)
      (simp_all add: all_link_ids_iff fill_inner_link_ids_def fill_outer_link_ids_def Let_def
        nth_populate_hardcoded shape_ids shapes_def
        populate_hardcoded_row_def shape_defs link_id_defs)
qed

lemma shape_link_ids_complete_witness:
  "all_link_ids (fill_inner_link_ids 2 (fill_outer_link_ids 1 (populate_hardcoded_link_ids [])) ! 9)"
  by (rule shape_link_ids_complete) simp_all

end
