(* ===== verification/IsomMap.thy ===== *)
theory IsomMap
  imports IsomTables
begin

text \<open>
  The ISOM section and the editing state of \<open>IsomTerrain/IsomApi.h\<close>: rectangles with their editor
  flags (\<open>Chk::IsomRect\<close>), diamonds, the undo records, \<open>Chk::IsomCache\<close> and \<open>ScMap\<close> with its
  primitive reads and writes. Coordinates are \<open>size_t\<close> values: going left of column 0 wraps around
  and is out of bounds. \<open>isomRects\<close>, \<open>tiles\<close> and \<open>undoMap\<close> are vectors indexed without a check.
\<close>

section \<open>Bounding boxes\<close>

record bounding_box =
  bb_left :: nat
  bb_top :: nat
  bb_right :: nat
  bb_bottom :: nat

definition expand_to_include :: "nat \<Rightarrow> nat \<Rightarrow> bounding_box \<Rightarrow> bounding_box" where
  "expand_to_include x y b =
     \<lparr>bb_left = min (bb_left b) x, bb_top = min (bb_top b) y,
      bb_right = max (bb_right b) x, bb_bottom = max (bb_bottom b) y\<rparr>"

text \<open>The part of an old area that stays visible in a new one at an offset.\<close>

definition overlap_box :: "nat \<Rightarrow> nat \<Rightarrow> nat \<Rightarrow> nat \<Rightarrow> int \<Rightarrow> int \<Rightarrow> bounding_box" where
  "overlap_box old_w old_h new_w new_h x_off y_off =
     (let left = (if 0 < x_off then 0 else nat (- x_off));
          top = (if 0 < y_off then 0 else nat (- y_off))
      in \<lparr>bb_left = left, bb_top = top,
          bb_right = (if new_w < size_sub old_w left then size_add left new_w else old_w),
          bb_bottom = (if new_h < size_sub old_h top then size_add top new_h else old_h)\<rparr>)"

section \<open>Rectangles and diamonds\<close>

record isom_rect =
  ir_left :: u16
  ir_top :: u16
  ir_right :: u16
  ir_bottom :: u16

definition flag_modified :: u16 where "flag_modified = 0x0001"
definition flag_visited :: u16 where "flag_visited = 0x8000"
definition flags_clear_all :: u16 where "flags_clear_all = 0x7FFE"

lemmas flag_defs = flag_modified_def flag_visited_def flags_clear_all_def

definition empty_rect :: isom_rect where
  "empty_rect = \<lparr>ir_left = 0, ir_top = 0, ir_right = 0, ir_bottom = 0\<rparr>"

fun rect_side :: "isom_rect \<Rightarrow> side \<Rightarrow> u16" where
  "rect_side r LeftSide = ir_left r"
| "rect_side r TopSide = ir_top r"
| "rect_side r RightSide = ir_right r"
| "rect_side r BottomSide = ir_bottom r"

fun set_rect_side :: "side \<Rightarrow> u16 \<Rightarrow> isom_rect \<Rightarrow> isom_rect" where
  "set_rect_side LeftSide v r = r\<lparr>ir_left := v\<rparr>"
| "set_rect_side TopSide v r = r\<lparr>ir_top := v\<rparr>"
| "set_rect_side RightSide v r = r\<lparr>ir_right := v\<rparr>"
| "set_rect_side BottomSide v r = r\<lparr>ir_bottom := v\<rparr>"

definition rect_isom_value :: "isom_rect \<Rightarrow> side \<Rightarrow> u16" where
  "rect_isom_value r s = rect_side r s AND flags_clear_all"

definition set_rect_quadrant :: "quadrant \<Rightarrow> u16 \<Rightarrow> isom_rect \<Rightarrow> isom_rect" where
  "set_rect_quadrant q v r =
     (let pq = projected q;
          r = set_rect_side (first_side pq) (push_bit 4 v OR first_edge_flags pq) r
      in set_rect_side (second_side pq) (push_bit 4 v OR second_edge_flags pq) r)"

definition set_rect_modified :: "quadrant \<Rightarrow> isom_rect \<Rightarrow> isom_rect" where
  "set_rect_modified q r =
     (let pq = projected q;
          r = set_rect_side (first_side pq) (rect_side r (first_side pq) OR flag_modified) r
      in set_rect_side (second_side pq) (rect_side r (second_side pq) OR flag_modified) r)"

definition is_left_modified :: "isom_rect \<Rightarrow> bool" where
  "is_left_modified r \<longleftrightarrow> ir_left r AND flag_modified \<noteq> 0"

definition is_left_or_right_modified :: "isom_rect \<Rightarrow> bool" where
  "is_left_or_right_modified r \<longleftrightarrow> (ir_left r OR ir_right r) AND flag_modified = flag_modified"

definition is_visited :: "isom_rect \<Rightarrow> bool" where
  "is_visited r \<longleftrightarrow> ir_right r AND flag_visited = flag_visited"

definition set_visited :: "isom_rect \<Rightarrow> isom_rect" where
  "set_visited r = r\<lparr>ir_right := ir_right r OR flag_visited\<rparr>"

definition clear_editor_flags :: "isom_rect \<Rightarrow> isom_rect" where
  "clear_editor_flags r =
     \<lparr>ir_left = ir_left r AND flags_clear_all, ir_top = ir_top r AND flags_clear_all,
      ir_right = ir_right r AND flags_clear_all, ir_bottom = ir_bottom r AND flags_clear_all\<rparr>"

text \<open>\<open>getHash\<close>: six bits of edge link per side and the terrain type of the last hard link.\<close>

definition hash_side :: "shape_links list \<Rightarrow> isom_rect \<Rightarrow> u32 \<times> u16 \<Rightarrow> side \<Rightarrow> (u32 \<times> u16) result" where
  "hash_side links r = (\<lambda>(hash, last_type) s.
     let v = rect_isom_value r s
     in bindE (span_get links (unat (drop_bit 4 v))) (\<lambda>row.
          let edge = get_edge_link row v
          in Inr (push_bit 6 (hash OR ucast edge),
                  if sl_terrain_type row \<noteq> 0 \<and> soft_links < edge then ucast (sl_terrain_type row)
                  else last_type)))"

definition rect_hash :: "shape_links list \<Rightarrow> isom_rect \<Rightarrow> u32 result" where
  "rect_hash links r =
     bindE (foldE (hash_side links r) (0, 0) sides) (\<lambda>(hash, last_type). Inr (hash OR ucast last_type))"

type_synonym point = "nat \<times> nat"

text \<open>The neighbours of a diamond are numbered like the quadrants.\<close>

fun get_neighbor :: "point \<Rightarrow> quadrant \<Rightarrow> point" where
  "get_neighbor (x, y) TopLeft = (size_sub x 1, size_sub y 1)"
| "get_neighbor (x, y) TopRight = (size_add x 1, size_sub y 1)"
| "get_neighbor (x, y) BottomRight = (size_add x 1, size_add y 1)"
| "get_neighbor (x, y) BottomLeft = (size_sub x 1, size_add y 1)"

fun rectangle_coords :: "point \<Rightarrow> quadrant \<Rightarrow> point" where
  "rectangle_coords (x, y) TopLeft = (size_sub x 1, size_sub y 1)"
| "rectangle_coords (x, y) TopRight = (x, size_sub y 1)"
| "rectangle_coords (x, y) BottomRight = (x, y)"
| "rectangle_coords (x, y) BottomLeft = (size_sub x 1, y)"

definition is_valid_diamond :: "point \<Rightarrow> bool" where
  "is_valid_diamond d \<longleftrightarrow> size_add (fst d) (snd d) mod 2 = 0"

section \<open>The cache\<close>

record isom_rect_undo =
  un_diamond :: point
  un_old :: isom_rect
  un_new :: isom_rect

record isom_cache =
  ic_tileset :: nat
  ic_width :: nat
  ic_height :: nat
  ic_changed :: bounding_box
  ic_undo :: "isom_rect_undo option list"
  ic_tile_groups :: "tile_group list"
  ic_links :: "shape_links list"
  ic_types :: "terrain_type_info list"
  ic_type_map :: "u16 list"
  ic_hash :: "u32 \<rightharpoonup> u16 list"
  ic_random :: u32

definition set_old_value :: "isom_rect \<Rightarrow> isom_rect_undo \<Rightarrow> isom_rect_undo" where
  "set_old_value r u = u\<lparr>un_old := clear_editor_flags r\<rparr>"

definition set_new_value :: "isom_rect \<Rightarrow> isom_rect_undo \<Rightarrow> isom_rect_undo" where
  "set_new_value r u = u\<lparr>un_new := clear_editor_flags r\<rparr>"

definition make_undo :: "point \<Rightarrow> isom_rect \<Rightarrow> isom_rect \<Rightarrow> isom_rect_undo" where
  "make_undo d old_value new_value =
     set_new_value new_value (set_old_value old_value
       \<lparr>un_diamond = d, un_old = empty_rect, un_new = empty_rect\<rparr>)"

definition reset_changed_area :: "isom_cache \<Rightarrow> isom_cache" where
  "reset_changed_area c =
     c\<lparr>ic_changed := \<lparr>bb_left = ic_width c, bb_top = ic_height c, bb_right = 0, bb_bottom = 0\<rparr>\<rparr>"

definition set_all_changed :: "isom_cache \<Rightarrow> isom_cache" where
  "set_all_changed c =
     c\<lparr>ic_changed := \<lparr>bb_left = 0, bb_top = 0, bb_right = size_sub (ic_width c) 1,
       bb_bottom = size_sub (ic_height c) 1\<rparr>\<rparr>"

definition new_cache :: "nat \<Rightarrow> nat \<Rightarrow> nat \<Rightarrow> tileset_data \<Rightarrow> isom_cache" where
  "new_cache tileset tile_width tile_height td =
     (let w = tile_width div 2 + 1; h = tile_height + 1
      in reset_changed_area
        \<lparr>ic_tileset = tileset, ic_width = w, ic_height = h,
         ic_changed = \<lparr>bb_left = 0, bb_top = 0, bb_right = 0, bb_bottom = 0\<rparr>,
         ic_undo = replicate (w * h) None, ic_tile_groups = td_tile_groups td,
         ic_links = td_isom_links td, ic_types = td_terrain_types td,
         ic_type_map = td_terrain_type_map td, ic_hash = td_hash_to_tile_group td,
         ic_random = 0x9E3779B9\<rparr>)"

definition terrain_type_isom_value :: "isom_cache \<Rightarrow> nat \<Rightarrow> u16" where
  "terrain_type_isom_value c t =
     (if t < length (ic_types c) then tti_isom_value (ic_types c ! t) else 0)"

definition seed_subtile_variation :: "u32 \<Rightarrow> isom_cache \<Rightarrow> isom_cache" where
  "seed_subtile_variation seed c = c\<lparr>ic_random := (if seed \<noteq> 0 then seed else 0x9E3779B9)\<rparr>"

definition xorshift32 :: "u32 \<Rightarrow> u32" where
  "xorshift32 x =
     (let x = x XOR push_bit 13 x; x = x XOR drop_bit 17 x in x XOR push_bit 5 x)"

definition next_subtile_random :: "isom_cache \<Rightarrow> u32 \<times> isom_cache" where
  "next_subtile_random c = (let x = xorshift32 (ic_random c) in (x, c\<lparr>ic_random := x\<rparr>))"

definition common_tiles :: "tile_group \<Rightarrow> nat" where
  "common_tiles g = length (takeWhile (\<lambda>t. t \<noteq> 0) (take 16 (tg_mega_tile_index g)))"

definition rare_tiles :: "tile_group \<Rightarrow> nat" where
  "rare_tiles g =
     length (takeWhile (\<lambda>t. t \<noteq> 0) (drop (common_tiles g + 1) (take 16 (tg_mega_tile_index g))))"

definition get_random_subtile :: "u16 \<Rightarrow> isom_cache \<Rightarrow> u16 \<times> isom_cache" where
  "get_random_subtile tile_group c =
     (if unat tile_group < length (ic_tile_groups c) then
        let g = ic_tile_groups c ! unat tile_group;
            n_common = common_tiles g; n_rare = rare_tiles g;
            (rare, c) = (if n_rare \<noteq> 0
              then let (r, c) = next_subtile_random c in (unat r mod 20 = 0, c) else (False, c))
        in if rare then
             let (r, c) = next_subtile_random c
             in (16 * tile_group + of_nat (n_common + 1 + unat r mod n_rare), c)
           else if n_common \<noteq> 0 then
             let (r, c) = next_subtile_random c
             in (16 * tile_group + of_nat (unat r mod n_common), c)
           else (16 * tile_group, c)
      else (16 * tile_group, c))"

definition finalize_undoable_operation :: "isom_cache \<Rightarrow> isom_cache" where
  "finalize_undoable_operation c = c\<lparr>ic_undo := replicate (ic_width c * ic_height c) None\<rparr>"

section \<open>The map\<close>

record sc_map =
  sm_tile_width :: u16
  sm_tile_height :: u16
  sm_tileset :: nat
  sm_tiles :: "u16 list"
  sm_editor_tiles :: "u16 list"
  sm_rects :: "isom_rect list"

definition isom_width :: "sc_map \<Rightarrow> nat" where
  "isom_width m = unat (sm_tile_width m) div 2 + 1"

definition isom_height :: "sc_map \<Rightarrow> nat" where
  "isom_height m = unat (sm_tile_height m) + 1"

text \<open>The accessor by index checks, the accessors by point do not.\<close>

definition rect_by_index :: "sc_map \<Rightarrow> nat \<Rightarrow> isom_rect result" where
  "rect_by_index m i =
     (if i < length (sm_rects m) then Inr (sm_rects m ! i)
      else Inl (OutOfRange (''IsomRectIndex: '' @ nat_to_string i @ '' is past the end of the ISOM section!'')))"

definition rect_index :: "sc_map \<Rightarrow> point \<Rightarrow> nat" where
  "rect_index m p = snd p * isom_width m + fst p"

definition rect_at :: "sc_map \<Rightarrow> point \<Rightarrow> isom_rect result" where
  "rect_at m p = vec_get (sm_rects m) (rect_index m p)"

definition set_rect_at :: "sc_map \<Rightarrow> point \<Rightarrow> isom_rect \<Rightarrow> sc_map result" where
  "set_rect_at m p r = bindE (vec_set (sm_rects m) (rect_index m p) r) (\<lambda>rs. Inr (m\<lparr>sm_rects := rs\<rparr>))"

definition in_bounds :: "sc_map \<Rightarrow> point \<Rightarrow> bool" where
  "in_bounds m p \<longleftrightarrow> fst p < isom_width m \<and> snd p < isom_height m"

definition central_isom_value :: "sc_map \<Rightarrow> point \<Rightarrow> u16 result" where
  "central_isom_value m p = bindE (rect_at m p) (\<lambda>r. Inr (drop_bit 4 (ir_left r)))"

definition central_modified :: "sc_map \<Rightarrow> point \<Rightarrow> bool result" where
  "central_modified m p = bindE (rect_at m p) (\<lambda>r. Inr (is_left_modified r))"

definition get_tile_value :: "sc_map \<Rightarrow> nat \<Rightarrow> nat \<Rightarrow> u16 result" where
  "get_tile_value m x y = vec_get (sm_editor_tiles m) (y * unat (sm_tile_width m) + x)"

definition set_tile_value :: "nat \<Rightarrow> nat \<Rightarrow> u16 \<Rightarrow> sc_map \<Rightarrow> sc_map result" where
  "set_tile_value x y v m =
     bindE (vec_set (sm_editor_tiles m) (y * unat (sm_tile_width m) + x) v) (\<lambda>editor.
     bindE (vec_set (sm_tiles m) (y * unat (sm_tile_width m) + x) v) (\<lambda>tiles.
       Inr (m\<lparr>sm_editor_tiles := editor, sm_tiles := tiles\<rparr>)))"

definition add_isom_undo :: "sc_map \<Rightarrow> point \<Rightarrow> isom_cache \<Rightarrow> isom_cache result" where
  "add_isom_undo m p c =
     (let i = snd p * ic_width c + fst p
      in bindE (vec_get (ic_undo c) i) (\<lambda>u.
           if u = None then
             bindE (rect_at m p) (\<lambda>r.
             bindE (vec_set (ic_undo c) i (Some (make_undo p r empty_rect))) (\<lambda>us.
               Inr (c\<lparr>ic_undo := us\<rparr>)))
           else Inr c))"

definition diamond_needs_update :: "sc_map \<Rightarrow> point \<Rightarrow> bool result" where
  "diamond_needs_update m d =
     (if \<not> in_bounds m d then Inr False
      else bindE (central_modified m d) (\<lambda>modified.
        if modified then Inr False
        else bindE (central_isom_value m d) (\<lambda>v. Inr (v \<noteq> 0))))"

type_synonym isom_state = "sc_map \<times> isom_cache"

definition set_isom_value :: "bool \<Rightarrow> u16 \<Rightarrow> isom_state \<Rightarrow> point \<Rightarrow> quadrant \<Rightarrow> isom_state result" where
  "set_isom_value undoable v = (\<lambda>(m, c) p q.
     if \<not> in_bounds m p then Inr (m, c)
     else
       let i = snd p * ic_width c + fst p
       in bindE (if undoable \<and> i < length (ic_undo c) then add_isom_undo m p c else Inr c) (\<lambda>c.
          bindE (rect_at m p) (\<lambda>r.
            let r = set_rect_modified q (set_rect_quadrant q v r)
            in bindE (set_rect_at m p r) (\<lambda>m.
               let c = c\<lparr>ic_changed := expand_to_include (fst p) (snd p) (ic_changed c)\<rparr>
               in if undoable \<and> i < length (ic_undo c)
                  then Inr (m, c\<lparr>ic_undo := (ic_undo c)[i := map_option (set_new_value r) (ic_undo c ! i)]\<rparr>)
                  else Inr (m, c)))))"

definition set_diamond_isom_values :: "bool \<Rightarrow> u16 \<Rightarrow> isom_state \<Rightarrow> point \<Rightarrow> isom_state result" where
  "set_diamond_isom_values undoable v st d =
     bindE (set_isom_value undoable v st (rectangle_coords d TopLeft) TopLeft) (\<lambda>st.
     bindE (set_isom_value undoable v st (rectangle_coords d TopRight) TopRight) (\<lambda>st.
     bindE (set_isom_value undoable v st (rectangle_coords d BottomRight) BottomRight) (\<lambda>st.
       set_isom_value undoable v st (rectangle_coords d BottomLeft) BottomLeft)))"

end
