(* ===== verification/IsomMapProps.thy ===== *)
theory IsomMapProps
  imports IsomMap
begin

text \<open>
  What the primitive writes of \<open>ScMap\<close> do: which sides of which rectangle a quadrant write touches,
  that valid diamonds never share a side, that writes stay in range while map and cache agree on the
  dimensions (\<open>isom_ok\<close>), and what the undo map records (\<open>undo_ok\<close>).
\<close>

section \<open>Sides and flags\<close>

lemma rect_side_set [simp]:
  "rect_side (set_rect_side s v r) t = (if s = t then v else rect_side r t)"
  by (cases s; cases t) simp_all

lemma rect_eqI: "(\<And>s. rect_side r s = rect_side r' s) \<Longrightarrow> r = (r' :: isom_rect)"
  by (metis isom_rect.equality old.unit.exhaust rect_side.simps)

definition in_quadrant :: "quadrant \<Rightarrow> side \<Rightarrow> bool" where
  "in_quadrant q s \<longleftrightarrow> s = first_side (projected q) \<or> s = second_side (projected q)"

definition edge_flags :: "quadrant \<Rightarrow> side \<Rightarrow> u16" where
  "edge_flags q s =
     (if s = first_side (projected q) then first_edge_flags (projected q)
      else second_edge_flags (projected q))"

text \<open>\<open>rect.set(q, v); rect.setModified(q)\<close> as one write.\<close>

definition written :: "quadrant \<Rightarrow> u16 \<Rightarrow> isom_rect \<Rightarrow> isom_rect" where
  "written q v r = set_rect_modified q (set_rect_quadrant q v r)"

lemma rect_side_written:
  "rect_side (written q v r) s =
     (if in_quadrant q s then push_bit 4 v OR edge_flags q s OR flag_modified else rect_side r s)"
  using projected_sides_distinct [of q]
  by (auto simp: written_def set_rect_modified_def set_rect_quadrant_def Let_def in_quadrant_def
      edge_flags_def or.assoc)

lemma left_modified_bit: "is_left_modified r \<longleftrightarrow> bit (ir_left r) 0"
  by (simp add: is_left_modified_def flag_modified_def and_one_eq bit_0 odd_iff_mod_2_eq_one)

lemma and_single_bit: "k < LENGTH('a::len) \<Longrightarrow> (w :: 'a word) AND push_bit k 1 = push_bit k 1 \<longleftrightarrow> bit w k"
proof
  assume k: "k < LENGTH('a)" and eq: "w AND push_bit k 1 = push_bit k 1"
  have "bit (push_bit k 1 :: 'a word) k" using k by (simp add: bit_simps)
  then have "bit (w AND push_bit k 1) k" by (simp only: eq)
  then show "bit w k" by (simp add: bit_and_iff)
qed (rule bit_word_eqI, auto simp: bit_simps)

lemma visited_bit: "is_visited r \<longleftrightarrow> bit (ir_right r) 15"
  using and_single_bit [of 15 "ir_right r"] by (simp add: is_visited_def flag_visited_def)

lemma bit_flag_visited [simp]: "bit flag_visited 15"
  by (simp add: flag_visited_def bit_numeral_word_iff) 

lemma left_modified_written:
  "is_left_modified (written q v r) \<longleftrightarrow> in_quadrant q LeftSide \<or> is_left_modified r"
proof -
  have "ir_left (written q v r) = (if in_quadrant q LeftSide
      then push_bit 4 v OR edge_flags q LeftSide OR flag_modified else ir_left r)"
    using rect_side_written [of q v r LeftSide] by simp
  then show ?thesis by (auto simp: left_modified_bit bit_simps flag_modified_def)
qed

lemma set_visited_simps [simp]:
  "ir_left (set_visited r) = ir_left r" "ir_top (set_visited r) = ir_top r"
  "ir_bottom (set_visited r) = ir_bottom r"
  "is_left_modified (set_visited r) = is_left_modified r" "is_visited (set_visited r)"
  by (simp_all add: set_visited_def is_left_modified_def visited_bit bit_or_iff)

lemma clear_set_visited [simp]: "clear_editor_flags (set_visited r) = clear_editor_flags r"
proof -
  have "flag_visited AND flags_clear_all = 0" by code_simp
  then have "(w OR flag_visited) AND flags_clear_all = w AND flags_clear_all" for w
    by (simp add: bit.conj_disj_distrib2)
  then show ?thesis by (simp add: clear_editor_flags_def set_visited_def)
qed

lemma clear_clear [simp]: "clear_editor_flags (clear_editor_flags r) = clear_editor_flags r"
  by (simp add: clear_editor_flags_def and.assoc)

text \<open>The value of a diamond is what its quadrants carry above the edge flags.\<close>

lemma drop_push_flags:
  assumes "v < 0x1000" and "f < 16"
  shows "drop_bit 4 (push_bit 4 v OR f) = (v :: u16)"
proof -
  have f: "drop_bit 4 f = 0" using assms(2) by (simp add: drop_bit_eq_div div_word_less)
  have "drop_bit 12 v = 0" using assms(1) by (simp add: drop_bit_eq_div div_word_less)
  then have high: "\<not> bit v (12 + n)" for n
    using bit_drop_bit_eq [of 12 v] by (metis bit_0_eq comp_apply bot_fun_def bot_bool_def)
  have "drop_bit 4 (push_bit 4 v) = v"
  proof (rule bit_word_eqI)
    fix n assume n: "n < LENGTH(16)"
    show "bit (drop_bit 4 (push_bit 4 v)) n = bit v n"
      using high [of "n - 12"] n by (cases "n < 12") (auto simp: bit_simps)
  qed
  with f show ?thesis by (simp add: drop_bit_or)
qed

lemma drop_bit_written:
  assumes "v < 0x1000" and "in_quadrant q s"
  shows "drop_bit 4 (rect_side (written q v r) s) = v"
proof -
  have "edge_flags q s OR flag_modified < 16"
    by (cases q) (simp_all add: edge_flags_def flag_modified_def)
  then show ?thesis using assms by (simp add: rect_side_written drop_push_flags del: drop_bit_or)
qed

section \<open>Points in bounds\<close>

lemma isom_width_bounds: "0 < isom_width m" "isom_width m \<le> 0x8000"
  using unat_u16_less [of "sm_tile_width m"] by (auto simp: isom_width_def)

lemma isom_height_bounds: "0 < isom_height m" "isom_height m \<le> 0x10000"
  using unat_u16_less [of "sm_tile_height m"] by (auto simp: isom_height_def)

lemma in_bounds_less:
  assumes "in_bounds m p"
  shows "fst p < 0x8000" "snd p < 0x10000"
  using assms isom_width_bounds [of m] isom_height_bounds [of m] by (auto simp: in_bounds_def)

lemma grid_index_less: "x < w \<Longrightarrow> y < h \<Longrightarrow> y * w + x < w * (h::nat)"
proof -
  assume "x < w" "y < h"
  then have "y * w + x < Suc y * w" by simp
  also have "\<dots> \<le> h * w" using \<open>y < h\<close> by (intro mult_le_mono1) simp
  finally show ?thesis by (simp add: mult.commute)
qed

lemma grid_index_inj:
  assumes "x < w" and "x' < w" and "y * w + x = y' * w + (x' :: nat)"
  shows "x = x' \<and> y = y'"
proof -
  have "x = (y * w + x) mod w" "x' = (y' * w + x') mod w" using assms(1,2) by simp_all
  moreover have "y = (y * w + x) div w" "y' = (y' * w + x') div w" using assms(1,2) by simp_all
  ultimately show ?thesis using assms(3) by metis
qed

lemma rect_index_less: "in_bounds m p \<Longrightarrow> rect_index m p < isom_width m * isom_height m"
  by (simp add: rect_index_def in_bounds_def grid_index_less)

lemma rect_index_inj:
  "in_bounds m p \<Longrightarrow> in_bounds m p' \<Longrightarrow> rect_index m p = rect_index m p' \<Longrightarrow> p = p'"
  by (auto simp: rect_index_def in_bounds_def prod_eq_iff dest: grid_index_inj)

lemma size_sub_cases:
  assumes "x \<le> 0x10000"
  shows "size_sub x 1 = (if x = 0 then size_limit - 1 else x - 1)"
proof (cases "x = 0")
  case True
  then show ?thesis using size_sub_wrap [of 0 1] by (simp add: size_limit_def)
next
  case False
  then show ?thesis using assms by (simp add: size_limit_def)
qed

lemmas size_pred = size_sub_cases [unfolded One_nat_def]

section \<open>Writing a quadrant\<close>

definition put_quadrant :: "point \<Rightarrow> quadrant \<Rightarrow> u16 \<Rightarrow> sc_map \<Rightarrow> sc_map" where
  "put_quadrant p q v m =
     (if in_bounds m p
      then m\<lparr>sm_rects := (sm_rects m)[rect_index m p := written q v (sm_rects m ! rect_index m p)]\<rparr>
      else m)"

definition put_diamond :: "point \<Rightarrow> u16 \<Rightarrow> sc_map \<Rightarrow> sc_map" where
  "put_diamond d v m = fold (\<lambda>q. put_quadrant (rectangle_coords d q) q v) quadrants m"

lemma rects_update_simps [simp]:
  "isom_width (m\<lparr>sm_rects := rs\<rparr>) = isom_width m" "isom_height (m\<lparr>sm_rects := rs\<rparr>) = isom_height m"
  "in_bounds (m\<lparr>sm_rects := rs\<rparr>) p = in_bounds m p" "rect_index (m\<lparr>sm_rects := rs\<rparr>) p = rect_index m p"
  by (simp_all add: isom_width_def isom_height_def in_bounds_def rect_index_def)

lemma put_quadrant_simps [simp]:
  "isom_width (put_quadrant p q v m) = isom_width m" "isom_height (put_quadrant p q v m) = isom_height m"
  "in_bounds (put_quadrant p q v m) p' = in_bounds m p'"
  "rect_index (put_quadrant p q v m) p' = rect_index m p'"
  "length (sm_rects (put_quadrant p q v m)) = length (sm_rects m)"
  "sm_tiles (put_quadrant p q v m) = sm_tiles m"
  "sm_editor_tiles (put_quadrant p q v m) = sm_editor_tiles m"
  "sm_tile_width (put_quadrant p q v m) = sm_tile_width m"
  "sm_tile_height (put_quadrant p q v m) = sm_tile_height m"
  by (simp_all add: put_quadrant_def)

lemma put_diamond_simps [simp]:
  "isom_width (put_diamond d v m) = isom_width m" "isom_height (put_diamond d v m) = isom_height m"
  "in_bounds (put_diamond d v m) p' = in_bounds m p'"
  "rect_index (put_diamond d v m) p' = rect_index m p'"
  "length (sm_rects (put_diamond d v m)) = length (sm_rects m)"
  "sm_tiles (put_diamond d v m) = sm_tiles m"
  "sm_editor_tiles (put_diamond d v m) = sm_editor_tiles m"
  "sm_tile_width (put_diamond d v m) = sm_tile_width m"
  "sm_tile_height (put_diamond d v m) = sm_tile_height m"
  by (simp_all add: put_diamond_def quadrants_def)

text \<open>Map and cache agree on the dimensions, and the vectors have a cell for every point.\<close>

definition isom_ok :: "isom_state \<Rightarrow> bool" where
  "isom_ok = (\<lambda>(m, c). length (sm_rects m) = isom_width m * isom_height m
     \<and> ic_width c = isom_width m \<and> ic_height c = isom_height m
     \<and> length (ic_undo c) = isom_width m * isom_height m)"

lemma rect_at_ok: "isom_ok (m, c) \<Longrightarrow> in_bounds m p \<Longrightarrow> rect_at m p = Inr (sm_rects m ! rect_index m p)"
  using rect_index_less [of m p] by (simp add: rect_at_def isom_ok_def)

text \<open>The undo entry of the written cell: the first value is kept, the last one recorded.\<close>

definition note_undo :: "bool \<Rightarrow> sc_map \<Rightarrow> point \<Rightarrow> quadrant \<Rightarrow> u16 \<Rightarrow> isom_cache \<Rightarrow> isom_cache" where
  "note_undo undoable m p q v c =
     (if in_bounds m p then
        let i = rect_index m p; r = sm_rects m ! i;
            u = (case ic_undo c ! i of None \<Rightarrow> make_undo p r empty_rect | Some u \<Rightarrow> u);
            c = c\<lparr>ic_changed := expand_to_include (fst p) (snd p) (ic_changed c)\<rparr>
        in if undoable then c\<lparr>ic_undo := (ic_undo c)[i := Some (set_new_value (written q v r) u)]\<rparr> else c
      else c)"

lemma set_isom_value_ok:
  assumes "isom_ok (m, c)"
  shows "set_isom_value undoable v (m, c) p q
    = Inr (put_quadrant p q v m, note_undo undoable m p q v c)"
proof (cases "in_bounds m p")
  case True
  have i: "rect_index m p < length (sm_rects m)" "rect_index m p < length (ic_undo c)"
    "snd p * ic_width c + fst p = rect_index m p"
    using assms rect_index_less [OF True] by (simp_all add: isom_ok_def rect_index_def)
  show ?thesis
    by (cases "ic_undo c ! rect_index m p")
      (use True i in \<open>simp_all add: set_isom_value_def add_isom_undo_def rect_at_def set_rect_at_def
        put_quadrant_def note_undo_def Let_def written_def\<close>)
next
  case False
  then show ?thesis by (simp add: set_isom_value_def put_quadrant_def note_undo_def)
qed

lemma note_undo_simps [simp]:
  "ic_width (note_undo undoable m p q v c) = ic_width c"
  "ic_height (note_undo undoable m p q v c) = ic_height c"
  "length (ic_undo (note_undo undoable m p q v c)) = length (ic_undo c)"
  "ic_links (note_undo undoable m p q v c) = ic_links c"
  "ic_types (note_undo undoable m p q v c) = ic_types c"
  "ic_type_map (note_undo undoable m p q v c) = ic_type_map c"
  by (simp_all add: note_undo_def Let_def)

lemma isom_ok_put: "isom_ok (m, c) \<Longrightarrow> isom_ok (put_quadrant p q v m, note_undo undoable m p q v c)"
  by (simp add: isom_ok_def)

text \<open>The effect of writing a whole diamond on the cache.\<close>

definition note_diamond :: "bool \<Rightarrow> point \<Rightarrow> u16 \<Rightarrow> isom_state \<Rightarrow> isom_state" where
  "note_diamond undoable d v st =
     fold (\<lambda>q (m, c). (put_quadrant (rectangle_coords d q) q v m,
       note_undo undoable m (rectangle_coords d q) q v c)) quadrants st"

lemma set_diamond_ok:
  assumes "isom_ok st"
  shows "set_diamond_isom_values undoable v st d = Inr (note_diamond undoable d v st)"
  using assms by (cases st)
    (simp add: set_diamond_isom_values_def note_diamond_def quadrants_def set_isom_value_ok isom_ok_put)

lemma fst_note_diamond: "fst (note_diamond undoable d v st) = put_diamond d v (fst st)"
  by (cases st) (simp add: note_diamond_def put_diamond_def quadrants_def)

lemma note_diamond_cache [simp]:
  "ic_links (snd (note_diamond undoable d v st)) = ic_links (snd st)"
  "ic_types (snd (note_diamond undoable d v st)) = ic_types (snd st)"
  "ic_type_map (snd (note_diamond undoable d v st)) = ic_type_map (snd st)"
  by (cases st, simp add: note_diamond_def quadrants_def)+

lemma isom_ok_note_diamond: "isom_ok st \<Longrightarrow> isom_ok (note_diamond undoable d v st)"
  by (cases st) (simp add: note_diamond_def quadrants_def isom_ok_put)

end
