(* ===== verification/IsomEdit.thy ===== *)
theory IsomEdit
  imports IsomMapProps
begin

text \<open>
  The terrain algorithms of \<open>ScMap\<close> in \<open>IsomTerrain/IsomApi.h\<close>: matching a diamond against its
  neighbours, the radial update around brushed terrain, the two brush operations, and the
  regeneration of tiles from the ISOM section. \<open>std::out_of_range\<close> from a \<open>Span\<close> and accesses outside
  an unchecked vector are the error values of \<open>Prelude\<close>.
\<close>

section \<open>The neighbours of a diamond\<close>

record neighbor_quadrant =
  nq_link_id :: u16
  nq_isom_value :: u16
  nq_modified :: bool

record isom_neighbors =
  in_upper_left :: neighbor_quadrant
  in_upper_right :: neighbor_quadrant
  in_lower_right :: neighbor_quadrant
  in_lower_left :: neighbor_quadrant
  in_max_modified :: u8
  in_best_value :: u16
  in_best_count :: nat

definition no_neighbor :: neighbor_quadrant where
  "no_neighbor = \<lparr>nq_link_id = 0, nq_isom_value = 0, nq_modified = False\<rparr>"

definition no_neighbors :: isom_neighbors where
  "no_neighbors = \<lparr>in_upper_left = no_neighbor, in_upper_right = no_neighbor,
     in_lower_right = no_neighbor, in_lower_left = no_neighbor, in_max_modified = 0,
     in_best_value = 0, in_best_count = 0\<rparr>"

fun neighbor_at :: "isom_neighbors \<Rightarrow> quadrant \<Rightarrow> neighbor_quadrant" where
  "neighbor_at n TopLeft = in_upper_left n"
| "neighbor_at n TopRight = in_upper_right n"
| "neighbor_at n BottomRight = in_lower_right n"
| "neighbor_at n BottomLeft = in_lower_left n"

fun set_neighbor :: "quadrant \<Rightarrow> neighbor_quadrant \<Rightarrow> isom_neighbors \<Rightarrow> isom_neighbors" where
  "set_neighbor TopLeft v n = n\<lparr>in_upper_left := v\<rparr>"
| "set_neighbor TopRight v n = n\<lparr>in_upper_right := v\<rparr>"
| "set_neighbor BottomRight v n = n\<lparr>in_lower_right := v\<rparr>"
| "set_neighbor BottomLeft v n = n\<lparr>in_lower_left := v\<rparr>"

definition load_neighbor ::
  "sc_map \<Rightarrow> point \<Rightarrow> shape_links list \<Rightarrow> isom_neighbors \<Rightarrow> quadrant \<Rightarrow> isom_neighbors result"
where
  "load_neighbor m d links n q =
     (let p = get_neighbor d q
      in if \<not> in_bounds m p then Inr n
         else
           bindE (central_isom_value m p) (\<lambda>v.
           bindE (central_modified m p) (\<lambda>modified.
             if unat v < length links then
               let row = links ! unat v;
                   n = set_neighbor q \<lparr>nq_link_id = get_link_id row (opposite_quadrant q),
                     nq_isom_value = v, nq_modified = modified\<rparr> n
               in Inr (if modified \<and> in_max_modified n < sl_terrain_type row
                       then n\<lparr>in_max_modified := sl_terrain_type row\<rparr> else n)
             else
               Inr (set_neighbor q \<lparr>nq_link_id = nq_link_id (neighbor_at n q),
                 nq_isom_value = v, nq_modified = modified\<rparr> n))))"

definition load_neighbor_info :: "sc_map \<Rightarrow> point \<Rightarrow> shape_links list \<Rightarrow> isom_neighbors result" where
  "load_neighbor_info m d links = foldE (load_neighbor m d links) no_neighbors quadrants"

text \<open>The quadrants still to compare and the matches so far; a mismatch with a modified neighbour
  returns 0 at once.\<close>

primrec count_matches ::
  "shape_links \<Rightarrow> isom_neighbors \<Rightarrow> shape_links list \<Rightarrow> quadrant list \<Rightarrow> nat \<Rightarrow> nat result"
where
  "count_matches row n links [] count = Inr count"
| "count_matches row n links (q # qs) count =
     bindE (span_get links (unat (nq_isom_value (neighbor_at n q)))) (\<lambda>shape.
       let neighbor_link = nq_link_id (neighbor_at n q); quadrant_link = get_link_id row q
       in if neighbor_link = quadrant_link
             \<and> (quadrant_link < only_match_same_type \<or> sl_terrain_type row = sl_terrain_type shape)
          then count_matches row n links qs (Suc count)
          else if nq_modified (neighbor_at n q) then Inr 0
          else count_matches row n links qs count)"

definition count_neighbor_matches ::
  "shape_links \<Rightarrow> isom_neighbors \<Rightarrow> shape_links list \<Rightarrow> nat result"
where
  "count_neighbor_matches row n links = count_matches row n links quadrants 0"

text \<open>
  The scan of the link table. The loop variable is a \<open>uint16_t\<close>; the tables have fewer than 65536
  rows (isom values and fourteen rows per type), so a natural number counts the same rows.
\<close>

function search_rows ::
  "bool \<Rightarrow> bool \<Rightarrow> u16 \<Rightarrow> shape_links list \<Rightarrow> nat \<Rightarrow> isom_neighbors \<Rightarrow> isom_neighbors result"
where
  "search_rows until_end until_higher start links i n =
     (if length links \<le> i then Inr n
      else
        let t = ucast (sl_terrain_type (links ! i)) :: u16
        in if \<not> until_end \<and> t \<noteq> start \<and> (\<not> until_higher \<or> start < t) then Inr n
           else
             bindE (count_neighbor_matches (links ! i) n links) (\<lambda>count.
               search_rows until_end until_higher start links (Suc i)
                 (if in_best_count n < count
                  then n\<lparr>in_best_value := of_nat i, in_best_count := count\<rparr> else n)))"
  by pat_completeness auto
termination by (relation "measure (\<lambda>(a, b, s, links, i, n). length links - i)") auto

definition search_for_best_match ::
  "u16 \<Rightarrow> isom_cache \<Rightarrow> isom_neighbors \<Rightarrow> isom_neighbors result"
where
  "search_for_best_match start c n =
     (let until_higher = (unat start = length (ic_types c) div 2 + 1);
          until_end = (start = 0)
      in search_rows until_end until_higher start (ic_links c)
           (unat (terrain_type_isom_value c (unat start))) n)"

definition find_best_match_isom_value :: "sc_map \<Rightarrow> isom_cache \<Rightarrow> point \<Rightarrow> u16 option result" where
  "find_best_match_isom_value m c d =
     bindE (load_neighbor_info m d (ic_links c)) (\<lambda>n.
     bindE (central_isom_value m d) (\<lambda>prev.
     bindE
       (if unat prev < length (ic_links c) then
          let prev_type = sl_terrain_type (ic_links c ! unat prev)
          in bindE (span_get (ic_type_map c)
                (unat (in_max_modified n) * length (ic_types c) + unat prev_type)) (\<lambda>mapped.
               search_for_best_match mapped c n)
        else Inr n) (\<lambda>n.
     bindE (search_for_best_match (ucast (in_max_modified n)) c n) (\<lambda>n.
     bindE (search_for_best_match (of_nat (length (ic_types c) div 2 + 1)) c n) (\<lambda>n.
       Inr (if in_best_value n = prev then None else Some (in_best_value n)))))))"

section \<open>The radial update\<close>

text \<open>The neighbours of a diamond that need an update, in order.\<close>

definition dirty_neighbors :: "sc_map \<Rightarrow> point \<Rightarrow> point list result" where
  "dirty_neighbors m d =
     foldE (\<lambda>ps q. bindE (diamond_needs_update m (get_neighbor d q)) (\<lambda>dirty.
       Inr (if dirty then ps @ [get_neighbor d q] else ps))) [] quadrants"

text \<open>What the loop does with the diamond it takes from the queue: the new state and the diamonds to append.\<close>

definition radial_step :: "bool \<Rightarrow> isom_state \<Rightarrow> point \<Rightarrow> (isom_state \<times> point list) result" where
  "radial_step undoable = (\<lambda>(m, c) d.
     bindE (diamond_needs_update m d) (\<lambda>dirty.
       if \<not> dirty then Inr ((m, c), [])
       else
         bindE (rect_at m d) (\<lambda>r.
           if is_visited r then Inr ((m, c), [])
           else
             bindE (set_rect_at m d (set_visited r)) (\<lambda>m.
               let c = c\<lparr>ic_changed := expand_to_include (fst d) (snd d) (ic_changed c)\<rparr>
               in bindE (find_best_match_isom_value m c d) (\<lambda>best.
                    case best of
                      None \<Rightarrow> Inr ((m, c), [])
                    | Some v \<Rightarrow>
                        bindE (if v \<noteq> 0 then set_diamond_isom_values undoable v (m, c) d else Inr (m, c))
                          (\<lambda>st. bindE (dirty_neighbors (fst st) d) (\<lambda>ps. Inr (st, ps))))))))"

text \<open>
  Why the loop ends: a diamond that is taken up for the first time becomes visited, and one that is
  rewritten becomes modified for good, although the writes around it clear visited flags.
\<close>

definition unmodified :: "sc_map \<Rightarrow> nat" where
  "unmodified m = card {i. i < length (sm_rects m) \<and> \<not> is_left_modified (sm_rects m ! i)}"

definition unvisited :: "sc_map \<Rightarrow> nat" where
  "unvisited m = card {i. i < length (sm_rects m) \<and> \<not> is_visited (sm_rects m ! i)}"

lemma set_isom_value_map:
  assumes "set_isom_value undoable v (m, c) p q = Inr (m', c')"
  shows "m' = put_quadrant p q v m" and "in_bounds m p \<Longrightarrow> rect_index m p < length (sm_rects m)"
  using assms
  by (auto simp: set_isom_value_def put_quadrant_def Let_def bindE_Inr rect_at_def set_rect_at_def
      written_def split: if_splits)

lemma set_diamond_map:
  assumes "set_diamond_isom_values undoable v (m, c) d = Inr (m', c')"
  shows "m' = put_diamond d v m" and "in_bounds m d \<Longrightarrow> rect_index m d < length (sm_rects m)"
proof -
  from assms obtain m1 c1 m2 c2 m3 c3 where
    1: "set_isom_value undoable v (m, c) (rectangle_coords d TopLeft) TopLeft = Inr (m1, c1)"
    and 2: "set_isom_value undoable v (m1, c1) (rectangle_coords d TopRight) TopRight = Inr (m2, c2)"
    and 3: "set_isom_value undoable v (m2, c2) (rectangle_coords d BottomRight) BottomRight = Inr (m3, c3)"
    and 4: "set_isom_value undoable v (m3, c3) (rectangle_coords d BottomLeft) BottomLeft = Inr (m', c')"
    by (auto simp: set_diamond_isom_values_def bindE_Inr)
  note m = set_isom_value_map(1) [OF 1] set_isom_value_map(1) [OF 2] set_isom_value_map(1) [OF 3]
    set_isom_value_map(1) [OF 4]
  then show "m' = put_diamond d v m" by (simp add: put_diamond_def quadrants_def)
  show "in_bounds m d \<Longrightarrow> rect_index m d < length (sm_rects m)"
    using set_isom_value_map(2) [OF 3] m by (cases d) simp
qed

lemma put_quadrant_modified:
  assumes "i < length (sm_rects m)"
  shows "is_left_modified (sm_rects (put_quadrant p q v m) ! i) \<longleftrightarrow>
    is_left_modified (sm_rects m ! i) \<or> (in_bounds m p \<and> i = rect_index m p \<and> in_quadrant q LeftSide)"
  using assms by (auto simp: put_quadrant_def nth_update left_modified_written)

lemma put_diamond_modified:
  assumes "i < length (sm_rects m)" and "is_left_modified (sm_rects m ! i)"
  shows "is_left_modified (sm_rects (put_diamond d v m) ! i)"
  using assms by (simp add: put_diamond_def quadrants_def put_quadrant_modified)

lemma put_diamond_center:
  assumes "rect_index m d < length (sm_rects m)" and "in_bounds m d"
  shows "is_left_modified (sm_rects (put_diamond d v m) ! rect_index m d)"
  using assms by (cases d) (simp add: put_diamond_def quadrants_def put_quadrant_modified in_quadrant_def)

lemma put_diamond_unmodified:
  assumes "rect_index m d < length (sm_rects m)" and "in_bounds m d"
    and "\<not> is_left_modified (sm_rects m ! rect_index m d)"
  shows "unmodified (put_diamond d v m) < unmodified m"
  unfolding unmodified_def
proof (rule psubset_card_mono)
  show "finite {i. i < length (sm_rects m) \<and> \<not> is_left_modified (sm_rects m ! i)}" by simp
  show "{i. i < length (sm_rects (put_diamond d v m)) \<and> \<not> is_left_modified (sm_rects (put_diamond d v m) ! i)}
      \<subset> {i. i < length (sm_rects m) \<and> \<not> is_left_modified (sm_rects m ! i)}"
    using assms put_diamond_modified [of _ m d v] put_diamond_center [OF assms(1,2), of v] by auto
qed

lemma visit_measure:
  assumes "i < length (sm_rects m)" and "\<not> is_visited (sm_rects m ! i)"
  shows "unvisited (m\<lparr>sm_rects := (sm_rects m)[i := set_visited (sm_rects m ! i)]\<rparr>) < unvisited m"
    and "unmodified (m\<lparr>sm_rects := (sm_rects m)[i := set_visited (sm_rects m ! i)]\<rparr>) = unmodified m"
proof -
  let ?rs = "(sm_rects m)[i := set_visited (sm_rects m ! i)]"
  show "unvisited (m\<lparr>sm_rects := ?rs\<rparr>) < unvisited m"
    unfolding unvisited_def
  proof (rule psubset_card_mono)
    have "is_visited (?rs ! j) \<longleftrightarrow> is_visited (sm_rects m ! j) \<or> j = i" if "j < length (sm_rects m)" for j
      using nth_update [OF that, of i] by (cases "j = i") simp_all
    then show "{j. j < length (sm_rects (m\<lparr>sm_rects := ?rs\<rparr>)) \<and> \<not> is_visited (sm_rects (m\<lparr>sm_rects := ?rs\<rparr>) ! j)}
        \<subset> {j. j < length (sm_rects m) \<and> \<not> is_visited (sm_rects m ! j)}"
      using assms by auto
  qed simp
  have "is_left_modified (?rs ! j) = is_left_modified (sm_rects m ! j)" if "j < length (sm_rects m)" for j
    using nth_update [OF that, of i] by (cases "j = i") simp_all
  then show "unmodified (m\<lparr>sm_rects := ?rs\<rparr>) = unmodified m"
    unfolding unmodified_def by (intro arg_cong [where f = card]) auto
qed

text \<open>The three ways a step can go.\<close>

lemma radial_step_cases:
  assumes "radial_step undoable (m, c) d = Inr ((m', c'), ps)"
  obtains (skip) "m' = m" "c' = c" "ps = []"
  | (dirty) i m1 c1 where "in_bounds m d" "i = rect_index m d" "i < length (sm_rects m)"
      "\<not> is_left_modified (sm_rects m ! i)" "\<not> is_visited (sm_rects m ! i)"
      "m1 = m\<lparr>sm_rects := (sm_rects m)[i := set_visited (sm_rects m ! i)]\<rparr>"
      "c1 = c\<lparr>ic_changed := expand_to_include (fst d) (snd d) (ic_changed c)\<rparr>"
      "(m', c') = (m1, c1) \<and> set ps \<subseteq> range (get_neighbor d)
       \<or> (\<exists>v. v \<noteq> 0 \<and> set_diamond_isom_values undoable v (m1, c1) d = Inr (m', c')
            \<and> find_best_match_isom_value m1 c1 d = Inr (Some v)
            \<and> set ps \<subseteq> range (get_neighbor d))"
proof (cases "diamond_needs_update m d")
  case (Inl e)
  with assms show ?thesis by (simp add: radial_step_def)
next
  case (Inr dirty)
  show ?thesis
  proof (cases dirty)
    case False
    with Inr assms skip show ?thesis by (simp add: radial_step_def)
  next
    case True
    let ?i = "rect_index m d"
    have i: "in_bounds m d" "?i < length (sm_rects m)" "\<not> is_left_modified (sm_rects m ! ?i)"
      using Inr True
      by (auto simp: diamond_needs_update_def central_modified_def rect_at_def bindE_Inr split: if_splits)
    show ?thesis
    proof (cases "is_visited (sm_rects m ! ?i)")
      case True
      with Inr \<open>dirty\<close> i assms skip show ?thesis by (simp add: radial_step_def rect_at_def)
    next
      case False
      let ?m = "m\<lparr>sm_rects := (sm_rects m)[?i := set_visited (sm_rects m ! ?i)]\<rparr>"
      let ?c = "c\<lparr>ic_changed := expand_to_include (fst d) (snd d) (ic_changed c)\<rparr>"
      have nbrs: "set ps \<subseteq> range (get_neighbor d)" if "dirty_neighbors n d = Inr ps" for n
        using that unfolding dirty_neighbors_def
        by (rule foldE_invariant [where I = "\<lambda>ps. set ps \<subseteq> range (get_neighbor d)"])
          (auto simp: bindE_Inr split: if_splits)
      from Inr \<open>dirty\<close> i False assms have
        "bindE (find_best_match_isom_value ?m ?c d) (\<lambda>best. case best of
             None \<Rightarrow> Inr ((?m, ?c), [])
           | Some v \<Rightarrow> bindE (if v \<noteq> 0 then set_diamond_isom_values undoable v (?m, ?c) d else Inr (?m, ?c))
               (\<lambda>st. bindE (dirty_neighbors (fst st) d) (\<lambda>ps. Inr (st, ps)))) = Inr ((m', c'), ps)"
        by (simp add: radial_step_def rect_at_def set_rect_at_def Let_def)
      then obtain best where best: "find_best_match_isom_value ?m ?c d = Inr best"
        and rest: "(case best of
             None \<Rightarrow> Inr ((?m, ?c), [])
           | Some v \<Rightarrow> bindE (if v \<noteq> 0 then set_diamond_isom_values undoable v (?m, ?c) d else Inr (?m, ?c))
               (\<lambda>st. bindE (dirty_neighbors (fst st) d) (\<lambda>ps. Inr (st, ps)))) = Inr ((m', c'), ps)"
        by (auto simp: bindE_Inr)
      have "(m', c') = (?m, ?c) \<and> set ps \<subseteq> range (get_neighbor d)
       \<or> (\<exists>v. v \<noteq> 0 \<and> set_diamond_isom_values undoable v (?m, ?c) d = Inr (m', c')
            \<and> find_best_match_isom_value ?m ?c d = Inr (Some v)
            \<and> set ps \<subseteq> range (get_neighbor d))"
      proof (cases best)
        case None
        with rest show ?thesis by simp
      next
        case (Some v)
        with rest obtain st where
          st: "(if v \<noteq> 0 then set_diamond_isom_values undoable v (?m, ?c) d else Inr (?m, ?c)) = Inr st"
          and "dirty_neighbors (fst st) d = Inr ps" "st = (m', c')"
          by (auto simp: bindE_Inr)
        with nbrs [of "fst st"] best Some show ?thesis by (cases "v = 0") simp_all
      qed
      from dirty [OF i(1) refl i(2,3) False refl refl this] show ?thesis .
    qed
  qed
qed

lemma radial_step_measure:
  assumes "radial_step undoable (m, c) d = Inr ((m', c'), ps)"
  shows "unmodified m' < unmodified m
    \<or> (unmodified m' = unmodified m \<and> (unvisited m' < unvisited m \<or> (unvisited m' = unvisited m \<and> ps = [])))"
  using assms
proof (cases rule: radial_step_cases)
  case (dirty i m1 c1)
  have visit: "unvisited m1 < unvisited m" "unmodified m1 = unmodified m"
    using visit_measure [OF dirty(3,5)] dirty(6) by simp_all
  from dirty(8) show ?thesis
  proof
    assume "(m', c') = (m1, c1) \<and> set ps \<subseteq> range (get_neighbor d)"
    with visit show ?thesis by simp
  next
    assume "\<exists>v. v \<noteq> 0 \<and> set_diamond_isom_values undoable v (m1, c1) d = Inr (m', c')
      \<and> find_best_match_isom_value m1 c1 d = Inr (Some v) \<and> set ps \<subseteq> range (get_neighbor d)"
    then obtain v where "set_diamond_isom_values undoable v (m1, c1) d = Inr (m', c')" by blast
    then have "m' = put_diamond d v m1" by (rule set_diamond_map)
    then have "unmodified m' < unmodified m1"
      using dirty(1-4,6) put_diamond_unmodified [of m1 d v] by simp
    with visit show ?thesis by simp
  qed
qed simp

function radially_update_terrain :: "bool \<Rightarrow> isom_state \<Rightarrow> point list \<Rightarrow> isom_state result" where
  "radially_update_terrain undoable st [] = Inr st"
| "radially_update_terrain undoable st (d # queue) =
     bindE (radial_step undoable st d) (\<lambda>(st, ps). radially_update_terrain undoable st (queue @ ps))"
  by pat_completeness auto
termination
proof (relation "measures [\<lambda>(u, st, queue). unmodified (fst st), \<lambda>(u, st, queue). unvisited (fst st),
    \<lambda>(u, st, queue). length queue]", goal_cases)
  case (2 undoable st d queue x st' ps)
  then have "radial_step undoable (fst st, snd st) d = Inr ((fst st', snd st'), ps)" by simp
  from radial_step_measure [OF this] show ?case by auto
qed simp

declare radially_update_terrain.simps(2) [simp del]

end
