(* ===== verification/IsomPlace.thy ===== *)
theory IsomPlace
  imports IsomEdit
begin

text \<open>
  The operations of \<open>ScMap\<close> on top of the radial update: brushing an \<open>N\<times>N\<close> block or a set of diamonds,
  regenerating tiles from the changed area, copying and resizing the ISOM section
  (\<open>placeIsomTerrain\<close> \dots \<open>updateTileFromIsom\<close> in \<open>IsomTerrain/IsomApi.h\<close>).
\<close>

section \<open>Brushes\<close>

text \<open>\<open>int(size_t)\<close> keeps the low 32 bits; signed division truncates.\<close>

definition int_of_size :: "nat \<Rightarrow> int" where
  "int_of_size n = (let k = int n mod 2 ^ 32 in if k < 2 ^ 31 then k else k - 2 ^ 32)"

definition size_of_int :: "int \<Rightarrow> nat" where
  "size_of_int i = nat (i mod 2 ^ 64)"

definition div_minus_two :: "int \<Rightarrow> int" where
  "div_minus_two i = - (sgn i * (\<bar>i\<bar> div 2))"

definition brush_min :: "nat \<Rightarrow> int" where
  "brush_min extent = (let b = div_minus_two (int_of_size extent) in if extent mod 2 = 0 then b + 1 else b)"

definition brush_max :: "nat \<Rightarrow> int" where
  "brush_max extent = brush_min extent + int_of_size extent"

definition brush_point :: "point \<Rightarrow> int \<times> int \<Rightarrow> point" where
  "brush_point d = (\<lambda>(ox, oy).
     (size_add (size_add (fst d) (size_of_int ox)) (size_of_int (- oy)),
      size_add (size_add (snd d) (size_of_int ox)) (size_of_int oy)))"

definition brush_offsets :: "nat \<Rightarrow> (int \<times> int) list" where
  "brush_offsets extent =
     (let range = [brush_min extent..brush_max extent - 1]
      in List.product range range)"

definition on_brush_edge :: "nat \<Rightarrow> int \<times> int \<Rightarrow> bool" where
  "on_brush_edge extent = (\<lambda>(ox, oy).
     ox = brush_min extent \<or> ox = brush_max extent - 1 \<or> oy = brush_min extent \<or> oy = brush_max extent - 1)"

definition brush_allowed :: "isom_cache \<Rightarrow> u16 \<Rightarrow> bool" where
  "brush_allowed c v \<longleftrightarrow> v \<noteq> 0 \<and> unat v < length (ic_links c)
     \<and> sl_terrain_type (ic_links c ! unat v) \<noteq> 0"

definition brush_step ::
  "point \<Rightarrow> nat \<Rightarrow> u16 \<Rightarrow> isom_state \<times> point list \<Rightarrow> int \<times> int \<Rightarrow> (isom_state \<times> point list) result"
where
  "brush_step d extent v = (\<lambda>(st, queue) offset.
     let p = brush_point d offset
     in if \<not> in_bounds (fst st) p then Inr (st, queue)
        else
          bindE (set_diamond_isom_values True v st p) (\<lambda>st.
            if on_brush_edge extent offset
            then bindE (dirty_neighbors (fst st) p) (\<lambda>ps. Inr (st, queue @ ps))
            else Inr (st, queue)))"

definition place_isom_terrain ::
  "point \<Rightarrow> nat \<Rightarrow> nat \<Rightarrow> isom_state \<Rightarrow> (bool \<times> isom_state) result"
where
  "place_isom_terrain d terrain_type extent = (\<lambda>(m, c).
     let v = terrain_type_isom_value c terrain_type
     in if \<not> is_valid_diamond d \<or> \<not> brush_allowed c v then Inr (False, (m, c))
        else
          bindE (foldE (brush_step d extent v) ((m, reset_changed_area c), []) (brush_offsets extent))
            (\<lambda>(st, queue).
          bindE (radially_update_terrain True st queue) (\<lambda>st. Inr (True, st))))"

definition place_isom_terrain_diamonds ::
  "point list \<Rightarrow> nat \<Rightarrow> isom_state \<Rightarrow> (bool \<times> isom_state) result"
where
  "place_isom_terrain_diamonds diamonds terrain_type = (\<lambda>(m, c).
     let v = terrain_type_isom_value c terrain_type
     in if \<not> brush_allowed c v \<or> diamonds = [] then Inr (False, (m, c))
        else if \<exists>d \<in> set diamonds. \<not> is_valid_diamond d \<or> \<not> in_bounds m d then Inr (False, (m, c))
        else
          bindE (foldE (set_diamond_isom_values True v) (m, reset_changed_area c) diamonds) (\<lambda>st.
          bindE (foldE (\<lambda>queue d. bindE (dirty_neighbors (fst st) d) (\<lambda>ps. Inr (queue @ ps))) [] diamonds)
            (\<lambda>queue.
          bindE (radially_update_terrain True st queue) (\<lambda>st. Inr (True, st)))))"

section \<open>Tiles from the ISOM section\<close>

definition tile_group_of :: "u16 \<Rightarrow> nat" where
  "tile_group_of tile = unat tile div 16"

definition group_tile :: "nat \<Rightarrow> u16 \<Rightarrow> u16" where
  "group_tile g subtile = of_nat (16 * g) + subtile"

definition stack_top_of :: "isom_cache \<Rightarrow> nat \<Rightarrow> u16 result" where
  "stack_top_of c g = bindE (span_get (ic_tile_groups c) g) (\<lambda>t. Inr (rc_top (tg_stack t)))"

definition stack_bottom_of :: "isom_cache \<Rightarrow> nat \<Rightarrow> u16 result" where
  "stack_bottom_of c g = bindE (span_get (ic_tile_groups c) g) (\<lambda>t. Inr (rc_bottom (tg_stack t)))"

text \<open>The first candidate whose stack-top connection fits, as in both searches of the function.\<close>

fun find_stackable :: "isom_cache \<Rightarrow> u16 \<Rightarrow> u16 list \<Rightarrow> u16 option result" where
  "find_stackable c bottom [] = Inr None"
| "find_stackable c bottom (g # gs) =
     bindE (stack_top_of c (unat g)) (\<lambda>top.
       if top = bottom then Inr (Some g) else find_stackable c bottom gs)"

text \<open>Climbing to the top row of the stack: \<open>y\<close> rows are left above.\<close>

primrec stack_top :: "sc_map \<Rightarrow> isom_cache \<Rightarrow> nat \<Rightarrow> nat \<Rightarrow> nat \<Rightarrow> nat result" where
  "stack_top m c x 0 cur = Inr 0"
| "stack_top m c x (Suc y) cur =
     (if length (ic_tile_groups c) \<le> cur then Inr (Suc y)
      else
        bindE (stack_top_of c cur) (\<lambda>top.
          if top = 0 then Inr (Suc y)
          else
            bindE (get_tile_value m x y) (\<lambda>t.
              let above = tile_group_of t
              in if length (ic_tile_groups c) \<le> above then Inr (Suc y)
                 else
                   bindE (stack_bottom_of c above) (\<lambda>bottom.
                     if top \<noteq> bottom then Inr (Suc y) else stack_top m c x y above))))"

text \<open>The rows below the top of the stack, until a row that does not continue it.\<close>

fun rest_of_stack :: "isom_cache \<Rightarrow> nat \<Rightarrow> u16 \<Rightarrow> sc_map \<Rightarrow> nat list \<Rightarrow> sc_map result" where
  "rest_of_stack c ix subtile m [] = Inr m"
| "rest_of_stack c ix subtile m (y # ys) =
     bindE (get_tile_value m (2 * ix) (y - 1)) (\<lambda>t.
     bindE (get_tile_value m (2 * ix) y) (\<lambda>t'.
       let g = tile_group_of t; g' = tile_group_of t'; n = length (ic_tile_groups c)
       in if n \<le> g \<or> n \<le> g' then Inr m
          else
            bindE (stack_bottom_of c g) (\<lambda>bottom.
            bindE (stack_top_of c g') (\<lambda>top.
              if bottom = 0 \<or> top = 0 then Inr m
              else
                bindE (get_tile_value m (2 * ix + 1) y) (\<lambda>tr.
                bindE
                  (if bottom \<noteq> top then
                     bindE (rect_at m (ix, y)) (\<lambda>r.
                     bindE (rect_hash (ic_links c) r) (\<lambda>h.
                       case ic_hash c h of
                         None \<Rightarrow> Inr (g', tile_group_of tr)
                       | Some gs \<Rightarrow>
                           bindE (find_stackable c bottom gs) (\<lambda>found.
                             Inr (case found of
                                    None \<Rightarrow> (g', tile_group_of tr)
                                  | Some k \<Rightarrow> (unat k, unat (k + 1))))))
                   else Inr (g', tile_group_of tr))
                  (\<lambda>(left, right).
                bindE (set_tile_value (2 * ix) y (group_tile left subtile) m) (\<lambda>m.
                bindE (set_tile_value (2 * ix + 1) y (group_tile right subtile) m) (\<lambda>m.
                  rest_of_stack c ix subtile m ys))))))))"

definition update_tile_from_isom :: "isom_state \<Rightarrow> point \<Rightarrow> isom_state result" where
  "update_tile_from_isom = (\<lambda>(m, c) (ix, y).
     if ic_width c \<le> size_add ix 1 \<or> ic_height c \<le> size_add y 1 then Inr (m, c)
     else
       bindE (rect_at m (ix, y)) (\<lambda>r.
       bindE (rect_hash (ic_links c) r) (\<lambda>h.
         case ic_hash c h of
           None \<Rightarrow>
             bindE (set_tile_value (2 * ix) y 0 m) (\<lambda>m.
             bindE (set_tile_value (2 * ix + 1) y 0 m) (\<lambda>m. Inr (m, c)))
         | Some gs \<Rightarrow>
             bindE (vec_get gs 0) (\<lambda>first.
             bindE
               (if 0 < y then
                  bindE (get_tile_value m (2 * ix) (y - 1)) (\<lambda>t.
                    if tile_group_of t < length (ic_tile_groups c) then
                      bindE (stack_bottom_of c (tile_group_of t)) (\<lambda>bottom.
                      bindE (find_stackable c bottom gs) (\<lambda>found.
                        Inr (case found of None \<Rightarrow> first | Some g \<Rightarrow> g)))
                    else Inr first)
                else Inr first) (\<lambda>dest.
               let (tile, c) = get_random_subtile dest c; subtile = tile mod 16
               in bindE (set_tile_value (2 * ix) y (16 * dest + subtile) m) (\<lambda>m.
                  bindE (set_tile_value (2 * ix + 1) y (16 * (dest + 1) + subtile) m) (\<lambda>m.
                  bindE (get_tile_value m (2 * ix) y) (\<lambda>t.
                  bindE (stack_top m c (2 * ix) y (tile_group_of t)) (\<lambda>top.
                  bindE (get_tile_value m (2 * ix) top) (\<lambda>tl.
                  bindE (set_tile_value (2 * ix) top (group_tile (tile_group_of tl) subtile) m) (\<lambda>m.
                  bindE (get_tile_value m (2 * ix + 1) top) (\<lambda>tr.
                  bindE (set_tile_value (2 * ix + 1) top (group_tile (tile_group_of tr) subtile) m) (\<lambda>m.
                  bindE (rest_of_stack c ix subtile m [top + 1..<unat (sm_tile_height m)]) (\<lambda>m.
                    Inr (m, c)))))))))))))))"

definition area_points :: "nat \<Rightarrow> nat \<Rightarrow> nat \<Rightarrow> nat \<Rightarrow> point list" where
  "area_points x0 y0 x1 y1 = concat (map (\<lambda>y. map (\<lambda>x. (x, y)) [x0..<x1]) [y0..<y1])"

definition changed_points :: "bounding_box \<Rightarrow> point list" where
  "changed_points b = area_points (bb_left b) (bb_top b) (Suc (bb_right b)) (Suc (bb_bottom b))"

definition refresh_point :: "isom_state \<Rightarrow> point \<Rightarrow> isom_state result" where
  "refresh_point st p =
     bindE (rect_at (fst st) p) (\<lambda>r.
     bindE (if is_left_or_right_modified r then update_tile_from_isom st p else Inr st) (\<lambda>(m, c).
     bindE (rect_at m p) (\<lambda>r.
     bindE (set_rect_at m p (clear_editor_flags r)) (\<lambda>m. Inr (m, c)))))"

definition update_tiles_from_isom :: "isom_state \<Rightarrow> isom_state result" where
  "update_tiles_from_isom st =
     bindE (foldE refresh_point st (changed_points (ic_changed (snd st)))) (\<lambda>(m, c).
       Inr (m, reset_changed_area c))"

end
