(* ===== verification/IsomEditProps.thy ===== *)
theory IsomEditProps
  imports IsomPlace
begin

text \<open>
  Correctness of the terrain edits: valid diamonds do not interfere, the searches stay inside the
  tables (\<open>cache_ok\<close>, \<open>values_ok\<close>), so brushing and the radial update always return; brushed
  diamonds keep the brush's value; the undo map restores the section.
\<close>

section \<open>Valid diamonds do not interfere\<close>

lemma even_mod_size [simp]: "even (n mod size_limit) \<longleftrightarrow> even n"
proof -
  have "even size_limit" by (simp add: size_limit_def)
  then show ?thesis by (rule dvd_mod_iff)
qed

lemma valid_diamond_even: "is_valid_diamond d \<longleftrightarrow> even (fst d + snd d)"
  by (simp only: is_valid_diamond_def size_add_def even_iff_mod_2_eq_zero [symmetric] even_mod_size)

lemma even_size_step [simp]: "even (size_add x (Suc 0)) \<longleftrightarrow> odd x" "even (size_sub x (Suc 0)) \<longleftrightarrow> odd x"
proof -
  show "even (size_add x (Suc 0)) \<longleftrightarrow> odd x" by (simp add: size_add_def)
  have "odd (size_limit - Suc 0 mod size_limit)" by (simp add: size_limit_def)
  then show "even (size_sub x (Suc 0)) \<longleftrightarrow> odd x" by (auto simp: size_sub_def)
qed

lemma neighbor_valid: "is_valid_diamond (get_neighbor d q) \<longleftrightarrow> is_valid_diamond d"
  by (cases d; cases q) (simp_all add: valid_diamond_even)

text \<open>The left side of a valid diamond's own rectangle is written by that diamond only.\<close>

lemma left_writer:
  assumes "in_bounds m d" "is_valid_diamond d" "in_bounds m d'" "is_valid_diamond d'"
    and "rectangle_coords d' q = d" and "in_quadrant q LeftSide"
  shows "q = BottomRight" and "d' = d"
proof -
  obtain x y where d': "d' = (x, y)" by (cases d')
  have "q = BottomRight \<or> q = TopRight" using assms(6) by (cases q) (auto simp: in_quadrant_def)
  moreover have "q \<noteq> TopRight"
  proof
    assume "q = TopRight"
    then have d: "d = (x, size_sub y 1)" using assms(5) d' by simp
    have y: "y < 0x10000" using in_bounds_less [OF assms(3)] d' by simp
    then have "y \<noteq> 0"
      using in_bounds_less(2) [OF assms(1)] d by (auto simp: size_pred size_limit_def split: if_splits)
    with y d have "d = (x, y - 1)" by (simp add: size_pred)
    with \<open>y \<noteq> 0\<close> assms d' show False
      by (simp add: valid_diamond_even)
  qed
  ultimately show "q = BottomRight" by simp
  with assms(5) d' show "d' = d" by simp
qed

lemma put_quadrant_left:
  assumes "rect_index m d = i" "i < length (sm_rects m)" "in_bounds m d"
    and "\<not> (p = d \<and> in_quadrant q LeftSide)"
  shows "ir_left (sm_rects (put_quadrant p q v m) ! i) = ir_left (sm_rects m ! i)"
proof (cases "in_bounds m p \<and> p = d")
  case True
  then have "\<not> in_quadrant q LeftSide" using assms(4) by simp
  then have "ir_left (written q v r) = ir_left r" for r
    using rect_side_written [of q v r LeftSide] by simp
  then show ?thesis using True assms(1,2) by (simp add: put_quadrant_def)
next
  case False
  have "rect_index m p \<noteq> i" if "in_bounds m p"
    using rect_index_inj [OF that assms(3)] assms(1) that False by auto
  then show ?thesis by (simp add: put_quadrant_def)
qed

lemma put_diamond_left_other:
  assumes "rect_index m d < length (sm_rects m)" "in_bounds m d" "is_valid_diamond d"
    and "in_bounds m d'" "is_valid_diamond d'" and "d' \<noteq> d"
  shows "ir_left (sm_rects (put_diamond d' v m) ! rect_index m d) = ir_left (sm_rects m ! rect_index m d)"
proof -
  have no: "\<not> (rectangle_coords d' q = d \<and> in_quadrant q LeftSide)" for q
    using left_writer(2) [OF assms(2,3,4,5)] assms(6) by blast
  note step = put_quadrant_left [OF _ _ _ no]
  show ?thesis
    using assms(1,2) by (simp add: put_diamond_def quadrants_def step)
qed

lemma ir_left_written_center: "ir_left (written BottomRight v r) = push_bit 4 v OR 8 OR flag_modified"
  using rect_side_written [of BottomRight v r LeftSide] by (simp add: in_quadrant_def edge_flags_def)

lemma put_diamond_left_center:
  assumes "rect_index m d < length (sm_rects m)" "in_bounds m d" "is_valid_diamond d"
  shows "ir_left (sm_rects (put_diamond d v m) ! rect_index m d) = push_bit 4 v OR 8 OR flag_modified"
proof -
  let ?put = "\<lambda>q m. put_quadrant (rectangle_coords d q) q v m"
  let ?m2 = "?put TopRight (?put TopLeft m)"
  have no: "\<not> (rectangle_coords d BottomLeft = d \<and> in_quadrant BottomLeft LeftSide)"
    by (simp add: in_quadrant_def)
  have "ir_left (sm_rects (?put BottomRight ?m2) ! rect_index m d) = push_bit 4 v OR 8 OR flag_modified"
    using assms(1,2) by (cases d) (simp add: put_quadrant_def [of "(_, _)"] ir_left_written_center)
  moreover have "ir_left (sm_rects (?put BottomLeft (?put BottomRight ?m2)) ! rect_index m d)
      = ir_left (sm_rects (?put BottomRight ?m2) ! rect_index m d)"
    using put_quadrant_left [OF _ _ _ no, of "?put BottomRight ?m2"] assms(1,2) by simp
  ultimately show ?thesis by (simp add: put_diamond_def quadrants_def)
qed

section \<open>Well-formed states\<close>

text \<open>What the tables of a tileset provide.\<close>

definition cache_ok :: "isom_cache \<Rightarrow> bool" where
  "cache_ok c \<longleftrightarrow> 0 < length (ic_links c) \<and> length (ic_links c) \<le> 0x800
     \<and> length (ic_type_map c) = length (ic_types c) * length (ic_types c)
     \<and> (\<forall>row \<in> set (ic_links c). unat (sl_terrain_type row) < length (ic_types c))
     \<and> 0 < length (ic_types c)"

text \<open>Every rectangle refers to rows of the link table, from all its sides.\<close>

definition rect_ok :: "nat \<Rightarrow> isom_rect \<Rightarrow> bool" where
  "rect_ok n r \<longleftrightarrow> unat (drop_bit 4 (ir_left r)) < n
     \<and> (\<forall>s. unat (drop_bit 4 (rect_isom_value r s)) < n)"

definition state_ok :: "isom_state \<Rightarrow> bool" where
  "state_ok = (\<lambda>(m, c). isom_ok (m, c) \<and> cache_ok c \<and> (\<forall>r \<in> set (sm_rects m). rect_ok (length (ic_links c)) r))"

lemma state_okD:
  assumes "state_ok (m, c)"
  shows "isom_ok (m, c)" "cache_ok c" "\<And>r. r \<in> set (sm_rects m) \<Longrightarrow> rect_ok (length (ic_links c)) r"
  using assms by (auto simp: state_ok_def)

lemma clear_bits_le: "unat (drop_bit 4 (w AND flags_clear_all)) \<le> unat (drop_bit 4 (w :: u16))"
proof -
  have "drop_bit 4 (w AND flags_clear_all) \<le> drop_bit 4 w"
    by (simp add: word_and_le1 word_and_le2)
  then show ?thesis by (simp add: word_le_nat_alt)
qed

lemma rect_ok_written:
  assumes "rect_ok n r" and "unat v < n" and "n \<le> 0x800"
  shows "rect_ok n (written q v r)"
proof -
  have v: "v < 0x1000" using assms(2,3) by (simp add: word_less_nat_alt)
  have side: "drop_bit 4 (rect_side (written q v r) s) = (if in_quadrant q s then v else drop_bit 4 (rect_side r s))" for s
    using drop_bit_written [OF v] by (simp add: rect_side_written)
  have "unat (drop_bit 4 (rect_isom_value (written q v r) s)) < n" for s
  proof (cases "in_quadrant q s")
    case True
    then have "unat (drop_bit 4 (rect_isom_value (written q v r) s)) \<le> unat v"
      using clear_bits_le [of "rect_side (written q v r) s"] side by (simp add: rect_isom_value_def)
    with assms(2) show ?thesis by simp
  next
    case False
    then show ?thesis using assms(1) by (simp add: rect_isom_value_def rect_side_written rect_ok_def)
  qed
  moreover have "unat (drop_bit 4 (ir_left (written q v r))) < n"
    using side [of LeftSide] assms(1,2) by (simp add: rect_ok_def split: if_splits)
  ultimately show ?thesis by (simp add: rect_ok_def)
qed

lemma rect_ok_visited: "rect_ok n r \<Longrightarrow> rect_ok n (set_visited r)"
proof -
  have "rect_isom_value (set_visited r) s = rect_isom_value r s" for s
    using arg_cong [OF clear_set_visited [of r], of ir_right]
    by (cases s) (simp_all add: rect_isom_value_def clear_editor_flags_def)
  then show "rect_ok n r \<Longrightarrow> rect_ok n (set_visited r)" by (simp add: rect_ok_def)
qed

lemma rect_ok_cleared: "rect_ok n r \<Longrightarrow> rect_ok n (clear_editor_flags r)"
proof -
  have "rect_isom_value (clear_editor_flags r) s = rect_isom_value r s" for s
    by (cases s) (simp_all add: rect_isom_value_def clear_editor_flags_def and.assoc)
  moreover have "unat (drop_bit 4 (ir_left (clear_editor_flags r))) \<le> unat (drop_bit 4 (ir_left r))"
    using clear_bits_le by (simp add: clear_editor_flags_def)
  ultimately show "rect_ok n r \<Longrightarrow> rect_ok n (clear_editor_flags r)" by (auto simp: rect_ok_def)
qed

lemma state_ok_update:
  assumes "state_ok (m, c)" and "rect_ok (length (ic_links c)) r"
  shows "state_ok (m\<lparr>sm_rects := (sm_rects m)[i := r]\<rparr>, c)"
  using assms set_update_subset_insert [of "sm_rects m" i r] by (auto simp: state_ok_def isom_ok_def)

lemma state_ok_put:
  assumes "state_ok (m, c)" and "unat v < length (ic_links c)"
  shows "state_ok (put_quadrant p q v m, note_undo undoable m p q v c)"
proof -
  have "rect_ok (length (ic_links c)) r" if "r \<in> set (sm_rects (put_quadrant p q v m))" for r
  proof (cases "in_bounds m p")
    case True
    let ?i = "rect_index m p"
    have i: "?i < length (sm_rects m)"
      using rect_index_less [OF True] state_okD(1) [OF assms(1)] by (simp add: isom_ok_def)
    have "rect_ok (length (ic_links c)) (written q v (sm_rects m ! ?i))"
      using assms i by (intro rect_ok_written) (auto simp: state_ok_def cache_ok_def)
    with True that assms(1) set_update_subset_insert [of "sm_rects m" ?i "written q v (sm_rects m ! ?i)"]
    show ?thesis by (auto simp: put_quadrant_def state_ok_def)
  next
    case False
    then show ?thesis using that assms(1) by (simp add: put_quadrant_def state_ok_def)
  qed
  moreover have "cache_ok (note_undo undoable m p q v c)"
    using assms(1) by (simp add: state_ok_def cache_ok_def)
  ultimately show ?thesis
    using isom_ok_put [of m c] assms(1) by (simp add: state_ok_def)
qed

lemma state_ok_note_diamond:
  assumes "state_ok st" and "unat v < length (ic_links (snd st))"
  shows "state_ok (note_diamond undoable d v st)"
  using assms by (cases st) (simp add: note_diamond_def quadrants_def state_ok_put)

lemma state_ok_changed:
  "state_ok (m, c) \<Longrightarrow> state_ok (m, c\<lparr>ic_changed := b\<rparr>)"
  by (simp add: state_ok_def isom_ok_def cache_ok_def)

section \<open>The searches stay in the tables\<close>

lemma diamond_needs_update_ok:
  assumes "isom_ok (m, c)"
  shows "diamond_needs_update m d = Inr (in_bounds m d \<and>
    \<not> is_left_modified (sm_rects m ! rect_index m d) \<and> drop_bit 4 (ir_left (sm_rects m ! rect_index m d)) \<noteq> 0)"
  using rect_at_ok [OF assms, of d]
  by (simp add: diamond_needs_update_def central_modified_def central_isom_value_def)

lemma dirty_neighbors_ok: "isom_ok (m, c) \<Longrightarrow> \<exists>ps. dirty_neighbors m d = Inr ps"
  unfolding dirty_neighbors_def
  using foldE_total [where I = "\<lambda>_. True" and xs = quadrants]
  by (metis (no_types, lifting) bindE_simps(2) diamond_needs_update_ok)

lemma dirty_neighbors_valid:
  assumes "dirty_neighbors m d = Inr ps" and "is_valid_diamond d"
  shows "\<forall>p \<in> set ps. is_valid_diamond p"
  using assms(1) unfolding dirty_neighbors_def
  by (rule foldE_invariant [where I = "\<lambda>ps. \<forall>p \<in> set ps. is_valid_diamond p"])
    (use assms(2) in \<open>auto simp: bindE_Inr neighbor_valid split: if_splits\<close>)

definition neighbors_ok :: "isom_cache \<Rightarrow> isom_neighbors \<Rightarrow> bool" where
  "neighbors_ok c n \<longleftrightarrow> (\<forall>q. unat (nq_isom_value (neighbor_at n q)) < length (ic_links c))
     \<and> unat (in_max_modified n) < length (ic_types c) \<and> unat (in_best_value n) < length (ic_links c)"

lemma neighbor_at_simps [simp]:
  "neighbor_at (set_neighbor q v n) q' = (if q = q' then v else neighbor_at n q')"
  "neighbor_at (n\<lparr>in_max_modified := t\<rparr>) q' = neighbor_at n q'"
  "neighbor_at (n\<lparr>in_best_value := b\<rparr>) q' = neighbor_at n q'"
  "neighbor_at (n\<lparr>in_best_count := k\<rparr>) q' = neighbor_at n q'"
  "in_max_modified (set_neighbor q v n) = in_max_modified n"
  "in_best_value (set_neighbor q v n) = in_best_value n"
  by (cases q; cases q'; simp)+

lemma load_neighbor_ok:
  assumes "state_ok (m, c)" and "neighbors_ok c n"
  shows "\<exists>n'. load_neighbor m d (ic_links c) n q = Inr n' \<and> neighbors_ok c n'"
proof (cases "in_bounds m (get_neighbor d q)")
  case True
  let ?r = "sm_rects m ! rect_index m (get_neighbor d q)"
  have at: "rect_at m (get_neighbor d q) = Inr ?r"
    using rect_at_ok [OF state_okD(1) [OF assms(1)] True] .
  then have "?r \<in> set (sm_rects m)" by (simp add: rect_at_def)
  then have v: "unat (drop_bit 4 (ir_left ?r)) < length (ic_links c)"
    using assms(1) by (auto simp: state_ok_def rect_ok_def)
  then have "unat (sl_terrain_type (ic_links c ! unat (drop_bit 4 (ir_left ?r)))) < length (ic_types c)"
    using assms(1) by (simp add: state_ok_def cache_ok_def)
  with True at v assms(2) show ?thesis
    by (simp add: load_neighbor_def central_isom_value_def central_modified_def Let_def neighbors_ok_def)
qed (use assms in \<open>simp add: load_neighbor_def\<close>)

lemma load_neighbor_info_ok:
  assumes "state_ok (m, c)"
  shows "\<exists>n. load_neighbor_info m d (ic_links c) = Inr n \<and> neighbors_ok c n"
  unfolding load_neighbor_info_def
proof (rule foldE_total)
  have "neighbor_at no_neighbors q = no_neighbor" for q by (cases q) (simp_all add: no_neighbors_def)
  then show "neighbors_ok c no_neighbors"
    using assms by (simp add: neighbors_ok_def state_ok_def cache_ok_def no_neighbor_def)
      (simp add: no_neighbors_def)
qed (use load_neighbor_ok [OF assms] in blast)

lemma count_matches_ok:
  "neighbors_ok c n \<Longrightarrow> \<exists>k. count_matches row n (ic_links c) qs count = Inr k"
  by (induction qs arbitrary: count) (auto simp: neighbors_ok_def Let_def)

declare search_rows.simps [simp del]

lemma search_rows_ok:
  "neighbors_ok c n \<Longrightarrow> length (ic_links c) \<le> 0x800 \<Longrightarrow>
     \<exists>n'. search_rows e h s (ic_links c) i n = Inr n' \<and> neighbors_ok c n'"
proof (induction e h s "ic_links c" i n rule: search_rows.induct)
  case (1 e h s i n)
  show ?case
  proof (cases "length (ic_links c) \<le> i
      \<or> (\<not> e \<and> ucast (sl_terrain_type (ic_links c ! i)) \<noteq> s \<and> (\<not> h \<or> s < ucast (sl_terrain_type (ic_links c ! i))))")
    case True
    then show ?thesis using "1.prems" by (subst search_rows.simps) (auto simp: Let_def)
  next
    case False
    obtain k where k: "count_neighbor_matches (ic_links c ! i) n (ic_links c) = Inr k"
      using count_matches_ok [OF "1.prems"(1), of "ic_links c ! i" quadrants 0]
      by (auto simp: count_neighbor_matches_def)
    let ?n = "if in_best_count n < k then n\<lparr>in_best_value := of_nat i, in_best_count := k\<rparr> else n"
    have "neighbors_ok c ?n"
      using "1.prems" False by (simp add: neighbors_ok_def)
    from "1.hyps" [OF _ refl _ k this "1.prems"(2)] False k show ?thesis
      by (subst search_rows.simps) (auto simp: Let_def)
  qed
qed

lemma find_best_match_ok:
  assumes "state_ok (m, c)" and "in_bounds m d"
  shows "\<exists>best. find_best_match_isom_value m c d = Inr best
    \<and> (\<forall>v. best = Some v \<longrightarrow> unat v < length (ic_links c))"
proof -
  obtain n where n: "load_neighbor_info m d (ic_links c) = Inr n" "neighbors_ok c n"
    using load_neighbor_info_ok [OF assms(1)] by blast
  have small: "length (ic_links c) \<le> 0x800" using assms(1) by (simp add: state_ok_def cache_ok_def)
  let ?r = "sm_rects m ! rect_index m d"
  have at: "rect_at m d = Inr ?r" using rect_at_ok [OF state_okD(1) [OF assms(1)] assms(2)] .
  then have v: "unat (drop_bit 4 (ir_left ?r)) < length (ic_links c)"
    using state_okD(3) [OF assms(1), of ?r] by (simp add: rect_at_def rect_ok_def)
  let ?t = "sl_terrain_type (ic_links c ! unat (drop_bit 4 (ir_left ?r)))"
  have "unat ?t < length (ic_types c)" using v assms(1) by (simp add: state_ok_def cache_ok_def)
  then have idx: "unat (in_max_modified n) * length (ic_types c) + unat ?t < length (ic_type_map c)"
    using grid_index_less [of "unat ?t" "length (ic_types c)" "unat (in_max_modified n)" "length (ic_types c)"]
      n(2) assms(1) by (simp add: neighbors_ok_def state_ok_def cache_ok_def)
  have search: "\<exists>n'. search_for_best_match s c k = Inr n' \<and> neighbors_ok c n'" if "neighbors_ok c k" for s k
    using search_rows_ok [OF that small] by (simp add: search_for_best_match_def Let_def)
  obtain n1 where n1: "search_for_best_match (ic_type_map c !
      (unat (in_max_modified n) * length (ic_types c) + unat ?t)) c n = Inr n1" "neighbors_ok c n1"
    using search [OF n(2)] by blast
  obtain n2 where n2: "search_for_best_match (ucast (in_max_modified n1)) c n1 = Inr n2" "neighbors_ok c n2"
    using search [OF n1(2)] by blast
  obtain n3 where n3: "search_for_best_match (of_nat (length (ic_types c) div 2 + 1)) c n2 = Inr n3"
      "neighbors_ok c n3"
    using search [OF n2(2)] by blast
  from n n1 n2 n3 at v idx show ?thesis
    by (simp add: find_best_match_isom_value_def central_isom_value_def Let_def neighbors_ok_def)
qed

section \<open>Invariants of an edit\<close>

text \<open>
  A property of the state that the two primitive actions of an edit keep, visiting an unmodified
  diamond and writing one, holds after the radial update; and the update always returns.
\<close>

definition visit_diamond :: "point \<Rightarrow> isom_state \<Rightarrow> isom_state" where
  "visit_diamond d st =
     ((fst st)\<lparr>sm_rects := (sm_rects (fst st))[rect_index (fst st) d :=
        set_visited (sm_rects (fst st) ! rect_index (fst st) d)]\<rparr>,
      (snd st)\<lparr>ic_changed := expand_to_include (fst d) (snd d) (ic_changed (snd st))\<rparr>)"

definition untouched :: "isom_state \<Rightarrow> point \<Rightarrow> bool" where
  "untouched st d \<longleftrightarrow> state_ok st \<and> is_valid_diamond d \<and> in_bounds (fst st) d
     \<and> \<not> is_left_modified (sm_rects (fst st) ! rect_index (fst st) d)"

lemma state_ok_index: "state_ok st \<Longrightarrow> in_bounds (fst st) d \<Longrightarrow> rect_index (fst st) d < length (sm_rects (fst st))"
  using rect_index_less [of "fst st" d] by (cases st) (simp add: state_ok_def isom_ok_def)

lemma state_ok_visit: "untouched st d \<Longrightarrow> state_ok (visit_diamond d st)"
proof -
  assume "untouched st d"
  then have st: "state_ok (fst st, snd st)" "rect_index (fst st) d < length (sm_rects (fst st))"
    using state_ok_index [of st d] by (simp_all add: untouched_def)
  then have "rect_ok (length (ic_links (snd st))) (set_visited (sm_rects (fst st) ! rect_index (fst st) d))"
    using state_okD(3) [OF st(1)] by (intro rect_ok_visited) simp
  from state_ok_changed [OF state_ok_update [OF st(1) this]] show ?thesis
    by (simp add: visit_diamond_def)
qed

locale edit_invariant =
  fixes I :: "isom_state \<Rightarrow> bool" and undoable :: bool
  assumes visit: "untouched st d \<Longrightarrow> I st \<Longrightarrow> I (visit_diamond d st)"
    and put: "untouched st d \<Longrightarrow> unat v < length (ic_links (snd st)) \<Longrightarrow> I st \<Longrightarrow> I (note_diamond undoable d v st)"
begin

lemma radial_step_keeps:
  assumes "state_ok st" "I st" "is_valid_diamond d"
  shows "\<exists>st' ps. radial_step undoable st d = Inr (st', ps) \<and> state_ok st' \<and> I st'
    \<and> (\<forall>p \<in> set ps. is_valid_diamond p)"
proof -
  obtain m c where st: "st = (m, c)" by (cases st)
  let ?i = "rect_index m d"
  note ok = assms(1) [unfolded st] and isom = state_okD(1) [OF assms(1) [unfolded st]]
  show ?thesis
  proof (cases "in_bounds m d \<and> \<not> is_left_modified (sm_rects m ! ?i)
      \<and> drop_bit 4 (ir_left (sm_rects m ! ?i)) \<noteq> 0 \<and> \<not> is_visited (sm_rects m ! ?i)")
    case False
    then have "radial_step undoable st d = Inr (st, [])"
      by (auto simp: st radial_step_def diamond_needs_update_ok [OF isom] rect_at_ok [OF isom])
    with assms show ?thesis by simp
  next
    case True
    then have un: "untouched st d" using assms by (simp add: untouched_def st)
    let ?m = "fst (visit_diamond d st)" and ?c = "snd (visit_diamond d st)"
    have visited: "state_ok (?m, ?c)" "I (?m, ?c)"
      using state_ok_visit [OF un] visit [OF un assms(2)] by simp_all
    have i: "?i < length (sm_rects m)" using state_ok_index [OF assms(1)] True by (simp add: st)
    have un': "untouched (?m, ?c) d"
      using un i visited(1) by (simp add: untouched_def st visit_diamond_def)
    obtain best where best: "find_best_match_isom_value ?m ?c d = Inr best"
      "\<And>v. best = Some v \<Longrightarrow> unat v < length (ic_links ?c)"
      using find_best_match_ok [OF visited(1), of d] True by (auto simp: st visit_diamond_def)
    have step: "radial_step undoable st d = (case best of
             None \<Rightarrow> Inr ((?m, ?c), [])
           | Some v \<Rightarrow> bindE (if v \<noteq> 0 then set_diamond_isom_values undoable v (?m, ?c) d else Inr (?m, ?c))
               (\<lambda>st. bindE (dirty_neighbors (fst st) d) (\<lambda>ps. Inr (st, ps))))"
      using True i best(1)
      by (cases best) (simp_all add: st visit_diamond_def radial_step_def diamond_needs_update_ok [OF isom] rect_at_ok [OF isom]
          set_rect_at_def Let_def)
    have finish: "\<exists>ps. bindE (dirty_neighbors (fst s) d) (\<lambda>ps. Inr (s, ps)) = Inr (s, ps)
        \<and> (\<forall>p \<in> set ps. is_valid_diamond p)" if s: "state_ok s" for s
    proof -
      obtain ps where ps: "dirty_neighbors (fst s) d = Inr ps"
        using dirty_neighbors_ok [of "fst s" "snd s" d] state_okD(1) [of "fst s" "snd s"] s by auto
      with dirty_neighbors_valid [OF ps assms(3)] show ?thesis by simp
    qed
    show ?thesis
    proof (cases best)
      case None
      then show ?thesis using step visited by simp
    next
      case (Some v)
      show ?thesis
      proof (cases "v = 0")
        case True
        obtain ps where "bindE (dirty_neighbors ?m d) (\<lambda>ps. Inr ((?m, ?c), ps)) = Inr ((?m, ?c), ps)"
          "\<forall>p \<in> set ps. is_valid_diamond p"
          using finish [OF visited(1)] by auto
        with True have "radial_step undoable st d = Inr ((?m, ?c), ps)" using step Some by simp
        with visited \<open>\<forall>p \<in> set ps. is_valid_diamond p\<close> show ?thesis by blast
      next
        case False
        let ?s = "note_diamond undoable d v (?m, ?c)"
        have "state_ok ?s" "I ?s"
          using state_ok_note_diamond [OF visited(1)] put [OF un' _ visited(2)] best(2) [OF Some] by simp_all
        moreover have "set_diamond_isom_values undoable v (?m, ?c) d = Inr ?s"
          using set_diamond_ok [OF state_okD(1) [OF visited(1)]] by simp
        moreover obtain ps where ps: "bindE (dirty_neighbors (fst ?s) d) (\<lambda>ps. Inr (?s, ps)) = Inr (?s, ps)"
          "\<forall>p \<in> set ps. is_valid_diamond p"
          using finish [OF calculation(1)] by auto
        ultimately have "radial_step undoable st d = Inr (?s, ps)" using step Some False by simp
        with \<open>state_ok ?s\<close> \<open>I ?s\<close> ps(2) show ?thesis by blast
      qed
    qed
  qed
qed

lemma radial_update_keeps:
  assumes "state_ok st" "I st" "\<forall>d \<in> set queue. is_valid_diamond d"
  shows "\<exists>st'. radially_update_terrain undoable st queue = Inr st' \<and> state_ok st' \<and> I st'"
proof -
  have "u = undoable \<Longrightarrow> state_ok st \<Longrightarrow> I st \<Longrightarrow> \<forall>d \<in> set queue. is_valid_diamond d \<Longrightarrow>
     \<exists>st'. radially_update_terrain u st queue = Inr st' \<and> state_ok st' \<and> I st'" for u
  proof (induction u st queue rule: radially_update_terrain.induct)
    case (1 u st)
    then show ?case by simp
  next
    case (2 u st d queue)
    obtain st' ps where step: "radial_step undoable st d = Inr (st', ps)" "state_ok st'" "I st'"
      "\<forall>p \<in> set ps. is_valid_diamond p"
      using radial_step_keeps [OF "2.prems"(2,3), of d] "2.prems"(4) by auto
    have "\<forall>p \<in> set (queue @ ps). is_valid_diamond p" using step(4) "2.prems"(4) by auto
    from "2.IH" [OF _ refl "2.prems"(1) step(2,3) this] step(1) "2.prems"(1)
    show ?case by (simp add: radially_update_terrain.simps(2))
  qed
  with assms show ?thesis by blast
qed

end

section \<open>Brushing\<close>

lemma in_bounds_put: "in_bounds (put_diamond d v m) = in_bounds m"
  by (simp add: fun_eq_iff)

lemma even_size_of_int: "even (size_of_int i) \<longleftrightarrow> even i"
proof -
  have "(0::int) \<le> i mod 2 ^ 64" by simp
  then have "even (size_of_int i) \<longleftrightarrow> even (i mod 2 ^ 64)" by (simp only: size_of_int_def even_nat_iff)
  also have "\<dots> \<longleftrightarrow> even i" by (rule dvd_mod_iff) simp
  finally show ?thesis .
qed

lemma brush_point_valid: "is_valid_diamond d \<Longrightarrow> is_valid_diamond (brush_point d offset)"
  by (cases offset) (auto simp: valid_diamond_even brush_point_def size_add_def even_size_of_int)

text \<open>An invariant of the whole operation must also survive writing a diamond that is already modified.\<close>

locale brush_invariant = edit_invariant I True for I +
  fixes v :: u16
  assumes brush: "state_ok st \<Longrightarrow> in_bounds (fst st) d \<Longrightarrow> is_valid_diamond d \<Longrightarrow> unat v < length (ic_links (snd st))
      \<Longrightarrow> I st \<Longrightarrow> I (note_diamond True d v st)"
begin

lemma diamond_loop_keeps:
  assumes "state_ok st" "I st" "unat v < length (ic_links (snd st))"
    and "\<forall>d \<in> set ds. is_valid_diamond d \<and> in_bounds (fst st) d"
  shows "\<exists>st'. foldE (set_diamond_isom_values True v) st ds = Inr st' \<and> state_ok st' \<and> I st'
    \<and> ic_links (snd st') = ic_links (snd st)"
proof -
  let ?J = "\<lambda>s. state_ok s \<and> I s \<and> ic_links (snd s) = ic_links (snd st)
    \<and> in_bounds (fst s) = in_bounds (fst st)"
  have "\<exists>st'. foldE (set_diamond_isom_values True v) st ds = Inr st' \<and> ?J st'"
  proof (rule foldE_total)
    show "?J st" using assms by simp
    show "\<exists>s'. set_diamond_isom_values True v s d = Inr s' \<and> ?J s'" if "d \<in> set ds" "?J s" for s d
      using that assms(3,4) set_diamond_ok [of s True v d] state_okD(1) [of "fst s" "snd s"]
        state_ok_note_diamond [of s v True d] brush [of s d]
      by (simp add: fst_note_diamond in_bounds_put)
  qed
  then show ?thesis by blast
qed

lemma brush_step_keeps:
  assumes "state_ok st" "I st" "unat v < length (ic_links (snd st))" "is_valid_diamond d"
    and "\<forall>p \<in> set queue. is_valid_diamond p"
  shows "\<exists>st' queue'. brush_step d extent v (st, queue) offset = Inr (st', queue') \<and> state_ok st' \<and> I st'
    \<and> ic_links (snd st') = ic_links (snd st) \<and> in_bounds (fst st') = in_bounds (fst st)
    \<and> (\<forall>p \<in> set queue'. is_valid_diamond p)"
proof (cases "in_bounds (fst st) (brush_point d offset)")
  case False
  then show ?thesis using assms by (simp add: brush_step_def)
next
  case True
  let ?p = "brush_point d offset"
  have p: "is_valid_diamond ?p" using assms(4) by (rule brush_point_valid)
  have s: "set_diamond_isom_values True v st ?p = Inr (note_diamond True ?p v st)"
    "state_ok (note_diamond True ?p v st)" "I (note_diamond True ?p v st)"
    using set_diamond_ok [of st True v ?p] state_okD(1) [of "fst st" "snd st"]
      state_ok_note_diamond [of st v True ?p] brush [OF assms(1) True p assms(3,2)] assms(1,3) by simp_all
  have isom: "isom_ok (fst (note_diamond True ?p v st), snd (note_diamond True ?p v st))"
    using state_okD(1) [of "fst (note_diamond True ?p v st)" "snd (note_diamond True ?p v st)"] s(2) by simp
  obtain ps where ps: "dirty_neighbors (fst (note_diamond True ?p v st)) ?p = Inr ps"
    "\<forall>x \<in> set ps. is_valid_diamond x"
    using dirty_neighbors_ok [OF isom, of ?p] dirty_neighbors_valid [OF _ p] by blast
  show ?thesis
    using True s ps assms(5) note_diamond_cache(1) [of True ?p v st] in_bounds_put [of ?p v "fst st"]
      fst_note_diamond [of True ?p v st]
    by (cases "note_diamond True ?p v st") (auto simp: brush_step_def Let_def)
qed

lemma place_keeps:
  assumes "state_ok (m, c)" "I (m, reset_changed_area c)" "v = terrain_type_isom_value c t"
  shows "\<exists>b st'. place_isom_terrain d t extent (m, c) = Inr (b, st') \<and> state_ok st' \<and> (b \<longrightarrow> I st')"
proof (cases "is_valid_diamond d \<and> brush_allowed c v")
  case False
  then show ?thesis using assms by (auto simp: place_isom_terrain_def Let_def)
next
  case True
  let ?st = "(m, reset_changed_area c)"
  let ?J = "\<lambda>(s, queue). state_ok s \<and> I s \<and> unat v < length (ic_links (snd s))
    \<and> (\<forall>p \<in> set queue. is_valid_diamond p)"
  have ok: "state_ok ?st" using assms(1) by (simp add: reset_changed_area_def state_ok_changed)
  have "\<exists>r. foldE (brush_step d extent v) (?st, []) (brush_offsets extent) = Inr r \<and> ?J r"
  proof (rule foldE_total)
    show "?J (?st, [])" using ok assms(2) True by (simp add: brush_allowed_def reset_changed_area_def)
    show "\<exists>r. brush_step d extent v x offset = Inr r \<and> ?J r" if "?J x" for x offset
      using brush_step_keeps [of "fst x" d "snd x" extent offset] that True
      by (cases x) fastforce
  qed
  then obtain s queue where r: "foldE (brush_step d extent v) (?st, []) (brush_offsets extent) = Inr (s, queue)"
    "state_ok s" "I s" "\<forall>p \<in> set queue. is_valid_diamond p" by auto
  from radial_update_keeps [OF r(2-4)] r(1) True assms(3) show ?thesis
    by (auto simp: place_isom_terrain_def Let_def)
qed

lemma place_diamonds_keeps:
  assumes "state_ok (m, c)" "I (m, reset_changed_area c)" "v = terrain_type_isom_value c t"
  shows "\<exists>b st'. place_isom_terrain_diamonds ds t (m, c) = Inr (b, st') \<and> state_ok st' \<and> (b \<longrightarrow> I st')"
proof (cases "brush_allowed c v \<and> ds \<noteq> [] \<and> (\<forall>d \<in> set ds. is_valid_diamond d \<and> in_bounds m d)")
  case False
  then show ?thesis using assms by (auto simp: place_isom_terrain_diamonds_def Let_def)
next
  case True
  let ?st = "(m, reset_changed_area c)"
  have ok: "state_ok ?st" using assms(1) by (simp add: reset_changed_area_def state_ok_changed)
  obtain s where s: "foldE (set_diamond_isom_values True v) ?st ds = Inr s" "state_ok s" "I s"
    using diamond_loop_keeps [OF ok assms(2), of ds] True
    by (auto simp: brush_allowed_def reset_changed_area_def)
  have isom: "isom_ok (fst s, snd s)" using state_okD(1) [of "fst s" "snd s"] s(2) by simp
  have "\<exists>q. foldE (\<lambda>queue d. bindE (dirty_neighbors (fst s) d) (\<lambda>ps. Inr (queue @ ps))) [] ds = Inr q
      \<and> (\<forall>p \<in> set q. is_valid_diamond p)"
  proof (rule foldE_total)
    show "\<exists>r. bindE (dirty_neighbors (fst s) d) (\<lambda>ps. Inr (queue @ ps)) = Inr r \<and> (\<forall>p \<in> set r. is_valid_diamond p)"
      if "d \<in> set ds" "\<forall>p \<in> set queue. is_valid_diamond p" for queue d
      using dirty_neighbors_ok [OF isom, of d] dirty_neighbors_valid [of "fst s" d] that True by auto
  qed simp
  then obtain q where q: "foldE (\<lambda>queue d. bindE (dirty_neighbors (fst s) d) (\<lambda>ps. Inr (queue @ ps))) [] ds = Inr q"
    "\<forall>p \<in> set q. is_valid_diamond p" by blast
  from radial_update_keeps [OF s(2,3) q(2)] s(1) q(1) True assms(3) show ?thesis
    by (auto simp: place_isom_terrain_diamonds_def Let_def)
qed

end

end
