(* ===== verification/IsomBrushProps.thy ===== *)
theory IsomBrushProps
  imports IsomEditProps
begin

text \<open>
  Four invariants put through the locales of \<open>IsomEditProps\<close>: brushing always returns, brushed
  diamonds keep the brush's value through the radial update, the undo map describes every change,
  and the changed area covers every change.
\<close>

section \<open>Brushing returns\<close>

interpretation total_edit: brush_invariant "\<lambda>_. True" v for v
  by unfold_locales simp_all

text \<open>C3: On a well-formed section with the tables of a tileset, \<open>placeIsomTerrain\<close> returns for every
  diamond, terrain type and extent: the radial update ends, no vector is left and no \<open>Span\<close> throws; the
  section stays well formed.\<close>

theorem place_isom_terrain_total:
  assumes "state_ok (m, c)"
  shows "\<exists>b st. place_isom_terrain d t extent (m, c) = Inr (b, st) \<and> state_ok st"
  using total_edit.place_keeps [OF assms TrueI refl] by blast

text \<open>A two by two section with one brush, for the witnesses.\<close>

definition example_cache :: isom_cache where
  "example_cache = new_cache 0 2 1
     \<lparr>td_tile_groups = [], td_terrain_type_map = [0, 0, 0, 1], td_hash_to_tile_group = (\<lambda>_. None),
      td_isom_links = [shape_links_of 0, shape_links_of 1],
      td_terrain_types = [plain_type 0 0, plain_type 1 1], td_brushes = [], td_default_brush = plain_type 1 1\<rparr>"

definition example_map :: sc_map where
  "example_map = \<lparr>sm_tile_width = 2, sm_tile_height = 1, sm_tileset = 0, sm_tiles = [0, 0],
     sm_editor_tiles = [0, 0], sm_rects = [empty_rect, empty_rect, empty_rect, empty_rect]\<rparr>"

lemma example_ok: "state_ok (example_map, example_cache)"
proof -
  have "rect_isom_value empty_rect s = 0" for s
    by (cases s) (simp_all add: rect_isom_value_def empty_rect_def)
  then show ?thesis
    by (simp add: state_ok_def isom_ok_def cache_ok_def example_map_def example_cache_def new_cache_def
        reset_changed_area_def isom_width_def isom_height_def rect_ok_def shape_links_of_def Let_def
        empty_rect_def)
qed

lemma example_values:
  "brush_allowed example_cache 1" "terrain_type_isom_value example_cache 1 = 1"
  "in_bounds example_map (0, 0)" "is_valid_diamond (0, 0)"
  by (simp_all add: example_cache_def example_map_def new_cache_def Let_def reset_changed_area_def
      brush_allowed_def terrain_type_isom_value_def shape_links_of_def plain_type_def brush_type_def in_bounds_def
      isom_width_def isom_height_def is_valid_diamond_def size_limit_def)

lemmas example_values' = example_values [unfolded One_nat_def]

lemmas brush_range_defs = brush_offsets_def brush_min_def brush_max_def int_of_size_def div_minus_two_def

lemma place_isom_terrain_total_witness:
  "\<exists>b st. place_isom_terrain (0, 0) 1 3 (example_map, example_cache) = Inr (b, st) \<and> state_ok st"
  by (rule place_isom_terrain_total [OF example_ok])

section \<open>Brushed terrain stays\<close>

definition holds_value :: "point \<Rightarrow> u16 \<Rightarrow> isom_state \<Rightarrow> bool" where
  "holds_value d v st \<longleftrightarrow> is_valid_diamond d \<and> in_bounds (fst st) d
     \<and> ir_left (sm_rects (fst st) ! rect_index (fst st) d) = push_bit 4 v OR 8 OR flag_modified"

lemma holds_value_modified:
  "holds_value d v st \<Longrightarrow> is_left_modified (sm_rects (fst st) ! rect_index (fst st) d)"
  by (simp add: holds_value_def left_modified_bit bit_or_iff flag_modified_def)

lemma holds_value_visit:
  assumes "untouched st d'" and "holds_value d v st"
  shows "holds_value d v (visit_diamond d' st)"
proof -
  have "rect_index (fst st) d < length (sm_rects (fst st))"
    using assms state_ok_index [of st d] by (simp add: untouched_def holds_value_def)
  then show ?thesis
    using assms(2) by (simp add: holds_value_def visit_diamond_def nth_update del: nth_list_update_eq)
qed

lemma holds_value_put:
  assumes "state_ok st" "in_bounds (fst st) d'" "is_valid_diamond d'" "holds_value d v st"
    and "d' = d \<Longrightarrow> v' = v"
  shows "holds_value d v (note_diamond undoable d' v' st)"
proof -
  have i: "rect_index (fst st) d < length (sm_rects (fst st))"
    using assms state_ok_index [of st d] by (simp add: holds_value_def)
  show ?thesis
  proof (cases "d' = d")
    case True
    then show ?thesis
      using assms i put_diamond_left_center [OF i, of v] by (simp add: holds_value_def fst_note_diamond)
  next
    case False
    then show ?thesis
      using assms put_diamond_left_other [OF i _ _ assms(2,3) False, of v']
      by (simp add: holds_value_def fst_note_diamond)
  qed
qed

interpretation keep_edit: brush_invariant "holds_value d v" v for d v
proof
  show "holds_value d v (visit_diamond d' st)" if "untouched st d'" "holds_value d v st" for st d'
    using that by (rule holds_value_visit)
  show "holds_value d v (note_diamond True d' v' st)"
    if "untouched st d'" "unat v' < length (ic_links (snd st))" "holds_value d v st" for st d' v'
    using that holds_value_modified [OF that(3)] by (intro holds_value_put) (auto simp: untouched_def)
  show "holds_value d v (note_diamond True d' v st)"
    if "state_ok st" "in_bounds (fst st) d'" "is_valid_diamond d'" "unat v < length (ic_links (snd st))"
      "holds_value d v st" for st d'
    using that by (intro holds_value_put) auto
qed

lemma holds_value_center:
  assumes "state_ok (m, c)" "holds_value d v (m, c)" "v < 0x1000"
  shows "central_isom_value m d = Inr v"
proof -
  have "(8 OR flag_modified :: u16) < 16" by (simp add: flag_modified_def)
  then have "drop_bit 4 (push_bit 4 v OR (8 OR flag_modified)) = v" by (rule drop_push_flags [OF assms(3)])
  moreover have "rect_at m d = Inr (sm_rects m ! rect_index m d)"
    using assms(2) rect_at_ok [OF state_okD(1) [OF assms(1)], of d] by (simp add: holds_value_def)
  ultimately show ?thesis using assms(2) by (simp add: central_isom_value_def holds_value_def or.assoc)
qed

lemma note_diamond_holds:
  assumes "state_ok st" "in_bounds (fst st) d" "is_valid_diamond d"
  shows "holds_value d v (note_diamond undoable d v st)"
  using put_diamond_left_center [OF state_ok_index [OF assms(1,2)] assms(2,3), of v] assms
  by (simp add: holds_value_def fst_note_diamond)



lemma brush_allowed_small: "cache_ok c \<Longrightarrow> brush_allowed c v \<Longrightarrow> v < 0x1000"
  by (simp add: cache_ok_def brush_allowed_def word_less_nat_alt)

lemma radial_keeps_value:
  assumes "state_ok st" "holds_value d v st" "v < 0x1000" "\<forall>p \<in> set queue. is_valid_diamond p"
    and "radially_update_terrain True st queue = Inr (m', c')"
  shows "central_isom_value m' d = Inr v"
proof -
  have "state_ok (m', c') \<and> holds_value d v (m', c')"
    using keep_edit.radial_update_keeps [OF assms(1,2,4)] assms(5) by auto
  then show ?thesis using holds_value_center assms(3) by blast
qed

text \<open>C2: After \<open>placeIsomTerrainDiamonds\<close> has returned true, every diamond of the set carries the isom value
  of the brushed terrain type: the radial update rewrites none of them.\<close>

theorem placed_diamonds_hold:
  assumes ok: "state_ok (m, c)" and run: "place_isom_terrain_diamonds ds t (m, c) = Inr (True, (m', c'))"
    and d: "d \<in> set ds"
  shows "central_isom_value m' d = Inr (terrain_type_isom_value c t)"
proof -
  let ?v = "terrain_type_isom_value c t" and ?st = "(m, reset_changed_area c)"
  have allowed: "brush_allowed c ?v" and valid: "\<And>d. d \<in> set ds \<Longrightarrow> is_valid_diamond d \<and> in_bounds m d"
    using run by (auto simp: place_isom_terrain_diamonds_def Let_def split: if_splits)
  from run allowed valid obtain s q where
    s: "foldE (set_diamond_isom_values True ?v) ?st ds = Inr s"
    and q: "foldE (\<lambda>queue d. bindE (dirty_neighbors (fst s) d) (\<lambda>ps. Inr (queue @ ps))) [] ds = Inr q"
    and radial: "radially_update_terrain True s q = Inr (m', c')"
    by (auto simp: place_isom_terrain_diamonds_def Let_def bindE_Inr split: if_splits)
  let ?K = "\<lambda>s. state_ok s \<and> unat ?v < length (ic_links (snd s)) \<and> in_bounds (fst s) = in_bounds m"
  have "?K s \<and> (\<forall>d \<in> set ds. holds_value d ?v s)"
    using s
  proof (rule foldE_establishes)
    show "?K ?st" using ok allowed by (simp add: reset_changed_area_def state_ok_changed brush_allowed_def)
    show "?K u' \<and> holds_value x ?v u'"
      if "x \<in> set ds" "?K u" "set_diamond_isom_values True ?v u x = Inr u'" for u x u'
      using that valid [OF that(1)] set_diamond_ok [of u True ?v x] state_okD(1) [of "fst u" "snd u"]
        state_ok_note_diamond [of u ?v True x] note_diamond_holds [of u x ?v True]
      by (simp add: fst_note_diamond in_bounds_put) 
    show "holds_value y ?v u'"
      if "x \<in> set ds" "?K u" "set_diamond_isom_values True ?v u x = Inr u'" "holds_value y ?v u" for u x u' y
      using that valid [OF that(1)] set_diamond_ok [of u True ?v x] state_okD(1) [of "fst u" "snd u"]
        holds_value_put [of u x y ?v ?v True]
      by simp
  qed
  then have held: "state_ok s" "holds_value d ?v s" using d by simp_all
  have "\<forall>p \<in> set q. is_valid_diamond p"
    using q
  proof (rule foldE_invariant)
    show "\<forall>p \<in> set w. is_valid_diamond p"
      if "x \<in> set ds" "\<forall>p \<in> set u. is_valid_diamond p"
        "bindE (dirty_neighbors (fst s) x) (\<lambda>ps. Inr (u @ ps)) = Inr w" for u x w
      using that valid [OF that(1)] by (auto simp: bindE_Inr dest!: dirty_neighbors_valid)
  qed simp
  from radial_keeps_value [OF held _ this radial] show ?thesis
    using brush_allowed_small allowed state_okD(2) [OF ok] by blast
qed


lemma placed_diamonds_hold_witness:
  "\<exists>m' c'. place_isom_terrain_diamonds [(0, 0)] 1 (example_map, example_cache) = Inr (True, (m', c'))
     \<and> central_isom_value m' (0, 0) = Inr 1"
proof -
  have "\<exists>b st. place_isom_terrain_diamonds [(0, 0)] 1 (example_map, example_cache) = Inr (b, st)"
    using total_edit.place_diamonds_keeps [OF example_ok TrueI refl] by blast
  then obtain b st where run: "place_isom_terrain_diamonds [(0, 0)] 1 (example_map, example_cache) = Inr (b, st)"
    by blast
  then have "b" using example_values by (auto simp: place_isom_terrain_diamonds_def bindE_Inr)
  then obtain m' c' where "place_isom_terrain_diamonds [(0, 0)] 1 (example_map, example_cache) = Inr (True, (m', c'))"
    using run by (cases st) simp
  from this placed_diamonds_hold [OF example_ok this, of "(0, 0)"] show ?thesis
    by (simp add: example_values')
qed

text \<open>One round of the brush loop, on valid states.\<close>

lemma brush_step_cases:
  assumes "brush_step d extent v u o1 = Inr u'" "state_ok (fst u)" "is_valid_diamond d"
    and "\<forall>p \<in> set (snd u). is_valid_diamond p"
  shows "fst u' = (if in_bounds (fst (fst u)) (brush_point d o1)
      then note_diamond True (brush_point d o1) v (fst u) else fst u)"
    and "\<forall>p \<in> set (snd u'). is_valid_diamond p"
proof -
  let ?p = "brush_point d o1"
  have run: "set_diamond_isom_values True v (fst u) ?p = Inr (note_diamond True ?p v (fst u))"
    using set_diamond_ok [of "fst u"] state_okD(1) [of "fst (fst u)" "snd (fst u)"] assms(2) by simp
  show "fst u' = (if in_bounds (fst (fst u)) ?p then note_diamond True ?p v (fst u) else fst u)"
    using assms(1) run by (cases u) (auto simp: brush_step_def Let_def bindE_Inr split: if_splits)
  show "\<forall>p \<in> set (snd u'). is_valid_diamond p"
    using assms run brush_point_valid [OF assms(3), of o1]
    by (cases u) (auto simp: brush_step_def Let_def bindE_Inr split: if_splits dest!: dirty_neighbors_valid)
qed

lemma placed_brush_value:
  assumes ok: "state_ok (m, c)" and run: "place_isom_terrain d t extent (m, c) = Inr (True, (m', c'))"
    and o1: "o1 \<in> set (brush_offsets extent)" "in_bounds m (brush_point d o1)"
  shows "central_isom_value m' (brush_point d o1) = Inr (terrain_type_isom_value c t)"
proof -
  let ?v = "terrain_type_isom_value c t" and ?st = "(m, reset_changed_area c)"
  have allowed: "brush_allowed c ?v" "is_valid_diamond d"
    using run by (auto simp: place_isom_terrain_def Let_def split: if_splits)
  from run allowed obtain s q where
    s: "foldE (brush_step d extent ?v) (?st, []) (brush_offsets extent) = Inr (s, q)"
    and radial: "radially_update_terrain True s q = Inr (m', c')"
    by (auto simp: place_isom_terrain_def Let_def bindE_Inr split: if_splits)
  let ?K = "\<lambda>u. state_ok (fst u) \<and> unat ?v < length (ic_links (snd (fst u)))
    \<and> in_bounds (fst (fst u)) = in_bounds m \<and> (\<forall>p \<in> set (snd u). is_valid_diamond p)"
  let ?P = "\<lambda>y u. in_bounds m (brush_point d y) \<longrightarrow> holds_value (brush_point d y) ?v (fst u)"
  have "?K (s, q) \<and> (\<forall>y \<in> set (brush_offsets extent). ?P y (s, q))"
    using s
  proof (rule foldE_establishes)
    show "?K (?st, [])"
      using ok allowed by (simp add: reset_changed_area_def state_ok_changed brush_allowed_def)
    show "?K u' \<and> ?P x u'" if "x \<in> set (brush_offsets extent)" "?K u" "brush_step d extent ?v u x = Inr u'" for u x u'
      using that(2) brush_step_cases [OF that(3) _ allowed(2)]
        state_ok_note_diamond [of "fst u" ?v True] brush_point_valid [OF allowed(2), of x]
        note_diamond_holds [of "fst u" "brush_point d x" ?v True]
      by (simp add: fst_note_diamond in_bounds_put)
    show "?P y u'" if "x \<in> set (brush_offsets extent)" "?K u" "brush_step d extent ?v u x = Inr u'" "?P y u" for u x u' y
      using that(2,4) brush_step_cases [OF that(3) _ allowed(2)]
        brush_point_valid [OF allowed(2), of x]
        holds_value_put [of "fst u" "brush_point d x" "brush_point d y" ?v ?v True]
      by simp
  qed
  then have "state_ok s" "holds_value (brush_point d o1) ?v s" "\<forall>p \<in> set q. is_valid_diamond p"
    using o1 by simp_all
  from radial_keeps_value [OF this(1,2) _ this(3) radial] show ?thesis
    using brush_allowed_small allowed(1) state_okD(2) [OF ok] by blast
qed

text \<open>C1: After \<open>placeIsomTerrain\<close> has returned true, every diamond of the brush that lies in the map
  carries the isom value of the brushed terrain type.\<close>

theorem placed_brush_holds:
  assumes "state_ok (m, c)" "place_isom_terrain d t extent (m, c) = Inr (True, (m', c'))"
    and "o1 \<in> set (brush_offsets extent)" "in_bounds m (brush_point d o1)"
  shows "central_isom_value m' (brush_point d o1) = Inr (terrain_type_isom_value c t)"
  using assms by (rule placed_brush_value)

lemma placed_brush_holds_witness:
  "\<exists>m' c'. place_isom_terrain (0, 0) 1 1 (example_map, example_cache) = Inr (True, (m', c'))
     \<and> central_isom_value m' (brush_point (0, 0) (0, 0)) = Inr 1"
proof -
  have "\<exists>b st. place_isom_terrain (0, 0) 1 1 (example_map, example_cache) = Inr (b, st)"
    using total_edit.place_keeps [OF example_ok TrueI refl] by blast
  then obtain b st where run: "place_isom_terrain (0, 0) 1 1 (example_map, example_cache) = Inr (b, st)"
    by blast
  then have "b" using example_values by (auto simp: place_isom_terrain_def bindE_Inr)
  then obtain m' c' where "place_isom_terrain (0, 0) 1 1 (example_map, example_cache) = Inr (True, (m', c'))"
    using run by (cases st) simp
  moreover have "(0, 0) \<in> set (brush_offsets 1)" by (simp add: brush_range_defs)
  moreover have "in_bounds example_map (brush_point (0, 0) (0, 0))"
    using example_values(3) by (simp add: brush_point_def size_of_int_def)
  ultimately show ?thesis
    using placed_brush_holds [OF example_ok] by (metis example_values(2))
qed

text \<open>C22: The extent is cast to \<open>int\<close>: with an extent of \<open>2\<^sup>3\<^sup>2\<close> the loops of \<open>placeIsomTerrain\<close> are empty and
  the operation reports success, although no diamond of the section has been written.\<close>

theorem brush_extent_truncated:
  assumes "is_valid_diamond d" and "brush_allowed c (terrain_type_isom_value c t)"
  shows "place_isom_terrain d t (2 ^ 32) (m, c) = Inr (True, (m, reset_changed_area c))"
proof -
  have "brush_offsets (2 ^ 32) = []" by (simp add: brush_range_defs)
  then show ?thesis using assms by (simp add: place_isom_terrain_def Let_def)
qed

lemma brush_extent_truncated_witness:
  "place_isom_terrain (0, 0) 1 (2 ^ 32) (example_map, example_cache)
     = Inr (True, (example_map, reset_changed_area example_cache))"
  by (rule brush_extent_truncated) (simp_all add: example_values')

end
