(* ===== verification/IsomUndo.thy ===== *)
theory IsomUndo
  imports IsomBrushProps
begin

text \<open>
  What a brush operation leaves behind for the editor: the undo map describes the difference between the
  section before and after, and the changed area covers it.
\<close>

section \<open>The undo map\<close>

text \<open>Relative to the section \<open>m0\<close> the operation started from, flags apart.\<close>

definition undo_entry_ok :: "isom_rect \<Rightarrow> isom_rect \<Rightarrow> isom_rect_undo option \<Rightarrow> bool" where
  "undo_entry_ok r0 r u =
     (case u of
        None \<Rightarrow> clear_editor_flags r = clear_editor_flags r0
      | Some u \<Rightarrow> un_old u = clear_editor_flags r0 \<and> un_new u = clear_editor_flags r)"

definition undo_ok :: "sc_map \<Rightarrow> isom_state \<Rightarrow> bool" where
  "undo_ok m0 st \<longleftrightarrow> isom_ok st \<and> length (sm_rects (fst st)) = length (sm_rects m0)
     \<and> (\<forall>i < length (sm_rects m0).
          undo_entry_ok (sm_rects m0 ! i) (sm_rects (fst st) ! i) (ic_undo (snd st) ! i))"

lemma undo_entry_written:
  assumes "undo_entry_ok r0 r u"
  shows "undo_entry_ok r0 r' (Some (set_new_value r' (case u of None \<Rightarrow> make_undo p r empty_rect | Some u \<Rightarrow> u)))"
  using assms
  by (cases u) (simp_all add: undo_entry_ok_def set_new_value_def make_undo_def set_old_value_def)

lemma undo_ok_put:
  assumes "undo_ok m0 (m, c)"
  shows "undo_ok m0 (put_quadrant p q v m, note_undo True m p q v c)"
proof -
  have len: "length (ic_undo c) = length (sm_rects m)"
    using assms by (simp add: undo_ok_def isom_ok_def)
  have "undo_entry_ok (sm_rects m0 ! i) (sm_rects (put_quadrant p q v m) ! i)
      (ic_undo (note_undo True m p q v c) ! i)" if i: "i < length (sm_rects m0)" for i
  proof (cases "in_bounds m p \<and> i = rect_index m p")
    case True
    then show ?thesis
      using assms i len undo_entry_written [of "sm_rects m0 ! rect_index m p" "sm_rects m ! rect_index m p"
        "ic_undo c ! rect_index m p"]
      by (simp add: undo_ok_def put_quadrant_def note_undo_def Let_def)
  next
    case False
    then show ?thesis
      using assms i len by (auto simp: undo_ok_def put_quadrant_def note_undo_def Let_def nth_update)
  qed
  then show ?thesis
    using assms isom_ok_put [of m c] by (simp add: undo_ok_def)
qed

lemma undo_ok_note_diamond: "undo_ok m0 st \<Longrightarrow> undo_ok m0 (note_diamond True d v st)"
  by (cases st) (simp add: note_diamond_def quadrants_def undo_ok_put)

lemma undo_ok_visit:
  assumes "untouched st d" "undo_ok m0 st"
  shows "undo_ok m0 (visit_diamond d st)"
proof -
  have "isom_ok (visit_diamond d st)"
    using assms(2) by (cases st) (simp add: undo_ok_def isom_ok_def visit_diamond_def)
  then show ?thesis
    using assms(2)
    by (auto simp: undo_ok_def visit_diamond_def undo_entry_ok_def nth_update split: option.splits)
qed

interpretation undo_edit: brush_invariant "undo_ok m0" v for m0 v
  by unfold_locales (simp_all add: undo_ok_note_diamond undo_ok_visit)

text \<open>Stepping back and forth through the entries of the undo map.\<close>

definition undo_rects :: "isom_rect_undo option list \<Rightarrow> isom_rect list \<Rightarrow> isom_rect list" where
  "undo_rects us rs = map2 (\<lambda>u r. case u of None \<Rightarrow> r | Some u \<Rightarrow> un_old u) us rs"

definition redo_rects :: "isom_rect_undo option list \<Rightarrow> isom_rect list \<Rightarrow> isom_rect list" where
  "redo_rects us rs = map2 (\<lambda>u r. case u of None \<Rightarrow> r | Some u \<Rightarrow> un_new u) us rs"

lemma undo_ok_start:
  assumes "isom_ok (m, c)" "\<forall>u \<in> set (ic_undo c). u = None"
  shows "undo_ok m (m, reset_changed_area c)"
proof -
  have "ic_undo c ! i = None" if "i < length (sm_rects m)" for i
    using assms that by (simp add: isom_ok_def)
  then show ?thesis
    using assms(1) by (simp add: undo_ok_def isom_ok_def reset_changed_area_def undo_entry_ok_def)
qed

lemma undo_redo_rects:
  assumes "undo_ok m0 (m, c)"
  shows "map clear_editor_flags (undo_rects (ic_undo c) (sm_rects m)) = map clear_editor_flags (sm_rects m0)"
    and "map clear_editor_flags (redo_rects (ic_undo c) (sm_rects m0)) = map clear_editor_flags (sm_rects m)"
proof -
  have "length (ic_undo c) = length (sm_rects m0)" "length (sm_rects m) = length (sm_rects m0)"
    using assms by (simp_all add: undo_ok_def isom_ok_def)
  then show "map clear_editor_flags (undo_rects (ic_undo c) (sm_rects m)) = map clear_editor_flags (sm_rects m0)"
    "map clear_editor_flags (redo_rects (ic_undo c) (sm_rects m0)) = map clear_editor_flags (sm_rects m)"
    using assms
    by (auto intro!: nth_equalityI simp: undo_ok_def undo_rects_def redo_rects_def undo_entry_ok_def
        split: option.splits)
qed

text \<open>C4: After \<open>placeIsomTerrain\<close> on a cache without undo entries, putting back the old values of the
  undo map restores the section, and putting the new values into the old section gives the new one, up
  to the editor flags.\<close>

theorem place_isom_terrain_undo:
  assumes "state_ok (m, c)" "\<forall>u \<in> set (ic_undo c). u = None"
    and "place_isom_terrain d t extent (m, c) = Inr (True, (m', c'))"
  shows "map clear_editor_flags (undo_rects (ic_undo c') (sm_rects m')) = map clear_editor_flags (sm_rects m)
    \<and> map clear_editor_flags (redo_rects (ic_undo c') (sm_rects m)) = map clear_editor_flags (sm_rects m')"
proof -
  have "undo_ok m (m, reset_changed_area c)"
    using undo_ok_start [OF state_okD(1) [OF assms(1)] assms(2)] .
  from undo_edit.place_keeps [OF assms(1) this refl, of d t extent] assms(3) have "undo_ok m (m', c')" by auto
  then show ?thesis using undo_redo_rects by blast
qed

lemma example_undo: "\<forall>u \<in> set (ic_undo example_cache). u = None"
  by (simp add: example_cache_def new_cache_def Let_def reset_changed_area_def)

lemma example_run:
  obtains m' c' where "place_isom_terrain (0, 0) 1 2 (example_map, example_cache) = Inr (True, (m', c'))"
proof -
  obtain b m' c' where run: "place_isom_terrain (0, 0) 1 2 (example_map, example_cache) = Inr (b, (m', c'))"
    using total_edit.place_keeps [OF example_ok TrueI refl] by fastforce
  then have "b" using example_values' by (auto simp: place_isom_terrain_def bindE_Inr)
  with run that show ?thesis by simp
qed

lemma place_isom_terrain_undo_witness:
  "\<exists>m' c'. place_isom_terrain (0, 0) 1 2 (example_map, example_cache) = Inr (True, (m', c'))
    \<and> map clear_editor_flags (undo_rects (ic_undo c') (sm_rects m')) = map clear_editor_flags (sm_rects example_map)"
  using example_run place_isom_terrain_undo [OF example_ok example_undo] by metis

section \<open>The changed area\<close>

definition in_box :: "bounding_box \<Rightarrow> point \<Rightarrow> bool" where
  "in_box b p \<longleftrightarrow> bb_left b \<le> fst p \<and> fst p \<le> bb_right b \<and> bb_top b \<le> snd p \<and> snd p \<le> bb_bottom b"

definition changed_ok :: "sc_map \<Rightarrow> isom_state \<Rightarrow> bool" where
  "changed_ok m0 = (\<lambda>(m, c). isom_width m = isom_width m0 \<and> isom_height m = isom_height m0
     \<and> length (sm_rects m) = length (sm_rects m0)
     \<and> bb_right (ic_changed c) < isom_width m0 \<and> bb_bottom (ic_changed c) < isom_height m0
     \<and> (\<forall>p. in_bounds m0 p \<longrightarrow> sm_rects m ! rect_index m0 p \<noteq> sm_rects m0 ! rect_index m0 p
          \<longrightarrow> in_box (ic_changed c) p))"

lemma in_box_expand [simp]: "in_box (expand_to_include (fst p) (snd p) b) p"
  by (simp add: in_box_def expand_to_include_def)

lemma in_box_expand_mono: "in_box b p \<Longrightarrow> in_box (expand_to_include x y b) p"
  by (auto simp: in_box_def expand_to_include_def)

text \<open>Rewriting one cell and noting it keeps the invariant.\<close>

lemma changed_ok_step:
  assumes "changed_ok m0 (m, c)" "in_bounds m p" "isom_ok (m, c)"
  shows "changed_ok m0 (m\<lparr>sm_rects := (sm_rects m)[rect_index m p := r]\<rparr>,
    c\<lparr>ic_changed := expand_to_include (fst p) (snd p) (ic_changed c)\<rparr>)"
proof -
  have same: "in_bounds m = in_bounds m0" "rect_index m = rect_index m0"
    using assms(1) by (auto simp: changed_ok_def in_bounds_def rect_index_def fun_eq_iff)
  have "in_box (expand_to_include (fst p) (snd p) (ic_changed c)) p'"
    if "in_bounds m0 p'" "(sm_rects m)[rect_index m0 p := r] ! rect_index m0 p' \<noteq> sm_rects m0 ! rect_index m0 p'" for p'
  proof (cases "p' = p")
    case False
    then have "rect_index m0 p' \<noteq> rect_index m0 p"
      using rect_index_inj [of m0 p' p] that(1) assms(2) same by auto
    then have "sm_rects m ! rect_index m0 p' \<noteq> sm_rects m0 ! rect_index m0 p'" using that(2) by simp
    then show ?thesis using assms(1) that(1) by (cases p') (auto simp: changed_ok_def intro: in_box_expand_mono)
  qed simp
  then show ?thesis
    using assms(1,2) same by (auto simp: changed_ok_def expand_to_include_def in_bounds_def)
qed

lemma changed_ok_put:
  assumes "changed_ok m0 (m, c)" "isom_ok (m, c)"
  shows "changed_ok m0 (put_quadrant p q v m, note_undo True m p q v c)"
proof (cases "in_bounds m p")
  case True
  then show ?thesis
    using changed_ok_step [OF assms(1) True assms(2)]
    by (simp add: put_quadrant_def note_undo_def Let_def changed_ok_def)
next
  case False
  then show ?thesis using assms by (simp add: put_quadrant_def note_undo_def)
qed

lemma changed_ok_note_diamond:
  "changed_ok m0 st \<Longrightarrow> isom_ok st \<Longrightarrow> changed_ok m0 (note_diamond True d v st)"
  by (cases st) (simp add: note_diamond_def quadrants_def changed_ok_put isom_ok_put)

lemma state_ok_isom: "state_ok st \<Longrightarrow> isom_ok st"
  by (cases st) (simp add: state_ok_def)

interpretation changed_edit: brush_invariant "changed_ok m0" v for m0 v
proof
  show "changed_ok m0 (visit_diamond d st)" if "untouched st d" "changed_ok m0 st" for st d
    using that changed_ok_step [of m0 "fst st" "snd st" d] state_ok_isom
    by (simp add: untouched_def visit_diamond_def)
  show "changed_ok m0 (note_diamond True d v' st)" if "untouched st d" "changed_ok m0 st" for st d v'
    using that by (intro changed_ok_note_diamond state_ok_isom) (simp_all add: untouched_def)
  show "changed_ok m0 (note_diamond True d v st)" if "state_ok st" "changed_ok m0 st" for st d
    using that by (intro changed_ok_note_diamond state_ok_isom)
qed

lemma changed_ok_start: "isom_ok (m, c) \<Longrightarrow> changed_ok m (m, reset_changed_area c)"
  using isom_width_bounds(1) [of m] isom_height_bounds(1) [of m]
  by (simp add: changed_ok_def reset_changed_area_def)

text \<open>C19: Every rectangle that \<open>placeIsomTerrain\<close> changes, flags included, lies in the changed area it
  leaves, and that area lies in the section: the tile update that follows sees every change.\<close>

theorem place_isom_terrain_changed_area:
  assumes "state_ok (m, c)" "place_isom_terrain d t extent (m, c) = Inr (True, (m', c'))"
    and "in_bounds m p" "sm_rects m' ! rect_index m p \<noteq> sm_rects m ! rect_index m p"
  shows "in_box (ic_changed c') p \<and> bb_right (ic_changed c') < isom_width m
    \<and> bb_bottom (ic_changed c') < isom_height m"
proof -
  have "changed_ok m (m, reset_changed_area c)"
    using changed_ok_start [OF state_okD(1) [OF assms(1)]] .
  from changed_edit.place_keeps [OF assms(1) this refl, of d t extent] assms(2)
  have "changed_ok m (m', c')" by auto
  then show ?thesis using assms(3,4) by (cases p) (simp add: changed_ok_def)
qed

lemma place_isom_terrain_changed_area_witness:
  "\<exists>m' c'. place_isom_terrain (0, 0) 1 2 (example_map, example_cache) = Inr (True, (m', c'))
    \<and> in_box (ic_changed c') (0, 0)"
proof -
  obtain m' c' where run: "place_isom_terrain (0, 0) 1 2 (example_map, example_cache) = Inr (True, (m', c'))"
    by (rule example_run)
  have changed: "sm_rects m' ! rect_index example_map (0, 0) \<noteq> sm_rects example_map ! rect_index example_map (0, 0)"
  proof
    assume same: "sm_rects m' ! rect_index example_map (0, 0) = sm_rects example_map ! rect_index example_map (0, 0)"
    have "(0, 0) \<in> set (brush_offsets 2)" by (simp add: brush_range_defs Let_def)
    then have "central_isom_value m' (0, 0) = Inr 1"
      using placed_brush_value [OF example_ok run, of "(0, 0)"] example_values'
      by (simp add: brush_point_def size_of_int_def)
    then show False
      using same by (auto simp: central_isom_value_def rect_at_def bindE_Inr rect_index_def example_map_def empty_rect_def)
  qed
  from run place_isom_terrain_changed_area [OF example_ok run example_values(3) changed] show ?thesis by blast
qed

end
