(* ===== verification/IsomResize.thy ===== *)
theory IsomResize
  imports IsomPlace "HOL-Library.Product_Lexorder"
begin

text \<open>
  \<open>ScMap::copyIsomFrom\<close> and \<open>ScMap::resizeIsom\<close> of \<open>IsomTerrain/IsomApi.h\<close>.
\<close>

section \<open>Copying\<close>

text \<open>Division of an offset by two truncates towards zero.\<close>

definition half_offset :: "int \<Rightarrow> int" where
  "half_offset i = sgn i * (\<bar>i\<bar> div 2)"

definition size_offset :: "nat \<Rightarrow> int \<Rightarrow> nat" where
  "size_offset n i = size_add n (size_of_int i)"

text \<open>\<open>memcpy\<close> of a row, cell by cell.\<close>

primrec copy_cells :: "isom_rect list \<Rightarrow> nat \<Rightarrow> nat \<Rightarrow> nat \<Rightarrow> isom_rect list \<Rightarrow> isom_rect list result" where
  "copy_cells src a b 0 dst = Inr dst"
| "copy_cells src a b (Suc k) dst =
     bindE (vec_get src a) (\<lambda>r. bindE (vec_set dst b r) (copy_cells src (Suc a) (Suc b) k))"

definition copy_row ::
  "sc_map \<Rightarrow> bounding_box \<Rightarrow> int \<Rightarrow> int \<Rightarrow> nat \<Rightarrow> isom_rect list \<Rightarrow> nat \<Rightarrow> isom_rect list result"
where
  "copy_row source box dx dy dest_width rects y =
     copy_cells (sm_rects source) (y * isom_width source + bb_left box)
       (size_offset (size_add (size_mul (size_offset y dy) dest_width) (bb_left box)) dx)
       (size_sub (bb_right box) (bb_left box)) rects"

definition clear_point :: "sc_map \<Rightarrow> point \<Rightarrow> sc_map result" where
  "clear_point m p = bindE (rect_at m p) (\<lambda>r. set_rect_at m p empty_rect)"

definition record_new_value :: "sc_map \<Rightarrow> isom_cache \<Rightarrow> point \<Rightarrow> isom_cache result" where
  "record_new_value m c p =
     (let i = snd p * ic_width c + fst p
      in bindE (vec_get (ic_undo c) i) (\<lambda>u.
           case u of
             None \<Rightarrow> Inl (Undefined ''empty optional'')
           | Some u \<Rightarrow>
               bindE (rect_at m p) (\<lambda>r.
                 Inr (c\<lparr>ic_undo := (ic_undo c)[i := Some (set_new_value r u)]\<rparr>))))"

definition copy_isom_from :: "sc_map \<Rightarrow> int \<Rightarrow> int \<Rightarrow> bool \<Rightarrow> isom_state \<Rightarrow> isom_state result" where
  "copy_isom_from source x_off y_off undoable = (\<lambda>(m, c).
     let w = ic_width c; h = ic_height c; points = area_points 0 0 w h;
         src_w = isom_width source; src_h = isom_height source;
         dx = half_offset x_off; dy = y_off;
         box = overlap_box src_w src_h w h dx dy
     in bindE (if undoable then foldE (\<lambda>c p. add_isom_undo m p c) c points else Inr c) (\<lambda>c.
        bindE (foldE (copy_row source box dx dy w) (sm_rects m) [bb_top box..<bb_bottom box]) (\<lambda>rects.
          let m = m\<lparr>sm_rects := rects\<rparr>
          in if undoable then
               bindE (foldE clear_point m (area_points 0 src_h w h)) (\<lambda>m.
               bindE (if src_w < w then foldE clear_point m (area_points src_w 0 w h) else Inr m) (\<lambda>m.
               bindE (foldE (record_new_value m) c points) (\<lambda>c. Inr (m, c))))
             else Inr (m, c))))"

section \<open>Resizing\<close>

definition inside :: "bounding_box \<Rightarrow> point \<Rightarrow> bool" where
  "inside b p \<longleftrightarrow> bb_left b \<le> fst p \<and> fst p < bb_right b \<and> bb_top b \<le> snd p \<and> snd p < bb_bottom b"

definition outside_closed :: "bounding_box \<Rightarrow> point \<Rightarrow> bool" where
  "outside_closed b p \<longleftrightarrow> fst p < bb_left b \<or> bb_right b < fst p \<or> snd p < bb_top b \<or> bb_bottom b < snd p"

definition inner_area :: "bounding_box \<Rightarrow> int \<Rightarrow> int \<Rightarrow> bounding_box" where
  "inner_area src dx dy =
     \<lparr>bb_left = size_offset (bb_left src) dx, bb_top = size_offset (bb_top src) dy,
      bb_right = size_sub (size_offset (bb_right src) dx) 1,
      bb_bottom = size_sub (size_offset (bb_bottom src) dy) 1\<rparr>"

text \<open>\<open>for (x = first; x < last; x += 2)\<close>\<close>

definition every_second :: "nat \<Rightarrow> nat \<Rightarrow> nat list" where
  "every_second a b = filter (\<lambda>x. (x - a) mod 2 = 0) [a..<b]"

definition inner_diamonds :: "bounding_box \<Rightarrow> point list" where
  "inner_diamonds b =
     filter (\<lambda>(x, y). (x + y) mod 2 = 0)
       (concat (map (\<lambda>y. map (\<lambda>x. (x, y))
          (every_second (bb_left b + (bb_left b + y) mod 2) (Suc (bb_right b)))) [bb_top b..<Suc (bb_bottom b)]))"

record coverage =
  cov_inside :: bool
  cov_outside :: bool
  cov_value :: u16

definition cover_quadrant :: "sc_map \<Rightarrow> bounding_box \<Rightarrow> point \<Rightarrow> coverage \<Rightarrow> quadrant \<Rightarrow> coverage result" where
  "cover_quadrant m b d cov q =
     (let p = rectangle_coords d q
      in if \<not> in_bounds m p then Inr cov
         else if inside b p then
           bindE (rect_at m p) (\<lambda>r.
             Inr (cov\<lparr>cov_value := drop_bit 4 (rect_isom_value r (first_side (projected q))),
               cov_outside := False\<rparr>))
         else Inr (cov\<lparr>cov_inside := False\<rparr>))"

definition mark_quadrant :: "point \<Rightarrow> sc_map \<Rightarrow> quadrant \<Rightarrow> sc_map result" where
  "mark_quadrant d m q =
     (let p = rectangle_coords d q
      in if in_bounds m p
         then bindE (rect_at m p) (\<lambda>r. set_rect_at m p (set_rect_modified q r)) else Inr m)"

definition border_neighbors :: "sc_map \<Rightarrow> bounding_box \<Rightarrow> point \<Rightarrow> point list" where
  "border_neighbors m b d =
     filter (\<lambda>p. in_bounds m p \<and> outside_closed b p) (map (get_neighbor d) quadrants)"

definition resize_diamond ::
  "bounding_box \<Rightarrow> bool \<Rightarrow> isom_state \<times> point list \<Rightarrow> point \<Rightarrow> (isom_state \<times> point list) result"
where
  "resize_diamond b fix_borders = (\<lambda>((m, c), edges) d.
     bindE (foldE (cover_quadrant m b d)
         \<lparr>cov_inside = True, cov_outside = True, cov_value = 0\<rparr> quadrants) (\<lambda>cov.
       if cov_outside cov then Inr ((m, c), edges)
       else
         bindE
           (if \<not> cov_inside cov then
              bindE (foldE (\<lambda>st q. let p = rectangle_coords d q
                  in if \<not> inside b p then set_isom_value False (cov_value cov) st p q else Inr st)
                (m, c) quadrants) (\<lambda>st.
                Inr (st, if fix_borders then edges @ border_neighbors (fst st) b d else edges))
            else Inr ((m, c), edges)) (\<lambda>((m, c), edges).
         bindE (foldE (mark_quadrant d) m quadrants) (\<lambda>m. Inr ((m, c), edges)))))"

definition edge_key :: "point \<Rightarrow> nat \<times> nat \<times> nat" where
  "edge_key p = (fst p + snd p, max (fst p) (snd p) - min (fst p) (snd p), fst p)"

definition clear_flags_at :: "sc_map \<Rightarrow> point \<Rightarrow> sc_map result" where
  "clear_flags_at m p = bindE (rect_at m p) (\<lambda>r. set_rect_at m p (clear_editor_flags r))"

definition remark_inner :: "bounding_box \<Rightarrow> sc_map \<Rightarrow> point \<Rightarrow> sc_map result" where
  "remark_inner b m d =
     (if \<exists>q \<in> set quadrants. in_bounds m (rectangle_coords d q) \<and> inside b (rectangle_coords d q)
      then foldE (mark_quadrant d) m quadrants else Inr m)"

text \<open>The test of the last loop as the code has it: a row above \<open>innerArea.bottom\<close> counts as outside.\<close>

definition outer_quadrant :: "bounding_box \<Rightarrow> point \<Rightarrow> bool" where
  "outer_quadrant b p \<longleftrightarrow> fst p < bb_left b \<or> bb_right b \<le> fst p
     \<or> snd p < bb_top b \<or> snd p < bb_bottom b"

definition mark_outer :: "bounding_box \<Rightarrow> sc_map \<Rightarrow> point \<Rightarrow> sc_map result" where
  "mark_outer b m d =
     (if \<exists>q \<in> set quadrants. in_bounds m (rectangle_coords d q) \<and> outer_quadrant b (rectangle_coords d q)
      then foldE (mark_quadrant d) m quadrants else Inr m)"

definition all_diamonds :: "nat \<Rightarrow> nat \<Rightarrow> point list" where
  "all_diamonds w h =
     filter (\<lambda>(x, y). (x + y) mod 2 = 0)
       (concat (map (\<lambda>y. map (\<lambda>x. (x, y)) (every_second (y mod 2) w)) [0..<h]))"

definition resize_isom ::
  "int \<Rightarrow> int \<Rightarrow> nat \<Rightarrow> nat \<Rightarrow> bool \<Rightarrow> isom_state \<Rightarrow> (bool \<times> isom_state) result"
where
  "resize_isom x_off y_off old_w old_h fix_borders st =
     (let dx = half_offset x_off; dy = y_off;
          src = overlap_box (old_w div 2 + 1) (old_h + 1) (ic_width (snd st)) (ic_height (snd st)) dx dy;
          b = inner_area src dx dy
      in bindE (foldE (resize_diamond b fix_borders) (st, []) (inner_diamonds b)) (\<lambda>(st, edges).
         bindE (foldE (\<lambda>queue p. bindE (diamond_needs_update (fst st) p) (\<lambda>dirty.
             Inr (if dirty then queue @ [p] else queue))) [] (sort_key edge_key edges)) (\<lambda>queue.
         bindE (radially_update_terrain False st queue) (\<lambda>(m, c).
         bindE (foldE clear_flags_at m (changed_points (ic_changed c))) (\<lambda>m.
         bindE (foldE (remark_inner b) m (inner_diamonds b)) (\<lambda>m.
         let c = set_all_changed c
         in bindE (foldE clear_flags_at m (area_points (bb_left b) (bb_top b) (bb_right b) (bb_bottom b))) (\<lambda>m.
            bindE (foldE (mark_outer b) m (all_diamonds (ic_width c) (ic_height c))) (\<lambda>m.
              Inr (True, (m, c))))))))))"

text \<open>The last loop of \<open>resizeIsom\<close> compares with \<open><\<close> where the bottom edge is meant: a
  rectangle in the middle of the preserved area counts as outside it, so its tiles are regenerated.\<close>

theorem resize_isom_bottom_test:
  assumes "inside b p"
  shows "outer_quadrant b p"
  using assms by (simp add: inside_def outer_quadrant_def)

lemma resize_isom_bottom_test_witness:
  "outer_quadrant \<lparr>bb_left = 0, bb_top = 0, bb_right = 8, bb_bottom = 8\<rparr> (3, 4)"
  by (rule resize_isom_bottom_test) (simp add: inside_def)

end
