(* ===== verification/ChkTables.thy ===== *)
theory ChkTables
  imports Prelude
begin

text \<open>
  The constant tables of \<open>MappingCoreLib/Chk.cpp\<close> about trigger conditions, trigger actions and
  briefing actions: the arguments each type takes, with the type and the field of each, and the
  tables that say which types use the location, the second location, the string or the sound field.
\<close>

section \<open>Arguments\<close>

datatype condition_arg_type =
    CndNoType | CndUnit | CndLocation | CndPlayer | CndAmount | CndNumericComparison
  | CndResourceType | CndScoreType | CndSwitch | CndSwitchState | CndComparison | CndConditionType
  | CndTypeIndex | CndFlags | CndMaskFlag | CndMemoryOffset

datatype condition_arg_field =
    CndFieldLocationId | CndFieldPlayer | CndFieldAmount | CndFieldUnitType | CndFieldComparison | CndFieldConditionType
  | CndFieldTypeIndex | CndFieldFlags | CndFieldMaskFlag | CndFieldNoField

datatype action_arg_type =
    ActNoType | ActLocation | ActString | ActPlayer | ActUnit | ActNumUnits
  | ActCUWP | ActTextFlags | ActAmount | ActScoreType | ActResourceType | ActStateMod
  | ActPercent | ActOrder | ActSound | ActDuration | ActScript | ActAllyState
  | ActNumericMod | ActSwitch | ActSwitchMod | ActActionType | ActFlags | ActNumber
  | ActTypeIndex | ActSecondaryTypeIndex | ActPadding | ActMaskFlag | ActMemoryOffset

datatype action_arg_field =
    ActFieldLocationId | ActFieldStringId | ActFieldSoundStringId | ActFieldTime | ActFieldGroup | ActFieldNumber
  | ActFieldType | ActFieldActionType | ActFieldType2 | ActFieldFlags | ActFieldPadding | ActFieldMaskFlag
  | ActFieldNoField

type_synonym condition_argument = "condition_arg_type \<times> condition_arg_field"

type_synonym action_argument = "action_arg_type \<times> action_arg_field"

definition amount_cnd_arg :: condition_argument where
  "amount_cnd_arg = (CndAmount, CndFieldAmount)"

definition numeric_comparison_cnd_arg :: condition_argument where
  "numeric_comparison_cnd_arg = (CndNumericComparison, CndFieldComparison)"

definition switch_state_cnd_arg :: condition_argument where
  "switch_state_cnd_arg = (CndSwitchState, CndFieldComparison)"

definition resource_cnd_arg :: condition_argument where
  "resource_cnd_arg = (CndResourceType, CndFieldTypeIndex)"

definition score_cnd_arg :: condition_argument where
  "score_cnd_arg = (CndScoreType, CndFieldTypeIndex)"

definition switch_cnd_arg :: condition_argument where
  "switch_cnd_arg = (CndSwitch, CndFieldTypeIndex)"

definition player_cnd_arg :: condition_argument where
  "player_cnd_arg = (CndPlayer, CndFieldPlayer)"

definition unit_cnd_arg :: condition_argument where
  "unit_cnd_arg = (CndUnit, CndFieldUnitType)"

definition location_cnd_arg :: condition_argument where
  "location_cnd_arg = (CndLocation, CndFieldLocationId)"

definition comparison_cnd_arg :: condition_argument where
  "comparison_cnd_arg = (CndComparison, CndFieldComparison)"

definition condition_type_cnd_arg :: condition_argument where
  "condition_type_cnd_arg = (CndConditionType, CndFieldConditionType)"

definition type_index_cnd_arg :: condition_argument where
  "type_index_cnd_arg = (CndTypeIndex, CndFieldTypeIndex)"

definition flags_cnd_arg :: condition_argument where
  "flags_cnd_arg = (CndFlags, CndFieldFlags)"

definition mask_flag_cnd_arg :: condition_argument where
  "mask_flag_cnd_arg = (CndMaskFlag, CndFieldMaskFlag)"

definition memory_offset_cnd_arg :: condition_argument where
  "memory_offset_cnd_arg = (CndMemoryOffset, CndFieldPlayer)"

definition no_arg :: action_argument where
  "no_arg = (ActNoType, ActFieldNoField)"

definition amount_arg :: action_argument where
  "amount_arg = (ActAmount, ActFieldNumber)"

definition percent_arg :: action_argument where
  "percent_arg = (ActPercent, ActFieldNumber)"

definition duration_arg :: action_argument where
  "duration_arg = (ActDuration, ActFieldTime)"

definition num_units_arg :: action_argument where
  "num_units_arg = (ActNumUnits, ActFieldType2)"

definition unit_quantity_arg :: action_argument where
  "unit_quantity_arg = (ActAmount, ActFieldType2)"

definition numeric_mod_arg :: action_argument where
  "numeric_mod_arg = (ActNumericMod, ActFieldType2)"

definition switch_mod_arg :: action_argument where
  "switch_mod_arg = (ActSwitchMod, ActFieldType2)"

definition state_mod_arg :: action_argument where
  "state_mod_arg = (ActStateMod, ActFieldType2)"

definition ally_state_arg :: action_argument where
  "ally_state_arg = (ActAllyState, ActFieldType)"

definition score_arg :: action_argument where
  "score_arg = (ActScoreType, ActFieldType)"

definition resource_arg :: action_argument where
  "resource_arg = (ActResourceType, ActFieldType)"

definition script_arg :: action_argument where
  "script_arg = (ActScript, ActFieldNumber)"

definition text_flags_arg :: action_argument where
  "text_flags_arg = (ActTextFlags, ActFieldFlags)"

definition order_arg :: action_argument where
  "order_arg = (ActOrder, ActFieldType2)"

definition unit_arg :: action_argument where
  "unit_arg = (ActUnit, ActFieldType)"

definition location_arg :: action_argument where
  "location_arg = (ActLocation, ActFieldLocationId)"

definition player_arg :: action_argument where
  "player_arg = (ActPlayer, ActFieldGroup)"

definition dest_player_arg :: action_argument where
  "dest_player_arg = (ActPlayer, ActFieldNumber)"

definition secondary_location_arg :: action_argument where
  "secondary_location_arg = (ActLocation, ActFieldNumber)"

definition cuwp_arg :: action_argument where
  "cuwp_arg = (ActCUWP, ActFieldNumber)"

definition switch_arg :: action_argument where
  "switch_arg = (ActSwitch, ActFieldNumber)"

definition string_arg :: action_argument where
  "string_arg = (ActString, ActFieldStringId)"

definition sound_arg :: action_argument where
  "sound_arg = (ActSound, ActFieldSoundStringId)"

definition memory_offset_arg :: action_argument where
  "memory_offset_arg = (ActMemoryOffset, ActFieldGroup)"

definition number_arg :: action_argument where
  "number_arg = (ActNumber, ActFieldNumber)"

definition type_index_arg :: action_argument where
  "type_index_arg = (ActTypeIndex, ActFieldType)"

definition action_type_arg :: action_argument where
  "action_type_arg = (ActActionType, ActFieldActionType)"

definition secondary_type_index_arg :: action_argument where
  "secondary_type_index_arg = (ActSecondaryTypeIndex, ActFieldType2)"

definition flags_arg :: action_argument where
  "flags_arg = (ActFlags, ActFieldFlags)"

definition padding_arg :: action_argument where
  "padding_arg = (ActPadding, ActFieldPadding)"

definition mask_flag_arg :: action_argument where
  "mask_flag_arg = (ActMaskFlag, ActFieldMaskFlag)"

definition briefing_slot_arg :: action_argument where
  "briefing_slot_arg = (ActAmount, ActFieldGroup)"

section \<open>Arguments of the condition and action types\<close>

definition classic_condition_arguments :: "condition_argument list list" where
  "classic_condition_arguments =
   [[], [numeric_comparison_cnd_arg, amount_cnd_arg],
    [player_cnd_arg, numeric_comparison_cnd_arg, amount_cnd_arg, unit_cnd_arg],
    [player_cnd_arg, numeric_comparison_cnd_arg, amount_cnd_arg, unit_cnd_arg, location_cnd_arg],
    [player_cnd_arg, numeric_comparison_cnd_arg, amount_cnd_arg, resource_cnd_arg],
    [player_cnd_arg, numeric_comparison_cnd_arg, amount_cnd_arg, unit_cnd_arg],
    [unit_cnd_arg], [unit_cnd_arg, location_cnd_arg], [unit_cnd_arg], [score_cnd_arg],
    [resource_cnd_arg], [switch_cnd_arg, switch_state_cnd_arg],
    [numeric_comparison_cnd_arg, amount_cnd_arg], [],
    [player_cnd_arg, numeric_comparison_cnd_arg, amount_cnd_arg],
    [player_cnd_arg, numeric_comparison_cnd_arg, amount_cnd_arg, unit_cnd_arg],
    [unit_cnd_arg], [unit_cnd_arg, location_cnd_arg], [unit_cnd_arg], [score_cnd_arg],
    [resource_cnd_arg],
    [player_cnd_arg, score_cnd_arg, numeric_comparison_cnd_arg, amount_cnd_arg], [], []]"

definition text_condition_arguments :: "condition_argument list list" where
  "text_condition_arguments =
   [[], [numeric_comparison_cnd_arg, amount_cnd_arg],
    [player_cnd_arg, unit_cnd_arg, numeric_comparison_cnd_arg, amount_cnd_arg],
    [player_cnd_arg, unit_cnd_arg, location_cnd_arg, numeric_comparison_cnd_arg, amount_cnd_arg],
    [player_cnd_arg, numeric_comparison_cnd_arg, amount_cnd_arg, resource_cnd_arg],
    [player_cnd_arg, unit_cnd_arg, numeric_comparison_cnd_arg, amount_cnd_arg],
    [unit_cnd_arg], [unit_cnd_arg, location_cnd_arg], [unit_cnd_arg], [score_cnd_arg],
    [resource_cnd_arg], [switch_cnd_arg, switch_state_cnd_arg],
    [numeric_comparison_cnd_arg, amount_cnd_arg], [],
    [player_cnd_arg, numeric_comparison_cnd_arg, amount_cnd_arg],
    [player_cnd_arg, unit_cnd_arg, numeric_comparison_cnd_arg, amount_cnd_arg],
    [unit_cnd_arg], [unit_cnd_arg, location_cnd_arg], [unit_cnd_arg], [score_cnd_arg],
    [resource_cnd_arg],
    [player_cnd_arg, score_cnd_arg, numeric_comparison_cnd_arg, amount_cnd_arg], [], []]"

definition classic_action_arguments :: "action_argument list list" where
  "classic_action_arguments =
   [[], [], [], [], [duration_arg], [], [],
    [unit_arg, location_arg, sound_arg, numeric_mod_arg, amount_arg, string_arg],
    [sound_arg], [string_arg], [location_arg],
    [unit_quantity_arg, unit_arg, location_arg, player_arg, cuwp_arg], [string_arg],
    [switch_mod_arg, switch_arg], [numeric_mod_arg, duration_arg], [script_arg],
    [script_arg, location_arg], [unit_arg, string_arg],
    [unit_arg, location_arg, string_arg], [resource_arg, string_arg],
    [unit_arg, string_arg], [score_arg, string_arg], [unit_arg, player_arg],
    [num_units_arg, unit_arg, player_arg, location_arg], [unit_arg, player_arg],
    [num_units_arg, unit_arg, player_arg, location_arg],
    [player_arg, numeric_mod_arg, amount_arg, resource_arg],
    [player_arg, numeric_mod_arg, amount_arg, score_arg], [location_arg],
    [unit_arg, duration_arg], [], [], [state_mod_arg],
    [amount_arg, unit_arg, string_arg], [amount_arg, unit_arg, location_arg, string_arg],
    [amount_arg, resource_arg, string_arg], [amount_arg, unit_arg, string_arg],
    [amount_arg, score_arg, string_arg],
    [secondary_location_arg, unit_arg, player_arg, location_arg],
    [num_units_arg, unit_arg, player_arg, location_arg, secondary_location_arg],
    [amount_arg], [string_arg], [state_mod_arg, unit_arg, player_arg, location_arg],
    [state_mod_arg, unit_arg, player_arg, location_arg],
    [unit_quantity_arg, unit_arg, location_arg, player_arg],
    [player_arg, numeric_mod_arg, amount_arg, unit_arg],
    [unit_arg, player_arg, location_arg, order_arg, secondary_location_arg],
    [string_arg], [num_units_arg, unit_arg, player_arg, location_arg, dest_player_arg],
    [num_units_arg, unit_arg, player_arg, location_arg, percent_arg],
    [num_units_arg, unit_arg, player_arg, location_arg, percent_arg],
    [num_units_arg, unit_arg, player_arg, location_arg, percent_arg],
    [num_units_arg, player_arg, location_arg, amount_arg],
    [amount_arg, num_units_arg, unit_arg, location_arg, player_arg], [], [], [],
    [player_arg, ally_state_arg], [], []]"

definition text_action_arguments :: "action_argument list list" where
  "text_action_arguments =
   [[], [], [], [], [duration_arg], [], [],
    [text_flags_arg, string_arg, unit_arg, location_arg, numeric_mod_arg, amount_arg, sound_arg, duration_arg],
    [sound_arg, duration_arg], [text_flags_arg, string_arg], [location_arg],
    [player_arg, unit_arg, unit_quantity_arg, location_arg, cuwp_arg], [string_arg],
    [switch_arg, switch_mod_arg], [numeric_mod_arg, duration_arg], [script_arg],
    [script_arg, location_arg], [string_arg, unit_arg],
    [string_arg, unit_arg, location_arg], [string_arg, resource_arg],
    [string_arg, unit_arg], [string_arg, score_arg], [player_arg, unit_arg],
    [player_arg, unit_arg, num_units_arg, location_arg], [player_arg, unit_arg],
    [player_arg, unit_arg, num_units_arg, location_arg],
    [player_arg, numeric_mod_arg, amount_arg, resource_arg],
    [player_arg, numeric_mod_arg, amount_arg, score_arg], [location_arg],
    [unit_arg, duration_arg], [], [], [state_mod_arg],
    [string_arg, unit_arg, amount_arg], [string_arg, unit_arg, amount_arg, location_arg],
    [string_arg, amount_arg, resource_arg], [string_arg, unit_arg, amount_arg],
    [string_arg, score_arg, amount_arg],
    [player_arg, unit_arg, location_arg, secondary_location_arg],
    [player_arg, unit_arg, num_units_arg, location_arg, secondary_location_arg],
    [amount_arg], [string_arg], [player_arg, unit_arg, location_arg, state_mod_arg],
    [player_arg, unit_arg, location_arg, state_mod_arg],
    [player_arg, unit_arg, unit_quantity_arg, location_arg],
    [player_arg, unit_arg, numeric_mod_arg, amount_arg],
    [player_arg, unit_arg, location_arg, secondary_location_arg, order_arg],
    [string_arg], [player_arg, dest_player_arg, unit_arg, num_units_arg, location_arg],
    [player_arg, unit_arg, percent_arg, unit_quantity_arg, location_arg],
    [player_arg, unit_arg, percent_arg, unit_quantity_arg, location_arg],
    [player_arg, unit_arg, percent_arg, unit_quantity_arg, location_arg],
    [player_arg, amount_arg, unit_quantity_arg, location_arg],
    [player_arg, unit_arg, amount_arg, unit_quantity_arg, location_arg], [], [], [],
    [player_arg, ally_state_arg], [], []]"

definition classic_briefing_arguments :: "action_argument list list" where
  "classic_briefing_arguments =
   [[], [duration_arg], [sound_arg], [duration_arg, string_arg], [string_arg],
    [unit_arg, briefing_slot_arg], [briefing_slot_arg],
    [briefing_slot_arg, duration_arg],
    [briefing_slot_arg, sound_arg, numeric_mod_arg, amount_arg, string_arg], []]"

definition briefing_text_arguments :: "action_argument list list" where
  "briefing_text_arguments =
   [[], [duration_arg], [sound_arg, duration_arg], [string_arg, duration_arg],
    [string_arg], [unit_arg, briefing_slot_arg], [briefing_slot_arg],
    [briefing_slot_arg, duration_arg],
    [string_arg, briefing_slot_arg, numeric_mod_arg, amount_arg, sound_arg, duration_arg],
    []]"

section \<open>Which field a type uses\<close>

definition condition_uses_location_arg :: "bool list" where
  "condition_uses_location_arg =
   [False, False, False, True, False, False, False, True, False, False,
    False, False, False, False, False, False, False, True, False, False,
    False, False, False, False]"

definition action_uses_location_arg :: "bool list" where
  "action_uses_location_arg =
   [False, False, False, False, False, False, False, True, False, False,
    True, True, False, False, False, False, True, False, True, False,
    False, False, False, True, False, True, False, False, True, False,
    False, False, False, False, True, False, False, False, True, True,
    False, False, True, True, True, False, True, False, True, True,
    True, True, True, True, False, False, False, False, False, False]"

definition action_uses_secondary_location_arg :: "bool list" where
  "action_uses_secondary_location_arg =
   [False, False, False, False, False, False, False, False, False, False,
    False, False, False, False, False, False, False, False, False, False,
    False, False, False, False, False, False, False, False, False, False,
    False, False, False, False, False, False, False, False, True, True,
    False, False, False, False, False, False, True, False, False, False,
    False, False, False, False, False, False, False, False, False, False]"

definition action_uses_string_arg :: "bool list" where
  "action_uses_string_arg =
   [False, False, False, False, False, False, False, True, False, True,
    False, False, True, False, False, False, False, True, True, True,
    True, True, False, False, False, False, False, False, False, False,
    False, False, False, True, True, True, True, True, False, False,
    False, True, False, False, False, False, False, True, False, False,
    False, False, False, False, False, False, False, False, False, False]"

definition action_uses_game_string_arg :: "bool list" where
  "action_uses_game_string_arg =
   [False, False, False, False, False, False, False, True, False, True,
    False, False, True, False, False, False, False, True, True, True,
    True, True, False, False, False, False, False, False, False, False,
    False, False, False, True, True, True, True, True, False, False,
    False, True, False, False, False, False, False, False, False, False,
    False, False, False, False, False, False, False, False, False, False]"

definition action_uses_sound_arg :: "bool list" where
  "action_uses_sound_arg =
   [False, False, False, False, False, False, False, True, True, False,
    False, False, False, False, False, False, False, False, False, False,
    False, False, False, False, False, False, False, False, False, False,
    False, False, False, False, False, False, False, False, False, False,
    False, False, False, False, False, False, False, False, False, False,
    False, False, False, False, False, False, False, False, False, False]"

definition briefing_action_uses_string_arg :: "bool list" where
  "briefing_action_uses_string_arg =
   [False, False, False, True, True, False, False, False, True, False]"

definition briefing_action_uses_sound_arg :: "bool list" where
  "briefing_action_uses_sound_arg =
   [False, False, True, False, False, False, False, False, True, False]"

end
