(* ===== verification/ChkTriggers.thy ===== *)
theory ChkTriggers
  imports ChkTables StdMap
begin

text \<open>
  Trigger conditions, actions and triggers of \<open>MappingCoreLib/Chk.h\<close> and the operations of
  \<open>Chk.cpp\<close> that find, mark, remap and delete the location and string ids they hold. An id bitset is
  the set of the positions that are set.
\<close>

section \<open>Data\<close>

record chk_condition =
  cnd_location_id :: u32
  cnd_player :: u32
  cnd_amount :: u32
  cnd_unit_type :: u16
  cnd_comparison :: u8
  condition_type :: u8
  cnd_type_index :: u8
  cnd_flags :: u8
  cnd_mask_flag :: u16

record chk_action =
  act_location_id :: u32
  act_string_id :: u32
  act_sound_string_id :: u32
  act_time :: u32
  act_group :: u32
  act_number :: u32
  act_type :: u16
  action_type :: u8
  act_type2 :: u8
  act_flags :: u8
  act_padding :: u8
  act_mask_flag :: u16

record chk_trigger =
  trig_conditions :: "chk_condition list"
  trig_actions :: "chk_action list"
  trig_flags :: u32
  trig_owners :: "u8 list"
  trig_current_action :: u8

definition max_strings :: nat where
  "max_strings = 65536"

definition total_locations :: nat where
  "total_locations = 255"

text \<open>The bits of \<open>StringUserFlag\<close>.\<close>

definition user_scenario_name :: u32 where "user_scenario_name = 1"
definition user_scenario_description :: u32 where "user_scenario_description = 2"
definition user_force :: u32 where "user_force = 4"
definition user_location :: u32 where "user_location = 8"
definition user_original_unit :: u32 where "user_original_unit = 0x10"
definition user_expansion_unit :: u32 where "user_expansion_unit = 0x20"
definition user_sound :: u32 where "user_sound = 0x40"
definition user_switch :: u32 where "user_switch = 0x80"
definition user_trigger_action :: u32 where "user_trigger_action = 0x100"
definition user_trigger_sound :: u32 where "user_trigger_sound = 0x200"
definition user_extended_comment :: u32 where "user_extended_comment = 0x400"
definition user_extended_notes :: u32 where "user_extended_notes = 0x800"
definition user_briefing_action :: u32 where "user_briefing_action = 0x1000"
definition user_briefing_sound :: u32 where "user_briefing_sound = 0x2000"
definition user_all :: u32 where "user_all = 0xFFFFFFFF"

definition has_flag :: "u32 \<Rightarrow> u32 \<Rightarrow> bool" where
  "has_flag users f \<longleftrightarrow> users AND f = f"

definition any_trigger :: u32 where
  "any_trigger = user_trigger_action OR user_trigger_sound"

definition any_briefing_trigger :: u32 where
  "any_briefing_trigger = user_briefing_action OR user_briefing_sound"

definition any_trigger_extension :: u32 where
  "any_trigger_extension = user_extended_comment OR user_extended_notes"

section \<open>Conditions\<close>

abbreviation condition_uses_location :: "chk_condition \<Rightarrow> bool" where
  "condition_uses_location c \<equiv>
     unat (condition_type c) < length condition_uses_location_arg \<and>
     condition_uses_location_arg ! unat (condition_type c)"

definition condition_location_used :: "chk_condition \<Rightarrow> nat \<Rightarrow> bool" where
  "condition_location_used c location_id \<longleftrightarrow>
     condition_uses_location c \<and> unat (cnd_location_id c) = location_id"

definition mark_condition_locations :: "chk_condition \<Rightarrow> nat set \<Rightarrow> nat set" where
  "mark_condition_locations c used =
     (if condition_uses_location c \<and> cnd_location_id c \<noteq> 0
        \<and> unat (cnd_location_id c) \<le> total_locations
      then insert (unat (cnd_location_id c)) used else used)"

definition remap_id :: "(u32, u32) std_map \<Rightarrow> u32 \<Rightarrow> u32" where
  "remap_id remappings i = (case map_of remappings i of Some j \<Rightarrow> j | None \<Rightarrow> i)"

definition remap_condition_location_ids :: "(u32, u32) std_map \<Rightarrow> chk_condition \<Rightarrow> chk_condition" where
  "remap_condition_location_ids remappings c =
     (if condition_uses_location c
      then c\<lparr>cnd_location_id := remap_id remappings (cnd_location_id c)\<rparr> else c)"

definition delete_condition_location :: "nat \<Rightarrow> chk_condition \<Rightarrow> chk_condition" where
  "delete_condition_location location_id c =
     (if condition_uses_location c \<and> unat (cnd_location_id c) = location_id
      then c\<lparr>cnd_location_id := 0\<rparr> else c)"

section \<open>Actions\<close>

definition num_action_types :: nat where
  "num_action_types = 60"

definition num_briefing_action_types :: nat where
  "num_briefing_action_types = 10"

definition action_comment :: u8 where
  "action_comment = 47"

abbreviation classic_action :: "chk_action \<Rightarrow> bool" where
  "classic_action a \<equiv> unat (action_type a) < num_action_types"

abbreviation briefing_action :: "chk_action \<Rightarrow> bool" where
  "briefing_action a \<equiv> unat (action_type a) < num_briefing_action_types"

definition action_location_used :: "chk_action \<Rightarrow> nat \<Rightarrow> bool" where
  "action_location_used a location_id \<longleftrightarrow> classic_action a \<and>
     (action_uses_location_arg ! unat (action_type a) \<and> unat (act_location_id a) = location_id \<or>
      action_uses_secondary_location_arg ! unat (action_type a) \<and> unat (act_number a) = location_id)"

definition action_string_used :: "chk_action \<Rightarrow> nat \<Rightarrow> u32 \<Rightarrow> bool" where
  "action_string_used a string_id users \<longleftrightarrow> classic_action a \<and>
     (has_flag users user_trigger_action \<and> action_uses_string_arg ! unat (action_type a)
        \<and> unat (act_string_id a) = string_id \<or>
      has_flag users user_trigger_sound \<and> action_uses_sound_arg ! unat (action_type a)
        \<and> unat (act_sound_string_id a) = string_id)"

definition action_game_string_used :: "chk_action \<Rightarrow> nat \<Rightarrow> u32 \<Rightarrow> bool" where
  "action_game_string_used a string_id users \<longleftrightarrow> classic_action a \<and>
     (has_flag users user_trigger_action \<and> action_uses_game_string_arg ! unat (action_type a)
        \<and> unat (act_string_id a) = string_id \<or>
      has_flag users user_trigger_sound \<and> action_uses_sound_arg ! unat (action_type a)
        \<and> unat (act_sound_string_id a) = string_id)"

definition action_comment_string_used :: "chk_action \<Rightarrow> nat \<Rightarrow> bool" where
  "action_comment_string_used a string_id \<longleftrightarrow>
     action_type a = action_comment \<and> unat (act_string_id a) = string_id"

definition action_briefing_string_used :: "chk_action \<Rightarrow> nat \<Rightarrow> u32 \<Rightarrow> bool" where
  "action_briefing_string_used a string_id users \<longleftrightarrow> briefing_action a \<and>
     (has_flag users user_briefing_action \<and> briefing_action_uses_string_arg ! unat (action_type a)
        \<and> unat (act_string_id a) = string_id \<or>
      has_flag users user_briefing_sound \<and> briefing_action_uses_sound_arg ! unat (action_type a)
        \<and> unat (act_sound_string_id a) = string_id)"

definition mark_location :: "u32 \<Rightarrow> nat set \<Rightarrow> nat set" where
  "mark_location i used = (if i \<noteq> 0 \<and> unat i \<le> total_locations then insert (unat i) used else used)"

definition mark_action_locations :: "chk_action \<Rightarrow> nat set \<Rightarrow> nat set" where
  "mark_action_locations a used =
     (if classic_action a
      then let used = (if action_uses_location_arg ! unat (action_type a)
                       then mark_location (act_location_id a) used else used)
           in if action_uses_secondary_location_arg ! unat (action_type a)
              then mark_location (act_number a) used else used
      else used)"

definition mark_string :: "u32 \<Rightarrow> nat set \<Rightarrow> nat set" where
  "mark_string i used = (if 0 < i \<and> unat i < max_strings then insert (unat i) used else used)"

definition mark_action_strings :: "u32 \<Rightarrow> chk_action \<Rightarrow> nat set \<Rightarrow> nat set" where
  "mark_action_strings users a used =
     (if classic_action a
      then let used = (if has_flag users user_trigger_action
                          \<and> action_uses_string_arg ! unat (action_type a)
                       then mark_string (act_string_id a) used else used)
           in if has_flag users user_trigger_sound \<and> action_uses_sound_arg ! unat (action_type a)
              then mark_string (act_sound_string_id a) used else used
      else used)"

definition mark_action_game_strings :: "u32 \<Rightarrow> chk_action \<Rightarrow> nat set \<Rightarrow> nat set" where
  "mark_action_game_strings users a used =
     (if classic_action a
      then let used = (if has_flag users user_trigger_action
                          \<and> action_uses_game_string_arg ! unat (action_type a)
                       then mark_string (act_string_id a) used else used)
           in if has_flag users user_trigger_sound \<and> action_uses_sound_arg ! unat (action_type a)
              then mark_string (act_sound_string_id a) used else used
      else used)"

definition mark_action_comment_strings :: "chk_action \<Rightarrow> nat set \<Rightarrow> nat set" where
  "mark_action_comment_strings a used =
     (if action_type a = action_comment then mark_string (act_string_id a) used else used)"

definition mark_action_briefing_strings :: "u32 \<Rightarrow> chk_action \<Rightarrow> nat set \<Rightarrow> nat set" where
  "mark_action_briefing_strings users a used =
     (if briefing_action a
      then let used = (if has_flag users user_briefing_action
                          \<and> briefing_action_uses_string_arg ! unat (action_type a)
                       then mark_string (act_string_id a) used else used)
           in if has_flag users user_briefing_sound
                \<and> briefing_action_uses_sound_arg ! unat (action_type a)
              then mark_string (act_sound_string_id a) used else used
      else used)"

text \<open>The second block of \<open>remapLocationIds\<close> looks up and writes \<open>locationId\<close> as well.\<close>

definition remap_action_location_ids :: "(u32, u32) std_map \<Rightarrow> chk_action \<Rightarrow> chk_action" where
  "remap_action_location_ids remappings a =
     (if classic_action a
      then let a = (if action_uses_location_arg ! unat (action_type a)
                    then a\<lparr>act_location_id := remap_id remappings (act_location_id a)\<rparr> else a)
           in if action_uses_secondary_location_arg ! unat (action_type a)
              then a\<lparr>act_location_id := remap_id remappings (act_location_id a)\<rparr> else a
      else a)"

definition remap_action_string_ids :: "(u32, u32) std_map \<Rightarrow> chk_action \<Rightarrow> chk_action" where
  "remap_action_string_ids remappings a =
     (if classic_action a
      then let a = (if action_uses_string_arg ! unat (action_type a)
                    then a\<lparr>act_string_id := remap_id remappings (act_string_id a)\<rparr> else a)
           in if action_uses_sound_arg ! unat (action_type a)
              then a\<lparr>act_sound_string_id := remap_id remappings (act_sound_string_id a)\<rparr> else a
      else a)"

definition remap_action_briefing_string_ids :: "(u32, u32) std_map \<Rightarrow> chk_action \<Rightarrow> chk_action" where
  "remap_action_briefing_string_ids remappings a =
     (if briefing_action a
      then let a = (if briefing_action_uses_string_arg ! unat (action_type a)
                    then a\<lparr>act_string_id := remap_id remappings (act_string_id a)\<rparr> else a)
           in if briefing_action_uses_sound_arg ! unat (action_type a)
              then a\<lparr>act_sound_string_id := remap_id remappings (act_sound_string_id a)\<rparr> else a
      else a)"

definition delete_action_location :: "nat \<Rightarrow> chk_action \<Rightarrow> chk_action" where
  "delete_action_location location_id a =
     (if classic_action a
      then let a = (if action_uses_location_arg ! unat (action_type a)
                      \<and> unat (act_location_id a) = location_id
                    then a\<lparr>act_location_id := 0\<rparr> else a)
           in if action_uses_secondary_location_arg ! unat (action_type a)
                \<and> unat (act_number a) = location_id
              then a\<lparr>act_number := 0\<rparr> else a
      else a)"

definition delete_action_string :: "nat \<Rightarrow> chk_action \<Rightarrow> chk_action" where
  "delete_action_string string_id a =
     (if classic_action a
      then let a = (if action_uses_string_arg ! unat (action_type a)
                      \<and> unat (act_string_id a) = string_id
                    then a\<lparr>act_string_id := 0\<rparr> else a)
           in if action_uses_sound_arg ! unat (action_type a)
                \<and> unat (act_sound_string_id a) = string_id
              then a\<lparr>act_sound_string_id := 0\<rparr> else a
      else a)"

definition delete_action_briefing_string :: "nat \<Rightarrow> chk_action \<Rightarrow> chk_action" where
  "delete_action_briefing_string string_id a =
     (if briefing_action a
      then let a = (if briefing_action_uses_string_arg ! unat (action_type a)
                      \<and> unat (act_string_id a) = string_id
                    then a\<lparr>act_string_id := 0\<rparr> else a)
           in if briefing_action_uses_sound_arg ! unat (action_type a)
                \<and> unat (act_sound_string_id a) = string_id
              then a\<lparr>act_sound_string_id := 0\<rparr> else a
      else a)"

section \<open>Triggers\<close>

definition trigger_location_used :: "chk_trigger \<Rightarrow> nat \<Rightarrow> bool" where
  "trigger_location_used t location_id \<longleftrightarrow>
     (\<exists>c \<in> set (trig_conditions t). condition_location_used c location_id) \<or>
     (\<exists>a \<in> set (trig_actions t). action_location_used a location_id)"

definition trigger_string_used :: "chk_trigger \<Rightarrow> nat \<Rightarrow> u32 \<Rightarrow> bool" where
  "trigger_string_used t string_id users \<longleftrightarrow>
     (\<exists>a \<in> set (trig_actions t). action_string_used a string_id users)"

definition trigger_game_string_used :: "chk_trigger \<Rightarrow> nat \<Rightarrow> u32 \<Rightarrow> bool" where
  "trigger_game_string_used t string_id users \<longleftrightarrow>
     (\<exists>a \<in> set (trig_actions t). action_game_string_used a string_id users)"

definition trigger_comment_string_used :: "chk_trigger \<Rightarrow> nat \<Rightarrow> bool" where
  "trigger_comment_string_used t string_id \<longleftrightarrow>
     (\<exists>a \<in> set (trig_actions t). action_comment_string_used a string_id)"

definition trigger_briefing_string_used :: "chk_trigger \<Rightarrow> nat \<Rightarrow> u32 \<Rightarrow> bool" where
  "trigger_briefing_string_used t string_id users \<longleftrightarrow>
     (\<exists>a \<in> set (trig_actions t). action_briefing_string_used a string_id users)"

definition mark_trigger_locations :: "chk_trigger \<Rightarrow> nat set \<Rightarrow> nat set" where
  "mark_trigger_locations t used =
     fold mark_action_locations (trig_actions t) (fold mark_condition_locations (trig_conditions t) used)"

definition mark_trigger_strings :: "u32 \<Rightarrow> chk_trigger \<Rightarrow> nat set \<Rightarrow> nat set" where
  "mark_trigger_strings users t = fold (mark_action_strings users) (trig_actions t)"

definition mark_trigger_game_strings :: "u32 \<Rightarrow> chk_trigger \<Rightarrow> nat set \<Rightarrow> nat set" where
  "mark_trigger_game_strings users t = fold (mark_action_game_strings users) (trig_actions t)"

definition mark_trigger_comment_strings :: "chk_trigger \<Rightarrow> nat set \<Rightarrow> nat set" where
  "mark_trigger_comment_strings t = fold mark_action_comment_strings (trig_actions t)"

definition mark_trigger_briefing_strings :: "u32 \<Rightarrow> chk_trigger \<Rightarrow> nat set \<Rightarrow> nat set" where
  "mark_trigger_briefing_strings users t = fold (mark_action_briefing_strings users) (trig_actions t)"

definition remap_trigger_location_ids :: "(u32, u32) std_map \<Rightarrow> chk_trigger \<Rightarrow> chk_trigger" where
  "remap_trigger_location_ids remappings t =
     t\<lparr>trig_conditions := map (remap_condition_location_ids remappings) (trig_conditions t),
       trig_actions := map (remap_action_location_ids remappings) (trig_actions t)\<rparr>"

definition remap_trigger_strings :: "(u32, u32) std_map \<Rightarrow> chk_trigger \<Rightarrow> chk_trigger" where
  "remap_trigger_strings remappings t =
     t\<lparr>trig_actions := map (remap_action_string_ids remappings) (trig_actions t)\<rparr>"

definition remap_trigger_briefing_strings :: "(u32, u32) std_map \<Rightarrow> chk_trigger \<Rightarrow> chk_trigger" where
  "remap_trigger_briefing_strings remappings t =
     t\<lparr>trig_actions := map (remap_action_briefing_string_ids remappings) (trig_actions t)\<rparr>"

definition delete_trigger_location :: "nat \<Rightarrow> chk_trigger \<Rightarrow> chk_trigger" where
  "delete_trigger_location location_id t =
     t\<lparr>trig_conditions := map (delete_condition_location location_id) (trig_conditions t),
       trig_actions := map (delete_action_location location_id) (trig_actions t)\<rparr>"

definition delete_trigger_actions_string :: "nat \<Rightarrow> chk_trigger \<Rightarrow> chk_trigger" where
  "delete_trigger_actions_string string_id t =
     t\<lparr>trig_actions := map (delete_action_string string_id) (trig_actions t)\<rparr>"

definition delete_trigger_briefing_string :: "nat \<Rightarrow> chk_trigger \<Rightarrow> chk_trigger" where
  "delete_trigger_briefing_string string_id t =
     t\<lparr>trig_actions := map (delete_action_briefing_string string_id) (trig_actions t)\<rparr>"

section \<open>The tables list the arguments\<close>

abbreviation action_fields :: "action_argument list \<Rightarrow> action_arg_field list" where
  "action_fields \<equiv> map snd"

lemma table_lengths [simp]:
  "length condition_uses_location_arg = 24" "length classic_condition_arguments = 24"
  "length action_uses_location_arg = 60" "length action_uses_secondary_location_arg = 60"
  "length action_uses_string_arg = 60" "length action_uses_game_string_arg = 60"
  "length action_uses_sound_arg = 60" "length classic_action_arguments = 60"
  "length briefing_action_uses_string_arg = 10" "length briefing_action_uses_sound_arg = 10"
  "length classic_briefing_arguments = 10"
  by (simp_all add: condition_uses_location_arg_def classic_condition_arguments_def
      action_uses_location_arg_def action_uses_secondary_location_arg_def action_uses_string_arg_def
      action_uses_game_string_arg_def action_uses_sound_arg_def classic_action_arguments_def
      briefing_action_uses_string_arg_def briefing_action_uses_sound_arg_def
      classic_briefing_arguments_def)

text \<open>
  The hard-coded tables that drive every search for an id agree with the argument lists of the
  action and condition types: a type uses a field exactly when one of its arguments is in that
  field; the game strings leave out the comment only.
\<close>

lemma id_tables_agree:
  "action_uses_location_arg
     = map (\<lambda>args. ActFieldLocationId \<in> set (action_fields args)) classic_action_arguments \<and>
   action_uses_secondary_location_arg
     = map (\<lambda>args. (ActLocation, ActFieldNumber) \<in> set args) classic_action_arguments \<and>
   action_uses_string_arg
     = map (\<lambda>args. ActFieldStringId \<in> set (action_fields args)) classic_action_arguments \<and>
   action_uses_game_string_arg = action_uses_string_arg[unat action_comment := False] \<and>
   action_uses_sound_arg
     = map (\<lambda>args. ActFieldSoundStringId \<in> set (action_fields args)) classic_action_arguments \<and>
   briefing_action_uses_string_arg
     = map (\<lambda>args. ActFieldStringId \<in> set (action_fields args)) classic_briefing_arguments \<and>
   briefing_action_uses_sound_arg
     = map (\<lambda>args. ActFieldSoundStringId \<in> set (action_fields args)) classic_briefing_arguments \<and>
   condition_uses_location_arg
     = map (\<lambda>args. CndFieldLocationId \<in> set (map snd args)) classic_condition_arguments"
  by code_simp

end
