(* ===== verification/Scenario.thy ===== *)
theory Scenario
  imports ChkTriggers IsomMap
begin

text \<open>
  The map of \<open>MappingCoreLib/Scenario.h\<close>: the sections the agent reads and writes as the record
  \<open>scenario\<close>, the objects of \<open>Chk.h\<close> placed on it, and the operations of \<open>Scenario.cpp\<close> on tiles,
  sprites, doodads, units, locations, slots and forces. Strings are in \<open>ScenarioStrings\<close>.
\<close>

section \<open>Objects\<close>

record chk_unit =
  un_class_id :: u32
  un_x :: u16
  un_y :: u16
  un_type :: u16
  un_relation_flags :: u16
  un_valid_state_flags :: u16
  un_valid_field_flags :: u16
  un_owner :: u8
  un_hitpoint_percent :: u8
  un_shield_percent :: u8
  un_energy_percent :: u8
  un_resource_amount :: u32
  un_hanger_amount :: u16
  un_state_flags :: u16
  un_unused :: u32
  un_relation_class_id :: u32

record chk_doodad =
  dd_type :: u16
  dd_x :: u16
  dd_y :: u16
  dd_owner :: u8
  dd_enabled :: u8

record chk_sprite =
  sp_type :: u16
  sp_x :: u16
  sp_y :: u16
  sp_owner :: u8
  sp_unused :: u8
  sp_flags :: u16

record chk_location =
  loc_left :: u32
  loc_top :: u32
  loc_right :: u32
  loc_bottom :: u32
  loc_string_id :: u16
  loc_elevation :: u16

record chk_extended_trig =
  ext_comment_string_id :: u32
  ext_notes_string_id :: u32
  ext_group_id :: u32
  ext_trig_num :: u32
  ext_mask_id :: u32

definition empty_location :: chk_location where
  "empty_location = \<lparr>loc_left = 0, loc_top = 0, loc_right = 0, loc_bottom = 0,
     loc_string_id = 0, loc_elevation = 0\<rparr>"

definition location_is_blank :: "chk_location \<Rightarrow> bool" where
  "location_is_blank l \<longleftrightarrow> loc_left l = 0 \<and> loc_top l = 0 \<and> loc_right l = 0 \<and> loc_bottom l = 0
     \<and> loc_string_id l = 0 \<and> loc_elevation l = 0"

section \<open>The map\<close>

record scenario =
  sc_strings :: "string option list"
  sc_name_id :: u16
  sc_description_id :: u16
  sc_races :: "u8 list"
  sc_player_forces :: "u8 list"
  sc_force_strings :: "u16 list"
  sc_force_flags :: "u8 list"
  sc_slot_types :: "u8 list"
  sc_iown_slot_types :: "u8 list"
  sc_sprites :: "chk_sprite list"
  sc_doodads :: "chk_doodad list"
  sc_units :: "chk_unit list"
  sc_locations :: "chk_location list"
  sc_width :: u16
  sc_height :: u16
  sc_tileset :: nat
  sc_tiles :: "u16 list"
  sc_editor_tiles :: "u16 list"
  sc_isom :: "isom_rect list"
  sc_unit_names :: "u16 list"
  sc_orig_unit_names :: "u16 list"
  sc_triggers :: "chk_trigger list"
  sc_briefing_triggers :: "chk_trigger list"
  sc_switch_names :: "u32 list"
  sc_sound_paths :: "u32 list"
  sc_trigger_extensions :: "chk_extended_trig list"

definition total_players :: nat where "total_players = 12"
definition total_slots :: nat where "total_slots = 8"
definition total_forces :: nat where "total_forces = 4"
definition total_unit_types :: nat where "total_unit_types = 228"
definition total_sounds :: nat where "total_sounds = 512"
definition total_switches :: nat where "total_switches = 256"
definition pixels_per_tile :: nat where "pixels_per_tile = 32"
definition location_anywhere :: nat where "location_anywhere = 64"

text \<open>The C arrays of the struct have their declared lengths.\<close>

definition arrays_ok :: "scenario \<Rightarrow> bool" where
  "arrays_ok m \<longleftrightarrow> length (sc_races m) = total_players \<and> length (sc_player_forces m) = total_slots
     \<and> length (sc_force_strings m) = total_forces \<and> length (sc_force_flags m) = total_forces
     \<and> length (sc_slot_types m) = total_players \<and> length (sc_iown_slot_types m) = total_players
     \<and> length (sc_unit_names m) = total_unit_types \<and> length (sc_orig_unit_names m) = total_unit_types
     \<and> length (sc_switch_names m) = total_switches \<and> length (sc_sound_paths m) = total_sounds"

abbreviation tile_width :: "scenario \<Rightarrow> nat" where "tile_width m \<equiv> unat (sc_width m)"
abbreviation tile_height :: "scenario \<Rightarrow> nat" where "tile_height m \<equiv> unat (sc_height m)"

definition pixel_width :: "scenario \<Rightarrow> nat" where
  "pixel_width m = tile_width m * pixels_per_tile"

definition pixel_height :: "scenario \<Rightarrow> nat" where
  "pixel_height m = tile_height m * pixels_per_tile"

section \<open>Tiles\<close>

datatype scope = GameScope | EditorScope | EditorOverGameScope | BothScope

definition past_end :: "nat \<Rightarrow> string \<Rightarrow> 'a result" where
  "past_end i section =
     Inl (OutOfRange (''TileIndex: '' @ nat_to_string i @ '' is past the end of the '' @ section @ '' section!''))"

definition get_tile :: "nat \<Rightarrow> nat \<Rightarrow> scope \<Rightarrow> scenario \<Rightarrow> u16 result" where
  "get_tile x y scope m =
     (let i = size_add (size_mul y (tile_width m)) x
      in case scope of
           EditorOverGameScope \<Rightarrow>
             if i < length (sc_editor_tiles m) then Inr (sc_editor_tiles m ! i)
             else if i < length (sc_tiles m) then Inr (sc_tiles m ! i) else Inr 0
         | EditorScope \<Rightarrow>
             if i < length (sc_editor_tiles m) then Inr (sc_editor_tiles m ! i) else past_end i ''TILE''
         | GameScope \<Rightarrow>
             if i < length (sc_tiles m) then Inr (sc_tiles m ! i) else past_end i ''MTXM''
         | BothScope \<Rightarrow> Inr 0)"

definition set_tile :: "nat \<Rightarrow> nat \<Rightarrow> u16 \<Rightarrow> scope \<Rightarrow> scenario \<Rightarrow> scenario result" where
  "set_tile x y v scope m =
     (let i = size_add (size_mul y (tile_width m)) x
      in bindE (if scope \<in> {GameScope, BothScope}
                then if i < length (sc_tiles m) then Inr (m\<lparr>sc_tiles := (sc_tiles m)[i := v]\<rparr>)
                     else past_end i ''MTXM''
                else Inr m) (\<lambda>m.
           if scope \<in> {EditorScope, BothScope}
           then if i < length (sc_editor_tiles m)
                then Inr (m\<lparr>sc_editor_tiles := (sc_editor_tiles m)[i := v]\<rparr>)
                else past_end i ''TILE''
           else Inr m))"

section \<open>Object lists\<close>

text \<open>The four \<open>delete\<close> functions ignore an index past the end; \<open>erase\<close> closes the gap.\<close>

definition erase_at :: "nat \<Rightarrow> 'a list \<Rightarrow> 'a list" where
  "erase_at i xs = (if i < length xs then take i xs @ drop (Suc i) xs else xs)"

definition insert_at :: "nat \<Rightarrow> 'a \<Rightarrow> 'a list \<Rightarrow> 'a list" where
  "insert_at i x xs = take i xs @ x # drop i xs"

definition add_sprite :: "chk_sprite \<Rightarrow> scenario \<Rightarrow> nat \<times> scenario" where
  "add_sprite s m = (length (sc_sprites m), m\<lparr>sc_sprites := sc_sprites m @ [s]\<rparr>)"

definition insert_sprite :: "nat \<Rightarrow> chk_sprite \<Rightarrow> scenario \<Rightarrow> scenario" where
  "insert_sprite i s m = (if i < length (sc_sprites m)
     then m\<lparr>sc_sprites := insert_at i s (sc_sprites m)\<rparr> else m\<lparr>sc_sprites := sc_sprites m @ [s]\<rparr>)"

definition delete_sprite :: "nat \<Rightarrow> scenario \<Rightarrow> scenario" where
  "delete_sprite i m = m\<lparr>sc_sprites := erase_at i (sc_sprites m)\<rparr>"

definition add_doodad :: "chk_doodad \<Rightarrow> scenario \<Rightarrow> nat \<times> scenario" where
  "add_doodad d m = (length (sc_doodads m), m\<lparr>sc_doodads := sc_doodads m @ [d]\<rparr>)"

definition insert_doodad :: "nat \<Rightarrow> chk_doodad \<Rightarrow> scenario \<Rightarrow> scenario" where
  "insert_doodad i d m = (if i < length (sc_doodads m)
     then m\<lparr>sc_doodads := insert_at i d (sc_doodads m)\<rparr>
     else if i = length (sc_doodads m) then m\<lparr>sc_doodads := sc_doodads m @ [d]\<rparr> else m)"

definition delete_doodad :: "nat \<Rightarrow> scenario \<Rightarrow> scenario" where
  "delete_doodad i m = m\<lparr>sc_doodads := erase_at i (sc_doodads m)\<rparr>"

definition add_unit :: "chk_unit \<Rightarrow> scenario \<Rightarrow> nat \<times> scenario" where
  "add_unit u m = (length (sc_units m), m\<lparr>sc_units := sc_units m @ [u]\<rparr>)"

definition insert_unit :: "nat \<Rightarrow> chk_unit \<Rightarrow> scenario \<Rightarrow> scenario" where
  "insert_unit i u m = (if i < length (sc_units m)
     then m\<lparr>sc_units := insert_at i u (sc_units m)\<rparr>
     else if i = length (sc_units m) then m\<lparr>sc_units := sc_units m @ [u]\<rparr> else m)"

definition delete_unit :: "nat \<Rightarrow> scenario \<Rightarrow> scenario" where
  "delete_unit i m = m\<lparr>sc_units := erase_at i (sc_units m)\<rparr>"

text \<open>
  \<open>moveSprite\<close>, \<open>moveDoodad\<close> and \<open>moveUnit\<close> share this body: neighbours are swapped; otherwise the
  element is erased and inserted before position \<open>to - 1\<close>, computed in \<open>size_t\<close>. An iterator
  outside the vector has no defined behaviour.
\<close>

definition move_element :: "nat \<Rightarrow> nat \<Rightarrow> 'a list \<Rightarrow> 'a list result" where
  "move_element i j xs =
     (let lo = min i j; hi = max i j
      in if hi < length xs \<and> i \<noteq> j
         then if hi - lo = 1 then Inr (xs[lo := xs ! hi, hi := xs ! lo])
              else let x = xs ! i; ys = erase_at i xs; p = size_sub j 1
                   in if p \<le> length ys then Inr (insert_at p x ys)
                      else Inl (Undefined ''iterator outside the vector'')
         else Inr xs)"

definition move_sprite :: "nat \<Rightarrow> nat \<Rightarrow> scenario \<Rightarrow> scenario result" where
  "move_sprite i j m = bindE (move_element i j (sc_sprites m)) (\<lambda>xs. Inr (m\<lparr>sc_sprites := xs\<rparr>))"

definition move_doodad :: "nat \<Rightarrow> nat \<Rightarrow> scenario \<Rightarrow> scenario result" where
  "move_doodad i j m = bindE (move_element i j (sc_doodads m)) (\<lambda>xs. Inr (m\<lparr>sc_doodads := xs\<rparr>))"

definition move_unit :: "nat \<Rightarrow> nat \<Rightarrow> scenario \<Rightarrow> scenario result" where
  "move_unit i j m = bindE (move_element i j (sc_units m)) (\<lambda>xs. Inr (m\<lparr>sc_units := xs\<rparr>))"

text \<open>The loops that remove objects outside the map run from the last index down to 0.\<close>

fun remove_down :: "('a \<Rightarrow> bool) \<Rightarrow> nat \<Rightarrow> 'a list \<Rightarrow> 'a list" where
  "remove_down p 0 xs = xs"
| "remove_down p (Suc i) xs = remove_down p i (if p (xs ! i) then erase_at i xs else xs)"

definition outside_map :: "scenario \<Rightarrow> u16 \<Rightarrow> u16 \<Rightarrow> bool" where
  "outside_map m x y \<longleftrightarrow> pixel_width m \<le> unat x \<or> pixel_height m \<le> unat y"

definition remove_out_of_bounds_sprites :: "scenario \<Rightarrow> scenario" where
  "remove_out_of_bounds_sprites m =
     m\<lparr>sc_sprites := remove_down (\<lambda>s. outside_map m (sp_x s) (sp_y s)) (length (sc_sprites m)) (sc_sprites m)\<rparr>"

definition remove_out_of_bounds_doodads :: "scenario \<Rightarrow> scenario" where
  "remove_out_of_bounds_doodads m =
     m\<lparr>sc_doodads := remove_down (\<lambda>d. outside_map m (dd_x d) (dd_y d)) (length (sc_doodads m)) (sc_doodads m)\<rparr>"

definition remove_out_of_bounds_units :: "scenario \<Rightarrow> scenario" where
  "remove_out_of_bounds_units m =
     m\<lparr>sc_units := remove_down (\<lambda>u. outside_map m (un_x u) (un_y u)) (length (sc_units m)) (sc_units m)\<rparr>"

definition clamp16 :: "nat \<Rightarrow> u16 \<Rightarrow> u16" where
  "clamp16 limit x = (if limit \<le> unat x then of_nat (size_sub limit 1) else x)"

definition update_out_of_bounds_sprites :: "scenario \<Rightarrow> scenario" where
  "update_out_of_bounds_sprites m =
     m\<lparr>sc_sprites := map (\<lambda>s. s\<lparr>sp_x := clamp16 (pixel_width m) (sp_x s),
                                 sp_y := clamp16 (pixel_height m) (sp_y s)\<rparr>) (sc_sprites m)\<rparr>"

definition update_out_of_bounds_units :: "scenario \<Rightarrow> scenario" where
  "update_out_of_bounds_units m =
     m\<lparr>sc_units := map (\<lambda>u. u\<lparr>un_x := clamp16 (pixel_width m) (un_x u),
                               un_y := clamp16 (pixel_height m) (un_y u)\<rparr>) (sc_units m)\<rparr>"

section \<open>Locations\<close>

definition num_locations :: "scenario \<Rightarrow> nat" where
  "num_locations m = (if 0 < length (sc_locations m) then length (sc_locations m) - 1 else 0)"

definition get_location :: "nat \<Rightarrow> scenario \<Rightarrow> chk_location result" where
  "get_location i m = vec_get (sc_locations m) i"

definition is_blank :: "nat \<Rightarrow> scenario \<Rightarrow> bool" where
  "is_blank i m \<longleftrightarrow> length (sc_locations m) \<le> i \<or> location_is_blank (sc_locations m ! i)"

definition add_location :: "chk_location \<Rightarrow> scenario \<Rightarrow> nat \<times> scenario" where
  "add_location l m =
     (case List.find (\<lambda>i. is_blank i m) [1..<length (sc_locations m)] of
        Some i \<Rightarrow> (i, m\<lparr>sc_locations := (sc_locations m)[i := l]\<rparr>)
      | None \<Rightarrow> (0, m))"

definition location_out_of_range :: "nat \<Rightarrow> 'a result" where
  "location_out_of_range i = Inl (OutOfRange
     (''LocationId: '' @ nat_to_string (i mod 2 ^ 32) @ '' is out of range for the MRGN section!''))"

definition replace_location :: "nat \<Rightarrow> chk_location \<Rightarrow> scenario \<Rightarrow> scenario result" where
  "replace_location i l m =
     (if 0 < i \<and> i < length (sc_locations m)
      then Inr (if is_blank i m then m\<lparr>sc_locations := (sc_locations m)[i := l]\<rparr> else m)
      else location_out_of_range i)"

definition trigger_uses_location :: "nat \<Rightarrow> scenario \<Rightarrow> bool" where
  "trigger_uses_location i m \<longleftrightarrow> (\<exists>t \<in> set (sc_triggers m). trigger_location_used t i)"

definition delete_location :: "nat \<Rightarrow> bool \<Rightarrow> scenario \<Rightarrow> scenario" where
  "delete_location i only_if_unused m =
     (if (\<not> only_if_unused \<or> \<not> trigger_uses_location i m) \<and> 0 < i \<and> i < length (sc_locations m)
      then m\<lparr>sc_locations := (sc_locations m)[i := empty_location]\<rparr> else m)"

definition clamp32 :: "nat \<Rightarrow> u32 \<Rightarrow> u32" where
  "clamp32 limit x = (if limit \<le> unat x then of_nat (size_sub limit 1) else x)"

definition downsize_location :: "scenario \<Rightarrow> chk_location \<Rightarrow> chk_location" where
  "downsize_location m l =
     l\<lparr>loc_left := clamp32 (pixel_width m) (loc_left l), loc_right := clamp32 (pixel_width m) (loc_right l),
       loc_top := clamp32 (pixel_height m) (loc_top l), loc_bottom := clamp32 (pixel_height m) (loc_bottom l)\<rparr>"

definition downsize_out_of_bounds_locations :: "scenario \<Rightarrow> scenario" where
  "downsize_out_of_bounds_locations m =
     m\<lparr>sc_locations := (case sc_locations m of [] \<Rightarrow> [] | l # ls \<Rightarrow> l # map (downsize_location m) ls)\<rparr>"

section \<open>Slots and forces\<close>

definition index_error :: "string \<Rightarrow> nat \<Rightarrow> string \<Rightarrow> 'a result" where
  "index_error what i section =
     Inl (OutOfRange (what @ '': '' @ nat_to_string i @ '' is out of range for the '' @ section @ ''!''))"

definition set_slot_type :: "nat \<Rightarrow> u8 \<Rightarrow> scope \<Rightarrow> scenario \<Rightarrow> scenario result" where
  "set_slot_type i v scope m =
     (if total_players \<le> i then index_error ''SlotIndex'' i ''OWNR/IOWN sections''
      else Inr (case scope of
        GameScope \<Rightarrow> m\<lparr>sc_slot_types := (sc_slot_types m)[i := v]\<rparr>
      | EditorScope \<Rightarrow> m\<lparr>sc_iown_slot_types := (sc_iown_slot_types m)[i := v]\<rparr>
      | _ \<Rightarrow> m\<lparr>sc_slot_types := (sc_slot_types m)[i := v],
              sc_iown_slot_types := (sc_iown_slot_types m)[i := v]\<rparr>))"

definition set_player_race :: "nat \<Rightarrow> u8 \<Rightarrow> scenario \<Rightarrow> scenario result" where
  "set_player_race i race m =
     (if i < total_players then Inr (m\<lparr>sc_races := (sc_races m)[i := race]\<rparr>)
      else index_error ''PlayerIndex'' i ''SIDE section'')"

definition set_player_force :: "nat \<Rightarrow> u8 \<Rightarrow> scenario \<Rightarrow> scenario result" where
  "set_player_force i force m =
     (if i < total_slots then Inr (m\<lparr>sc_player_forces := (sc_player_forces m)[i := force]\<rparr>)
      else index_error ''SlotIndex'' (i mod 2 ^ 32) ''FORC section'')"

definition get_force_flags :: "u8 \<Rightarrow> scenario \<Rightarrow> u8 result" where
  "get_force_flags force m =
     (if unat force < total_forces then Inr (sc_force_flags m ! unat force)
      else index_error ''Force'' (unat force) ''FORC section'')"

definition set_force_flags :: "u8 \<Rightarrow> u8 \<Rightarrow> scenario \<Rightarrow> scenario result" where
  "set_force_flags force v m =
     (if unat force < total_forces then Inr (m\<lparr>sc_force_flags := (sc_force_flags m)[unat force := v]\<rparr>)
      else index_error ''Force'' (unat force) ''FORC section'')"

end
