(* ===== verification/ScenarioStrings.thy ===== *)
theory ScenarioStrings
  imports Scenario
begin

text \<open>
  The game string table of a map, \<open>Scenario.cpp\<close>: which ids are in use, lookup, insertion with its
  choice of a free id, capacity, deletion and defragmentation, for the storage scope \<open>Game\<close> (the STR
  or STRx section). \<open>RawString\<close> is the byte sequence; conversions from escaped forms are not modelled. A copied
  \<open>ScStr\<close> shares the buffer of its source; the model gives both the value.
\<close>

datatype usage_scope = UsageGame | UsageEditor | UsageEither

section \<open>Who uses a string\<close>

definition string_stored :: "nat \<Rightarrow> scenario \<Rightarrow> bool" where
  "string_stored i m \<longleftrightarrow> i < length (sc_strings m) \<and> sc_strings m ! i \<noteq> None"

text \<open>\<open>&&\<close> binds tighter than \<open>||\<close>: the user mask guards the first force only.\<close>

definition force_string_used :: "nat \<Rightarrow> u32 \<Rightarrow> scenario \<Rightarrow> bool" where
  "force_string_used i users m \<longleftrightarrow>
     has_flag users user_force \<and> sc_force_strings m ! 0 = of_nat i
     \<or> sc_force_strings m ! 1 = of_nat i \<or> sc_force_strings m ! 2 = of_nat i
     \<or> sc_force_strings m ! 3 = of_nat i"

definition unit_string_used :: "nat \<Rightarrow> u32 \<Rightarrow> scenario \<Rightarrow> bool" where
  "unit_string_used i users m \<longleftrightarrow>
     has_flag users user_original_unit \<and> of_nat i \<in> set (sc_orig_unit_names m) \<or>
     has_flag users user_expansion_unit \<and> of_nat i \<in> set (sc_unit_names m)"

definition location_string_used :: "nat \<Rightarrow> u32 \<Rightarrow> scenario \<Rightarrow> bool" where
  "location_string_used i users m \<longleftrightarrow>
     has_flag users user_location \<and> (\<exists>l \<in> set (sc_locations m). i = unat (loc_string_id l))"

definition string_is_sound :: "nat \<Rightarrow> scenario \<Rightarrow> bool" where
  "string_is_sound i m \<longleftrightarrow> of_nat i \<in> set (sc_sound_paths m)"

definition triggers_string_used :: "nat \<Rightarrow> u32 \<Rightarrow> scenario \<Rightarrow> bool" where
  "triggers_string_used i users m \<longleftrightarrow>
     has_flag users user_sound \<and> string_is_sound i m \<or>
     has_flag users user_switch \<and> of_nat i \<in> set (sc_switch_names m) \<or>
     0 < users AND any_trigger \<and> (\<exists>t \<in> set (sc_triggers m). trigger_string_used t i users) \<or>
     0 < users AND any_briefing_trigger \<and>
       (\<exists>t \<in> set (sc_briefing_triggers m). trigger_briefing_string_used t i users)"

definition triggers_game_string_used :: "nat \<Rightarrow> u32 \<Rightarrow> scenario \<Rightarrow> bool" where
  "triggers_game_string_used i users m \<longleftrightarrow>
     0 < users AND any_trigger \<and> (\<exists>t \<in> set (sc_triggers m). trigger_game_string_used t i users) \<or>
     0 < users AND any_briefing_trigger \<and>
       (\<exists>t \<in> set (sc_briefing_triggers m). trigger_briefing_string_used t i users)"

definition extension_string_used :: "nat \<Rightarrow> u32 \<Rightarrow> chk_extended_trig \<Rightarrow> bool" where
  "extension_string_used i users e \<longleftrightarrow>
     has_flag users user_extended_comment \<and> unat (ext_comment_string_id e) = i \<or>
     has_flag users user_extended_notes \<and> unat (ext_notes_string_id e) = i"

text \<open>The first test returns its result, so the tests below it run only without the sound flag.\<close>

definition triggers_editor_string_used :: "nat \<Rightarrow> u32 \<Rightarrow> scenario \<Rightarrow> bool" where
  "triggers_editor_string_used i users m \<longleftrightarrow>
     (if has_flag users user_sound then string_is_sound i m
      else has_flag users user_switch \<and> of_nat i \<in> set (sc_switch_names m) \<or>
        has_flag users user_trigger_action \<and>
          (\<exists>t \<in> set (sc_triggers m). trigger_comment_string_used t i) \<or>
        0 < users AND any_trigger_extension \<and>
          (\<exists>e \<in> set (sc_trigger_extensions m). extension_string_used i users e))"

definition properties_string_used :: "nat \<Rightarrow> u32 \<Rightarrow> scenario \<Rightarrow> bool" where
  "properties_string_used i users m \<longleftrightarrow>
     has_flag users user_scenario_name \<and> sc_name_id m = of_nat i \<or>
     has_flag users user_scenario_description \<and> sc_description_id m = of_nat i"

definition string_used :: "nat \<Rightarrow> usage_scope \<Rightarrow> u32 \<Rightarrow> bool \<Rightarrow> scenario \<Rightarrow> bool" where
  "string_used i usage users ensure_stored m \<longleftrightarrow>
     (string_stored i m \<or> \<not> ensure_stored) \<and>
     (if i < max_strings
      then case usage of
             UsageEditor \<Rightarrow> location_string_used i users m \<or> triggers_editor_string_used i users m
           | UsageGame \<Rightarrow> properties_string_used i users m \<or> force_string_used i users m \<or>
               unit_string_used i users m \<or> triggers_game_string_used i users m
           | UsageEither \<Rightarrow> properties_string_used i users m \<or> force_string_used i users m \<or>
               unit_string_used i users m \<or> location_string_used i users m \<or>
               triggers_string_used i users m
      else case usage of
             UsageEither \<Rightarrow> triggers_string_used i users m
           | UsageGame \<Rightarrow> triggers_game_string_used i users m
           | UsageEditor \<Rightarrow> triggers_editor_string_used i users m)"

section \<open>Marking the used ids\<close>

definition mark16 :: "u16 \<Rightarrow> nat set \<Rightarrow> nat set" where
  "mark16 i used = (if 0 < i then insert (unat i) used else used)"

definition mark_force_strings :: "u32 \<Rightarrow> scenario \<Rightarrow> nat set \<Rightarrow> nat set" where
  "mark_force_strings users m used =
     (if has_flag users user_force then fold mark16 (sc_force_strings m) used else used)"

definition mark_unit_strings :: "u32 \<Rightarrow> scenario \<Rightarrow> nat set \<Rightarrow> nat set" where
  "mark_unit_strings users m used =
     (let used = (if has_flag users user_original_unit then fold mark16 (sc_orig_unit_names m) used
                  else used)
      in if has_flag users user_expansion_unit then fold mark16 (sc_unit_names m) used else used)"

definition mark_location_strings :: "u32 \<Rightarrow> scenario \<Rightarrow> nat set \<Rightarrow> nat set" where
  "mark_location_strings users m used =
     (if has_flag users user_location
      then fold (\<lambda>l. mark16 (loc_string_id l)) (sc_locations m) used else used)"

definition mark_sound_switch_strings :: "u32 \<Rightarrow> scenario \<Rightarrow> nat set \<Rightarrow> nat set" where
  "mark_sound_switch_strings users m used =
     (let used = (if has_flag users user_sound then fold mark_string (sc_sound_paths m) used else used)
      in if has_flag users user_switch then fold mark_string (sc_switch_names m) used else used)"

definition mark_triggers_strings :: "u32 \<Rightarrow> scenario \<Rightarrow> nat set \<Rightarrow> nat set" where
  "mark_triggers_strings users m used =
     (let used = mark_sound_switch_strings users m used;
          used = (if 0 < users AND any_trigger
                  then fold (mark_trigger_strings users) (sc_triggers m) used else used)
      in if 0 < users AND any_briefing_trigger
         then fold (mark_trigger_briefing_strings users) (sc_briefing_triggers m) used else used)"

definition mark_triggers_game_strings :: "u32 \<Rightarrow> scenario \<Rightarrow> nat set \<Rightarrow> nat set" where
  "mark_triggers_game_strings users m used =
     (let used = (if 0 < users AND any_trigger
                  then fold (mark_trigger_game_strings users) (sc_triggers m) used else used)
      in if 0 < users AND any_briefing_trigger
         then fold (mark_trigger_briefing_strings users) (sc_briefing_triggers m) used else used)"

definition mark_triggers_editor_strings :: "u32 \<Rightarrow> scenario \<Rightarrow> nat set \<Rightarrow> nat set" where
  "mark_triggers_editor_strings users m used =
     (let used = mark_sound_switch_strings users m used
      in if has_flag users user_trigger_action
         then fold mark_trigger_comment_strings (sc_triggers m) used else used)"

definition mark_property_strings :: "u32 \<Rightarrow> scenario \<Rightarrow> nat set \<Rightarrow> nat set" where
  "mark_property_strings users m used =
     (let used = (if has_flag users user_scenario_name then mark16 (sc_name_id m) used else used)
      in if has_flag users user_scenario_description then mark16 (sc_description_id m) used else used)"

definition mark_used_strings :: "usage_scope \<Rightarrow> u32 \<Rightarrow> scenario \<Rightarrow> nat set \<Rightarrow> nat set" where
  "mark_used_strings usage users m used =
     (let game = (usage \<noteq> UsageEditor); editor = (usage \<noteq> UsageGame);
          used = (if game
                  then let used = mark_property_strings users m used;
                           used = mark_force_strings users m used;
                           used = mark_unit_strings users m used
                       in if editor then mark_triggers_strings users m used
                          else mark_triggers_game_strings users m used
                  else used)
      in if editor
         then let used = mark_location_strings users m used
              in if game then used else mark_triggers_editor_strings users m used
         else used)"

definition mark_valid_used_strings :: "usage_scope \<Rightarrow> u32 \<Rightarrow> scenario \<Rightarrow> nat set \<Rightarrow> nat set" where
  "mark_valid_used_strings usage users m used =
     {i \<in> mark_used_strings usage users m used. i = 0 \<or> i < max_strings \<and> string_stored i m}"

section \<open>Lookup\<close>

text \<open>\<open>ScStr\<close> keeps the bytes it was made from; it compares and converts as a C string.\<close>

definition c_string :: "string \<Rightarrow> string" where
  "c_string s = takeWhile (\<lambda>c. c \<noteq> CHR 0x00) s"

definition str_equal :: "string \<Rightarrow> string \<Rightarrow> bool" where
  "str_equal stored s \<longleftrightarrow> c_string stored = c_string s"

definition slot_equal :: "string \<Rightarrow> string option \<Rightarrow> bool" where
  "slot_equal s slot = (case slot of None \<Rightarrow> False | Some t \<Rightarrow> str_equal t s)"

definition get_string :: "nat \<Rightarrow> scenario \<Rightarrow> string option" where
  "get_string i m =
     (if i < length (sc_strings m) then map_option c_string (sc_strings m ! i) else None)"

definition find_string :: "string \<Rightarrow> scenario \<Rightarrow> nat" where
  "find_string s m =
     (case List.find (\<lambda>i. slot_equal s (sc_strings m ! i)) [1..<length (sc_strings m)] of
        Some i \<Rightarrow> i | None \<Rightarrow> 0)"

section \<open>Renumbering\<close>

definition remap16 :: "(u32, u32) std_map \<Rightarrow> u16 \<Rightarrow> u16" where
  "remap16 remappings i = (case map_of remappings (ucast i) of Some j \<Rightarrow> ucast j | None \<Rightarrow> i)"

definition remap_location_string :: "(u32, u32) std_map \<Rightarrow> chk_location \<Rightarrow> chk_location" where
  "remap_location_string remappings l = l\<lparr>loc_string_id := remap16 remappings (loc_string_id l)\<rparr>"

definition on_tail :: "('a \<Rightarrow> 'a) \<Rightarrow> 'a list \<Rightarrow> 'a list" where
  "on_tail f xs = (case xs of [] \<Rightarrow> [] | x # xs \<Rightarrow> x # map f xs)"

definition remap_string_ids :: "(u32, u32) std_map \<Rightarrow> scenario \<Rightarrow> scenario" where
  "remap_string_ids r m =
     m\<lparr>sc_name_id := remap16 r (sc_name_id m),
       sc_description_id := remap16 r (sc_description_id m),
       sc_force_strings := map (remap16 r) (sc_force_strings m),
       sc_orig_unit_names := map (remap16 r) (sc_orig_unit_names m),
       sc_unit_names := map (remap16 r) (sc_unit_names m),
       sc_locations := on_tail (remap_location_string r) (sc_locations m),
       sc_sound_paths := map (remap_id r) (sc_sound_paths m),
       sc_switch_names := map (remap_id r) (sc_switch_names m),
       sc_triggers := map (remap_trigger_strings r) (sc_triggers m),
       sc_briefing_triggers := map (remap_trigger_briefing_strings r) (sc_briefing_triggers m)\<rparr>"

text \<open>The moved string also stays where it was; \<open>nextCandidateStringId\<close> is never advanced.\<close>

definition defragment_step ::
    "nat \<Rightarrow> string option list \<times> (u32, u32) std_map \<Rightarrow> string option list \<times> (u32, u32) std_map" where
  "defragment_step i st =
     (let ss = fst st; r = snd st
      in if ss ! i = None
         then case List.find (\<lambda>j. ss ! j \<noteq> None) [Suc i..<length ss] of
                Some j \<Rightarrow> (ss[i := ss ! j], map_emplace (of_nat j) (of_nat i) r)
              | None \<Rightarrow> st
         else st)"

definition defragment :: "scenario \<Rightarrow> bool \<times> scenario" where
  "defragment m =
     (let st = fold defragment_step [0..<length (sc_strings m)] (sc_strings m, []);
          m = m\<lparr>sc_strings := fst st\<rparr>
      in if snd st = [] then (False, m) else (True, remap_string_ids (snd st) m))"

section \<open>Capacity\<close>

definition resize_strings :: "nat \<Rightarrow> string option list \<Rightarrow> string option list" where
  "resize_strings capacity ss = take capacity (ss @ replicate (Suc capacity - length ss) None)"

definition insufficient_capacity :: "'a result" where
  "insufficient_capacity = Inl (ChkError ''InsufficientStringCapacity'')"

definition maximum_strings_exceeded :: "'a result" where
  "maximum_strings_exceeded = Inl (ChkError ''MaximumStringsExceeded'')"

definition used_id_list :: "nat set \<Rightarrow> nat list" where
  "used_id_list used = filter (\<lambda>i. i \<in> used) [1..<max_strings]"

definition set_capacity :: "nat \<Rightarrow> bool \<Rightarrow> scenario \<Rightarrow> scenario result" where
  "set_capacity capacity auto_defragment m =
     (if max_strings < capacity then maximum_strings_exceeded
      else let ids = used_id_list (mark_valid_used_strings UsageEither user_all m {});
               highest = (if ids = [] then 0 else List.last ids)
           in if capacity < length ids then insufficient_capacity
              else bindE (if capacity < highest
                          then if auto_defragment then Inr (snd (defragment m)) else insufficient_capacity
                          else Inr m) (\<lambda>m.
                Inr (m\<lparr>sc_strings := resize_strings capacity (sc_strings m)\<rparr>)))"

section \<open>Adding and replacing\<close>

definition first_unused :: "nat set \<Rightarrow> nat option" where
  "first_unused used = List.find (\<lambda>i. i \<notin> used) [1..<max_strings]"

definition add_string :: "string \<Rightarrow> bool \<Rightarrow> scenario \<Rightarrow> (nat \<times> scenario) result" where
  "add_string s auto_defragment m =
     (let i = find_string s m
      in if i \<noteq> 0 then Inr (i, m)
         else case first_unused (mark_used_strings UsageEither user_all m {}) of
                None \<Rightarrow> maximum_strings_exceeded
              | Some i \<Rightarrow>
                  bindE (if length (sc_strings m) \<le> i then set_capacity (i + 1) auto_defragment m
                         else Inr m) (\<lambda>m.
                  bindE (vec_set (sc_strings m) i (Some s)) (\<lambda>ss.
                  Inr (i, m\<lparr>sc_strings := ss\<rparr>))))"

definition replace_string :: "nat \<Rightarrow> string \<Rightarrow> scenario \<Rightarrow> scenario" where
  "replace_string i s m =
     (if i < length (sc_strings m) then m\<lparr>sc_strings := (sc_strings m)[i := Some s]\<rparr> else m)"

definition delete_unused_strings :: "scenario \<Rightarrow> scenario" where
  "delete_unused_strings m =
     (let used = mark_used_strings UsageEither user_all m {}
      in m\<lparr>sc_strings := map (\<lambda>i. if i \<notin> used then None else sc_strings m ! i)
                            [0..<length (sc_strings m)]\<rparr>)"

section \<open>Deleting\<close>

definition clear16 :: "nat \<Rightarrow> u16 \<Rightarrow> u16" where
  "clear16 i x = (if unat x = i then 0 else x)"

definition clear32 :: "nat \<Rightarrow> u32 \<Rightarrow> u32" where
  "clear32 i x = (if unat x = i then 0 else x)"

text \<open>\<open>deleteTriggerString\<close> calls \<open>deleteString\<close>, not \<open>deleteBriefingString\<close>, on briefing triggers.\<close>

definition delete_trigger_string :: "nat \<Rightarrow> scenario \<Rightarrow> scenario" where
  "delete_trigger_string i m =
     m\<lparr>sc_sound_paths := map (clear32 i) (sc_sound_paths m),
       sc_switch_names := map (clear32 i) (sc_switch_names m),
       sc_triggers := map (delete_trigger_actions_string i) (sc_triggers m),
       sc_briefing_triggers := map (delete_trigger_actions_string i) (sc_briefing_triggers m)\<rparr>"

definition delete_force_string :: "nat \<Rightarrow> scenario \<Rightarrow> scenario" where
  "delete_force_string i m = m\<lparr>sc_force_strings := map (clear16 i) (sc_force_strings m)\<rparr>"

definition delete_unit_string :: "nat \<Rightarrow> scenario \<Rightarrow> scenario" where
  "delete_unit_string i m =
     m\<lparr>sc_orig_unit_names := map (clear16 i) (sc_orig_unit_names m),
       sc_unit_names := map (clear16 i) (sc_unit_names m)\<rparr>"

definition delete_location_string :: "nat \<Rightarrow> scenario \<Rightarrow> scenario" where
  "delete_location_string i m =
     m\<lparr>sc_locations := on_tail (\<lambda>l. l\<lparr>loc_string_id := clear16 i (loc_string_id l)\<rparr>) (sc_locations m)\<rparr>"

text \<open>
  \<open>deleteString\<close>; the usage test passes \<open>StrScope::Game\<close> as the usage scope, so with
  \<open>deleteOnlyIfUnused\<close> the names of locations, switches and sounds do not protect a string.
\<close>

definition delete_string :: "nat \<Rightarrow> bool \<Rightarrow> scenario \<Rightarrow> scenario" where
  "delete_string i only_if_unused m =
     (if \<not> only_if_unused \<or> \<not> string_used i UsageGame user_all False m
      then let m = m\<lparr>sc_strings := (sc_strings m)[i := None]\<rparr>;
               m = m\<lparr>sc_name_id := clear16 i (sc_name_id m)\<rparr>;
               m = m\<lparr>sc_description_id := clear16 i (sc_description_id m)\<rparr>
           in delete_trigger_string i (delete_location_string i (delete_unit_string i
                (delete_force_string i m)))
      else m)"

section \<open>Named things\<close>

definition set_scenario_name :: "string \<Rightarrow> bool \<Rightarrow> scenario \<Rightarrow> scenario result" where
  "set_scenario_name s auto m =
     bindE (add_string s auto m) (\<lambda>r. Inr (if fst r \<noteq> 0 then (snd r)\<lparr>sc_name_id := of_nat (fst r)\<rparr>
       else snd r))"

definition set_scenario_description :: "string \<Rightarrow> bool \<Rightarrow> scenario \<Rightarrow> scenario result" where
  "set_scenario_description s auto m =
     bindE (add_string s auto m) (\<lambda>r. Inr (if fst r \<noteq> 0
       then (snd r)\<lparr>sc_description_id := of_nat (fst r)\<rparr> else snd r))"

definition set_force_name :: "u8 \<Rightarrow> string \<Rightarrow> bool \<Rightarrow> scenario \<Rightarrow> scenario result" where
  "set_force_name force s auto m =
     (if unat force < total_forces
      then bindE (add_string s auto m) (\<lambda>r. Inr (if fst r \<noteq> 0
        then (snd r)\<lparr>sc_force_strings := (sc_force_strings (snd r))[unat force := of_nat (fst r)]\<rparr>
        else snd r))
      else Inr m)"

definition set_location_name :: "nat \<Rightarrow> string \<Rightarrow> bool \<Rightarrow> scenario \<Rightarrow> scenario result" where
  "set_location_name l s auto m =
     bindE (add_string s auto m) (\<lambda>r.
       if fst r \<noteq> 0
       then bindE (get_location l (snd r)) (\<lambda>loc.
         Inr ((snd r)\<lparr>sc_locations := (sc_locations (snd r))[l := loc\<lparr>loc_string_id := of_nat (fst r)\<rparr>]\<rparr>))
       else Inr (snd r))"

section \<open>Sounds\<close>

definition add_sound :: "nat \<Rightarrow> scenario \<Rightarrow> nat \<times> scenario" where
  "add_sound string_id m =
     (case List.find (\<lambda>i. sc_sound_paths m ! i = 0) [0..<total_sounds] of
        Some i \<Rightarrow> (i, m\<lparr>sc_sound_paths := (sc_sound_paths m)[i := of_nat string_id]\<rparr>)
      | None \<Rightarrow> (total_sounds, m))"

definition get_sound_string_id :: "nat \<Rightarrow> scenario \<Rightarrow> nat result" where
  "get_sound_string_id i m =
     (if i < total_sounds then Inr (unat (sc_sound_paths m ! i))
      else index_error ''SoundIndex'' (i mod 2 ^ 32) ''WAV section'')"

definition set_sound_string_id :: "nat \<Rightarrow> nat \<Rightarrow> scenario \<Rightarrow> scenario" where
  "set_sound_string_id i s m =
     (if i < total_sounds then m\<lparr>sc_sound_paths := (sc_sound_paths m)[i := of_nat s]\<rparr> else m)"

end
