(* ===== verification/ChkTriggersProps.thy ===== *)
theory ChkTriggersProps
  imports ChkTriggers
begin

text \<open>
  The marking functions of triggers add exactly the ids the search functions find, and what the
  delete functions leave behind.
\<close>

section \<open>Marking\<close>

text \<open>\<open>marks f P\<close>: the marking function \<open>f\<close> adds the ids of \<open>P\<close> that fit into the bitset.\<close>

definition marks :: "(nat set \<Rightarrow> nat set) \<Rightarrow> (nat \<Rightarrow> bool) \<Rightarrow> bool" where
  "marks f P \<longleftrightarrow> (\<forall>used. f used = used \<union> {i. 0 < i \<and> i < max_strings \<and> P i})"

lemma marks_apply: "marks f P \<Longrightarrow> f used = used \<union> {i. 0 < i \<and> i < max_strings \<and> P i}"
  by (simp add: marks_def)

lemma marks_id [simp, intro]: "marks (\<lambda>used. used) (\<lambda>i. False)"
  by (simp add: marks_def)

lemma marks_comp: "marks f P \<Longrightarrow> marks g Q \<Longrightarrow> marks (\<lambda>used. g (f used)) (\<lambda>i. P i \<or> Q i)"
  by (auto simp: marks_def)

lemma marks_if: "(c \<Longrightarrow> marks f P) \<Longrightarrow> marks (\<lambda>used. if c then f used else used) (\<lambda>i. c \<and> P i)"
  by (auto simp: marks_def)

lemma marks_cong: "marks f P \<Longrightarrow> (\<And>i. 0 < i \<Longrightarrow> i < max_strings \<Longrightarrow> P i = Q i) \<Longrightarrow> marks f Q"
  by (auto simp: marks_def)

lemma marks_fold:
  assumes "\<And>x. x \<in> set xs \<Longrightarrow> marks (f x) (P x)"
  shows "marks (fold f xs) (\<lambda>i. \<exists>x \<in> set xs. P x i)"
  using assms
proof (induction xs)
  case Nil
  then show ?case by (simp add: marks_def)
next
  case (Cons x xs)
  have "marks (\<lambda>used. fold f xs (f x used)) (\<lambda>i. P x i \<or> (\<exists>x \<in> set xs. P x i))"
    by (rule marks_comp [OF Cons.prems Cons.IH]) (simp_all add: Cons.prems)
  then show ?case by (simp add: comp_def)
qed

lemma marks_string [intro]: "marks (mark_string i) (\<lambda>s. unat i = s)"
  by (auto simp: marks_def mark_string_def word_less_nat_alt)

lemma marks_action_strings:
  "marks (mark_action_strings users a) (\<lambda>s. action_string_used a s users)"
proof -
  have "marks (mark_action_strings users a)
     (\<lambda>s. classic_action a \<and>
       ((has_flag users user_trigger_action \<and> action_uses_string_arg ! unat (action_type a)) \<and>
          unat (act_string_id a) = s \<or>
        (has_flag users user_trigger_sound \<and> action_uses_sound_arg ! unat (action_type a)) \<and>
          unat (act_sound_string_id a) = s))"
    unfolding mark_action_strings_def Let_def
    by (intro marks_if marks_comp marks_string)
  then show ?thesis by (rule marks_cong) (auto simp: action_string_used_def)
qed

lemma marks_action_game_strings:
  "marks (mark_action_game_strings users a) (\<lambda>s. action_game_string_used a s users)"
proof -
  have "marks (mark_action_game_strings users a)
     (\<lambda>s. classic_action a \<and>
       ((has_flag users user_trigger_action \<and> action_uses_game_string_arg ! unat (action_type a)) \<and>
          unat (act_string_id a) = s \<or>
        (has_flag users user_trigger_sound \<and> action_uses_sound_arg ! unat (action_type a)) \<and>
          unat (act_sound_string_id a) = s))"
    unfolding mark_action_game_strings_def Let_def
    by (intro marks_if marks_comp marks_string)
  then show ?thesis by (rule marks_cong) (auto simp: action_game_string_used_def)
qed

lemma marks_action_briefing_strings:
  "marks (mark_action_briefing_strings users a) (\<lambda>s. action_briefing_string_used a s users)"
proof -
  have "marks (mark_action_briefing_strings users a)
     (\<lambda>s. briefing_action a \<and>
       ((has_flag users user_briefing_action \<and> briefing_action_uses_string_arg ! unat (action_type a)) \<and>
          unat (act_string_id a) = s \<or>
        (has_flag users user_briefing_sound \<and> briefing_action_uses_sound_arg ! unat (action_type a)) \<and>
          unat (act_sound_string_id a) = s))"
    unfolding mark_action_briefing_strings_def Let_def
    by (intro marks_if marks_comp marks_string)
  then show ?thesis by (rule marks_cong) (auto simp: action_briefing_string_used_def)
qed

lemma marks_action_comment_strings:
  "marks (mark_action_comment_strings a) (action_comment_string_used a)"
proof -
  have "marks (mark_action_comment_strings a)
     (\<lambda>s. action_type a = action_comment \<and> unat (act_string_id a) = s)"
    unfolding mark_action_comment_strings_def by (intro marks_if marks_string)
  then show ?thesis by (rule marks_cong) (auto simp: action_comment_string_used_def)
qed

lemma marks_trigger_strings:
  "marks (mark_trigger_strings users t) (\<lambda>s. trigger_string_used t s users)"
  unfolding mark_trigger_strings_def trigger_string_used_def
  by (rule marks_fold) (rule marks_action_strings)

lemma marks_trigger_game_strings:
  "marks (mark_trigger_game_strings users t) (\<lambda>s. trigger_game_string_used t s users)"
  unfolding mark_trigger_game_strings_def trigger_game_string_used_def
  by (rule marks_fold) (rule marks_action_game_strings)

lemma marks_trigger_briefing_strings:
  "marks (mark_trigger_briefing_strings users t) (\<lambda>s. trigger_briefing_string_used t s users)"
  unfolding mark_trigger_briefing_strings_def trigger_briefing_string_used_def
  by (rule marks_fold) (rule marks_action_briefing_strings)

lemma marks_trigger_comment_strings:
  "marks (mark_trigger_comment_strings t) (trigger_comment_string_used t)"
proof -
  have "marks (fold mark_action_comment_strings (trig_actions t))
      (\<lambda>s. \<exists>a \<in> set (trig_actions t). action_comment_string_used a s)"
    by (rule marks_fold) (rule marks_action_comment_strings)
  then show ?thesis
    by (simp add: mark_trigger_comment_strings_def trigger_comment_string_used_def [abs_def])
qed

end
