(* ===== verification/ScenarioStringsProps.thy ===== *)
theory ScenarioStringsProps
  imports ScenarioStrings ChkTriggersProps
begin

text \<open>
  Properties of the game string table: the bitset of used ids agrees with the usage queries, a new
  string gets an id nobody uses, and the faults of the capacity, deletion and defragmentation code.
\<close>

section \<open>Marked ids are used ids\<close>

lemma u16_of_nat_eq: "i < max_strings \<Longrightarrow> (w :: u16) = of_nat i \<longleftrightarrow> unat w = i"
  by (auto simp: max_strings_def)

lemma u32_of_nat_eq: "i < max_strings \<Longrightarrow> (w :: u32) = of_nat i \<longleftrightarrow> unat w = i"
  by (auto simp: max_strings_def)

lemma marks16: "marks (mark16 w) (\<lambda>i. w = of_nat i)"
proof -
  have "unat w < max_strings" using unat_u16_less [of w] by (simp add: max_strings_def)
  then show ?thesis
    by (auto simp: marks_def mark16_def word_less_nat_alt u16_of_nat_eq)
qed

lemma marks_string32: "marks (mark_string w) (\<lambda>i. w = of_nat i)"
  by (rule marks_cong [OF marks_string]) (simp add: u32_of_nat_eq)

lemma marks16_set: "marks (fold mark16 ws) (\<lambda>i. of_nat i \<in> set ws)"
proof -
  have "marks (fold mark16 ws) (\<lambda>i. \<exists>w \<in> set ws. w = of_nat i)"
    by (rule marks_fold) (rule marks16)
  then show ?thesis by (rule marks_cong) auto
qed

lemma marks_string_set: "marks (fold mark_string ws) (\<lambda>i. of_nat i \<in> set ws)"
proof -
  have "marks (fold mark_string ws) (\<lambda>i. \<exists>w \<in> set ws. w = of_nat i)"
    by (rule marks_fold) (rule marks_string32)
  then show ?thesis by (rule marks_cong) auto
qed

lemma marks_property_strings:
  "marks (mark_property_strings users m) (\<lambda>i. properties_string_used i users m)"
proof -
  have "marks (mark_property_strings users m)
     (\<lambda>i. has_flag users user_scenario_name \<and> sc_name_id m = of_nat i \<or>
          has_flag users user_scenario_description \<and> sc_description_id m = of_nat i)"
    unfolding mark_property_strings_def Let_def by (intro marks_comp marks_if marks16)
  then show ?thesis by (rule marks_cong) (simp add: properties_string_used_def)
qed

lemma has_flag_all [simp]: "has_flag user_all f"
proof -
  have all: "user_all = - 1" by (simp add: user_all_def)
  show ?thesis unfolding has_flag_def all by simp
qed

lemma four_forces: "length xs = 4 \<Longrightarrow> x \<in> set xs \<longleftrightarrow> xs ! 0 = x \<or> xs ! 1 = x \<or> xs ! 2 = x \<or> xs ! 3 = x"
  by (auto simp: in_set_conv_nth numeral_eq_Suc less_Suc_eq)

lemma marks_force_strings:
  assumes "arrays_ok m"
  shows "marks (mark_force_strings user_all m) (\<lambda>i. force_string_used i user_all m)"
proof -
  have "marks (mark_force_strings user_all m)
      (\<lambda>i. has_flag user_all user_force \<and> of_nat i \<in> set (sc_force_strings m))"
    unfolding mark_force_strings_def by (intro marks_if marks16_set)
  then show ?thesis
    by (rule marks_cong)
      (use assms in \<open>auto simp: force_string_used_def arrays_ok_def total_forces_def four_forces\<close>)
qed

lemma marks_unit_strings:
  "marks (mark_unit_strings users m) (\<lambda>i. unit_string_used i users m)"
proof -
  have "marks (mark_unit_strings users m)
     (\<lambda>i. has_flag users user_original_unit \<and> of_nat i \<in> set (sc_orig_unit_names m) \<or>
          has_flag users user_expansion_unit \<and> of_nat i \<in> set (sc_unit_names m))"
    unfolding mark_unit_strings_def Let_def by (intro marks_comp marks_if marks16_set)
  then show ?thesis by (rule marks_cong) (simp add: unit_string_used_def)
qed

lemma marks_location_strings:
  "marks (mark_location_strings users m) (\<lambda>i. location_string_used i users m)"
proof -
  have "marks (mark_location_strings users m)
     (\<lambda>i. has_flag users user_location \<and> (\<exists>l \<in> set (sc_locations m). loc_string_id l = of_nat i))"
    unfolding mark_location_strings_def by (intro marks_if marks_fold marks16)
  then show ?thesis
    by (rule marks_cong) (auto simp: location_string_used_def u16_of_nat_eq)
qed

lemma marks_sound_switch_strings:
  "marks (mark_sound_switch_strings users m)
     (\<lambda>i. has_flag users user_sound \<and> string_is_sound i m \<or>
          has_flag users user_switch \<and> of_nat i \<in> set (sc_switch_names m))"
  unfolding mark_sound_switch_strings_def Let_def string_is_sound_def
  by (intro marks_comp marks_if marks_string_set)

lemma marks_triggers_strings:
  "marks (mark_triggers_strings users m) (\<lambda>i. triggers_string_used i users m)"
proof -
  have "marks (mark_triggers_strings users m)
     (\<lambda>i. ((has_flag users user_sound \<and> string_is_sound i m \<or>
            has_flag users user_switch \<and> of_nat i \<in> set (sc_switch_names m)) \<or>
          0 < users AND any_trigger \<and> (\<exists>t \<in> set (sc_triggers m). trigger_string_used t i users)) \<or>
          0 < users AND any_briefing_trigger \<and>
            (\<exists>t \<in> set (sc_briefing_triggers m). trigger_briefing_string_used t i users))"
    unfolding mark_triggers_strings_def Let_def
    by (intro marks_comp marks_if marks_sound_switch_strings marks_fold marks_trigger_strings
        marks_trigger_briefing_strings)
  then show ?thesis by (rule marks_cong) (auto simp: triggers_string_used_def)
qed

lemma marks_triggers_game_strings:
  "marks (mark_triggers_game_strings users m) (\<lambda>i. triggers_game_string_used i users m)"
proof -
  have "marks (mark_triggers_game_strings users m)
     (\<lambda>i. 0 < users AND any_trigger \<and>
            (\<exists>t \<in> set (sc_triggers m). trigger_game_string_used t i users) \<or>
          0 < users AND any_briefing_trigger \<and>
            (\<exists>t \<in> set (sc_briefing_triggers m). trigger_briefing_string_used t i users))"
    unfolding mark_triggers_game_strings_def Let_def
    by (intro marks_comp marks_if marks_fold marks_trigger_game_strings
        marks_trigger_briefing_strings)
  then show ?thesis by (rule marks_cong) (auto simp: triggers_game_string_used_def)
qed

lemma marks_used_either:
  assumes "arrays_ok m"
  shows "marks (mark_used_strings UsageEither user_all m)
           (\<lambda>i. string_used i UsageEither user_all False m)"
proof -
  have "marks (mark_used_strings UsageEither user_all m)
     (\<lambda>i. (((properties_string_used i user_all m \<or> force_string_used i user_all m) \<or>
           unit_string_used i user_all m) \<or> triggers_string_used i user_all m) \<or>
          location_string_used i user_all m)"
    unfolding mark_used_strings_def Let_def
    by (simp, intro marks_comp marks_property_strings marks_force_strings assms
        marks_unit_strings marks_triggers_strings marks_location_strings)
  then show ?thesis by (rule marks_cong) (auto simp: string_used_def)
qed

lemma marks_used_game:
  assumes "arrays_ok m"
  shows "marks (mark_used_strings UsageGame user_all m)
           (\<lambda>i. string_used i UsageGame user_all False m)"
proof -
  have "marks (mark_used_strings UsageGame user_all m)
     (\<lambda>i. ((properties_string_used i user_all m \<or> force_string_used i user_all m) \<or>
           unit_string_used i user_all m) \<or> triggers_game_string_used i user_all m)"
    unfolding mark_used_strings_def Let_def
    by (simp, intro marks_comp marks_property_strings marks_force_strings assms
        marks_unit_strings marks_triggers_game_strings)
  then show ?thesis by (rule marks_cong) (auto simp: string_used_def)
qed

section \<open>Choosing a free id\<close>

text \<open>What the choice of a free id needs of the two views of usage.\<close>

locale string_users =
  fixes mark :: "'m \<Rightarrow> nat set \<Rightarrow> nat set"
    and used :: "nat \<Rightarrow> 'm \<Rightarrow> bool"
    and ok :: "'m \<Rightarrow> bool"
  assumes marks_used: "ok m \<Longrightarrow> marks (mark m) (\<lambda>i. used i m)"
begin

lemma marked_iff: "ok m \<Longrightarrow> i \<in> mark m {} \<longleftrightarrow> 0 < i \<and> i < max_strings \<and> used i m"
  using marks_apply [OF marks_used, of m "{}"] by simp

lemma marked_set: "ok m \<Longrightarrow> mark m {} = {i. 0 < i \<and> i < max_strings \<and> used i m}"
  using marked_iff by blast

lemma first_unused_Some:
  assumes "ok m" and "first_unused (mark m {}) = Some i"
  shows "0 < i" and "i < max_strings" and "\<not> used i m" and "\<And>j. 0 < j \<Longrightarrow> j < i \<Longrightarrow> used j m"
proof -
  from assms(2) obtain k where k: "k < max_strings - 1" "i = Suc k" "i \<notin> mark m {}"
      "\<And>j. j < k \<Longrightarrow> Suc j \<in> mark m {}"
    by (auto simp: first_unused_def find_Some_iff)
  show "0 < i" "i < max_strings" using k by simp_all
  then show "\<not> used i m" using k(3) marked_iff [OF assms(1)] by simp
  show "used j m" if "0 < j" "j < i" for j
    using k(4) [of "j - 1"] that k(2) marked_iff [OF assms(1)] by simp
qed

lemma first_unused_None:
  assumes "ok m"
  shows "first_unused (mark m {}) = None \<longleftrightarrow> (\<forall>i. 0 < i \<and> i < max_strings \<longrightarrow> used i m)"
proof -
  have "first_unused (mark m {}) = None \<longleftrightarrow> (\<forall>i. 0 < i \<and> i < max_strings \<longrightarrow> i \<in> mark m {})"
    by (auto simp: first_unused_def find_None_iff)
  then show ?thesis using marked_iff [OF assms] by blast
qed

end

interpretation either: string_users "mark_used_strings UsageEither user_all"
    "\<lambda>i. string_used i UsageEither user_all False" arrays_ok
  by unfold_locales (rule marks_used_either)

interpretation game: string_users "mark_used_strings UsageGame user_all"
    "\<lambda>i. string_used i UsageGame user_all False" arrays_ok
  by unfold_locales (rule marks_used_game)

section \<open>Adding a string\<close>

lemma slot_equal_get:
  "i < length (sc_strings m) \<Longrightarrow>
     slot_equal s (sc_strings m ! i) \<longleftrightarrow> get_string i m = Some (c_string s)"
  by (cases "sc_strings m ! i") (simp_all add: slot_equal_def get_string_def str_equal_def)

lemma find_string_nonzero:
  assumes "find_string s m = i" and "i \<noteq> 0"
  shows "i < length (sc_strings m)" and "get_string i m = Some (c_string s)"
proof -
  from assms have "List.find (\<lambda>i. slot_equal s (sc_strings m ! i)) [1..<length (sc_strings m)] = Some i"
    by (simp add: find_string_def split: option.splits)
  then have "i \<in> set [1..<length (sc_strings m)] \<and> slot_equal s (sc_strings m ! i)"
    by (auto simp: find_Some_iff)
  then show "i < length (sc_strings m)" "get_string i m = Some (c_string s)"
    using slot_equal_get by auto
qed

lemma find_string_zero:
  "find_string s m = 0 \<longleftrightarrow>
     (\<forall>i. 0 < i \<and> i < length (sc_strings m) \<longrightarrow> get_string i m \<noteq> Some (c_string s))"
proof -
  have "i \<noteq> 0" if "List.find P [1..<n] = Some i" for P n i
    using that by (auto simp: find_Some_iff)
  then have "find_string s m = 0 \<longleftrightarrow>
      List.find (\<lambda>i. slot_equal s (sc_strings m ! i)) [1..<length (sc_strings m)] = None"
    by (auto simp: find_string_def split: option.splits)
  also have "\<dots> \<longleftrightarrow> (\<forall>i \<in> set [1..<length (sc_strings m)]. \<not> slot_equal s (sc_strings m ! i))"
    by (auto simp: find_None_iff)
  also have "\<dots> \<longleftrightarrow> (\<forall>i \<in> {1..<length (sc_strings m)}. get_string i m \<noteq> Some (c_string s))"
    by (simp add: slot_equal_get)
  finally show ?thesis by auto
qed

lemma length_resize [simp]: "length (resize_strings c ss) = c"
  by (simp add: resize_strings_def)

lemma resize_grow: "length ss \<le> c \<Longrightarrow> resize_strings c ss = ss @ replicate (c - length ss) None"
  by (simp add: resize_strings_def)

lemma used_ids_bound:
  assumes "\<And>i. i \<in> used \<Longrightarrow> i < n"
  shows "length (used_id_list used) \<le> n" and "\<And>x. x \<in> set (used_id_list used) \<Longrightarrow> x < n"
proof -
  have "set (used_id_list used) \<subseteq> {1..<n}"
    using assms(1) by (auto simp: used_id_list_def)
  moreover have "distinct (used_id_list used)" by (simp add: used_id_list_def)
  ultimately have "length (used_id_list used) \<le> card {1..<n}"
    by (metis card_mono distinct_card finite_atLeastLessThan)
  then show "length (used_id_list used) \<le> n" by simp
qed (use assms(1) in \<open>auto simp: used_id_list_def\<close>)

text \<open>Growing the table never throws and never renumbers.\<close>

lemma set_capacity_grow:
  assumes "length (sc_strings m) < c" and "c \<le> max_strings"
  shows "set_capacity c auto m = Inr (m\<lparr>sc_strings := resize_strings c (sc_strings m)\<rparr>)"
proof -
  let ?used = "mark_valid_used_strings UsageEither user_all m {} - {0}"
  have list: "used_id_list ?used = used_id_list (mark_valid_used_strings UsageEither user_all m {})"
    by (auto simp: used_id_list_def intro!: filter_cong)
  have fresh: "i < length (sc_strings m)" if "i \<in> ?used" for i
    using that by (auto simp: mark_valid_used_strings_def string_stored_def)
  have "length (used_id_list ?used) \<le> length (sc_strings m)"
    by (rule used_ids_bound(1) [OF fresh])
  moreover have "List.last (used_id_list ?used) < length (sc_strings m)" if "used_id_list ?used \<noteq> []"
    using used_ids_bound(2) [OF fresh last_in_set [OF that]] .
  ultimately show ?thesis using assms(1,2) by (auto simp: set_capacity_def Let_def list)
qed

definition put_string :: "nat \<Rightarrow> string \<Rightarrow> string option list \<Rightarrow> string option list" where
  "put_string i s ss = (if length ss \<le> i then resize_strings (i + 1) ss else ss)[i := Some s]"

lemma add_string_cases:
  shows "find_string s m \<noteq> 0 \<Longrightarrow> add_string s auto m = Inr (find_string s m, m)"
    and "find_string s m = 0 \<Longrightarrow> first_unused (mark_used_strings UsageEither user_all m {}) = None \<Longrightarrow>
           add_string s auto m = maximum_strings_exceeded"
    and "find_string s m = 0 \<Longrightarrow> first_unused (mark_used_strings UsageEither user_all m {}) = Some i \<Longrightarrow>
           add_string s auto m = Inr (i, m\<lparr>sc_strings := put_string i s (sc_strings m)\<rparr>)"
proof -
  assume "find_string s m = 0" and u: "first_unused (mark_used_strings UsageEither user_all m {}) = Some i"
  then have "i < max_strings" by (auto simp: first_unused_def find_Some_iff)
  with u \<open>find_string s m = 0\<close>
  show "add_string s auto m = Inr (i, m\<lparr>sc_strings := put_string i s (sc_strings m)\<rparr>)"
    by (auto simp: add_string_def put_string_def set_capacity_grow not_le)
qed (auto simp: add_string_def)

lemma get_put_string:
  "get_string j (m\<lparr>sc_strings := put_string i s (sc_strings m)\<rparr>)
     = (if j = i then Some (c_string s) else get_string j m)"
  by (auto simp: get_string_def put_string_def resize_grow nth_append)

lemma find_put_string:
  assumes "find_string s m = 0" and "i \<noteq> 0"
  shows "find_string s (m\<lparr>sc_strings := put_string i s (sc_strings m)\<rparr>) = i"
proof -
  let ?n = "m\<lparr>sc_strings := put_string i s (sc_strings m)\<rparr>" and ?k = "find_string s (m\<lparr>sc_strings := put_string i s (sc_strings m)\<rparr>)"
  have len: "i < length (sc_strings ?n)" by (simp add: put_string_def)
  have k: "?k \<noteq> 0"
    using len assms(2) get_put_string [where i = i and j = i and m = m and s = s]
      find_string_zero [of s ?n] by auto
  have got: "get_string ?k ?n = Some (c_string s)" by (rule find_string_nonzero(2) [OF refl k])
  show ?thesis
  proof (rule ccontr)
    assume "?k \<noteq> i"
    with got have g: "get_string ?k m = Some (c_string s)" by (simp add: get_put_string)
    then have "?k < length (sc_strings m)" by (simp add: get_string_def split: if_splits)
    moreover have "\<forall>j. 0 < j \<and> j < length (sc_strings m) \<longrightarrow> get_string j m \<noteq> Some (c_string s)"
      using assms(1) find_string_zero by simp
    ultimately show False using g k by blast
  qed
qed

definition blank_scenario :: scenario where
  "blank_scenario =
     \<lparr>sc_strings = [None], sc_name_id = 0, sc_description_id = 0, sc_races = replicate 12 0,
      sc_player_forces = replicate 8 0, sc_force_strings = replicate 4 0,
      sc_force_flags = replicate 4 0, sc_slot_types = replicate 12 0,
      sc_iown_slot_types = replicate 12 0, sc_sprites = [], sc_doodads = [], sc_units = [],
      sc_locations = replicate 256 empty_location, sc_width = 0, sc_height = 0, sc_tileset = 0,
      sc_tiles = [], sc_editor_tiles = [], sc_isom = [], sc_unit_names = replicate 228 0,
      sc_orig_unit_names = replicate 228 0, sc_triggers = [], sc_briefing_triggers = [],
      sc_switch_names = replicate 256 0, sc_sound_paths = replicate 512 0,
      sc_trigger_extensions = []\<rparr>"

lemma blank_arrays: "arrays_ok blank_scenario"
  by (simp add: arrays_ok_def blank_scenario_def total_players_def total_slots_def total_forces_def
      total_unit_types_def total_switches_def total_sounds_def)

lemmas usage_defs = string_used_def properties_string_used_def force_string_used_def
  unit_string_used_def location_string_used_def triggers_string_used_def
  triggers_game_string_used_def triggers_editor_string_used_def string_is_sound_def

lemma of_nat_id_nonzero:
  assumes "0 < i" and "i < max_strings"
  shows "(of_nat i :: u16) \<noteq> 0" and "(of_nat i :: u32) \<noteq> 0"
  using assms u16_of_nat_eq [of i 0] u32_of_nat_eq [of i 0] by auto

lemma blank_unused: "0 < i \<Longrightarrow> i < max_strings \<Longrightarrow> \<not> string_used i UsageEither user_all False blank_scenario"
  by (auto simp: usage_defs blank_scenario_def empty_location_def of_nat_id_nonzero)

text \<open>
  C23: The bitset of used string ids that \<open>markUsedStrings\<close> fills is the set of the ids for which
  \<open>stringUsed\<close> answers yes, for game usage and for any usage.
\<close>

theorem marked_strings_are_used:
  assumes "arrays_ok m"
  shows "mark_used_strings UsageEither user_all m {}
           = {i. 0 < i \<and> i < max_strings \<and> string_used i UsageEither user_all False m} \<and>
         mark_used_strings UsageGame user_all m {}
           = {i. 0 < i \<and> i < max_strings \<and> string_used i UsageGame user_all False m}"
  using either.marked_set [OF assms] game.marked_set [OF assms] by simp_all

lemma marked_strings_are_used_witness:
  "mark_used_strings UsageEither user_all blank_scenario {} = {}"
  using marked_strings_are_used [OF blank_arrays] blank_unused by auto

text \<open>
  C24: Adding a string gives an id in range that reads the string back; every string that something
  on the map uses keeps its text, nothing but the table changes, and adding it again changes nothing.
\<close>

theorem add_string_ok:
  assumes "arrays_ok m" and "length (sc_strings m) \<le> max_strings"
    and "add_string s auto m = Inr (i, n)"
  shows "0 < i \<and> i < max_strings \<and> get_string i n = Some (c_string s) \<and>
         (\<forall>j. string_used j UsageEither user_all False m \<longrightarrow>
            get_string j n = get_string j m \<or> j = i \<and> get_string i m = Some (c_string s)) \<and>
         n\<lparr>sc_strings := sc_strings m\<rparr> = m \<and> add_string s auto n = Inr (i, n)"
proof (cases "find_string s m = 0")
  case False
  have "(find_string s m, m) = (i, n)"
    using assms(3) add_string_cases(1) [OF False, where auto = auto] by auto
  then have n: "n = m" and i: "i = find_string s m" by (blast, metis prod.inject)
  show ?thesis
    using find_string_nonzero [OF refl False] assms(2,3) False unfolding n i by auto
next
  case True
  let ?u = "first_unused (mark_used_strings UsageEither user_all m {})"
  have "?u \<noteq> None"
    using assms(3) add_string_cases(2) [OF True, where auto = auto] by (auto simp: maximum_strings_exceeded_def)
  then obtain k where k: "?u = Some k" by auto
  from add_string_cases(3) [OF True k, where auto = auto] assms(3)
  have n: "i = k" "n = m\<lparr>sc_strings := put_string k s (sc_strings m)\<rparr>" by simp_all
  note free = either.first_unused_Some [OF assms(1) k]
  have "add_string s auto n = Inr (i, n)"
    using add_string_cases(1) [where s = s and m = n and auto = auto] find_put_string [OF True, of k] free(1) n by simp
  with free n show ?thesis by (auto simp: get_put_string)
qed

text \<open>
  C25: Adding a string fails only when it is not stored and all 65535 ids are in use; growing the
  table on the way never throws.
\<close>

theorem add_string_fails:
  assumes "arrays_ok m"
  shows "add_string s auto m = Inl e \<longleftrightarrow>
           find_string s m = 0 \<and> e = ChkError ''MaximumStringsExceeded'' \<and>
           (\<forall>i. 0 < i \<and> i < max_strings \<longrightarrow> string_used i UsageEither user_all False m)"
proof -
  let ?u = "first_unused (mark_used_strings UsageEither user_all m {})"
  have "?u = None \<longleftrightarrow> (\<forall>i. 0 < i \<and> i < max_strings \<longrightarrow> string_used i UsageEither user_all False m)"
    by (rule either.first_unused_None [OF assms])
  then show ?thesis
    using add_string_cases [where s = s and m = m and auto = auto]
    by (cases ?u; cases "find_string s m = 0") (auto simp: maximum_strings_exceeded_def)
qed

lemma blank_first_unused: "first_unused (mark_used_strings UsageEither user_all blank_scenario {}) = Some 1"
proof -
  have "mark_used_strings UsageEither user_all blank_scenario {} = {}"
    using blank_unused either.marked_set [OF blank_arrays] by auto
  moreover have "[1..<max_strings] = 1 # [Suc 1..<max_strings]"
    by (rule upt_conv_Cons) (simp add: max_strings_def)
  ultimately show ?thesis by (simp only: first_unused_def find.simps) simp
qed

lemma blank_add: "add_string ''x'' False blank_scenario
    = Inr (1, blank_scenario\<lparr>sc_strings := put_string 1 ''x'' [None]\<rparr>)"
  using add_string_cases(3) [OF _ blank_first_unused, where s = "''x''" and auto = False]
  by (simp add: find_string_def blank_scenario_def)

lemma add_string_ok_witness:
  "get_string 1 (blank_scenario\<lparr>sc_strings := put_string 1 ''x'' [None]\<rparr>) = Some ''x''"
  using add_string_ok [OF blank_arrays _ blank_add]
  by (simp add: blank_scenario_def max_strings_def c_string_def)

lemma add_string_fails_witness: "\<forall>e. add_string ''x'' False blank_scenario \<noteq> Inl e"
  using add_string_fails [OF blank_arrays, where s = "''x''" and auto = False]
    blank_unused [of 1] by (auto simp: max_strings_def)

end
