(* ===== verification/ScenarioObjectsProps.thy ===== *)
theory ScenarioObjectsProps
  imports ScenarioStringsProps
begin

text \<open>
  Deletion and renumbering of strings, and the object lists of a map: what the operations do on
  every branch, and where they miss their purpose.
\<close>

section \<open>Object lists\<close>

lemma remove_down_filter:
  "n \<le> length xs \<Longrightarrow> remove_down p n xs = filter (\<lambda>x. \<not> p x) (take n xs) @ drop n xs"
proof (induction n arbitrary: xs)
  case 0
  then show ?case by simp
next
  case (Suc n)
  then have n: "n < length xs" by simp
  have "remove_down p n (erase_at n xs) = filter (\<lambda>x. \<not> p x) (take n xs) @ drop (Suc n) xs"
    using n Suc.IH [of "erase_at n xs"] by (simp add: erase_at_def)
  moreover have "remove_down p n xs = filter (\<lambda>x. \<not> p x) (take n xs) @ drop n xs"
    using n by (intro Suc.IH) simp
  ultimately show ?case
    using n by (auto simp: take_Suc_conv_app_nth Cons_nth_drop_Suc)
qed

text \<open>
  C31: The backward loops that erase objects outside the map keep exactly the objects inside it, in
  their order.
\<close>

theorem remove_out_of_bounds_filter:
  "sc_sprites (remove_out_of_bounds_sprites m)
     = filter (\<lambda>s. \<not> outside_map m (sp_x s) (sp_y s)) (sc_sprites m) \<and>
   sc_doodads (remove_out_of_bounds_doodads m)
     = filter (\<lambda>d. \<not> outside_map m (dd_x d) (dd_y d)) (sc_doodads m) \<and>
   sc_units (remove_out_of_bounds_units m)
     = filter (\<lambda>u. \<not> outside_map m (un_x u) (un_y u)) (sc_units m)"
  by (simp add: remove_out_of_bounds_sprites_def remove_out_of_bounds_doodads_def
      remove_out_of_bounds_units_def remove_down_filter)

text \<open>
  Moving an object by more than one place puts it one place before the index asked for, and moving
  it to index 0 uses an iterator before the vector.
\<close>

theorem move_element_misplaces:
  assumes "i < length xs" and "j < length xs" and "length xs < size_limit" and "i + 1 < j \<or> j + 1 < i"
  shows "(j = 0 \<longrightarrow> move_element i j xs = Inl (Undefined ''iterator outside the vector'')) \<and>
         (0 < j \<longrightarrow> (\<exists>ys. move_element i j xs = Inr ys \<and> length ys = length xs \<and> ys ! (j - 1) = xs ! i))"
proof -
  have far: "max i j < length xs" "i \<noteq> j" "max i j - min i j \<noteq> 1" using assms by auto
  have len: "length (erase_at i xs) = length xs - 1" using assms(1) by (simp add: erase_at_def)
  have sub: "size_sub j 1 = (if j = 0 then size_limit - 1 else j - 1)"
    using assms(2,3) by (auto simp: size_sub_wrap size_limit_def)
  have limit: "\<not> size_limit - 1 \<le> length xs - 1" using assms(1,3) by simp
  show ?thesis
  proof (cases "j = 0")
    case True
    then have "move_element i 0 xs = Inl (Undefined ''iterator outside the vector'')"
      using far len sub limit unfolding move_element_def Let_def by simp
    with True show ?thesis by simp
  next
    case False
    then have "move_element i j xs = Inr (insert_at (j - 1) (xs ! i) (erase_at i xs))"
      using far len sub assms(2) unfolding move_element_def Let_def by simp
    with False show ?thesis
      using len assms(1,2) by (auto simp: insert_at_def nth_append)
  qed
qed

lemma move_element_misplaces_witness:
  "\<exists>ys. move_element 0 2 [''a'', ''b'', ''c''] = Inr ys \<and> ys ! 1 = ''a''"
  using move_element_misplaces [of 0 "[''a'', ''b'', ''c'']" 2] by (auto simp: size_limit_def)

text \<open>
  A new location goes into the first blank slot from 1 on and leaves the other slots alone; when
  no slot is blank the map stays as it is and the id 0 is returned.
\<close>

theorem add_location_first_blank:
  "case add_location l m of (i, n) \<Rightarrow>
     if \<exists>k. 0 < k \<and> k < length (sc_locations m) \<and> is_blank k m
     then 0 < i \<and> is_blank i m \<and> (\<forall>k. 0 < k \<and> k < i \<longrightarrow> \<not> is_blank k m) \<and>
          n = m\<lparr>sc_locations := (sc_locations m)[i := l]\<rparr>
     else i = 0 \<and> n = m"
proof (cases "List.find (\<lambda>i. is_blank i m) [1..<length (sc_locations m)]")
  case None
  then have "\<not> (\<exists>k. 0 < k \<and> k < length (sc_locations m) \<and> is_blank k m)"
    by (auto simp: find_None_iff)
  with None show ?thesis by (simp add: add_location_def [unfolded One_nat_def] One_nat_def)
next
  case (Some i)
  then have "0 < i" "i < length (sc_locations m)" "is_blank i m"
      and first: "\<And>k. 0 < k \<Longrightarrow> k < i \<Longrightarrow> \<not> is_blank k m"
  proof -
    from Some obtain k where k: "k < length (sc_locations m) - 1" "i = Suc k" "is_blank i m"
        "\<And>j. j < k \<Longrightarrow> \<not> is_blank (Suc j) m"
      by (auto simp: find_Some_iff)
    then show "0 < i" "i < length (sc_locations m)" "is_blank i m" by simp_all
    show "\<not> is_blank j m" if "0 < j" "j < i" for j
      using k(4) [of "j - 1"] that k(2) by simp
  qed
  with Some show ?thesis unfolding add_location_def by auto
qed

lemma add_location_first_blank_witness:
  "0 < fst (add_location empty_location blank_scenario)"
proof -
  have "is_blank 1 blank_scenario" "1 < length (sc_locations blank_scenario)"
    by (simp_all add: is_blank_def blank_scenario_def empty_location_def location_is_blank_def)
  then have "\<exists>k. 0 < k \<and> k < length (sc_locations blank_scenario) \<and> is_blank k blank_scenario"
    by (intro exI [of _ 1]) simp
  then show ?thesis
    using add_location_first_blank [where l = empty_location and m = blank_scenario]
    by (auto split: prod.splits if_splits)
qed

section \<open>Deleting strings\<close>

lemma get_deleted: "\<not> (only \<and> string_used i UsageGame user_all False m) \<Longrightarrow>
    get_string i (delete_string i only m) = None"
  by (auto simp: delete_string_def delete_trigger_string_def delete_location_string_def
      delete_unit_string_def delete_force_string_def get_string_def Let_def)

lemma nth_on_tail: "0 < k \<Longrightarrow> k < length xs \<Longrightarrow> on_tail f xs ! k = f (xs ! k)"
  by (cases xs; cases k) (simp_all add: on_tail_def)

lemma delete_string_fields:
  assumes "\<not> (only \<and> string_used i UsageGame user_all False m)"
  shows "sc_name_id (delete_string i only m) = clear16 i (sc_name_id m)"
    and "sc_description_id (delete_string i only m) = clear16 i (sc_description_id m)"
    and "sc_force_strings (delete_string i only m) = map (clear16 i) (sc_force_strings m)"
    and "sc_orig_unit_names (delete_string i only m) = map (clear16 i) (sc_orig_unit_names m)"
    and "sc_unit_names (delete_string i only m) = map (clear16 i) (sc_unit_names m)"
    and "sc_locations (delete_string i only m)
      = on_tail (\<lambda>l. l\<lparr>loc_string_id := clear16 i (loc_string_id l)\<rparr>) (sc_locations m)"
    and "sc_sound_paths (delete_string i only m) = map (clear32 i) (sc_sound_paths m)"
    and "sc_switch_names (delete_string i only m) = map (clear32 i) (sc_switch_names m)"
    and "sc_triggers (delete_string i only m) = map (delete_trigger_actions_string i) (sc_triggers m)"
    and "sc_briefing_triggers (delete_string i only m)
      = map (delete_trigger_actions_string i) (sc_briefing_triggers m)"
  using assms
  by (auto simp: delete_string_def delete_trigger_string_def delete_location_string_def
      delete_unit_string_def delete_force_string_def Let_def)

text \<open>
  C27: \<open>deleteString\<close> with \<open>deleteOnlyIfUnused\<close> takes the name of a location away: a string that no
  game section uses is deleted although a location uses it, and the location becomes nameless.
\<close>

theorem delete_if_unused_takes_location_name:
  assumes "0 < i" and "i < max_strings" and "\<not> string_used i UsageGame user_all False m"
    and "0 < k" and "k < length (sc_locations m)" and "unat (loc_string_id (sc_locations m ! k)) = i"
  shows "string_used i UsageEither user_all False m \<and>
         get_string i (delete_string i True m) = None \<and>
         loc_string_id (sc_locations (delete_string i True m) ! k) = 0"
  using assms nth_mem [OF assms(5)]
  by (auto simp: get_deleted delete_string_fields nth_on_tail clear16_def string_used_def
      location_string_used_def)

definition named_location :: scenario where
  "named_location = blank_scenario\<lparr>sc_strings := [None, Some ''base''],
     sc_locations := [empty_location, empty_location\<lparr>loc_string_id := 1\<rparr>]\<rparr>"

lemma named_location_unused: "\<not> string_used 1 UsageGame user_all False named_location"
  by (simp add: usage_defs named_location_def blank_scenario_def numeral_eq_Suc)

lemma delete_if_unused_takes_location_name_witness:
  "get_string 1 named_location = Some ''base'' \<and> get_string 1 (delete_string 1 True named_location) = None"
  using delete_if_unused_takes_location_name [of 1 named_location 1] named_location_unused
  by (simp add: named_location_def blank_scenario_def max_strings_def get_string_def c_string_def)

lemma briefing_strings_elsewhere:
  "n < 10 \<Longrightarrow> briefing_action_uses_string_arg ! n \<Longrightarrow> \<not> action_uses_string_arg ! n"
proof -
  have "\<forall>n \<in> set [0..<10]. briefing_action_uses_string_arg ! n \<longrightarrow> \<not> action_uses_string_arg ! n"
    by code_simp
  then show "n < 10 \<Longrightarrow> briefing_action_uses_string_arg ! n \<Longrightarrow> \<not> action_uses_string_arg ! n"
    by simp
qed

lemma delete_action_keeps_briefing:
  assumes "action_briefing_string_used a i user_briefing_action"
  shows "action_briefing_string_used (delete_action_string i a) i user_all"
proof -
  have "briefing_action a" "briefing_action_uses_string_arg ! unat (action_type a)"
      "unat (act_string_id a) = i"
    using assms
    by (auto simp: action_briefing_string_used_def has_flag_def user_briefing_action_def
        user_briefing_sound_def)
  then show ?thesis
    using briefing_strings_elsewhere [of "unat (action_type a)"]
    by (simp add: action_briefing_string_used_def delete_action_string_def
        num_briefing_action_types_def)
qed

text \<open>
  C28: \<open>deleteString\<close> never reaches the text of a briefing: the string is gone from the table, and a
  briefing action that shows it still refers to its id.
\<close>

theorem delete_string_leaves_briefings:
  assumes "t \<in> set (sc_briefing_triggers m)" and "a \<in> set (trig_actions t)"
    and "action_briefing_string_used a i user_briefing_action" and "i < max_strings"
  shows "get_string i (delete_string i False m) = None \<and>
         string_used i UsageGame user_all False (delete_string i False m)"
proof -
  have "trigger_briefing_string_used (delete_trigger_actions_string i t) i user_all"
    using assms(2) delete_action_keeps_briefing [OF assms(3)]
    by (auto simp: trigger_briefing_string_used_def delete_trigger_actions_string_def)
  moreover have "0 < user_all AND any_briefing_trigger"
    by (simp add: user_all_def any_briefing_trigger_def user_briefing_action_def
        user_briefing_sound_def)
  ultimately show ?thesis
    using assms(1,4)
    by (auto simp: string_used_def triggers_game_string_used_def delete_string_fields get_deleted)
qed

definition text_action :: chk_action where
  "text_action = \<lparr>act_location_id = 0, act_string_id = 1, act_sound_string_id = 0, act_time = 0,
     act_group = 0, act_number = 0, act_type = 0, action_type = 3, act_type2 = 0, act_flags = 0,
     act_padding = 0, act_mask_flag = 0\<rparr>"

definition text_trigger :: chk_trigger where
  "text_trigger = \<lparr>trig_conditions = [], trig_actions = [text_action], trig_flags = 0,
     trig_owners = [], trig_current_action = 0\<rparr>"

definition briefing_scenario :: scenario where
  "briefing_scenario = blank_scenario\<lparr>sc_strings := [None, Some ''go''],
     sc_briefing_triggers := [text_trigger]\<rparr>"

lemma text_action_used: "action_briefing_string_used text_action 1 user_briefing_action"
  by (simp add: action_briefing_string_used_def text_action_def num_briefing_action_types_def
      briefing_action_uses_string_arg_def has_flag_def)

lemma delete_string_leaves_briefings_witness:
  "get_string 1 (delete_string 1 False briefing_scenario) = None \<and>
   string_used 1 UsageGame user_all False (delete_string 1 False briefing_scenario)"
  by (rule delete_string_leaves_briefings [OF _ _ text_action_used, of text_trigger])
    (simp_all add: briefing_scenario_def text_trigger_def max_strings_def)

lemma clear16_other: "i < max_strings \<Longrightarrow> 0 < i \<Longrightarrow> clear16 i w \<noteq> of_nat i"
  using u16_of_nat_eq [of i "clear16 i w"] by (auto simp: clear16_def)

lemma clear32_other: "i < max_strings \<Longrightarrow> 0 < i \<Longrightarrow> clear32 i w \<noteq> of_nat i"
  using u32_of_nat_eq [of i "clear32 i w"] by (auto simp: clear32_def)

lemma delete_action_string_unused:
  "0 < i \<Longrightarrow> \<not> action_string_used (delete_action_string i a) i users"
  by (auto simp: action_string_used_def delete_action_string_def Let_def)

text \<open>
  C26: After an unconditional \<open>deleteString\<close> the id cannot be read, and the only references to it that are
  left are those of briefing triggers and the name of location 0, which the loop over the locations skips:
  no property, force, unit, other location, sound, switch or trigger uses the id, and the full usage check
  answers yes exactly for a briefing or location 0.
\<close>

theorem delete_string_unreferenced:
  assumes "arrays_ok m" and "0 < i" and "i < max_strings"
  shows "get_string i (delete_string i False m) = None \<and>
    (string_used i UsageEither user_all False (delete_string i False m) \<longleftrightarrow>
      (\<exists>t \<in> set (sc_briefing_triggers (delete_string i False m)). trigger_briefing_string_used t i user_all) \<or>
      sc_locations m \<noteq> [] \<and> unat (loc_string_id (hd (sc_locations m))) = i)"
proof -
  have force: "clear16 i (sc_force_strings m ! k) \<noteq> of_nat i" for k
    by (rule clear16_other [OF assms(3,2)])
  have len: "length (sc_force_strings m) = 4" using assms(1) by (simp add: arrays_ok_def total_forces_def)
  have trig: "\<not> trigger_string_used (delete_trigger_actions_string i t) i user_all" for t
    using delete_action_string_unused [OF assms(2)]
    by (auto simp: trigger_string_used_def delete_trigger_actions_string_def)
  have loc: "i \<noteq> unat (clear16 i w)" for w using assms(2) by (simp add: clear16_def)
  have sets: "of_nat i \<notin> set (map (clear16 i) ws)" "of_nat i \<notin> set (map (clear32 i) vs)" for ws vs
    using clear16_other [OF assms(3,2)] clear32_other [OF assms(3,2)] by force+
  have locations: "location_string_used i user_all (delete_string i False m) \<longleftrightarrow>
      sc_locations m \<noteq> [] \<and> unat (loc_string_id (hd (sc_locations m))) = i"
    using loc by (cases "sc_locations m") (auto simp: location_string_used_def delete_string_fields on_tail_def
        has_flag_def user_all_def user_location_def)
  have briefings: "0 < user_all AND any_briefing_trigger"
    by (simp add: user_all_def any_briefing_trigger_def user_briefing_action_def user_briefing_sound_def)
  have "\<not> properties_string_used i user_all (delete_string i False m)"
    "\<not> force_string_used i user_all (delete_string i False m)"
    "\<not> unit_string_used i user_all (delete_string i False m)"
    using force [of 0] force [of 1] force [of 2] force [of 3] sets clear16_other [OF assms(3,2)]
    by (auto simp: properties_string_used_def force_string_used_def unit_string_used_def delete_string_fields len
        simp del: set_map)
  moreover have "triggers_string_used i user_all (delete_string i False m) \<longleftrightarrow>
      (\<exists>t \<in> set (sc_briefing_triggers (delete_string i False m)). trigger_briefing_string_used t i user_all)"
    using trig sets briefings
    by (auto simp: triggers_string_used_def string_is_sound_def delete_string_fields simp del: set_map)
      (auto simp: trig)
  ultimately show ?thesis
    using locations assms(3) by (auto simp: string_used_def get_deleted)
qed

lemma delete_string_unreferenced_witness:
  "\<not> string_used 1 UsageEither user_all False (delete_string 1 False named_location) \<and>
   get_string 1 named_location = Some ''base'' \<and> get_string 1 (delete_string 1 False named_location) = None"
proof -
  have "arrays_ok named_location"
    using blank_arrays by (simp add: named_location_def arrays_ok_def)
  from delete_string_unreferenced [OF this, of 1]
  show ?thesis
    by (simp add: delete_string_fields named_location_def blank_scenario_def empty_location_def max_strings_def
        get_string_def c_string_def)
qed

section \<open>Capacity and defragmentation\<close>

lemma string_used_table [simp]:
  "string_used i usage users False (m\<lparr>sc_strings := ss\<rparr>) = string_used i usage users False m"
  by (cases usage) (simp_all add: usage_defs)

text \<open>
  C30: Shrinking the table to a capacity equal to the highest used id cuts that string off without an
  exception: the test allows \<open>highest = capacity\<close>, but a table of that size ends one id below it.
\<close>

theorem set_capacity_drops_used_string:
  assumes "arrays_ok m" and "0 < c" and "c < max_strings"
    and "string_stored c m" and "string_used c UsageEither user_all False m"
    and "\<forall>i. c < i \<and> i < max_strings \<longrightarrow> \<not> string_used i UsageEither user_all False m"
  shows "\<exists>n. set_capacity c auto m = Inr n \<and> get_string c n = None \<and>
           string_used c UsageEither user_all False n"
proof -
  let ?used = "mark_valid_used_strings UsageEither user_all m {}"
  have used: "?used = {i. 0 < i \<and> i < max_strings \<and> string_used i UsageEither user_all False m
                        \<and> string_stored i m}"
    using either.marked_set [OF assms(1)] by (auto simp: mark_valid_used_strings_def)
  have in_list: "i \<in> set (used_id_list U) \<longleftrightarrow> 0 < i \<and> i < max_strings \<and> i \<in> U" for i U
    by (auto simp: used_id_list_def)
  have below: "i \<le> c" if "i \<in> ?used" for i
  proof (rule ccontr)
    assume "\<not> i \<le> c"
    with that assms(6) show False unfolding used by auto
  qed
  have "c \<in> ?used" unfolding used using assms(2-5) by simp
  then have mem: "c \<in> set (used_id_list ?used)" using assms(2,3) in_list by blast
  have distinct: "distinct (used_id_list ?used)" by (simp add: used_id_list_def)
  have sub: "set (used_id_list ?used) \<subseteq> {1..c}" 
  proof
    fix i assume "i \<in> set (used_id_list ?used)"
    then have "0 < i" "i \<in> ?used" using in_list by blast+
    then show "i \<in> {1..c}" using below by simp
  qed
  have "length (used_id_list ?used) \<le> c"
    using card_mono [OF _ sub] distinct_card [OF distinct] by simp
  moreover have "List.last (used_id_list ?used) \<le> c"
    using sub last_in_set [of "used_id_list ?used"] mem by (metis atLeastAtMost_iff empty_iff empty_set subsetD)
  ultimately have "set_capacity c auto m = Inr (m\<lparr>sc_strings := resize_strings c (sc_strings m)\<rparr>)"
    using assms(3) mem by (auto simp: set_capacity_def Let_def)
  then show ?thesis
    using assms(5) by (simp add: get_string_def)
qed

definition full_scenario :: scenario where
  "full_scenario = named_location\<lparr>sc_name_id := 1\<rparr>"

lemma full_scenario_used:
  "arrays_ok full_scenario" "string_used 1 UsageEither user_all False full_scenario"
  "1 < i \<Longrightarrow> i < max_strings \<Longrightarrow> \<not> string_used i UsageEither user_all False full_scenario"
proof -
  show "arrays_ok full_scenario"
    using blank_arrays by (simp add: full_scenario_def named_location_def arrays_ok_def)
  show "string_used 1 UsageEither user_all False full_scenario"
    by (simp add: usage_defs full_scenario_def max_strings_def)
  assume "1 < i" "i < max_strings"
  moreover from this have "(1 :: u16) \<noteq> of_nat i" using u16_of_nat_eq [of i 1] by auto
  ultimately show "\<not> string_used i UsageEither user_all False full_scenario"
    by (auto simp: usage_defs full_scenario_def named_location_def blank_scenario_def
        empty_location_def of_nat_id_nonzero)
qed

lemma set_capacity_drops_used_string_witness:
  "get_string 1 full_scenario = Some ''base'' \<and>
   (\<exists>n. set_capacity 1 True full_scenario = Inr n \<and> get_string 1 n = None)"
  using set_capacity_drops_used_string [of full_scenario 1 True] full_scenario_used
  by (auto simp: string_stored_def full_scenario_def named_location_def max_strings_def
      get_string_def c_string_def)

lemma defragment_step_first:
  assumes "ss ! 0 \<noteq> None" and "map_of r key = Some 0" and "i < length ss"
  shows "fst (defragment_step i (ss, r)) ! 0 = ss ! 0 \<and> map_of (snd (defragment_step i (ss, r))) key = Some 0
         \<and> length (fst (defragment_step i (ss, r))) = length ss"
proof (cases "i = 0")
  case True
  with assms show ?thesis by (auto simp: defragment_step_def Let_def)
next
  case False
  with assms show ?thesis
    by (auto simp: defragment_step_def Let_def map_of_emplace split: option.splits)
qed

lemma defragment_fold_first:
  assumes "ss ! 0 = Some s" and "map_of r key = Some 0" and "\<forall>i \<in> set is. i < length ss"
  shows "fst (fold defragment_step is (ss, r)) ! 0 = Some s \<and>
         map_of (snd (fold defragment_step is (ss, r))) key = Some 0 \<and>
         length (fst (fold defragment_step is (ss, r))) = length ss"
  using assms
proof (induction "is" arbitrary: ss r)
  case Nil
  then show ?case by simp
next
  case (Cons i "is")
  let ?st = "defragment_step i (ss, r)"
  from Cons.prems have st: "fst ?st ! 0 = Some s" "map_of (snd ?st) key = Some 0" "length (fst ?st) = length ss"
    using defragment_step_first [of ss r key i] by simp_all
  have "fold defragment_step (i # is) (ss, r) = fold defragment_step is (fst ?st, snd ?st)" by simp
  then show ?case using Cons.IH [OF st(1,2)] Cons.prems(3) st(3) by simp
qed

lemma defragment_first_step:
  assumes "0 < j" "j < length ss" "ss ! j = Some s" "\<forall>k < j. ss ! k = None"
  shows "defragment_step 0 (ss, []) = (ss[0 := Some s], [(of_nat j, 0)])"
proof -
  have "List.find (\<lambda>k. ss ! k \<noteq> None) [Suc 0..<length ss] = Some j"
    using assms unfolding find_Some_iff by (intro exI [of _ "j - 1"]) auto
  then show ?thesis using assms by (simp add: defragment_step_def map_emplace_def)
qed

lemma remap16_moved: "map_of r (of_nat j) = Some 0 \<Longrightarrow> j < max_strings \<Longrightarrow> remap16 r (of_nat j) = 0"
proof -
  assume "j < max_strings"
  then have "(ucast (of_nat j :: u16) :: u32) = of_nat j"
    by (simp add: u32_of_nat_eq unsigned_ucast_eq take_bit_word_eq_self take_bit_nat_eq_self max_strings_def)
  then show "map_of r (of_nat j) = Some 0 \<Longrightarrow> remap16 r (of_nat j) = 0" by (simp add: remap16_def)
qed

text \<open>
  C29: Defragmenting moves the first stored string, wherever it is, to the id 0, which means no string:
  unless the table is empty or already has a string at 0, every property, force, unit name, location from 1
  on, sound and switch that refers to the first stored string refers to no string afterwards.
\<close>

theorem defragment_loses_first_string:
  assumes "0 < j" and "j < length (sc_strings m)" and "j < max_strings"
    and "sc_strings m ! j = Some s" and "\<forall>k < j. sc_strings m ! k = None"
    and "n = snd (defragment m)"
  shows "fst (defragment m) \<and> sc_strings n ! 0 = Some s \<and>
    (sc_name_id m = of_nat j \<longrightarrow> sc_name_id n = 0) \<and>
    (sc_description_id m = of_nat j \<longrightarrow> sc_description_id n = 0) \<and>
    (\<forall>k < length (sc_force_strings m). sc_force_strings m ! k = of_nat j \<longrightarrow> sc_force_strings n ! k = 0) \<and>
    (\<forall>k < length (sc_orig_unit_names m). sc_orig_unit_names m ! k = of_nat j \<longrightarrow> sc_orig_unit_names n ! k = 0) \<and>
    (\<forall>k < length (sc_unit_names m). sc_unit_names m ! k = of_nat j \<longrightarrow> sc_unit_names n ! k = 0) \<and>
    (\<forall>k < length (sc_locations m). 0 < k \<and> loc_string_id (sc_locations m ! k) = of_nat j \<longrightarrow>
       loc_string_id (sc_locations n ! k) = 0) \<and>
    (\<forall>k < length (sc_sound_paths m). sc_sound_paths m ! k = of_nat j \<longrightarrow> sc_sound_paths n ! k = 0) \<and>
    (\<forall>k < length (sc_switch_names m). sc_switch_names m ! k = of_nat j \<longrightarrow> sc_switch_names n ! k = 0)"
proof -
  let ?n = "length (sc_strings m)" and ?ss = "(sc_strings m)[0 := Some s]"
  have "0 < ?n" using assms(2) by linarith
  then have upt: "[0..<?n] = 0 # [1..<?n]" using upt_conv_Cons [of 0 ?n] by simp
  define st where "st = fold defragment_step [1..<?n] (?ss, [(of_nat j, 0)])"
  have st: "fold defragment_step [0..<?n] (sc_strings m, []) = st"
    using defragment_first_step [OF assms(1,2,4,5)] unfolding st_def upt by simp
  have "?ss ! 0 = Some s" "map_of [(of_nat j, 0)] (of_nat j :: u32) = Some (0 :: u32)" "\<forall>i \<in> set [1..<?n]. i < length ?ss"
    using \<open>0 < ?n\<close> by simp_all
  from defragment_fold_first [OF this] have first: "fst st ! 0 = Some s" "map_of (snd st) (of_nat j) = Some 0"
    by (simp_all add: st_def)
  then have "snd st \<noteq> []" by auto
  then have result: "defragment m = (True, remap_string_ids (snd st) (m\<lparr>sc_strings := fst st\<rparr>))"
    by (simp add: defragment_def Let_def st)
  have "remap16 (snd st) (of_nat j) = 0" "remap_id (snd st) (of_nat j) = 0"
    using first(2) remap16_moved [OF _ assms(3)] by (simp_all add: remap_id_def)
  then show ?thesis
    unfolding assms(6) result
    by (auto simp: remap_string_ids_def first(1) nth_on_tail remap_location_string_def)
qed

lemma defragment_loses_first_string_witness:
  "sc_name_id full_scenario = 1 \<and> loc_string_id (sc_locations full_scenario ! 1) = 1 \<and>
   sc_name_id (snd (defragment full_scenario)) = 0 \<and> loc_string_id (sc_locations (snd (defragment full_scenario)) ! 1) = 0"
  using defragment_loses_first_string [of 1 full_scenario "''base''", OF _ _ _ _ _ refl]
  by (simp add: full_scenario_def named_location_def max_strings_def)

end
