(* ===== verification/AgentFields.thy ===== *)
theory AgentFields
  imports JsonSerializer Sha256Props "HOL-Library.Sublist"
begin

text \<open>
  The field readers and small text functions at the head of \<open>IsomTerrain/MapAgentCore.cpp\<close>: checked
  integers, hex text, file digests, tilesets, slot types, races, force flags, and the paths and
  asset inventories of the sound operations.
\<close>

section \<open>Integer fields\<close>

definition max_operations :: nat where
  "max_operations = 4096"

definition field_context :: "string \<Rightarrow> string \<Rightarrow> string" where
  "field_context ctx field = ctx @ ''.'' @ field"

definition checked_size :: "json_object \<Rightarrow> string \<Rightarrow> string \<Rightarrow> bool \<Rightarrow> nat result" where
  "checked_size obj field ctx positive =
     bindE (required_field obj field ctx) (\<lambda>v. size_value v (field_context ctx field) positive)"

definition checked_u16 :: "json_object \<Rightarrow> string \<Rightarrow> string \<Rightarrow> u16 result" where
  "checked_u16 obj field ctx =
     bindE (checked_size obj field ctx False) (\<lambda>n.
       if 0xFFFF < n then fail (field_context ctx field @ '': value exceeds uint16'')
       else Inr (of_nat n))"

definition checked_u32 :: "json_object \<Rightarrow> string \<Rightarrow> string \<Rightarrow> u32 result" where
  "checked_u32 obj field ctx =
     bindE (checked_size obj field ctx False) (\<lambda>n.
       if 0xFFFFFFFF < n then fail (field_context ctx field @ '': value exceeds uint32'')
       else Inr (of_nat n))"

definition optional_u8 :: "json_object \<Rightarrow> string \<Rightarrow> u8 \<Rightarrow> string \<Rightarrow> u8 result" where
  "optional_u8 obj field fallback ctx =
     (case optional_field obj field of
        None \<Rightarrow> Inr fallback
      | Some v \<Rightarrow> bindE (size_value v (field_context ctx field) False) (\<lambda>n.
          if 0xFF < n then fail (field_context ctx field @ '': value exceeds uint8'')
          else Inr (of_nat n)))"

definition optional_u16 :: "json_object \<Rightarrow> string \<Rightarrow> u16 \<Rightarrow> string \<Rightarrow> u16 result" where
  "optional_u16 obj field fallback ctx =
     (case optional_field obj field of
        None \<Rightarrow> Inr fallback
      | Some v \<Rightarrow> bindE (size_value v (field_context ctx field) False) (\<lambda>n.
          if 0xFFFF < n then fail (field_context ctx field @ '': value exceeds uint16'')
          else Inr (of_nat n)))"

definition optional_u32 :: "json_object \<Rightarrow> string \<Rightarrow> u32 \<Rightarrow> string \<Rightarrow> u32 result" where
  "optional_u32 obj field fallback ctx =
     (case optional_field obj field of
        None \<Rightarrow> Inr fallback
      | Some v \<Rightarrow> bindE (size_value v (field_context ctx field) False) (\<lambda>n.
          if 0xFFFFFFFF < n then fail (field_context ctx field @ '': value exceeds uint32'')
          else Inr (of_nat n)))"

definition optional_bool :: "json_object \<Rightarrow> string \<Rightarrow> bool \<Rightarrow> string \<Rightarrow> bool result" where
  "optional_bool obj field fallback ctx =
     (case optional_field obj field of
        None \<Rightarrow> Inr fallback | Some v \<Rightarrow> bool_value v (field_context ctx field))"

section \<open>Bytes and hex text\<close>

definition bytes_of :: "string \<Rightarrow> u8 list" where
  "bytes_of s = map (\<lambda>c. of_nat (of_char c)) s"

definition string_of :: "u8 list \<Rightarrow> string" where
  "string_of bs = map (\<lambda>b. char_of (unat b)) bs"

definition in_range :: "char \<Rightarrow> char \<Rightarrow> char \<Rightarrow> bool" where
  "in_range lo hi c \<longleftrightarrow> (of_char lo :: nat) \<le> of_char c \<and> (of_char c :: nat) \<le> of_char hi"

definition nibble :: "string \<Rightarrow> char \<Rightarrow> u8 result" where
  "nibble ctx c =
     (let n = of_char c :: nat
      in if in_range CHR ''0'' CHR ''9'' c then Inr (of_nat (n - 48))
         else if in_range CHR ''a'' CHR ''f'' c then Inr (of_nat (n - 97 + 10))
         else if in_range CHR ''A'' CHR ''F'' c then Inr (of_nat (n - 65 + 10))
         else fail (ctx @ '': invalid hex digit''))"

fun decode_pairs :: "string \<Rightarrow> string \<Rightarrow> u8 list result" where
  "decode_pairs ctx (hi # lo # cs) =
     bindE (nibble ctx hi) (\<lambda>h. bindE (nibble ctx lo) (\<lambda>l.
     bindE (decode_pairs ctx cs) (\<lambda>bs. Inr ((push_bit 4 h OR l) # bs))))"
| "decode_pairs ctx cs = Inr []"

definition decode_hex :: "string \<Rightarrow> string \<Rightarrow> u8 list result" where
  "decode_hex text ctx =
     (if length text mod 2 \<noteq> 0
      then fail (ctx @ '': hex string must contain an even number of digits'')
      else decode_pairs ctx text)"

text \<open>NUL ends a map text, so no text may hold one.\<close>

definition raw_string_from_hex :: "string \<Rightarrow> string \<Rightarrow> string result" where
  "raw_string_from_hex text ctx =
     bindE (decode_hex text ctx) (\<lambda>bs.
       if 0 \<in> set bs then fail (ctx @ '': map text cannot contain NUL'') else Inr (string_of bs))"

definition map_text_from_hex :: "string \<Rightarrow> string \<Rightarrow> nat \<Rightarrow> nat \<Rightarrow> string result" where
  "map_text_from_hex text ctx min_bytes max_bytes =
     bindE (raw_string_from_hex text ctx) (\<lambda>raw.
       if length raw < min_bytes \<or> max_bytes < length raw
       then fail (ctx @ '': byte length must be within '' @ nat_to_string min_bytes @ ''..'' @
                  nat_to_string max_bytes)
       else Inr raw)"

section \<open>Digests\<close>

text \<open>\<open>junk\<close> and \<open>store\<close> are the uninitialised bytes a fresh \<open>SHA256\<close> object starts from.\<close>

definition sha256_bytes :: "(nat \<Rightarrow> u8) \<Rightarrow> u8 list \<Rightarrow> u8 list \<Rightarrow> string" where
  "sha256_bytes junk store bs = fst (sha_apply junk (new_sha store) bs)"

definition file_buffer :: nat where
  "file_buffer = 64 * 1024"

text \<open>
  A file is what opening it gives: nothing, or the bytes its reads deliver and whether they end at
  the end of the file (otherwise with a read error). A read fills the buffer as far as it can.
\<close>

type_synonym input_file = "(u8 list \<times> bool) option"

function hash_reads :: "sha \<Rightarrow> u8 list \<Rightarrow> sha" where
  "hash_reads s bs =
     (let chunk = take file_buffer bs;
          s = (if 0 < length chunk then sha_add s chunk else s)
      in if length chunk < file_buffer then s else hash_reads s (drop file_buffer bs))"
  by pat_completeness auto
termination by (relation "measure (\<lambda>(s, bs). length bs)") (auto simp: file_buffer_def)

declare hash_reads.simps [simp del]

definition read_file_sha256 :: "(nat \<Rightarrow> u8) \<Rightarrow> u8 list \<Rightarrow> (string \<Rightarrow> input_file) \<Rightarrow> string \<Rightarrow> string result" where
  "read_file_sha256 junk store files path =
     (case files path of
        None \<Rightarrow> fail (''cannot open input map: '' @ path)
      | Some (bs, at_end) \<Rightarrow>
          let s = hash_reads (new_sha store) bs
          in if at_end then Inr (fst (get_hash junk s))
             else fail (''cannot read input map: '' @ path))"

section \<open>Names\<close>

definition lower_char :: "char \<Rightarrow> char" where
  "lower_char c = (if in_range CHR ''A'' CHR ''Z'' c then char_of (of_char c + 32 :: nat) else c)"

definition lower_ascii :: "string \<Rightarrow> string" where
  "lower_ascii s = map lower_char s"

text \<open>The tileset enumeration of \<open>Sc::Terrain::Tileset\<close> by its values.\<close>

definition parse_tileset :: "string \<Rightarrow> nat result" where
  "parse_tileset name =
     (let v = lower_ascii name
      in if v = ''badlands'' then Inr 0
         else if v = ''platform'' \<or> v = ''spaceplatform'' then Inr 1
         else if v = ''installation'' then Inr 2
         else if v = ''ashworld'' then Inr 3
         else if v = ''jungle'' then Inr 4
         else if v = ''desert'' then Inr 5
         else if v = ''arctic'' \<or> v = ''ice'' then Inr 6
         else if v = ''twilight'' then Inr 7
         else fail (''unknown tileset: '' @ name))"

definition tileset_names :: "string list" where
  "tileset_names = [''badlands'', ''platform'', ''installation'', ''ashworld'', ''jungle'', ''desert'',
     ''arctic'', ''twilight'']"

definition tileset_name :: "nat \<Rightarrow> string" where
  "tileset_name t = tileset_names ! (t mod length tileset_names)"

definition parse_slot_type :: "string \<Rightarrow> string \<Rightarrow> u8 result" where
  "parse_slot_type v ctx =
     (if v = ''human'' then Inr 6
      else if v = ''computer'' then Inr 5
      else if v = ''rescuable'' then Inr 3
      else if v = ''neutral'' then Inr 7
      else if v = ''inactive'' then Inr 0
      else if v = ''closed'' then Inr 8
      else fail (ctx @ '': unsupported slot type '' @ quoted v))"

definition parse_race :: "string \<Rightarrow> string \<Rightarrow> u8 result" where
  "parse_race v ctx =
     (if v = ''zerg'' then Inr 0
      else if v = ''terran'' then Inr 1
      else if v = ''protoss'' then Inr 2
      else if v = ''userSelectable'' then Inr 5
      else if v = ''random'' then Inr 6
      else if v = ''independent'' then Inr 3
      else if v = ''neutral'' then Inr 4
      else if v = ''inactive'' then Inr 7
      else fail (ctx @ '': unsupported race '' @ quoted v))"

definition apply_force_flag :: "u8 \<Rightarrow> json_object \<Rightarrow> string \<Rightarrow> u8 \<Rightarrow> string \<Rightarrow> u8 result" where
  "apply_force_flag flags obj field flag ctx =
     (case optional_field obj field of
        None \<Rightarrow> Inr flags
      | Some v \<Rightarrow> bindE (bool_value v (field_context ctx field)) (\<lambda>b.
          Inr (if b then flags OR flag else flags AND NOT flag)))"

section \<open>Asset inventories\<close>

definition ignored_mpq_asset :: "string \<Rightarrow> bool" where
  "ignored_mpq_asset name \<longleftrightarrow>
     lower_ascii name \<in> {''staredit'' @ [CHR 0x5C] @ ''scenario.chk'', ''scenario.chk'',
       ''(listfile)'', ''(attributes)'', ''(signature)''}"

text \<open>\<open>AssetInventory\<close> is a \<open>std::map\<close> from the lower-case name of an asset to its digest.\<close>

type_synonym inventory = "(string, string) std_map"

definition nul :: "u8 list" where
  "nul = [0]"

definition inventory_digest :: "(nat \<Rightarrow> u8) \<Rightarrow> u8 list \<Rightarrow> inventory \<Rightarrow> string" where
  "inventory_digest junk store assets =
     fst (get_hash junk (foldl (\<lambda>s e.
       sha_add (sha_add (sha_add (sha_add s (bytes_of (fst e))) nul) (bytes_of (snd e))) nul)
       (new_sha store) assets))"

definition inventory_json :: "(nat \<Rightarrow> u8) \<Rightarrow> u8 list \<Rightarrow> inventory \<Rightarrow> json" where
  "inventory_json junk store assets =
     JObj (map_init [(''digest'', JStr (inventory_digest junk store assets)),
       (''assets'', JArr (map (\<lambda>e. JObj (map_init [(''path'', JStr (fst e)), (''sha256'', JStr (snd e))])) assets))])"

section \<open>Managed sound paths\<close>

definition max_managed_ogg_bytes :: nat where
  "max_managed_ogg_bytes = 64 * 1024 * 1024"

definition exact_lower_hex :: "string \<Rightarrow> nat \<Rightarrow> bool" where
  "exact_lower_hex v n \<longleftrightarrow> length v = n \<and>
     list_all (\<lambda>c. in_range CHR ''0'' CHR ''9'' c \<or> in_range CHR ''a'' CHR ''f'' c) v"

definition backslash :: char where
  "backslash = CHR 0x5C"

definition managed_prefix :: string where
  "managed_prefix = ''staredit'' @ [backslash] @ ''wav'' @ [backslash] @ ''ea_''"

definition ogg_suffix :: string where
  "ogg_suffix = ''.ogg''"

definition ends_with :: "string \<Rightarrow> string \<Rightarrow> bool" where
  "ends_with s ending \<longleftrightarrow> length ending \<le> length s \<and> drop (length s - length ending) s = ending"

definition valid_managed_sound_path :: "string \<Rightarrow> bool" where
  "valid_managed_sound_path path \<longleftrightarrow>
     list_all (\<lambda>c. 0x20 \<le> (of_char c :: nat) \<and> (of_char c :: nat) \<le> 0x7e) path \<and>
     take (length managed_prefix) path = managed_prefix \<and>
     length managed_prefix + length ogg_suffix < length path \<and>
     ends_with path ogg_suffix \<and>
     CHR ''/'' \<notin> set path \<and> CHR '':'' \<notin> set path \<and>
     \<not> sublist ''..'' path \<and> \<not> sublist [backslash, backslash] path \<and>
     (let hash = take (length path - length managed_prefix - length ogg_suffix)
                   (drop (length managed_prefix) path)
      in exact_lower_hex hash 16 \<or> exact_lower_hex hash 24 \<or> exact_lower_hex hash 32 \<or>
         exact_lower_hex hash 64)"

definition valid_map_container_path :: "string \<Rightarrow> bool" where
  "valid_map_container_path path \<longleftrightarrow>
     4 < length path \<and>
     (ends_with (lower_ascii path) ''.scx'' \<or> ends_with (lower_ascii path) ''.scm'')"

end
