(* ===== verification/AgentSound.thy ===== *)
theory AgentSound
  imports AgentFields ScenarioStrings
begin

text \<open>
  The sound operations of \<open>IsomTerrain/MapAgentCore.cpp\<close> and \<open>MapFile::addSound\<close>: a copy of a map is
  changed, written to a temporary file, read back, checked and only then renamed to the output path.

  The MPQ library and the reading and writing of map files are parameters, the record \<open>archive_lib\<close>;
  the file system is the state, a map from paths to bytes. Deleting a file always succeeds.
\<close>

section \<open>The world\<close>

type_synonym file_system = "string \<Rightarrow> u8 list option"

text \<open>What reading a file from start to end gives; \<open>ReadBroken\<close> carries the number of bytes before the fault.\<close>

datatype file_read = ReadWhole | NotOpened | ReadBroken nat

text \<open>What reading one entry of an archive gives; \<open>AssetUnread\<close> carries the size of the entry.\<close>

datatype asset_read = AssetBytes "u8 list" | AssetUnopened | AssetTooLarge | AssetUnread nat

text \<open>
  \<open>lib_load\<close> is the constructor \<open>MapFile(path)\<close> on the bytes of the file, \<open>None\<close> when the map is
  empty; \<open>lib_entries\<close> enumerates an archive, \<open>None\<close> when it does not open; \<open>lib_open_asset\<close> opens and reads one entry; \<open>lib_asset\<close> is
  \<open>getMpqAsset\<close> of a reopened map; \<open>lib_save\<close> is \<open>save\<close> with the pending asset changes, giving its
  result and the bytes at the path; \<open>lib_serialize\<close> is \<open>Scenario::serialize\<close>; \<open>lib_stage_asset\<close> says
  whether the temporary archive takes an asset; \<open>lib_read\<close> says how the stream that hashes the file at
  a path fares.
\<close>

record asset_change =
  ac_path :: string
  ac_bytes :: "u8 list option"

record map_file =
  mf_scenario :: scenario
  mf_modified :: "asset_change list"

record archive_lib =
  lib_load :: "u8 list \<Rightarrow> scenario option"
  lib_entries :: "u8 list \<Rightarrow> (string \<times> asset_read) list option"
  lib_open_asset :: "u8 list \<Rightarrow> string \<Rightarrow> asset_read"
  lib_asset :: "u8 list \<Rightarrow> string \<Rightarrow> u8 list option"
  lib_save :: "u8 list \<Rightarrow> map_file \<Rightarrow> bool \<times> u8 list option"
  lib_serialize :: "scenario \<Rightarrow> u8 list"
  lib_stage_asset :: "string \<Rightarrow> u8 list \<Rightarrow> bool"
  lib_read :: "string \<Rightarrow> u8 list \<Rightarrow> file_read"
  lib_replace_ok :: bool
  lib_copy_ok :: bool
  lib_temp_suffix :: string
  lib_junk :: "nat \<Rightarrow> u8"
  lib_store :: "u8 list"

text \<open>Computations that read and change the file system and may throw.\<close>

type_synonym 'a io = "file_system \<Rightarrow> 'a result \<times> file_system"

definition io_return :: "'a result \<Rightarrow> 'a io" where
  "io_return r fs = (r, fs)"

definition io_bind :: "'a io \<Rightarrow> ('a \<Rightarrow> 'b io) \<Rightarrow> 'b io" where
  "io_bind m f fs = (case fst (m fs) of Inl e \<Rightarrow> (Inl e, snd (m fs)) | Inr x \<Rightarrow> f x (snd (m fs)))"

definition io_check :: "bool \<Rightarrow> string \<Rightarrow> (unit \<Rightarrow> 'b io) \<Rightarrow> 'b io" where
  "io_check bad message f = (if bad then io_return (fail message) else f ())"

definition io_get :: "(file_system \<Rightarrow> 'a result) \<Rightarrow> 'a io" where
  "io_get g fs = (g fs, fs)"

definition io_set :: "(file_system \<Rightarrow> file_system) \<Rightarrow> unit io" where
  "io_set g fs = (Inr (), g fs)"

text \<open>\<open>catch (...)\<close> with a cleanup that throws again.\<close>

definition io_guard :: "'a io \<Rightarrow> (file_system \<Rightarrow> file_system) \<Rightarrow> 'a io" where
  "io_guard m cleanup fs =
     (case fst (m fs) of Inl e \<Rightarrow> (Inl e, cleanup (snd (m fs))) | Inr x \<Rightarrow> (Inr x, snd (m fs)))"

definition delete_file :: "string \<Rightarrow> file_system \<Rightarrow> file_system" where
  "delete_file path fs = fs(path := None)"

definition file_exists :: "string \<Rightarrow> file_system \<Rightarrow> bool" where
  "file_exists path fs \<longleftrightarrow> fs path \<noteq> None"

definition replace_file :: "archive_lib \<Rightarrow> string \<Rightarrow> string \<Rightarrow> bool io" where
  "replace_file lib source target fs =
     (if lib_replace_ok lib \<and> fs source \<noteq> None
      then (Inr True, fs(target := fs source, source := None)) else (Inr False, fs))"

definition copy_file_no_overwrite :: "archive_lib \<Rightarrow> string \<Rightarrow> string \<Rightarrow> bool io" where
  "copy_file_no_overwrite lib source target fs =
     (if lib_copy_ok lib \<and> fs source \<noteq> None \<and> fs target = None
      then (Inr True, fs(target := fs source)) else (Inr False, fs))"

definition temporary_output_path :: "archive_lib \<Rightarrow> string \<Rightarrow> string" where
  "temporary_output_path lib output = output @ ''.native-'' @ lib_temp_suffix lib @ ''.tmp''"

definition opened_file :: "archive_lib \<Rightarrow> file_system \<Rightarrow> string \<Rightarrow> input_file" where
  "opened_file lib fs path =
     (case fs path of
        None \<Rightarrow> None
      | Some bs \<Rightarrow>
          (case lib_read lib path bs of
             ReadWhole \<Rightarrow> Some (bs, True)
           | NotOpened \<Rightarrow> None
           | ReadBroken n \<Rightarrow> Some (take n bs, False)))"

definition file_sha256 :: "archive_lib \<Rightarrow> string \<Rightarrow> string io" where
  "file_sha256 lib path =
     io_get (\<lambda>fs. read_file_sha256 (lib_junk lib) (lib_store lib) (opened_file lib fs) path)"

definition lib_sha256 :: "archive_lib \<Rightarrow> u8 list \<Rightarrow> string" where
  "lib_sha256 lib bs = sha256_bytes (lib_junk lib) (lib_store lib) bs"

definition load_map :: "archive_lib \<Rightarrow> string \<Rightarrow> string \<Rightarrow> scenario io" where
  "load_map lib path message =
     io_get (\<lambda>fs. case fs path of None \<Rightarrow> fail message
       | Some bs \<Rightarrow> (case lib_load lib bs of None \<Rightarrow> fail message | Some m \<Rightarrow> Inr m))"

section \<open>Inventories\<close>

fun inventory_entries :: "archive_lib \<Rightarrow> inventory \<Rightarrow> (string \<times> asset_read) list \<Rightarrow> inventory result" where
  "inventory_entries lib acc [] = Inr acc"
| "inventory_entries lib acc ((name, a) # es) =
     (if ignored_mpq_asset name then inventory_entries lib acc es
      else case a of
             AssetUnopened \<Rightarrow> fail (''cannot open MPQ asset: '' @ name)
           | AssetTooLarge \<Rightarrow> fail (''MPQ asset is too large: '' @ name)
           | AssetUnread _ \<Rightarrow> fail (''cannot read MPQ asset: '' @ name)
           | AssetBytes bs \<Rightarrow>
               inventory_entries lib (map_assign (lower_ascii name) (lib_sha256 lib bs) acc) es)"

definition inventory_mpq :: "archive_lib \<Rightarrow> string \<Rightarrow> inventory io" where
  "inventory_mpq lib path =
     io_get (\<lambda>fs. case Option.bind (fs path) (lib_entries lib) of
        None \<Rightarrow> fail (''cannot open MPQ inventory: '' @ path)
      | Some es \<Rightarrow> inventory_entries lib [] es)"

definition assets_digest :: "archive_lib \<Rightarrow> inventory \<Rightarrow> string" where
  "assets_digest lib assets = inventory_digest (lib_junk lib) (lib_store lib) assets"

section \<open>Strings and WAV slots\<close>

definition snapshot_game_strings :: "scenario \<Rightarrow> string option list" where
  "snapshot_game_strings m = map (\<lambda>i. get_string i m) [0..<length (sc_strings m)]"

definition verify_existing_game_strings :: "string option list \<Rightarrow> scenario \<Rightarrow> nat \<Rightarrow> unit result" where
  "verify_existing_game_strings before m allowed =
     (if length (sc_strings m) < length before
      then fail ''sound import removed existing game string ids''
      else if \<exists>i \<in> set [0..<length before]. i \<noteq> allowed \<and> get_string i m \<noteq> before ! i
      then fail ''sound import changed an existing game string id or bytes''
      else Inr ())"

definition snapshot_sound_slots :: "scenario \<Rightarrow> u32 list" where
  "snapshot_sound_slots m = map (\<lambda>i. sc_sound_paths m ! i) [0..<total_sounds]"

definition sound_slot_for_string :: "u32 list \<Rightarrow> nat \<Rightarrow> nat \<times> nat" where
  "sound_slot_for_string slots s =
     (case List.find (\<lambda>i. unat (slots ! i) = s) [0..<length slots] of
        None \<Rightarrow> (total_sounds, 0)
      | Some i \<Rightarrow> (i, length (filter (\<lambda>w. unat w = s) slots)))"

definition first_free_sound_slot :: "u32 list \<Rightarrow> nat" where
  "first_free_sound_slot slots =
     (case List.find (\<lambda>i. slots ! i = 0) [0..<length slots] of None \<Rightarrow> total_sounds | Some i \<Rightarrow> i)"

definition verify_sound_slots :: "u32 list \<Rightarrow> u32 list \<Rightarrow> nat \<Rightarrow> nat \<Rightarrow> bool \<Rightarrow> unit result" where
  "verify_sound_slots before after sound_index string_id reused =
     (if \<exists>i \<in> set [0..<length before].
           after ! i \<noteq> (if \<not> reused \<and> i = sound_index then of_nat string_id else before ! i)
      then fail ''sound import changed an unrelated WAV slot or slot order''
      else Inr ())"

section \<open>The CHK sections a sound operation must not touch\<close>

definition le_u32 :: "u8 list \<Rightarrow> u32" where
  "le_u32 bs = ucast (bs ! 0) OR push_bit 8 (ucast (bs ! 1)) OR push_bit 16 (ucast (bs ! 2))
     OR push_bit 24 (ucast (bs ! 3))"

definition mutable_sound_section :: "u8 list \<Rightarrow> bool" where
  "mutable_sound_section name \<longleftrightarrow> name \<in> {bytes_of ''STR '', bytes_of ''STRx'', bytes_of ''WAV ''}"

definition section_chunks :: "u8 list \<Rightarrow> u8 list \<Rightarrow> u8 list \<Rightarrow> u8 list list" where
  "section_chunks name size_bytes contents =
     (if mutable_sound_section name then []
      else [name, size_bytes] @ (if contents = [] then [] else [contents]))"

function unrelated_chunks :: "u8 list \<Rightarrow> u8 list list result" where
  "unrelated_chunks rest =
     (if length rest < 8
      then Inr (if rest = [] then [] else [bytes_of ''TAIL'', rest])
      else let name = take 4 rest; size_bytes = take 4 (drop 4 rest); signed_size = sint (le_u32 size_bytes)
           in if signed_size < 0 then fail ''serialized CHK contains a negative section size''
              else if length rest - 8 < nat signed_size
                   then fail ''serialized CHK section is truncated''
              else bindE (unrelated_chunks (drop (8 + nat signed_size) rest)) (\<lambda>chunks.
                     Inr (section_chunks name size_bytes (take (nat signed_size) (drop 8 rest)) @ chunks)))"
  by pat_completeness auto
termination by (relation "measure length") auto

declare unrelated_chunks.simps [simp del]

definition chk_header_bytes :: nat where
  "chk_header_bytes = 4 + 8"

definition unrelated_chk_digest :: "archive_lib \<Rightarrow> scenario \<Rightarrow> string result" where
  "unrelated_chk_digest lib m =
     (let serialized = lib_serialize lib m
      in if length serialized < chk_header_bytes then fail ''serialized CHK is truncated''
         else bindE (unrelated_chunks (drop chk_header_bytes serialized)) (\<lambda>chunks.
                Inr (fst (get_hash (lib_junk lib) (foldl sha_add (new_sha (lib_store lib)) chunks)))))"

section \<open>Changing a map in memory\<close>

definition add_mpq_asset :: "archive_lib \<Rightarrow> string \<Rightarrow> u8 list \<Rightarrow> map_file \<Rightarrow> map_file option" where
  "add_mpq_asset lib path bytes m =
     (if lib_stage_asset lib path bytes
      then Some (m\<lparr>mf_modified := mf_modified m @ [\<lparr>ac_path = path, ac_bytes = Some bytes\<rparr>]\<rparr>)
      else None)"

text \<open>An asset added since the last save is unscheduled; one already scheduled for removal stays so.\<close>

fun unschedule :: "string \<Rightarrow> asset_change list \<Rightarrow> asset_change list option" where
  "unschedule path [] = None"
| "unschedule path (c # cs) =
     (if ac_path c \<noteq> path then map_option (Cons c) (unschedule path cs)
      else if ac_bytes c = None then Some (c # cs) else Some cs)"

definition remove_mpq_asset :: "string \<Rightarrow> map_file \<Rightarrow> map_file" where
  "remove_mpq_asset path m =
     m\<lparr>mf_modified := (case unschedule path (mf_modified m) of
        Some cs \<Rightarrow> cs | None \<Rightarrow> mf_modified m @ [\<lparr>ac_path = path, ac_bytes = None\<rparr>])\<rparr>"

text \<open>
  \<open>addSound\<close> with \<open>preserveExistingStrings\<close>: the path takes the id it is stored under, else the first
  slot without a string, else a new slot at the end. The result is the map and, on success, the string
  id and the WAV slot.
\<close>

definition free_string_slot :: "scenario \<Rightarrow> (nat \<times> scenario) option result" where
  "free_string_slot m =
     (case List.find (\<lambda>i. sc_strings m ! i = None) [1..<length (sc_strings m)] of
        Some i \<Rightarrow> Inr (Some (i, m))
      | None \<Rightarrow>
          if max_strings \<le> length (sc_strings m) then Inr None
          else bindE (set_capacity (length (sc_strings m) + 1) False m) (\<lambda>n.
                 Inr (Some (length (sc_strings n) - 1, n))))"

definition place_sound_string :: "string \<Rightarrow> scenario \<Rightarrow> (nat \<times> scenario \<times> bool) option result" where
  "place_sound_string path m =
     (let found = find_string path m
      in if found \<noteq> 0 then Inr (Some (found, m, False))
         else bindE (free_string_slot m) (\<lambda>place.
           Inr (map_option (\<lambda>(i, n). (i, n\<lparr>sc_strings := (sc_strings n)[i := Some path]\<rparr>, True)) place)))"

definition map_add_sound ::
    "archive_lib \<Rightarrow> string \<Rightarrow> u8 list \<Rightarrow> map_file \<Rightarrow> (map_file \<times> (nat \<times> nat) option) result" where
  "map_add_sound lib path bytes m =
     (case add_mpq_asset lib path bytes m of
        None \<Rightarrow> Inr (m, None)
      | Some m \<Rightarrow>
          bindE (place_sound_string path (mf_scenario m)) (\<lambda>place.
          case place of
            None \<Rightarrow> Inr (remove_mpq_asset path m, None)
          | Some (i, sc, created) \<Rightarrow>
              let added = add_sound i sc
              in if fst added = total_sounds
                 then Inr (remove_mpq_asset path (m\<lparr>mf_scenario :=
                        (if created then sc\<lparr>sc_strings := (sc_strings sc)[i := None]\<rparr> else sc)\<rparr>), None)
                 else Inr (m\<lparr>mf_scenario := snd added\<rparr>, Some (i, fst added))))"

text \<open>\<open>removeSoundBySoundIndex\<close>; its second parameter is not used.\<close>

definition map_remove_sound :: "nat \<Rightarrow> map_file \<Rightarrow> (map_file \<times> bool) result" where
  "map_remove_sound sound_index m =
     bindE (get_sound_string_id sound_index (mf_scenario m)) (\<lambda>s.
       if s = 0 then Inr (m, False)
       else let path = get_string s (mf_scenario m);
                sc = set_sound_string_id sound_index 0 (mf_scenario m)
            in case path of
                 None \<Rightarrow> Inr (m\<lparr>mf_scenario := sc\<rparr>, True)
               | Some p \<Rightarrow> Inr (remove_mpq_asset p (m\<lparr>mf_scenario := delete_string s True sc\<rparr>), True))"

section \<open>The steps the operations share\<close>

text \<open>The checks of the two paths, the expected digest and the current state of the files.\<close>

definition check_paths :: "string \<Rightarrow> string \<Rightarrow> (unit \<Rightarrow> 'a io) \<Rightarrow> 'a io" where
  "check_paths input output f =
     io_check (lower_ascii input = lower_ascii output)
       ''map sound input and output paths must differ'' f"

definition open_input :: "archive_lib \<Rightarrow> string \<Rightarrow> string \<Rightarrow> string \<Rightarrow> scenario io" where
  "open_input lib input expected message =
     io_bind (file_sha256 lib input) (\<lambda>hash.
     io_check (hash \<noteq> expected) ''input map SHA-256 is stale'' (\<lambda>_.
     load_map lib input message))"

definition check_output_free :: "string \<Rightarrow> unit io" where
  "check_output_free output =
     io_get (\<lambda>fs. if file_exists output fs then fail ''map sound output path must not already exist'' else Inr ())"

definition save_staged :: "archive_lib \<Rightarrow> string \<Rightarrow> string \<Rightarrow> map_file \<Rightarrow> string \<Rightarrow> unit io" where
  "save_staged lib input temporary m message =
     io_bind (io_get (\<lambda>fs. Inr (lib_save lib (case fs input of Some bs \<Rightarrow> bs | None \<Rightarrow> []) m))) (\<lambda>saved.
     io_bind (io_set (\<lambda>fs. fs(temporary := snd saved))) (\<lambda>_.
     io_check (\<not> fst saved) message (\<lambda>_. io_return (Inr ()))))"

definition promote :: "archive_lib \<Rightarrow> string \<Rightarrow> string \<Rightarrow> string \<Rightarrow> string io" where
  "promote lib temporary output what =
     io_bind (file_sha256 lib temporary) (\<lambda>staged.
     io_bind (replace_file lib temporary output) (\<lambda>ok.
     io_check (\<not> ok) (''cannot promote verified sound '' @ what @ '' output'') (\<lambda>_.
     io_bind (file_sha256 lib output) (\<lambda>hash.
       if hash \<noteq> staged
       then io_bind (io_set (delete_file output)) (\<lambda>_.
              io_return (fail (''promoted sound '' @ what @ '' output hash changed'')))
       else io_return (Inr hash)))))"

text \<open>
  The temporary file is written, read back and checked, and renamed; any error on the way deletes it
  and the output.
\<close>

definition cleanup :: "string \<Rightarrow> string \<Rightarrow> file_system \<Rightarrow> file_system" where
  "cleanup temporary output fs = delete_file output (delete_file temporary fs)"

definition transact ::
    "archive_lib \<Rightarrow> string \<Rightarrow> string \<Rightarrow> string \<Rightarrow> 'a io \<Rightarrow> ('a \<Rightarrow> 'b io) \<Rightarrow>
       ('a \<Rightarrow> 'b \<Rightarrow> string \<Rightarrow> string) \<Rightarrow> string io" where
  "transact lib temporary output what stage verify report =
     io_bind (io_set (delete_file temporary)) (\<lambda>_.
     io_guard
       (io_bind stage (\<lambda>x.
        io_bind (verify x) (\<lambda>y.
        io_bind (promote lib temporary output what) (\<lambda>output_hash.
        io_return (Inr (report x y output_hash))))))
       (cleanup temporary output))"

definition stage_copy :: "archive_lib \<Rightarrow> string \<Rightarrow> string \<Rightarrow> 'a \<Rightarrow> 'a io" where
  "stage_copy lib input temporary x =
     io_bind (copy_file_no_overwrite lib input temporary) (\<lambda>ok.
     io_check (\<not> ok) ''cannot stage idempotent sound output'' (\<lambda>_. io_return (Inr x)))"

definition ogg_magic :: "u8 list" where
  "ogg_magic = bytes_of ''OggS''"

definition reopened_asset :: "archive_lib \<Rightarrow> string \<Rightarrow> string \<Rightarrow> u8 list option io" where
  "reopened_asset lib path name =
     io_get (\<lambda>fs. Inr (Option.bind (fs path) (\<lambda>bs. lib_asset lib bs name)))"

text \<open>What an operation remembers of the input map.\<close>

record sound_before =
  sb_map :: scenario
  sb_assets :: inventory
  sb_strings :: "string option list"
  sb_slots :: "u32 list"
  sb_chk :: string

definition observe :: "archive_lib \<Rightarrow> string \<Rightarrow> scenario \<Rightarrow> sound_before io" where
  "observe lib input m =
     io_bind (inventory_mpq lib input) (\<lambda>assets.
     io_bind (io_return (unrelated_chk_digest lib m)) (\<lambda>chk.
     io_return (Inr \<lparr>sb_map = m, sb_assets = assets, sb_strings = snapshot_game_strings m,
       sb_slots = snapshot_sound_slots m, sb_chk = chk\<rparr>)))"

text \<open>Whether a path is registered: wholly (with its slot and string id), not at all, or in part.\<close>

definition reuse_state :: "sound_before \<Rightarrow> string \<Rightarrow> string \<Rightarrow> string \<Rightarrow> (bool \<times> nat \<times> nat) result" where
  "reuse_state b destination hash ending =
     (let asset = map_of (sb_assets b) destination;
          string_id = find_string destination (sb_map b);
          sound = (if string_id \<noteq> 0 then sound_slot_for_string (sb_slots b) string_id else (total_sounds, 0));
          reused = (asset \<noteq> None \<and> string_id \<noteq> 0 \<and> snd sound = 1)
      in if asset \<noteq> None \<and> asset \<noteq> Some hash
         then fail (''existing MPQ path contains different bytes'' @ ending)
         else if (asset \<noteq> None \<or> string_id \<noteq> 0 \<or> snd sound \<noteq> 0) \<and> \<not> reused
         then fail (''managed sound path has an inconsistent MPQ/string/WAV partial state'' @ ending)
         else Inr (reused, fst sound, string_id))"

definition file_report :: "string \<Rightarrow> string \<Rightarrow> string \<Rightarrow> string \<Rightarrow> string \<Rightarrow> string \<Rightarrow> (string \<times> json) list" where
  "file_report input_hash output_hash chk_before chk_after assets_before assets_after =
     [(''inputSha256'', JStr input_hash), (''outputSha256'', JStr output_hash),
      (''unrelatedChkDigestBefore'', JStr chk_before), (''unrelatedChkDigestAfter'', JStr chk_after),
      (''unrelatedAssetDigestBefore'', JStr assets_before),
      (''unrelatedAssetDigestAfter'', JStr assets_after)]"

section \<open>Adding one sound\<close>

definition stage_added :: "archive_lib \<Rightarrow> string \<Rightarrow> string \<Rightarrow> sound_before \<Rightarrow> string \<Rightarrow> u8 list \<Rightarrow> (nat \<times> nat) io" where
  "stage_added lib input temporary b destination ogg =
     (let index = first_free_sound_slot (sb_slots b)
      in io_check (index = total_sounds) ''all 512 WAV slots are in use'' (\<lambda>_.
         io_bind (io_return (map_add_sound lib destination ogg \<lparr>mf_scenario = sb_map b, mf_modified = []\<rparr>)) (\<lambda>r.
         case snd r of
           None \<Rightarrow> io_return (fail ''MappingCore MapFile::addSound failed'')
         | Some (string_id, added_index) \<Rightarrow>
             let n = mf_scenario (fst r); slots = snapshot_sound_slots n
             in io_check (added_index \<noteq> index) ''MappingCore added sound at an unexpected WAV slot'' (\<lambda>_.
                io_check (string_id = 0) ''sound game string was not added'' (\<lambda>_.
                io_check (sound_slot_for_string slots string_id \<noteq> (index, 1))
                  ''sound WAV slot was not added exactly once'' (\<lambda>_.
                io_bind (io_return (verify_sound_slots (sb_slots b) slots index string_id False)) (\<lambda>_.
                io_bind (io_return (verify_existing_game_strings (sb_strings b) n string_id)) (\<lambda>_.
                io_bind (io_return (unrelated_chk_digest lib n)) (\<lambda>chk.
                io_check (chk \<noteq> sb_chk b) ''sound mutation changed an unrelated CHK section'' (\<lambda>_.
                io_bind (save_staged lib input temporary (fst r) ''sound map temporary save failed'') (\<lambda>_.
                io_return (Inr (index, string_id)))))))))))))"

definition verify_added ::
    "archive_lib \<Rightarrow> string \<Rightarrow> sound_before \<Rightarrow> string \<Rightarrow> u8 list \<Rightarrow> bool \<Rightarrow> nat \<Rightarrow> nat \<Rightarrow> (inventory \<times> string) io" where
  "verify_added lib temporary b destination ogg reused index string_id =
     (let hash = lib_sha256 lib ogg
      in io_bind (load_map lib temporary ''sound map temporary output could not be reopened'') (\<lambda>reopened.
         io_bind (inventory_mpq lib temporary) (\<lambda>after_assets.
         io_check (after_assets \<noteq> (if reused then sb_assets b else map_emplace destination hash (sb_assets b)))
           ''sound import MPQ delta is not exactly the requested OGG'' (\<lambda>_.
         io_bind (reopened_asset lib temporary destination) (\<lambda>extracted.
         io_check (case extracted of None \<Rightarrow> True | Some bs \<Rightarrow> lib_sha256 lib bs \<noteq> hash \<or> length bs \<noteq> length ogg)
           ''saved MPQ sound bytes failed exact verification'' (\<lambda>_.
         io_check (find_string destination reopened \<noteq> string_id) ''saved sound game string id changed'' (\<lambda>_.
         let slots = snapshot_sound_slots reopened
         in io_check (sound_slot_for_string slots string_id \<noteq> (index, 1))
              ''saved sound WAV slot verification failed'' (\<lambda>_.
            io_bind (io_return (verify_sound_slots (sb_slots b) slots index string_id reused)) (\<lambda>_.
            io_bind (io_return (verify_existing_game_strings (sb_strings b) reopened string_id)) (\<lambda>_.
            io_bind (io_return (unrelated_chk_digest lib reopened)) (\<lambda>chk.
            io_check (chk \<noteq> sb_chk b) ''saved sound map changed an unrelated CHK section'' (\<lambda>_.
            io_check (assets_digest lib (if reused then after_assets else sb_assets b) \<noteq> assets_digest lib (sb_assets b))
              ''saved sound map changed an unrelated MPQ asset'' (\<lambda>_.
            io_return (Inr (after_assets, chk)))))))))))))))"

definition map_sound_add ::
    "archive_lib \<Rightarrow> string \<Rightarrow> string \<Rightarrow> string \<Rightarrow> string \<Rightarrow> u8 list \<Rightarrow> string io" where
  "map_sound_add lib input output expected destination ogg =
     io_check (input = [] \<or> output = [] \<or> ogg = [] \<or> max_managed_ogg_bytes < length ogg)
       ''map sound add received an invalid argument'' (\<lambda>_.
     check_paths input output (\<lambda>_.
     io_check (\<not> valid_map_container_path input \<or> \<not> valid_map_container_path output)
       ''map sound add accepts only SCX/SCM containers'' (\<lambda>_.
     io_check (\<not> exact_lower_hex expected 64) ''expected input SHA-256 must be exact lowercase hex'' (\<lambda>_.
     io_check (\<not> valid_managed_sound_path destination)
       ''destination MPQ path is not an exact managed sound path'' (\<lambda>_.
     io_check (length ogg < 4 \<or> take 4 ogg \<noteq> ogg_magic) ''map sound bytes are not OGG'' (\<lambda>_.
     io_bind (check_output_free output) (\<lambda>_.
     io_bind (open_input lib input expected ''cannot load input map for sound import'') (\<lambda>m.
     io_bind (observe lib input m) (\<lambda>b.
     let hash = lib_sha256 lib ogg; temporary = temporary_output_path lib output
     in io_bind (io_return (reuse_state b destination hash [])) (\<lambda>state.
        transact lib temporary output ''map''
          (if fst state then stage_copy lib input temporary (snd state)
           else stage_added lib input temporary b destination ogg)
          (\<lambda>placed. verify_added lib temporary b destination ogg (fst state) (fst placed) (snd placed))
          (\<lambda>placed after output_hash.
             serialize_json (JObj (map_init ([(''schema'', JStr ''eud-map-sound-add-report/1''),
               (''ok'', JBool True), (''reused'', JBool (fst state)),
               (''soundIndex'', json_size (fst placed)), (''soundStringId'', json_size (snd placed)),
               (''mpqPath'', JStr destination), (''assetSha256'', JStr hash),
               (''assetBytes'', json_size (length ogg))] @
               file_report expected output_hash (sb_chk b) (snd after)
                 (assets_digest lib (sb_assets b))
                 (assets_digest lib (if fst state then fst after else sb_assets b))))))))))))))))"

end
