(* ===== verification/AgentObjects.thy ===== *)
theory AgentObjects
  imports AgentSound IsomPlace
begin

text \<open>
  The helpers of \<open>mapEdit\<close> in \<open>IsomTerrain/MapAgentCore.cpp\<close> on one object of a map: tile graphics,
  exact tiles, doodad footprints and overlays, the fingerprints of units, sprites and doodads, and the
  reading of their states from JSON.

  The game data are the record \<open>edit_assets\<close>: what \<open>loadAssets\<close> has read from the archives.
\<close>

section \<open>Game data\<close>

text \<open>
  Of the tiles of a tileset: the sixteen \<open>megaTileIndex\<close> of each group, the sixteen \<open>graphics\<close> of each
  mega tile row by row, and how many \<open>tileFlags\<close> and \<open>miniTilePixels\<close> there are.
\<close>

record terrain_tiles =
  tt_groups :: "u16 list list"
  tt_graphics :: "u32 list list"
  tt_flags :: nat
  tt_pixels :: nat

record doodad_record =
  dr_index :: u16
  dr_flags :: u8
  dr_overlay_index :: u16
  dr_name :: u16
  dr_data_index :: u16
  dr_width :: u16
  dr_height :: u16

type_synonym doodad_starts = "(u16, u16) std_map"

record edit_assets =
  ea_isom :: "nat \<Rightarrow> tileset_data"
  ea_terrain :: "nat \<Rightarrow> terrain_tiles"
  ea_doodads :: "nat \<Rightarrow> doodad_record list"

definition num_tilesets :: nat where
  "num_tilesets = 8"

definition max_tile_groups :: nat where
  "max_tile_groups = 1024"

text \<open>Tilesets are taken modulo their number.\<close>

definition isom_of :: "edit_assets \<Rightarrow> nat \<Rightarrow> tileset_data" where
  "isom_of a tileset = ea_isom a (tileset mod num_tilesets)"

definition terrain_of :: "edit_assets \<Rightarrow> nat \<Rightarrow> terrain_tiles" where
  "terrain_of a tileset = ea_terrain a (tileset mod num_tilesets)"

definition doodads_of :: "edit_assets \<Rightarrow> nat \<Rightarrow> doodad_record list" where
  "doodads_of a tileset = ea_doodads a (tileset mod num_tilesets)"

text \<open>The first row of each doodad: the first named entry that carries its id.\<close>

fun doodad_starts_from :: "nat \<Rightarrow> doodad_record list \<Rightarrow> doodad_starts \<Rightarrow> doodad_starts" where
  "doodad_starts_from row [] starts = starts"
| "doodad_starts_from row (d # ds) starts =
     (if dr_index d \<noteq> 1 \<or> dr_name d = 0 then doodad_starts_from (Suc row) ds starts
      else if 0xFFFF < max_tile_groups + row then starts
      else doodad_starts_from (Suc row) ds
             (map_emplace (dr_data_index d) (of_nat (max_tile_groups + row)) starts))"

definition doodad_starts_of :: "edit_assets \<Rightarrow> nat \<Rightarrow> doodad_starts" where
  "doodad_starts_of a tileset = doodad_starts_from 0 (doodads_of a tileset) []"

section \<open>Tiles\<close>

definition vr4_index :: "u32 \<Rightarrow> nat" where
  "vr4_index g = unat (drop_bit 1 (g AND 0xFFFFFFFE))"

definition tile_graphics_valid :: "terrain_tiles \<Rightarrow> u16 \<Rightarrow> bool" where
  "tile_graphics_valid t tile \<longleftrightarrow>
     (let grp = unat tile div 16
      in grp < length (tt_groups t) \<and>
         (let mega = unat (tt_groups t ! grp ! (unat tile mod 16))
          in mega < length (tt_graphics t) \<and> mega < tt_flags t \<and>
             list_all (\<lambda>i. vr4_index (tt_graphics t ! mega ! i) < tt_pixels t) [0..<16]))"

definition set_exact_tile :: "nat \<Rightarrow> nat \<Rightarrow> u16 \<Rightarrow> scenario \<Rightarrow> scenario result" where
  "set_exact_tile x y tile m =
     (let expected = tile_width m * tile_height m
      in if tile_width m \<le> x \<or> tile_height m \<le> y then fail ''terrain coordinate is outside map bounds''
         else if length (sc_tiles m) \<noteq> expected then fail ''MTXM size does not match DIM''
         else let editor = (if length (sc_editor_tiles m) \<noteq> expected then sc_tiles m else sc_editor_tiles m);
                  i = y * tile_width m + x
              in Inr (m\<lparr>sc_tiles := (sc_tiles m)[i := tile], sc_editor_tiles := editor[i := tile]\<rparr>))"

definition count_tile_changes :: "u16 list \<Rightarrow> u16 list \<Rightarrow> nat" where
  "count_tile_changes xs ys = length (filter (\<lambda>(x, y). x \<noteq> y) (zip xs ys))"

section \<open>Doodads\<close>

record doodad_shape =
  ds_id :: u16
  ds_start_group :: nat
  ds_record :: doodad_record

definition shape_width :: "doodad_shape \<Rightarrow> nat" where
  "shape_width s = unat (dr_width (ds_record s))"

definition shape_height :: "doodad_shape \<Rightarrow> nat" where
  "shape_height s = unat (dr_height (ds_record s))"

definition resolve_doodad :: "edit_assets \<Rightarrow> nat \<Rightarrow> u16 \<Rightarrow> string \<Rightarrow> doodad_shape result" where
  "resolve_doodad a tileset i ctx =
     (case map_of (doodad_starts_of a tileset) i of
        None \<Rightarrow> fail (ctx @ '': doodad id is not valid for this tileset'')
      | Some grp \<Rightarrow>
          let start = unat grp; row = size_sub start max_tile_groups; ds = doodads_of a tileset
          in if length ds \<le> row then fail (ctx @ '': doodad id is not valid for this tileset'')
             else let r = ds ! row
                  in if dr_width r = 0 \<or> dr_height r = 0 \<or> 16 < dr_width r \<or> 16 < dr_height r \<or>
                        length (tt_groups (terrain_of a tileset)) < start + unat (dr_height r)
                     then fail (ctx @ '': doodad footprint is invalid'')
                     else Inr \<lparr>ds_id = i, ds_start_group = start, ds_record = r\<rparr>)"

definition doodad_cell_tile :: "terrain_tiles \<Rightarrow> doodad_shape \<Rightarrow> nat \<Rightarrow> nat \<Rightarrow> u16" where
  "doodad_cell_tile t s x y =
     (let grp = ds_start_group s + y
      in if 16 \<le> x \<or> length (tt_groups t) \<le> grp \<or> tt_groups t ! grp ! x = 0 then 0
         else of_nat (grp * 16 + x))"

definition doodad_footprint_origin ::
    "scenario \<Rightarrow> chk_doodad \<Rightarrow> doodad_shape \<Rightarrow> string \<Rightarrow> (nat \<times> nat) result" where
  "doodad_footprint_origin m d s ctx =
     (let left = int (unat (dd_x d) div 32) - int (shape_width s div 2);
          top_row = int (unat (dd_y d) div 32) - int (shape_height s div 2)
      in if left < 0 \<or> top_row < 0 \<or> int (tile_width m) < left + int (shape_width s) \<or>
            int (tile_height m) < top_row + int (shape_height s)
         then fail (ctx @ '': doodad footprint is outside map bounds'')
         else Inr (nat left, nat top_row))"

text \<open>The cells of a footprint, row by row.\<close>

definition shape_cells :: "doodad_shape \<Rightarrow> (nat \<times> nat) list" where
  "shape_cells s = List.product [0..<shape_height s] [0..<shape_width s]"

definition apply_cell ::
    "terrain_tiles \<Rightarrow> doodad_shape \<Rightarrow> nat \<times> nat \<Rightarrow> string \<Rightarrow> scenario \<Rightarrow> nat \<times> nat \<Rightarrow> scenario result" where
  "apply_cell t s origin ctx m = (\<lambda>(y, x).
     let tile = doodad_cell_tile t s x y
     in if tile = 0 then Inr m
        else if \<not> tile_graphics_valid t tile then fail (ctx @ '': doodad references invalid graphics'')
        else bindE (vec_set (sc_tiles m) ((snd origin + y) * tile_width m + fst origin + x) tile) (\<lambda>ts.
               Inr (m\<lparr>sc_tiles := ts\<rparr>)))"

definition apply_doodad_footprint ::
    "chk_doodad \<Rightarrow> edit_assets \<Rightarrow> string \<Rightarrow> scenario \<Rightarrow> scenario result" where
  "apply_doodad_footprint d a ctx m =
     bindE (resolve_doodad a (sc_tileset m) (dd_type d) ctx) (\<lambda>s.
     bindE (doodad_footprint_origin m d s ctx) (\<lambda>origin.
       if length (sc_tiles m) \<noteq> tile_width m * tile_height m
       then fail (ctx @ '': MTXM size does not match DIM'')
       else let m = (if length (sc_editor_tiles m) \<noteq> length (sc_tiles m)
                     then m\<lparr>sc_editor_tiles := sc_tiles m\<rparr> else m)
            in foldE (apply_cell (terrain_of a (sc_tileset m)) s origin ctx) m (shape_cells s)))"

definition replace_cell ::
    "terrain_tiles \<Rightarrow> doodad_shape \<Rightarrow> nat \<times> nat \<Rightarrow> string \<Rightarrow> nat \<Rightarrow> scenario \<Rightarrow> nat \<times> json \<Rightarrow> scenario result" where
  "replace_cell t s origin ctx y m = (\<lambda>(x, v).
     bindE (size_value v (ctx @ ''.replacementTiles[][]'') False) (\<lambda>n.
       if 0xFFFF < n \<or> \<not> tile_graphics_valid t (of_nat n)
       then fail (ctx @ '': replacementTiles contains invalid tile graphics'')
       else if doodad_cell_tile t s x y = 0 then Inr m
       else set_exact_tile (fst origin + x) (snd origin + y) (of_nat n) m))"

definition replace_row ::
    "terrain_tiles \<Rightarrow> doodad_shape \<Rightarrow> nat \<times> nat \<Rightarrow> string \<Rightarrow> scenario \<Rightarrow> nat \<times> json \<Rightarrow> scenario result" where
  "replace_row t s origin ctx m = (\<lambda>(y, v).
     bindE (array_value v (ctx @ ''.replacementTiles[]'')) (\<lambda>row.
       if length row \<noteq> shape_width s
       then fail (ctx @ '': replacementTiles width must match the old doodad footprint'')
       else foldE (replace_cell t s origin ctx y) m (enumerate 0 row)))"

definition replace_doodad_footprint ::
    "chk_doodad \<Rightarrow> json \<Rightarrow> edit_assets \<Rightarrow> string \<Rightarrow> scenario \<Rightarrow> scenario result" where
  "replace_doodad_footprint d replacement a ctx m =
     bindE (resolve_doodad a (sc_tileset m) (dd_type d) ctx) (\<lambda>s.
     bindE (array_value replacement (ctx @ ''.replacementTiles'')) (\<lambda>rows.
       if length rows \<noteq> shape_height s
       then fail (ctx @ '': replacementTiles height must match the old doodad footprint'')
       else bindE (doodad_footprint_origin m d s (ctx @ '' (old doodad)'')) (\<lambda>origin.
              foldE (replace_row (terrain_of a (sc_tileset m)) s origin ctx) m (enumerate 0 rows))))"

definition total_sprites :: nat where
  "total_sprites = 517"

definition draw_as_sprite :: u16 where
  "draw_as_sprite = 0x1000"

definition doodad_overlay ::
    "scenario \<Rightarrow> chk_doodad \<Rightarrow> edit_assets \<Rightarrow> string \<Rightarrow> chk_sprite option result" where
  "doodad_overlay m d a ctx =
     bindE (resolve_doodad a (sc_tileset m) (dd_type d) ctx) (\<lambda>s.
       let r = ds_record s
       in if dr_flags r AND 0x30 = 0 then Inr None
          else if total_sprites \<le> unat (dr_overlay_index r)
          then fail (ctx @ '': doodad overlay sprite is out of range'')
          else Inr (Some \<lparr>sp_type = dr_overlay_index r, sp_x = dd_x d, sp_y = dd_y d, sp_owner = dd_owner d,
                 sp_unused = 0, sp_flags = (if dr_flags r AND 0x10 \<noteq> 0 then draw_as_sprite else 0)\<rparr>))"

definition add_doodad_overlay :: "chk_doodad \<Rightarrow> edit_assets \<Rightarrow> string \<Rightarrow> scenario \<Rightarrow> scenario result" where
  "add_doodad_overlay d a ctx m =
     bindE (doodad_overlay m d a ctx) (\<lambda>overlay.
       Inr (case overlay of None \<Rightarrow> m | Some s \<Rightarrow> snd (add_sprite s m)))"

definition same_overlay :: "chk_sprite \<Rightarrow> chk_sprite \<Rightarrow> bool" where
  "same_overlay c s \<longleftrightarrow> sp_type c = sp_type s \<and> sp_x c = sp_x s \<and> sp_y c = sp_y s \<and>
     sp_owner c = sp_owner s \<and> sp_flags c = sp_flags s"

text \<open>The last sprite that looks like the overlay is taken for it.\<close>

definition delete_doodad_overlay :: "chk_doodad \<Rightarrow> edit_assets \<Rightarrow> string \<Rightarrow> scenario \<Rightarrow> scenario result" where
  "delete_doodad_overlay d a ctx m =
     bindE (doodad_overlay m d a ctx) (\<lambda>overlay.
       Inr (case overlay of None \<Rightarrow> m
            | Some s \<Rightarrow> (case List.find (\<lambda>i. same_overlay (sc_sprites m ! i) s) (rev [0..<length (sc_sprites m)]) of
                          None \<Rightarrow> m | Some i \<Rightarrow> delete_sprite i m)))"

section \<open>Fingerprints\<close>

text \<open>The digest of the bytes of the packed struct, its fields in little-endian order.\<close>

definition le16 :: "u16 \<Rightarrow> u8 list" where
  "le16 w = [ucast w, ucast (drop_bit 8 w)]"

definition le32 :: "u32 \<Rightarrow> u8 list" where
  "le32 w = [ucast w, ucast (drop_bit 8 w), ucast (drop_bit 16 w), ucast (drop_bit 24 w)]"

definition unit_bytes :: "chk_unit \<Rightarrow> u8 list" where
  "unit_bytes u =
     le32 (un_class_id u) @ le16 (un_x u) @ le16 (un_y u) @ le16 (un_type u) @ le16 (un_relation_flags u) @
     le16 (un_valid_state_flags u) @ le16 (un_valid_field_flags u) @
     [un_owner u, un_hitpoint_percent u, un_shield_percent u, un_energy_percent u] @
     le32 (un_resource_amount u) @ le16 (un_hanger_amount u) @ le16 (un_state_flags u) @
     le32 (un_unused u) @ le32 (un_relation_class_id u)"

definition doodad_bytes :: "chk_doodad \<Rightarrow> u8 list" where
  "doodad_bytes d = le16 (dd_type d) @ le16 (dd_x d) @ le16 (dd_y d) @ [dd_owner d, dd_enabled d]"

definition sprite_bytes :: "chk_sprite \<Rightarrow> u8 list" where
  "sprite_bytes s =
     le16 (sp_type s) @ le16 (sp_x s) @ le16 (sp_y s) @ [sp_owner s, sp_unused s] @ le16 (sp_flags s)"

definition unit_fingerprint :: "archive_lib \<Rightarrow> chk_unit \<Rightarrow> string" where
  "unit_fingerprint lib u = lib_sha256 lib (unit_bytes u)"

definition doodad_fingerprint :: "archive_lib \<Rightarrow> chk_doodad \<Rightarrow> string" where
  "doodad_fingerprint lib d = lib_sha256 lib (doodad_bytes d)"

definition sprite_fingerprint :: "archive_lib \<Rightarrow> chk_sprite \<Rightarrow> string" where
  "sprite_fingerprint lib s = lib_sha256 lib (sprite_bytes s)"

section \<open>States from JSON\<close>

definition max_owner :: u8 where
  "max_owner = 11"

definition unit_state_fields :: "string list" where
  "unit_state_fields = [''typeId'', ''owner'', ''x'', ''y'', ''classId'', ''relationFlags'',
     ''validStateFlags'', ''validFieldFlags'', ''hpPercent'', ''shieldPercent'', ''energyPercent'',
     ''resourceAmount'', ''hangarAmount'', ''stateFlags'', ''unused'', ''relationClassId'']"

definition check_unit :: "string \<Rightarrow> chk_unit \<Rightarrow> chk_unit result" where
  "check_unit ctx u =
     (if max_owner < un_owner u then fail (ctx @ '': owner must be 0..11'')
      else if 100 < un_hitpoint_percent u \<or> 100 < un_shield_percent u \<or> 100 < un_energy_percent u
      then fail (ctx @ '': hp/shield/energy percentages must be 0..100'')
      else Inr u)"

definition parse_unit_type :: "json_object \<Rightarrow> string \<Rightarrow> string \<Rightarrow> u16 result" where
  "parse_unit_type obj ctx message_ctx =
     bindE (checked_u16 obj ''typeId'' ctx) (\<lambda>t.
       if total_unit_types \<le> unat t then fail (message_ctx @ '': unit type is out of range'') else Inr t)"

definition parse_unit_state :: "json \<Rightarrow> string \<Rightarrow> chk_unit result" where
  "parse_unit_state v ctx =
     bindE (object_value v ctx) (\<lambda>obj.
     bindE (allowed_fields obj unit_state_fields ctx) (\<lambda>_.
     bindE (parse_unit_type obj ctx ctx) (\<lambda>type_id.
     bindE (optional_u8 obj ''owner'' 0 ctx) (\<lambda>owner.
     bindE (checked_u16 obj ''x'' ctx) (\<lambda>x.
     bindE (checked_u16 obj ''y'' ctx) (\<lambda>y.
     bindE (optional_u32 obj ''classId'' 0 ctx) (\<lambda>class_id.
     bindE (optional_u16 obj ''relationFlags'' 0 ctx) (\<lambda>relation_flags.
     bindE (optional_u16 obj ''validStateFlags'' 0 ctx) (\<lambda>valid_state.
     bindE (optional_u16 obj ''validFieldFlags'' 0 ctx) (\<lambda>valid_field.
     bindE (optional_u8 obj ''hpPercent'' 100 ctx) (\<lambda>hp.
     bindE (optional_u8 obj ''shieldPercent'' 100 ctx) (\<lambda>shield.
     bindE (optional_u8 obj ''energyPercent'' 100 ctx) (\<lambda>energy.
     bindE (optional_u32 obj ''resourceAmount'' 0 ctx) (\<lambda>resources.
     bindE (optional_u16 obj ''hangarAmount'' 0 ctx) (\<lambda>hangar.
     bindE (optional_u16 obj ''stateFlags'' 0 ctx) (\<lambda>state_flags.
     bindE (optional_u32 obj ''unused'' 0 ctx) (\<lambda>unused.
     bindE (optional_u32 obj ''relationClassId'' 0 ctx) (\<lambda>relation_class.
     check_unit ctx \<lparr>un_class_id = class_id, un_x = x, un_y = y, un_type = type_id,
       un_relation_flags = relation_flags, un_valid_state_flags = valid_state,
       un_valid_field_flags = valid_field, un_owner = owner, un_hitpoint_percent = hp,
       un_shield_percent = shield, un_energy_percent = energy, un_resource_amount = resources,
       un_hanger_amount = hangar, un_state_flags = state_flags, un_unused = unused,
       un_relation_class_id = relation_class\<rparr>))))))))))))))))))"

definition parse_doodad_state :: "json \<Rightarrow> string \<Rightarrow> chk_doodad result" where
  "parse_doodad_state v ctx =
     bindE (object_value v ctx) (\<lambda>obj.
     bindE (allowed_fields obj [''doodadId'', ''x'', ''y'', ''owner'', ''disabled''] ctx) (\<lambda>_.
     bindE (checked_u16 obj ''doodadId'' ctx) (\<lambda>type_id.
     bindE (checked_u16 obj ''x'' ctx) (\<lambda>x.
     bindE (checked_u16 obj ''y'' ctx) (\<lambda>y.
     bindE (optional_u8 obj ''owner'' 11 ctx) (\<lambda>owner.
     bindE (optional_bool obj ''disabled'' False ctx) (\<lambda>disabled.
       if max_owner < owner then fail (ctx @ '': owner must be 0..11'')
       else Inr \<lparr>dd_type = type_id, dd_x = x, dd_y = y, dd_owner = owner,
                  dd_enabled = (if disabled then 1 else 0)\<rparr>)))))))"

definition parse_sprite_state :: "json \<Rightarrow> string \<Rightarrow> chk_sprite result" where
  "parse_sprite_state v ctx =
     bindE (object_value v ctx) (\<lambda>obj.
     bindE (allowed_fields obj [''spriteId'', ''x'', ''y'', ''owner'', ''flags''] ctx) (\<lambda>_.
     bindE (checked_u16 obj ''spriteId'' ctx) (\<lambda>type_id.
     bindE (checked_u16 obj ''x'' ctx) (\<lambda>x.
     bindE (checked_u16 obj ''y'' ctx) (\<lambda>y.
     bindE (optional_u8 obj ''owner'' 11 ctx) (\<lambda>owner.
     bindE (optional_u16 obj ''flags'' draw_as_sprite ctx) (\<lambda>flags.
       if total_sprites \<le> unat type_id then fail (ctx @ '': sprite type is out of range'')
       else if max_owner < owner then fail (ctx @ '': owner must be 0..11'')
       else Inr \<lparr>sp_type = type_id, sp_x = x, sp_y = y, sp_owner = owner, sp_unused = 0,
                  sp_flags = flags\<rparr>)))))))"

definition require_position :: "u16 \<Rightarrow> u16 \<Rightarrow> scenario \<Rightarrow> string \<Rightarrow> unit result" where
  "require_position x y m ctx =
     requireE (\<not> outside_map m x y) (JsonError (ctx @ '': object position is outside map bounds''))"

definition blank_location :: "chk_location \<Rightarrow> bool" where
  "blank_location l \<longleftrightarrow> loc_left l = 0 \<and> loc_top l = 0 \<and> loc_right l = 0 \<and> loc_bottom l = 0
     \<and> loc_string_id l = 0"

definition require_location_id :: "nat \<Rightarrow> scenario \<Rightarrow> string \<Rightarrow> unit result" where
  "require_location_id i m ctx =
     (if i < 1 \<or> num_locations m < i then fail (ctx @ '': location id is out of range'')
      else if i = location_anywhere then fail (ctx @ '': location #64 Anywhere is protected'')
      else Inr ())"

end
