(* ===== verification/AgentEdit.thy ===== *)
theory AgentEdit
  imports AgentObjects
begin

text \<open>
  The operations of \<open>mapEdit\<close> in \<open>IsomTerrain/MapAgentCore.cpp\<close>, one definition per branch of its loop.
  Each takes the game data, the name, the context and the fields of the operation and gives the changed
  map and the effect it reports, or throws.
\<close>

section \<open>Effects\<close>

definition effect :: "string \<Rightarrow> string \<Rightarrow> nat \<Rightarrow> json_object" where
  "effect operation layer ordinal =
     map_init [(''op'', JStr operation), (''layer'', JStr layer), (''ordinal'', json_size ordinal)]"

type_synonym edit_result = "(scenario \<times> json_object) result"

definition isom_effect :: "string \<Rightarrow> nat \<Rightarrow> nat \<Rightarrow> nat \<Rightarrow> json_object" where
  "isom_effect operation index diamonds changed_tiles =
     map_assign ''changedTiles'' (json_size changed_tiles)
       (map_assign ''diamonds'' (json_size diamonds) (effect operation ''terrain'' index))"

section \<open>Exact tiles\<close>

definition terrain_set :: "edit_assets \<Rightarrow> string \<Rightarrow> string \<Rightarrow> json_object \<Rightarrow> scenario \<Rightarrow> edit_result" where
  "terrain_set a name ctx obj m =
     bindE (exact_fields obj [''op'', ''x'', ''y'', ''before'', ''after''] ctx) (\<lambda>_.
     bindE (checked_size obj ''x'' ctx False) (\<lambda>x.
     bindE (checked_size obj ''y'' ctx False) (\<lambda>y.
     bindE (checked_u16 obj ''before'' ctx) (\<lambda>before.
     bindE (checked_u16 obj ''after'' ctx) (\<lambda>after.
       if tile_width m \<le> x \<or> tile_height m \<le> y then fail (ctx @ '': terrain coordinate is outside map'')
       else
         bindE (get_tile x y GameScope m) (\<lambda>tile.
           if tile \<noteq> before then fail (ctx @ '': terrain expected-before conflict'')
           else if \<not> tile_graphics_valid (terrain_of a (sc_tileset m)) after
           then fail (ctx @ '': terrain tile has invalid graphics'')
           else bindE (set_exact_tile x y after m) (\<lambda>m.
                  Inr (m, effect name ''terrain'' (y * tile_width m + x)))))))))"

text \<open>Two nested loops that set the tiles of a rectangle, row by row.\<close>

definition paint_tiles :: "nat \<Rightarrow> nat \<Rightarrow> nat \<Rightarrow> nat \<Rightarrow> (nat \<Rightarrow> nat \<Rightarrow> u16) \<Rightarrow> scenario \<Rightarrow> scenario result" where
  "paint_tiles x y width height tile m =
     foldE (\<lambda>m (row, column). set_exact_tile (size_add x column) (size_add y row) (tile row column) m) m
       (List.product [0..<height] [0..<width])"

definition outside_terrain :: "nat \<Rightarrow> nat \<Rightarrow> nat \<Rightarrow> nat \<Rightarrow> scenario \<Rightarrow> bool" where
  "outside_terrain x y width height m \<longleftrightarrow>
     tile_width m < size_add x width \<or> tile_height m < size_add y height"

definition terrain_rect :: "edit_assets \<Rightarrow> string \<Rightarrow> string \<Rightarrow> json_object \<Rightarrow> scenario \<Rightarrow> edit_result" where
  "terrain_rect a name ctx obj m =
     bindE (exact_fields obj [''op'', ''x'', ''y'', ''width'', ''height'', ''after''] ctx) (\<lambda>_.
     bindE (checked_size obj ''x'' ctx False) (\<lambda>x.
     bindE (checked_size obj ''y'' ctx False) (\<lambda>y.
     bindE (checked_size obj ''width'' ctx True) (\<lambda>width.
     bindE (checked_size obj ''height'' ctx True) (\<lambda>height.
     bindE (checked_u16 obj ''after'' ctx) (\<lambda>after.
       if outside_terrain x y width height m then fail (ctx @ '': terrain rectangle is outside map'')
       else if \<not> tile_graphics_valid (terrain_of a (sc_tileset m)) after
       then fail (ctx @ '': terrain tile has invalid graphics'')
       else bindE (paint_tiles x y width height (\<lambda>_ _. after) m) (\<lambda>m.
              Inr (m, effect name ''terrain'' (size_mul width height)))))))))"

definition blit_tile :: "terrain_tiles \<Rightarrow> string \<Rightarrow> json \<Rightarrow> u16 result" where
  "blit_tile t ctx v =
     bindE (size_value v (ctx @ ''.tiles[][]'') False) (\<lambda>n.
       if 0xFFFF < n \<or> \<not> tile_graphics_valid t (of_nat n)
       then fail (ctx @ '': terrain blit contains invalid tile graphics'')
       else Inr (of_nat n))"

text \<open>\<open>width\<close> is 0 until the first row is read.\<close>

fun blit_rows :: "terrain_tiles \<Rightarrow> string \<Rightarrow> nat \<Rightarrow> json list \<Rightarrow> (nat \<times> u16 list list) result" where
  "blit_rows t ctx width [] = Inr (width, [])"
| "blit_rows t ctx width (v # vs) =
     bindE (array_value v (ctx @ ''.tiles[]'')) (\<lambda>row.
       if row = [] \<or> (width \<noteq> 0 \<and> length row \<noteq> width)
       then fail (ctx @ '': terrain blit rows must be non-empty and rectangular'')
       else bindE (mapE (blit_tile t ctx) row) (\<lambda>tiles.
            bindE (blit_rows t ctx (length row) vs) (\<lambda>(width, rows). Inr (width, tiles # rows))))"

definition terrain_blit :: "edit_assets \<Rightarrow> string \<Rightarrow> string \<Rightarrow> json_object \<Rightarrow> scenario \<Rightarrow> edit_result" where
  "terrain_blit a name ctx obj m =
     bindE (exact_fields obj [''op'', ''x'', ''y'', ''tiles''] ctx) (\<lambda>_.
     bindE (checked_size obj ''x'' ctx False) (\<lambda>x.
     bindE (checked_size obj ''y'' ctx False) (\<lambda>y.
     bindE (required_field obj ''tiles'' ctx) (\<lambda>v.
     bindE (array_value v (ctx @ ''.tiles'')) (\<lambda>rows.
       if rows = [] then fail (ctx @ '': terrain blit cannot be empty'')
       else
         bindE (blit_rows (terrain_of a (sc_tileset m)) ctx 0 rows) (\<lambda>(width, parsed).
           if outside_terrain x y width (length parsed) m
           then fail (ctx @ '': terrain blit is outside map'')
           else bindE (paint_tiles x y width (length parsed) (\<lambda>row column. parsed ! row ! column) m) (\<lambda>m.
                  Inr (m, effect name ''terrain'' (size_mul width (length parsed))))))))))"

section \<open>Semantic brushes\<close>

definition copy_to_sc_map :: "scenario \<Rightarrow> sc_map" where
  "copy_to_sc_map m =
     \<lparr>sm_tile_width = sc_width m, sm_tile_height = sc_height m, sm_tileset = sc_tileset m,
      sm_tiles = sc_tiles m, sm_editor_tiles = sc_editor_tiles m, sm_rects = sc_isom m\<rparr>"

definition copy_from_sc_map :: "scenario \<Rightarrow> sc_map \<Rightarrow> scenario" where
  "copy_from_sc_map m s =
     m\<lparr>sc_width := sm_tile_width s, sc_height := sm_tile_height s, sc_tileset := sm_tileset s,
       sc_isom := sm_rects s, sc_editor_tiles := sm_editor_tiles s, sc_tiles := sm_tiles s\<rparr>"

definition require_isom_section :: "scenario \<Rightarrow> string \<Rightarrow> unit result" where
  "require_isom_section m ctx =
     (let expected = (tile_width m div 2 + 1) * (tile_height m + 1)
      in if length (sc_isom m) \<noteq> expected
         then fail (ctx @ '': map has no usable ISOM section ('' @ nat_to_string (length (sc_isom m)) @ '' of '' @
                nat_to_string expected @ '' rects); semantic brushes need ISOM data, '' @
                ''use exact tiles (terrain.rect/terrain.blit) or a stamp instead'')
         else Inr ())"

definition require_isom_brush :: "isom_cache \<Rightarrow> nat \<Rightarrow> string \<Rightarrow> unit result" where
  "require_isom_brush c brush ctx =
     (let v = terrain_type_isom_value c brush
      in if v = 0 \<or> length (ic_links c) \<le> unat v \<or> sl_terrain_type (ic_links c ! unat v) = 0
         then fail (ctx @ '': brush '' @ nat_to_string brush @
                '' is not a semantic ISOM brush of this tileset; use an id returned by map_palette_query kind=brushes'')
         else Inr ())"

definition require_isom_diamond :: "scenario \<Rightarrow> nat \<Rightarrow> nat \<Rightarrow> string \<Rightarrow> unit result" where
  "require_isom_diamond m x y ctx =
     (let max_x = tile_width m div 2; max_y = tile_height m;
          diamond = ''ISOM diamond ('' @ nat_to_string x @ '', '' @ nat_to_string y @ '')''
      in if max_x < x \<or> max_y < y
         then fail (ctx @ '': '' @ diamond @ '' is outside the ISOM grid isomX 0..'' @ nat_to_string max_x @
                '', isomY 0..'' @ nat_to_string max_y @ '' (isomX is a tile x / 2, isomY is a tile y)'')
         else if size_add x y mod 2 \<noteq> 0
         then fail (ctx @ '': '' @ diamond @
                '' is not on the diamond lattice: isomX + isomY must be even (shift isomX or isomY by 1)'')
         else Inr ())"

text \<open>FNV-1a over the eight little-endian bytes of each parameter.\<close>

definition fnv_byte :: "u32 \<Rightarrow> nat \<Rightarrow> u32" where
  "fnv_byte hash byte = (hash XOR of_nat byte) * 16777619"

definition isom_variation_seed :: "nat list \<Rightarrow> u32" where
  "isom_variation_seed parts =
     fold (\<lambda>part hash. fold (\<lambda>k hash. fnv_byte hash (part div 2 ^ (8 * k) mod 0x100)) [0..<8] hash)
       parts 2166136261"

text \<open>The diamonds whose footprint of four by two tiles lies in a rectangle; the loop over a row ends
  at the first diamond that sticks out on the right.\<close>

text \<open>The caller has checked that the rectangle lies on the map, so the sums of \<open>size_t\<close> do not wrap around.\<close>

definition diamond_columns :: "nat \<Rightarrow> nat \<Rightarrow> nat list" where
  "diamond_columns x right = takeWhile (\<lambda>dx. 2 * dx + 2 \<le> right) [(x + 3) div 2..<right]"

definition isom_diamonds_inside :: "nat \<Rightarrow> nat \<Rightarrow> nat \<Rightarrow> nat \<Rightarrow> point list" where
  "isom_diamonds_inside x y width height =
     (let right = x + width; bottom = y + height
      in concat (map (\<lambda>dy. map (\<lambda>dx. (dx, dy)) (filter (\<lambda>dx. (dx + dy) mod 2 = 0) (diamond_columns x right)))
           [y + 1..<bottom]))"

text \<open>The edited copy replaces the terrain of the map; the effect counts the tiles that changed.\<close>

definition finish_isom ::
    "string \<Rightarrow> nat \<Rightarrow> string \<Rightarrow> nat \<Rightarrow> scenario \<Rightarrow> (bool \<times> isom_state) result \<Rightarrow> edit_result" where
  "finish_isom name index ctx diamonds m placed =
     bindE placed (\<lambda>(ok, st).
       if \<not> ok then fail (ctx @ '': semantic ISOM brush placement failed'')
       else bindE (update_tiles_from_isom st) (\<lambda>(s, c).
              Inr (copy_from_sc_map m s,
                   isom_effect name index diamonds (count_tile_changes (sc_tiles m) (sm_tiles s)))))"

definition terrain_isom_brush ::
    "edit_assets \<Rightarrow> nat \<Rightarrow> string \<Rightarrow> string \<Rightarrow> json_object \<Rightarrow> scenario \<Rightarrow> edit_result" where
  "terrain_isom_brush a index name ctx obj m =
     bindE (exact_fields obj [''op'', ''isomX'', ''isomY'', ''brush'', ''extent''] ctx) (\<lambda>_.
     bindE (checked_size obj ''isomX'' ctx False) (\<lambda>x.
     bindE (checked_size obj ''isomY'' ctx False) (\<lambda>y.
     bindE (checked_size obj ''brush'' ctx True) (\<lambda>brush.
     bindE (checked_size obj ''extent'' ctx True) (\<lambda>extent.
     bindE (require_isom_section m ctx) (\<lambda>_.
     let c = new_cache (sc_tileset m) (tile_width m) (tile_height m) (isom_of a (sc_tileset m))
     in bindE (require_isom_brush c brush ctx) (\<lambda>_.
        bindE (require_isom_diamond m x y ctx) (\<lambda>_.
        let c = seed_subtile_variation (isom_variation_seed [x, y, brush, extent]) c
        in finish_isom name index ctx (size_mul extent extent) m
             (place_isom_terrain (x, y) brush extent (copy_to_sc_map m, c))))))))))"

definition terrain_isom_rect ::
    "edit_assets \<Rightarrow> nat \<Rightarrow> string \<Rightarrow> string \<Rightarrow> json_object \<Rightarrow> scenario \<Rightarrow> edit_result" where
  "terrain_isom_rect a index name ctx obj m =
     bindE (exact_fields obj [''op'', ''x'', ''y'', ''width'', ''height'', ''brush''] ctx) (\<lambda>_.
     bindE (checked_size obj ''x'' ctx False) (\<lambda>x.
     bindE (checked_size obj ''y'' ctx False) (\<lambda>y.
     bindE (checked_size obj ''width'' ctx True) (\<lambda>width.
     bindE (checked_size obj ''height'' ctx True) (\<lambda>height.
     bindE (checked_size obj ''brush'' ctx True) (\<lambda>brush.
       if outside_terrain x y width height m then fail (ctx @ '': terrain rectangle is outside map'')
       else
         bindE (require_isom_section m ctx) (\<lambda>_.
         let c = new_cache (sc_tileset m) (tile_width m) (tile_height m) (isom_of a (sc_tileset m))
         in bindE (require_isom_brush c brush ctx) (\<lambda>_.
            let diamonds = isom_diamonds_inside x y width height
            in if diamonds = []
               then fail (ctx @ '': terrain rectangle '' @ nat_to_string width @ ''x'' @ nat_to_string height @
                      '' at ('' @ nat_to_string x @ '', '' @ nat_to_string y @
                      '') holds no whole ISOM diamond (a 4x2 tile footprint on the diamond lattice); use at least 5x3 tiles'')
               else let c = seed_subtile_variation (isom_variation_seed [x, y, width, height, brush]) c
                    in finish_isom name index ctx (length diamonds) m
                         (place_isom_terrain_diamonds diamonds brush (copy_to_sc_map m, c))))))))))"

end
