(* ===== verification/AgentEditObjects.thy ===== *)
theory AgentEditObjects
  imports AgentEdit
begin

text \<open>
  The operations of \<open>mapEdit\<close> on units, sprites, doodads, locations, the scenario texts, players and
  forces, in the order of the branches of its loop in \<open>IsomTerrain/MapAgentCore.cpp\<close>.
\<close>

text \<open>The position, the fingerprint and the fields every change of an existing object starts from.\<close>

definition object_fields :: "string \<Rightarrow> string list \<Rightarrow> string list" where
  "object_fields verb extra =
     [''op'', ''ordinal'', ''beforeFingerprint''] @
     (if verb = ''set'' then [''state''] else if verb = ''move'' then [''x'', ''y''] else []) @ extra"

definition check_fingerprint :: "string \<Rightarrow> json_object \<Rightarrow> string \<Rightarrow> string \<Rightarrow> unit result" where
  "check_fingerprint fingerprint obj what ctx =
     bindE (required_field obj ''beforeFingerprint'' ctx) (\<lambda>v.
     bindE (string_value v (ctx @ ''.beforeFingerprint'')) (\<lambda>s.
       if fingerprint \<noteq> s then fail (ctx @ '': '' @ what @ '' expected-before fingerprint conflict'')
       else Inr ()))"

definition new_position :: "json_object \<Rightarrow> string \<Rightarrow> scenario \<Rightarrow> (u16 \<times> u16) result" where
  "new_position obj ctx m =
     bindE (checked_u16 obj ''x'' ctx) (\<lambda>x.
     bindE (checked_u16 obj ''y'' ctx) (\<lambda>y.
     bindE (require_position x y m ctx) (\<lambda>_. Inr (x, y))))"

section \<open>Units\<close>

definition when_present :: "json_object \<Rightarrow> string \<Rightarrow> ('s \<Rightarrow> 's result) \<Rightarrow> 's \<Rightarrow> 's result" where
  "when_present obj field g s = (case optional_field obj field of None \<Rightarrow> Inr s | Some _ \<Rightarrow> g s)"

text \<open>Only the fields the state names are assigned, one after the other.\<close>

definition unit_assignments :: "json_object \<Rightarrow> string \<Rightarrow> (chk_unit \<Rightarrow> chk_unit result) list" where
  "unit_assignments obj ctx =
     (let sctx = ctx @ ''.state''
      in [when_present obj ''typeId'' (\<lambda>u. bindE (parse_unit_type obj sctx ctx) (\<lambda>v. Inr (u\<lparr>un_type := v\<rparr>))),
          when_present obj ''owner'' (\<lambda>u. bindE (optional_u8 obj ''owner'' 0 sctx) (\<lambda>v. Inr (u\<lparr>un_owner := v\<rparr>))),
          when_present obj ''x'' (\<lambda>u. bindE (checked_u16 obj ''x'' sctx) (\<lambda>v. Inr (u\<lparr>un_x := v\<rparr>))),
          when_present obj ''y'' (\<lambda>u. bindE (checked_u16 obj ''y'' sctx) (\<lambda>v. Inr (u\<lparr>un_y := v\<rparr>))),
          when_present obj ''classId'' (\<lambda>u. bindE (optional_u32 obj ''classId'' 0 sctx) (\<lambda>v.
            Inr (u\<lparr>un_class_id := v\<rparr>))),
          when_present obj ''relationFlags'' (\<lambda>u. bindE (optional_u16 obj ''relationFlags'' 0 sctx) (\<lambda>v.
            Inr (u\<lparr>un_relation_flags := v\<rparr>))),
          when_present obj ''validStateFlags'' (\<lambda>u. bindE (optional_u16 obj ''validStateFlags'' 0 sctx) (\<lambda>v.
            Inr (u\<lparr>un_valid_state_flags := v\<rparr>))),
          when_present obj ''validFieldFlags'' (\<lambda>u. bindE (optional_u16 obj ''validFieldFlags'' 0 sctx) (\<lambda>v.
            Inr (u\<lparr>un_valid_field_flags := v\<rparr>))),
          when_present obj ''hpPercent'' (\<lambda>u. bindE (optional_u8 obj ''hpPercent'' 100 sctx) (\<lambda>v.
            Inr (u\<lparr>un_hitpoint_percent := v\<rparr>))),
          when_present obj ''shieldPercent'' (\<lambda>u. bindE (optional_u8 obj ''shieldPercent'' 100 sctx) (\<lambda>v.
            Inr (u\<lparr>un_shield_percent := v\<rparr>))),
          when_present obj ''energyPercent'' (\<lambda>u. bindE (optional_u8 obj ''energyPercent'' 100 sctx) (\<lambda>v.
            Inr (u\<lparr>un_energy_percent := v\<rparr>))),
          when_present obj ''resourceAmount'' (\<lambda>u. bindE (optional_u32 obj ''resourceAmount'' 0 sctx) (\<lambda>v.
            Inr (u\<lparr>un_resource_amount := v\<rparr>))),
          when_present obj ''hangarAmount'' (\<lambda>u. bindE (optional_u16 obj ''hangarAmount'' 0 sctx) (\<lambda>v.
            Inr (u\<lparr>un_hanger_amount := v\<rparr>))),
          when_present obj ''stateFlags'' (\<lambda>u. bindE (optional_u16 obj ''stateFlags'' 0 sctx) (\<lambda>v.
            Inr (u\<lparr>un_state_flags := v\<rparr>))),
          when_present obj ''unused'' (\<lambda>u. bindE (optional_u32 obj ''unused'' 0 sctx) (\<lambda>v.
            Inr (u\<lparr>un_unused := v\<rparr>))),
          when_present obj ''relationClassId'' (\<lambda>u. bindE (optional_u32 obj ''relationClassId'' 0 sctx) (\<lambda>v.
            Inr (u\<lparr>un_relation_class_id := v\<rparr>)))])"

definition set_unit_fields :: "json_object \<Rightarrow> string \<Rightarrow> scenario \<Rightarrow> chk_unit \<Rightarrow> chk_unit result" where
  "set_unit_fields obj ctx m u =
     bindE (required_field obj ''state'' ctx) (\<lambda>v.
     bindE (object_value v (ctx @ ''.state'')) (\<lambda>state.
     bindE (allowed_fields state unit_state_fields (ctx @ ''.state'')) (\<lambda>_.
       if state = [] then fail (ctx @ '': unit.set state cannot be empty'')
       else
         bindE (foldE (\<lambda>u g. g u) u (unit_assignments state ctx)) (\<lambda>u.
         bindE (check_unit ctx u) (\<lambda>u.
         bindE (require_position (un_x u) (un_y u) m ctx) (\<lambda>_. Inr u))))))"

definition unit_add :: "string \<Rightarrow> string \<Rightarrow> json_object \<Rightarrow> scenario \<Rightarrow> edit_result" where
  "unit_add name ctx obj m =
     bindE (exact_fields obj [''op'', ''state''] ctx) (\<lambda>_.
     bindE (required_field obj ''state'' ctx) (\<lambda>v.
     bindE (parse_unit_state v (ctx @ ''.state'')) (\<lambda>u.
     bindE (require_position (un_x u) (un_y u) m ctx) (\<lambda>_.
     let added = add_unit u m in Inr (snd added, effect name ''unit'' (fst added))))))"

definition change_unit :: "string \<Rightarrow> string \<Rightarrow> json_object \<Rightarrow> nat \<Rightarrow> scenario \<Rightarrow> scenario result" where
  "change_unit verb ctx obj i m =
     (if verb = ''delete'' then Inr (delete_unit i m)
      else if verb = ''move''
      then bindE (new_position obj ctx m) (\<lambda>(x, y).
             Inr (m\<lparr>sc_units := (sc_units m)[i := (sc_units m ! i)\<lparr>un_x := x, un_y := y\<rparr>]\<rparr>))
      else bindE (set_unit_fields obj ctx m (sc_units m ! i)) (\<lambda>u.
             Inr (m\<lparr>sc_units := (sc_units m)[i := u]\<rparr>)))"

definition unit_change :: "archive_lib \<Rightarrow> string \<Rightarrow> string \<Rightarrow> string \<Rightarrow> json_object \<Rightarrow> scenario \<Rightarrow> edit_result" where
  "unit_change lib verb name ctx obj m =
     bindE (exact_fields obj (object_fields verb []) ctx) (\<lambda>_.
     bindE (checked_size obj ''ordinal'' ctx False) (\<lambda>i.
       if length (sc_units m) \<le> i then fail (ctx @ '': unit ordinal is out of range'')
       else
         bindE (check_fingerprint (unit_fingerprint lib (sc_units m ! i)) obj ''unit'' ctx) (\<lambda>_.
         bindE (change_unit verb ctx obj i m) (\<lambda>m. Inr (m, effect name ''unit'' i)))))"

section \<open>Sprites\<close>

definition parse_placed_sprite :: "json_object \<Rightarrow> string \<Rightarrow> scenario \<Rightarrow> chk_sprite result" where
  "parse_placed_sprite obj ctx m =
     bindE (required_field obj ''state'' ctx) (\<lambda>v.
     bindE (parse_sprite_state v (ctx @ ''.state'')) (\<lambda>s.
     bindE (require_position (sp_x s) (sp_y s) m ctx) (\<lambda>_. Inr s)))"

definition sprite_add :: "string \<Rightarrow> string \<Rightarrow> json_object \<Rightarrow> scenario \<Rightarrow> edit_result" where
  "sprite_add name ctx obj m =
     bindE (exact_fields obj [''op'', ''state''] ctx) (\<lambda>_.
     bindE (parse_placed_sprite obj ctx m) (\<lambda>s.
     let added = add_sprite s m in Inr (snd added, effect name ''sprite'' (fst added))))"

definition change_sprite :: "string \<Rightarrow> string \<Rightarrow> json_object \<Rightarrow> nat \<Rightarrow> scenario \<Rightarrow> scenario result" where
  "change_sprite verb ctx obj i m =
     (if verb = ''delete'' then Inr (delete_sprite i m)
      else if verb = ''move''
      then bindE (new_position obj ctx m) (\<lambda>(x, y).
             Inr (m\<lparr>sc_sprites := (sc_sprites m)[i := (sc_sprites m ! i)\<lparr>sp_x := x, sp_y := y\<rparr>]\<rparr>))
      else bindE (parse_placed_sprite obj ctx m) (\<lambda>s.
             Inr (m\<lparr>sc_sprites := (sc_sprites m)[i := s]\<rparr>)))"

definition sprite_change :: "archive_lib \<Rightarrow> string \<Rightarrow> string \<Rightarrow> string \<Rightarrow> json_object \<Rightarrow> scenario \<Rightarrow> edit_result" where
  "sprite_change lib verb name ctx obj m =
     bindE (exact_fields obj (object_fields verb []) ctx) (\<lambda>_.
     bindE (checked_size obj ''ordinal'' ctx False) (\<lambda>i.
       if length (sc_sprites m) \<le> i then fail (ctx @ '': sprite ordinal is out of range'')
       else
         bindE (check_fingerprint (sprite_fingerprint lib (sc_sprites m ! i)) obj ''sprite'' ctx) (\<lambda>_.
         bindE (change_sprite verb ctx obj i m) (\<lambda>m. Inr (m, effect name ''sprite'' i)))))"

section \<open>Doodads\<close>

definition doodad_add :: "edit_assets \<Rightarrow> string \<Rightarrow> string \<Rightarrow> json_object \<Rightarrow> scenario \<Rightarrow> edit_result" where
  "doodad_add a name ctx obj m =
     bindE (exact_fields obj [''op'', ''state''] ctx) (\<lambda>_.
     bindE (required_field obj ''state'' ctx) (\<lambda>v.
     bindE (parse_doodad_state v (ctx @ ''.state'')) (\<lambda>d.
     bindE (require_position (dd_x d) (dd_y d) m ctx) (\<lambda>_.
     bindE (apply_doodad_footprint d a ctx m) (\<lambda>m.
     let added = add_doodad d m
     in bindE (add_doodad_overlay d a ctx (snd added)) (\<lambda>m.
        Inr (m, effect name ''doodad'' (fst added))))))))"

definition changed_doodad :: "string \<Rightarrow> string \<Rightarrow> json_object \<Rightarrow> chk_doodad \<Rightarrow> chk_doodad result" where
  "changed_doodad verb ctx obj before =
     (if verb = ''move''
      then bindE (checked_u16 obj ''x'' ctx) (\<lambda>x.
           bindE (checked_u16 obj ''y'' ctx) (\<lambda>y. Inr (before\<lparr>dd_x := x, dd_y := y\<rparr>)))
      else bindE (required_field obj ''state'' ctx) (\<lambda>v. parse_doodad_state v (ctx @ ''.state'')))"

definition change_doodad ::
    "edit_assets \<Rightarrow> string \<Rightarrow> string \<Rightarrow> json_object \<Rightarrow> chk_doodad \<Rightarrow> nat \<Rightarrow> scenario \<Rightarrow> scenario result" where
  "change_doodad a verb ctx obj before i m =
     (if verb = ''delete'' then Inr (delete_doodad i m)
      else bindE (changed_doodad verb ctx obj before) (\<lambda>after.
           bindE (require_position (dd_x after) (dd_y after) m ctx) (\<lambda>_.
           bindE (apply_doodad_footprint after a ctx m) (\<lambda>m.
           add_doodad_overlay after a ctx (m\<lparr>sc_doodads := (sc_doodads m)[i := after]\<rparr>)))))"

definition doodad_change ::
    "archive_lib \<Rightarrow> edit_assets \<Rightarrow> string \<Rightarrow> string \<Rightarrow> string \<Rightarrow> json_object \<Rightarrow> scenario \<Rightarrow> edit_result" where
  "doodad_change lib a verb name ctx obj m =
     bindE (exact_fields obj (object_fields verb [''replacementTiles'']) ctx) (\<lambda>_.
     bindE (checked_size obj ''ordinal'' ctx False) (\<lambda>i.
       if length (sc_doodads m) \<le> i then fail (ctx @ '': doodad ordinal is out of range'')
       else
         let before = sc_doodads m ! i
         in bindE (check_fingerprint (doodad_fingerprint lib before) obj ''doodad'' ctx) (\<lambda>_.
            bindE (required_field obj ''replacementTiles'' ctx) (\<lambda>tiles.
            bindE (replace_doodad_footprint before tiles a ctx m) (\<lambda>m.
            bindE (delete_doodad_overlay before a ctx m) (\<lambda>m.
            bindE (change_doodad a verb ctx obj before i m) (\<lambda>m.
            Inr (m, effect name ''doodad'' i))))))))"

section \<open>Locations\<close>

definition parse_location :: "json_object \<Rightarrow> string \<Rightarrow> chk_location result" where
  "parse_location state ctx =
     bindE (checked_u32 state ''left'' ctx) (\<lambda>left.
     bindE (checked_u32 state ''top'' ctx) (\<lambda>top_edge.
     bindE (checked_u32 state ''right'' ctx) (\<lambda>right.
     bindE (checked_u32 state ''bottom'' ctx) (\<lambda>bottom.
     bindE (optional_u16 state ''elevationFlags'' 0 ctx) (\<lambda>elevation.
     Inr \<lparr>loc_left = left, loc_top = top_edge, loc_right = right, loc_bottom = bottom,
          loc_string_id = 0, loc_elevation = elevation\<rparr>)))))"

definition used_location :: "nat \<Rightarrow> scenario \<Rightarrow> string \<Rightarrow> chk_location result" where
  "used_location i m ctx =
     bindE (require_location_id i m ctx) (\<lambda>_.
     bindE (get_location i m) (\<lambda>existing.
       if blank_location existing then fail (ctx @ '': location slot is empty'') else Inr existing))"

definition name_location :: "nat \<Rightarrow> json \<Rightarrow> string \<Rightarrow> scenario \<Rightarrow> scenario result" where
  "name_location i v ctx m =
     bindE (string_value v (ctx @ ''.nameBytesHex'')) (\<lambda>hex.
     bindE (raw_string_from_hex hex (ctx @ ''.nameBytesHex'')) (\<lambda>raw.
     set_location_name i raw False m))"

definition put_location ::
    "string \<Rightarrow> string \<Rightarrow> nat \<Rightarrow> chk_location \<Rightarrow> scenario \<Rightarrow> (nat \<times> scenario) result" where
  "put_location name ctx i location m =
     (if name = ''location.add''
      then if i \<noteq> 0 then fail (ctx @ '': location.add locationId must be 0 (assigned by map)'')
           else let added = add_location location m
                in if fst added = 0 then fail (ctx @ '': no free location slot'') else Inr added
      else bindE (used_location i m ctx) (\<lambda>existing.
             Inr (i, m\<lparr>sc_locations := (sc_locations m)[i := location\<lparr>loc_string_id := loc_string_id existing\<rparr>]\<rparr>)))"

definition location_put :: "string \<Rightarrow> string \<Rightarrow> json_object \<Rightarrow> scenario \<Rightarrow> edit_result" where
  "location_put name ctx obj m =
     bindE (exact_fields obj [''op'', ''state''] ctx) (\<lambda>_.
     bindE (required_field obj ''state'' ctx) (\<lambda>v.
     let sctx = ctx @ ''.state''
     in bindE (object_value v sctx) (\<lambda>state.
        bindE (allowed_fields state [''locationId'', ''left'', ''top'', ''right'', ''bottom'',
          ''elevationFlags'', ''nameBytesHex''] sctx) (\<lambda>_.
        bindE (parse_location state sctx) (\<lambda>location.
        bindE (checked_size state ''locationId'' sctx False) (\<lambda>i.
        bindE (put_location name ctx i location m) (\<lambda>(i, m).
        bindE (case optional_field state ''nameBytesHex'' of
                 None \<Rightarrow> Inr m | Some v \<Rightarrow> name_location i v sctx m) (\<lambda>m.
        Inr (m, effect name ''location'' i)))))))))"

definition location_rename :: "string \<Rightarrow> string \<Rightarrow> json_object \<Rightarrow> scenario \<Rightarrow> edit_result" where
  "location_rename name ctx obj m =
     bindE (exact_fields obj [''op'', ''locationId'', ''nameBytesHex''] ctx) (\<lambda>_.
     bindE (checked_size obj ''locationId'' ctx False) (\<lambda>i.
     bindE (used_location i m ctx) (\<lambda>_.
     bindE (required_field obj ''nameBytesHex'' ctx) (\<lambda>v.
     bindE (name_location i v ctx m) (\<lambda>m.
     Inr (m, effect name ''location'' i))))))"

definition location_delete :: "string \<Rightarrow> string \<Rightarrow> json_object \<Rightarrow> scenario \<Rightarrow> edit_result" where
  "location_delete name ctx obj m =
     bindE (exact_fields obj [''op'', ''locationId''] ctx) (\<lambda>_.
     bindE (checked_size obj ''locationId'' ctx False) (\<lambda>i.
     bindE (used_location i m ctx) (\<lambda>_.
     let m = delete_location i True m
     in bindE (get_location i m) (\<lambda>l.
          if \<not> blank_location l
          then fail (ctx @ '': location is referenced by a trigger and cannot be deleted'')
          else Inr (m, effect name ''location'' i)))))"

section \<open>Texts, players and forces\<close>

definition map_text_field :: "json \<Rightarrow> string \<Rightarrow> nat \<Rightarrow> nat \<Rightarrow> string result" where
  "map_text_field v ctx min_bytes max_bytes =
     bindE (string_value v ctx) (\<lambda>hex. map_text_from_hex hex ctx min_bytes max_bytes)"

definition set_text ::
    "json option \<Rightarrow> string \<Rightarrow> nat \<Rightarrow> nat \<Rightarrow> (string \<Rightarrow> scenario \<Rightarrow> scenario result) \<Rightarrow> scenario \<Rightarrow> scenario result" where
  "set_text v ctx min_bytes max_bytes f m =
     (case v of None \<Rightarrow> Inr m
      | Some v \<Rightarrow> bindE (map_text_field v ctx min_bytes max_bytes) (\<lambda>raw. f raw m))"

definition scenario_set :: "string \<Rightarrow> string \<Rightarrow> json_object \<Rightarrow> scenario \<Rightarrow> edit_result" where
  "scenario_set name ctx obj m =
     bindE (allowed_fields obj [''op'', ''titleBytesHex'', ''descriptionBytesHex''] ctx) (\<lambda>_.
     let title = optional_field obj ''titleBytesHex''; description = optional_field obj ''descriptionBytesHex''
     in if title = None \<and> description = None
        then fail (ctx @ '': scenario.set needs titleBytesHex or descriptionBytesHex'')
        else
          bindE (set_text title (ctx @ ''.titleBytesHex'') 1 1024 (\<lambda>raw. set_scenario_name raw True) m) (\<lambda>m.
          bindE (set_text description (ctx @ ''.descriptionBytesHex'') 0 4096
            (\<lambda>raw. set_scenario_description raw True) m) (\<lambda>m.
          Inr (m, effect name ''scenario'' 0))))"

text \<open>Every field of a player is read before the first one is set.\<close>

definition optional_value :: "json option \<Rightarrow> (json \<Rightarrow> 'a result) \<Rightarrow> 'a option result" where
  "optional_value v f = (case v of None \<Rightarrow> Inr None | Some v \<Rightarrow> bindE (f v) (\<lambda>x. Inr (Some x)))"

definition set_optional :: "'a option \<Rightarrow> ('a \<Rightarrow> scenario \<Rightarrow> scenario result) \<Rightarrow> scenario \<Rightarrow> scenario result" where
  "set_optional v f m = (case v of None \<Rightarrow> Inr m | Some x \<Rightarrow> f x m)"

definition player_set :: "string \<Rightarrow> string \<Rightarrow> json_object \<Rightarrow> scenario \<Rightarrow> edit_result" where
  "player_set name ctx obj m =
     bindE (allowed_fields obj [''op'', ''slot'', ''type'', ''race'', ''force''] ctx) (\<lambda>_.
     bindE (checked_size obj ''slot'' ctx False) (\<lambda>slot.
       if total_players \<le> slot then fail (ctx @ ''.slot must be within 0..11'')
       else
         let type_v = optional_field obj ''type''; race_v = optional_field obj ''race'';
             force_v = optional_field obj ''force''
         in if type_v = None \<and> race_v = None \<and> force_v = None
            then fail (ctx @ '': player.set needs type, race, or force'')
            else if force_v \<noteq> None \<and> total_slots \<le> slot
            then fail (ctx @ ''.force is only valid for slots 0..7'')
            else
              bindE (optional_value type_v (\<lambda>v. bindE (string_value v (ctx @ ''.type'')) (\<lambda>s.
                parse_slot_type s (ctx @ ''.type'')))) (\<lambda>slot_type.
              bindE (optional_value race_v (\<lambda>v. bindE (string_value v (ctx @ ''.race'')) (\<lambda>s.
                parse_race s (ctx @ ''.race'')))) (\<lambda>race.
              bindE (optional_value force_v (\<lambda>_. bindE (checked_size obj ''force'' ctx False) (\<lambda>n.
                if total_forces \<le> n then fail (ctx @ ''.force must be within 0..3'') else Inr n))) (\<lambda>force.
              bindE (set_optional slot_type (\<lambda>t. set_slot_type slot t BothScope) m) (\<lambda>m.
              bindE (set_optional race (set_player_race slot) m) (\<lambda>m.
              bindE (set_optional force (\<lambda>n. set_player_force slot (of_nat n)) m) (\<lambda>m.
              Inr (m, effect name ''players'' slot)))))))))"

definition flag_random_start :: u8 where "flag_random_start = 0x01"
definition flag_random_allies :: u8 where "flag_random_allies = 0x02"
definition flag_allied_victory :: u8 where "flag_allied_victory = 0x04"
definition flag_shared_vision :: u8 where "flag_shared_vision = 0x08"

definition force_set :: "string \<Rightarrow> string \<Rightarrow> json_object \<Rightarrow> scenario \<Rightarrow> edit_result" where
  "force_set name ctx obj m =
     bindE (allowed_fields obj [''op'', ''force'', ''nameBytesHex'', ''allied'', ''alliedVictory'',
       ''sharedVision'', ''randomStart''] ctx) (\<lambda>_.
     bindE (checked_size obj ''force'' ctx False) (\<lambda>i.
       if total_forces \<le> i then fail (ctx @ ''.force must be within 0..3'')
       else
         let name_v = optional_field obj ''nameBytesHex''; force = of_nat i
         in if name_v = None \<and> optional_field obj ''allied'' = None \<and>
               optional_field obj ''alliedVictory'' = None \<and> optional_field obj ''sharedVision'' = None \<and>
               optional_field obj ''randomStart'' = None
            then fail (ctx @ '': force.set needs nameBytesHex or at least one flag'')
            else
              bindE (get_force_flags force m) (\<lambda>flags.
              bindE (apply_force_flag flags obj ''allied'' flag_random_allies ctx) (\<lambda>flags.
              bindE (apply_force_flag flags obj ''alliedVictory'' flag_allied_victory ctx) (\<lambda>flags.
              bindE (apply_force_flag flags obj ''sharedVision'' flag_shared_vision ctx) (\<lambda>flags.
              bindE (apply_force_flag flags obj ''randomStart'' flag_random_start ctx) (\<lambda>flags.
              bindE (set_text name_v (ctx @ ''.nameBytesHex'') 1 256 (\<lambda>raw. set_force_name force raw True) m) (\<lambda>m.
              bindE (set_force_flags force flags m) (\<lambda>m.
              Inr (m, effect name ''forces'' i))))))))))"

section \<open>The batch\<close>

definition edit_step ::
    "archive_lib \<Rightarrow> edit_assets \<Rightarrow> nat \<Rightarrow> string \<Rightarrow> string \<Rightarrow> json_object \<Rightarrow> scenario \<Rightarrow> edit_result" where
  "edit_step lib a index name ctx obj m =
     (if name = ''terrain.set'' then terrain_set a name ctx obj m
      else if name = ''terrain.rect'' then terrain_rect a name ctx obj m
      else if name = ''terrain.blit'' then terrain_blit a name ctx obj m
      else if name = ''terrain.isom_brush'' then terrain_isom_brush a index name ctx obj m
      else if name = ''terrain.isom_rect'' then terrain_isom_rect a index name ctx obj m
      else if name = ''unit.add'' then unit_add name ctx obj m
      else if name \<in> {''unit.set'', ''unit.move'', ''unit.delete''}
      then unit_change lib (drop (length ''unit.'') name) name ctx obj m
      else if name = ''sprite.add'' then sprite_add name ctx obj m
      else if name \<in> {''sprite.set'', ''sprite.move'', ''sprite.delete''}
      then sprite_change lib (drop (length ''sprite.'') name) name ctx obj m
      else if name = ''doodad.add'' then doodad_add a name ctx obj m
      else if name \<in> {''doodad.set'', ''doodad.move'', ''doodad.delete''}
      then doodad_change lib a (drop (length ''doodad.'') name) name ctx obj m
      else if name = ''location.add'' \<or> name = ''location.set'' then location_put name ctx obj m
      else if name = ''location.rename'' then location_rename name ctx obj m
      else if name = ''location.delete'' then location_delete name ctx obj m
      else if name = ''scenario.set'' then scenario_set name ctx obj m
      else if name = ''player.set'' then player_set name ctx obj m
      else if name = ''force.set'' then force_set name ctx obj m
      else fail (ctx @ '': unsupported operation '' @ quoted name))"

definition edit_operation ::
    "archive_lib \<Rightarrow> edit_assets \<Rightarrow> scenario \<times> json list \<Rightarrow> nat \<times> json \<Rightarrow> (scenario \<times> json list) result" where
  "edit_operation lib a = (\<lambda>(m, effects) (index, v).
     let ctx = ''map edit batch.operations['' @ nat_to_string index @ '']''
     in bindE (object_value v ctx) (\<lambda>obj.
        bindE (required_field obj ''op'' ctx) (\<lambda>op.
        bindE (string_value op (ctx @ ''.op'')) (\<lambda>name.
        bindE (edit_step lib a index name ctx obj m) (\<lambda>(m, e). Inr (m, effects @ [JObj e]))))))"

definition edit_operations ::
    "archive_lib \<Rightarrow> edit_assets \<Rightarrow> json list \<Rightarrow> scenario \<Rightarrow> (scenario \<times> json list) result" where
  "edit_operations lib a operations m = foldE (edit_operation lib a) (m, []) (enumerate 0 operations)"

end
