(* ===== verification/AgentMapEdit.thy ===== *)
theory AgentMapEdit
  imports AgentEditObjects
begin

text \<open>
  \<open>mapEdit\<close> of \<open>IsomTerrain/MapAgentCore.cpp\<close>: a batch of operations on a map whose digest, tileset and
  size the batch names; the edited map is saved to a temporary file, its assets are compared with those
  of the input, it is renamed to the output and read back.

  \<open>load_assets\<close> stands for \<open>loadAssets\<close>: the game data in the archives of a directory, or an error.
\<close>

section \<open>Steps shared with \<open>mapNew\<close>\<close>

text \<open>An error after which a file is deleted.\<close>

definition io_fail_deleting :: "string \<Rightarrow> bool \<Rightarrow> string \<Rightarrow> (unit \<Rightarrow> 'a io) \<Rightarrow> 'a io" where
  "io_fail_deleting path bad message f =
     (if bad then io_bind (io_set (delete_file path)) (\<lambda>_. io_return (fail message)) else f ())"

text \<open>\<open>save\<close> gives its result and the bytes it leaves at the temporary path.\<close>

definition save_map :: "(file_system \<Rightarrow> bool \<times> u8 list option) \<Rightarrow> string \<Rightarrow> unit io" where
  "save_map save temporary =
     io_bind (io_set (delete_file temporary)) (\<lambda>_.
     io_bind (io_get (\<lambda>fs. Inr (save fs))) (\<lambda>saved.
     io_bind (io_set (\<lambda>fs. fs(temporary := snd saved))) (\<lambda>_.
     io_fail_deleting temporary (\<not> fst saved) ''map save failed before output promotion'' (\<lambda>_.
     io_return (Inr ())))))"

definition promote_map :: "archive_lib \<Rightarrow> string \<Rightarrow> string \<Rightarrow> unit io" where
  "promote_map lib temporary output =
     io_bind (replace_file lib temporary output) (\<lambda>ok.
     io_fail_deleting temporary (\<not> ok) ''map output atomic promotion failed'' (\<lambda>_. io_return (Inr ())))"

definition reopen_map :: "archive_lib \<Rightarrow> string \<Rightarrow> scenario option io" where
  "reopen_map lib path = io_get (\<lambda>fs. Inr (Option.bind (fs path) (lib_load lib)))"

section \<open>The batch\<close>

record edit_batch =
  eb_hash :: string
  eb_expected :: json_object
  eb_object :: json_object

definition parse_edit_batch :: "string \<Rightarrow> edit_batch result" where
  "parse_edit_batch batch =
     bindE (parse_json batch ''map edit batch'') (\<lambda>root.
     bindE (object_value root ''map edit batch'') (\<lambda>obj.
     bindE (exact_fields obj [''schema'', ''expected'', ''operations''] ''map edit batch'') (\<lambda>_.
     bindE (required_field obj ''schema'' ''map edit batch'') (\<lambda>v.
     bindE (string_value v ''map edit batch.schema'') (\<lambda>schema.
       if schema \<noteq> ''eud-map-edit/1'' then fail ''unsupported map edit schema''
       else
         bindE (required_field obj ''expected'' ''map edit batch'') (\<lambda>v.
         bindE (object_value v ''map edit batch.expected'') (\<lambda>expected.
         bindE (exact_fields expected [''inputFileSha256'', ''tileset'', ''width'', ''height'']
           ''map edit batch.expected'') (\<lambda>_.
         bindE (required_field expected ''inputFileSha256'' ''map edit batch.expected'') (\<lambda>v.
         bindE (string_value v ''expected.inputFileSha256'') (\<lambda>hash.
         Inr \<lparr>eb_hash = hash, eb_expected = expected, eb_object = obj\<rparr>))))))))))"

definition check_expected_map :: "json_object \<Rightarrow> scenario \<Rightarrow> unit result" where
  "check_expected_map expected m =
     bindE (required_field expected ''tileset'' ''map edit batch.expected'') (\<lambda>v.
     bindE (string_value v ''expected.tileset'') (\<lambda>name.
     bindE (parse_tileset name) (\<lambda>tileset.
       if sc_tileset m \<noteq> tileset then fail ''input map tileset does not match batch expected authority''
       else
         bindE (checked_size expected ''width'' ''map edit batch.expected'' True) (\<lambda>width.
           if tile_width m \<noteq> width
           then fail ''input map dimensions do not match batch expected authority''
           else
             bindE (checked_size expected ''height'' ''map edit batch.expected'' True) (\<lambda>height.
               if tile_height m \<noteq> height
               then fail ''input map dimensions do not match batch expected authority''
               else Inr ())))))"

definition batch_operations :: "json_object \<Rightarrow> json list result" where
  "batch_operations obj =
     bindE (required_field obj ''operations'' ''map edit batch'') (\<lambda>v.
     bindE (array_value v ''map edit batch.operations'') (\<lambda>operations.
       if operations = [] \<or> max_operations < length operations
       then fail ''map edit batch operation count is out of range''
       else Inr operations))"

text \<open>Everything between loading the input map and saving the result.\<close>

definition run_batch ::
    "archive_lib \<Rightarrow> (string \<Rightarrow> edit_assets result) \<Rightarrow> string \<Rightarrow> edit_batch \<Rightarrow> scenario \<Rightarrow>
       (json list \<times> scenario \<times> json list) result" where
  "run_batch lib load_assets star_craft b m =
     bindE (check_expected_map (eb_expected b) m) (\<lambda>_.
     bindE (batch_operations (eb_object b)) (\<lambda>operations.
     bindE (load_assets star_craft) (\<lambda>a.
     bindE (edit_operations lib a operations m) (\<lambda>(m, effects). Inr (operations, m, effects)))))"

definition file_bytes :: "string \<Rightarrow> file_system \<Rightarrow> u8 list" where
  "file_bytes path fs = (case fs path of Some bs \<Rightarrow> bs | None \<Rightarrow> [])"

definition save_edited :: "archive_lib \<Rightarrow> string \<Rightarrow> scenario \<Rightarrow> file_system \<Rightarrow> bool \<times> u8 list option" where
  "save_edited lib input m fs = lib_save lib (file_bytes input fs) \<lparr>mf_scenario = m, mf_modified = []\<rparr>"

text \<open>Unlike the other steps, reading the assets of the temporary file leaves it in place on an error.\<close>

definition write_edited ::
    "archive_lib \<Rightarrow> string \<Rightarrow> string \<Rightarrow> string \<Rightarrow> scenario \<Rightarrow> inventory io" where
  "write_edited lib input output temporary m =
     io_bind (inventory_mpq lib input) (\<lambda>before_assets.
     io_bind (save_map (save_edited lib input m) temporary) (\<lambda>_.
     io_bind (inventory_mpq lib temporary) (\<lambda>after_assets.
     io_fail_deleting temporary (before_assets \<noteq> after_assets) ''map save changed unrelated MPQ assets'' (\<lambda>_.
     io_bind (promote_map lib temporary output) (\<lambda>_.
     io_bind (reopen_map lib output) (\<lambda>verified.
     io_fail_deleting output (verified = None) ''saved map failed native re-open verification'' (\<lambda>_.
     io_return (Inr after_assets))))))))"

definition edit_report :: "archive_lib \<Rightarrow> nat \<Rightarrow> json list \<Rightarrow> string \<Rightarrow> string \<Rightarrow> inventory \<Rightarrow> string" where
  "edit_report lib count effects input_hash output_hash assets =
     serialize_json (JObj (map_init [(''schema'', JStr ''eud-map-edit-report/1''), (''ok'', JBool True),
       (''operationCount'', json_size count), (''effects'', JArr effects), (''inputSha256'', JStr input_hash),
       (''outputSha256'', JStr output_hash), (''extraAssetsDigest'', JStr (assets_digest lib assets))]))"

definition map_edit ::
    "archive_lib \<Rightarrow> (string \<Rightarrow> edit_assets result) \<Rightarrow> string \<Rightarrow> string \<Rightarrow> string \<Rightarrow> string \<Rightarrow> string io" where
  "map_edit lib load_assets input output star_craft batch =
     io_check (star_craft = [] \<or> batch = []) ''mapedit received an invalid argument'' (\<lambda>_.
     io_check (input = [] \<or> output = [] \<or> lower_ascii input = lower_ascii output)
       ''mapedit requires distinct non-empty input and output paths'' (\<lambda>_.
     io_bind (io_set (delete_file output)) (\<lambda>_.
     io_bind (io_return (parse_edit_batch batch)) (\<lambda>b.
     io_bind (file_sha256 lib input) (\<lambda>hash.
     io_check (hash \<noteq> lower_ascii (eb_hash b)) ''input map sha256 does not match batch expected authority'' (\<lambda>_.
     io_bind (load_map lib input (''cannot load input map: '' @ input)) (\<lambda>m.
     io_bind (io_return (run_batch lib load_assets star_craft b m)) (\<lambda>(operations, m, effects).
     io_bind (write_edited lib input output (temporary_output_path lib output) m) (\<lambda>assets.
     io_bind (file_sha256 lib output) (\<lambda>output_hash.
     io_return (Inr (edit_report lib (length operations) effects (eb_hash b) output_hash assets))))))))))))"

end
