(* ===== verification/IsomTilesProps.thy ===== *)
theory IsomTilesProps
  imports IsomUndo
begin

text \<open>
  Regenerating tiles from a well-formed section returns: no vector is left and no \<open>Span\<close> throws. The
  section keeps its size and its references into the link table, the tile vectors keep their length.
\<close>

section \<open>What brushing leaves alone\<close>

definition same_frame :: "sc_map \<Rightarrow> isom_cache \<Rightarrow> isom_state \<Rightarrow> bool" where
  "same_frame m0 c0 = (\<lambda>(m, c). sm_tiles m = sm_tiles m0 \<and> sm_editor_tiles m = sm_editor_tiles m0
     \<and> sm_tile_width m = sm_tile_width m0 \<and> sm_tile_height m = sm_tile_height m0 \<and> sm_tileset m = sm_tileset m0
     \<and> ic_hash c = ic_hash c0 \<and> ic_tile_groups c = ic_tile_groups c0 \<and> ic_links c = ic_links c0)"

lemma same_frame_put:
  "same_frame m0 c0 (m, c) \<Longrightarrow> same_frame m0 c0 (put_quadrant p q v m, note_undo undoable m p q v c)"
proof -
  have "sm_tileset (put_quadrant p q v m) = sm_tileset m" by (simp add: put_quadrant_def)
  moreover have "ic_hash (note_undo undoable m p q v c) = ic_hash c"
    "ic_tile_groups (note_undo undoable m p q v c) = ic_tile_groups c"
    by (simp_all add: note_undo_def Let_def)
  ultimately show "same_frame m0 c0 (m, c) \<Longrightarrow> ?thesis" by (simp add: same_frame_def)
qed

lemma same_frame_note_diamond: "same_frame m0 c0 st \<Longrightarrow> same_frame m0 c0 (note_diamond undoable d v st)"
  by (cases st) (simp add: note_diamond_def quadrants_def same_frame_put)

interpretation frame_edit: brush_invariant "same_frame m0 c0" v for m0 c0 v
  by unfold_locales (auto simp: same_frame_note_diamond, auto simp: same_frame_def visit_diamond_def)

section \<open>The tables of the tile groups\<close>

text \<open>Every hash leads to some tile group, and only to groups that exist.\<close>

definition hash_ok :: "isom_cache \<Rightarrow> bool" where
  "hash_ok c \<longleftrightarrow> (\<forall>h gs. ic_hash c h = Some gs \<longrightarrow>
     gs \<noteq> [] \<and> (\<forall>g \<in> set gs. unat g < length (ic_tile_groups c)))"

definition tiles_ok :: "sc_map \<Rightarrow> bool" where
  "tiles_ok m \<longleftrightarrow> length (sm_tiles m) = unat (sm_tile_width m) * unat (sm_tile_height m)
     \<and> length (sm_editor_tiles m) = unat (sm_tile_width m) * unat (sm_tile_height m)"

text \<open>What writing tiles keeps.\<close>

definition same_section :: "sc_map \<Rightarrow> sc_map \<Rightarrow> bool" where
  "same_section m0 m \<longleftrightarrow> sm_tile_width m = sm_tile_width m0 \<and> sm_tile_height m = sm_tile_height m0
     \<and> sm_rects m = sm_rects m0 \<and> sm_tileset m = sm_tileset m0 \<and> tiles_ok m"

lemma same_sectionD:
  assumes "same_section m0 m"
  shows "sm_tile_width m = sm_tile_width m0" "sm_tile_height m = sm_tile_height m0"
    "sm_rects m = sm_rects m0" "sm_tileset m = sm_tileset m0" "tiles_ok m"
  using assms by (simp_all add: same_section_def)

lemma get_tile_ok:
  assumes "same_section m0 m" "x < unat (sm_tile_width m0)" "y < unat (sm_tile_height m0)"
  shows "\<exists>t. get_tile_value m x y = Inr t"
  using same_sectionD [OF assms(1)] grid_index_less [OF assms(2,3)] by (auto simp: get_tile_value_def tiles_ok_def)

lemma set_tile_ok:
  assumes "same_section m0 m" "x < unat (sm_tile_width m0)" "y < unat (sm_tile_height m0)"
  shows "\<exists>m'. set_tile_value x y v m = Inr m' \<and> same_section m0 m'"
  using same_sectionD [OF assms(1)] grid_index_less [OF assms(2,3)] assms(1)
  by (auto simp: set_tile_value_def tiles_ok_def same_section_def)

lemma stack_of_ok:
  assumes "g < length (ic_tile_groups c)"
  shows "\<exists>t. stack_top_of c g = Inr t" "\<exists>t. stack_bottom_of c g = Inr t"
  using assms by (auto simp: stack_top_of_def stack_bottom_of_def)

lemma find_stackable_ok:
  "\<forall>g \<in> set gs. unat g < length (ic_tile_groups c) \<Longrightarrow>
     \<exists>r. find_stackable c b gs = Inr r \<and> (\<forall>g. r = Some g \<longrightarrow> g \<in> set gs)"
proof (induction gs)
  case (Cons g gs)
  then obtain t where "stack_top_of c (unat g) = Inr t" using stack_of_ok(1) [of "unat g" c] by auto
  then show ?case using Cons by auto
qed simp

lemma stack_top_ok:
  assumes "same_section m0 m" "x < unat (sm_tile_width m0)" "y < unat (sm_tile_height m0)"
  shows "\<exists>r. stack_top m c x y cur = Inr r \<and> r \<le> y"
  using assms(3)
proof (induction y arbitrary: cur)
  case (Suc y)
  obtain t where t: "get_tile_value m x y = Inr t" using get_tile_ok [OF assms(1,2), of y] Suc.prems by auto
  show ?case
  proof (cases "cur < length (ic_tile_groups c) \<and> tile_group_of t < length (ic_tile_groups c)")
    case True
    then obtain a b where "stack_top_of c cur = Inr a" "stack_bottom_of c (tile_group_of t) = Inr b"
      using stack_of_ok by blast
    then show ?thesis using Suc.IH [of "tile_group_of t"] Suc.prems True t by (auto simp: Let_def)
  next
    case False
    show ?thesis
    proof (cases "cur < length (ic_tile_groups c)")
      case cur: True
      then obtain a where "stack_top_of c cur = Inr a" using stack_of_ok by blast
      then show ?thesis using False cur t by (auto simp: Let_def)
    qed simp
  qed
qed simp

lemma rect_hash_ok:
  assumes "rect_ok (length links) r"
  shows "\<exists>h. rect_hash links r = Inr h"
proof -
  have "\<exists>t. foldE (hash_side links r) (0, 0) sides = Inr t \<and> True"
    using assms by (intro foldE_total) (auto simp: hash_side_def rect_ok_def Let_def split: prod.splits)
  then show ?thesis by (auto simp: rect_hash_def split: prod.splits)
qed

lemma rest_of_stack_ok:
  assumes sec: "same_section m0 m" and x: "2 * ix + 1 < unat (sm_tile_width m0)"
    and ys: "\<forall>y \<in> set ys. 0 < y \<and> y < unat (sm_tile_height m0)"
    and rects: "\<forall>y < unat (sm_tile_height m0). \<exists>r. rect_at m0 (ix, y) = Inr r \<and> rect_ok (length (ic_links c)) r"
    and hash: "hash_ok c"
  shows "\<exists>m'. rest_of_stack c ix subtile m ys = Inr m' \<and> same_section m0 m'"
  using sec ys
proof (induction ys arbitrary: m)
  case (Cons y ys)
  let ?n = "length (ic_tile_groups c)"
  have x': "2 * ix < unat (sm_tile_width m0)" and y: "y < unat (sm_tile_height m0)" "y - 1 < unat (sm_tile_height m0)"
    using x Cons.prems by auto
  obtain t t' tr where t: "get_tile_value m (2 * ix) (y - 1) = Inr t" "get_tile_value m (2 * ix) y = Inr t'"
    "get_tile_value m (2 * ix + 1) y = Inr tr"
    using get_tile_ok [OF Cons.prems(1)] x x' y by meson
  show ?case
  proof (cases "?n \<le> tile_group_of t \<or> ?n \<le> tile_group_of t'")
    case True
    then show ?thesis using Cons.prems(1) t by (auto simp: Let_def)
  next
    case False
    obtain b a where s: "stack_bottom_of c (tile_group_of t) = Inr b" "stack_top_of c (tile_group_of t') = Inr a"
      using stack_of_ok False by (meson not_le)
    obtain r where r0: "rect_at m0 (ix, y) = Inr r" "rect_ok (length (ic_links c)) r" using rects y by blast
    then have r: "rect_at m (ix, y) = Inr r"
      using same_sectionD [OF Cons.prems(1)] by (simp add: rect_at_def rect_index_def isom_width_def)
    obtain h where h: "rect_hash (ic_links c) r = Inr h" using rect_hash_ok [OF r0(2)] by blast
    have found: "\<exists>f. find_stackable c b gs = Inr f" if "ic_hash c h = Some gs" for gs
      using find_stackable_ok [of gs c b] hash that by (auto simp: hash_ok_def)
    define choice where "choice = (if b \<noteq> a then
        bindE (rect_at m (ix, y)) (\<lambda>r. bindE (rect_hash (ic_links c) r) (\<lambda>h.
          case ic_hash c h of None \<Rightarrow> Inr (tile_group_of t', tile_group_of tr)
          | Some gs \<Rightarrow> bindE (find_stackable c b gs) (\<lambda>found. Inr (case found of
              None \<Rightarrow> (tile_group_of t', tile_group_of tr) | Some k \<Rightarrow> (unat k, unat (k + 1))))))
      else Inr (tile_group_of t', tile_group_of tr))"
    have "\<exists>p. choice = Inr p" using r h found by (auto simp: choice_def split: option.split)
    then obtain left right where c: "choice = Inr (left, right)" by auto
    obtain m1 where m1: "set_tile_value (2 * ix) y (group_tile left subtile) m = Inr m1" "same_section m0 m1"
      using set_tile_ok [OF Cons.prems(1) x' y(1)] by blast
    obtain m2 where m2: "set_tile_value (2 * ix + 1) y (group_tile right subtile) m1 = Inr m2" "same_section m0 m2"
      using set_tile_ok [OF m1(2) x y(1)] by blast
    obtain m3 where m3: "rest_of_stack c ix subtile m2 ys = Inr m3" "same_section m0 m3"
      using Cons.IH [OF m2(2)] Cons.prems(2) by auto
    have "rest_of_stack c ix subtile m (y # ys) = (if b = 0 \<or> a = 0 then Inr m else bindE choice (\<lambda>(left, right).
        bindE (set_tile_value (2 * ix) y (group_tile left subtile) m) (\<lambda>m.
        bindE (set_tile_value (2 * ix + 1) y (group_tile right subtile) m) (\<lambda>m. rest_of_stack c ix subtile m ys))))"
      using t s False by (simp add: choice_def Let_def)
    then show ?thesis using c m1 m2 m3 Cons.prems(1) by auto
  qed
qed simp

text \<open>Only the generator of the cache moves on.\<close>

lemma random_subtile_cache:
  assumes "get_random_subtile g c = (t, c')"
  shows "ic_width c' = ic_width c" "ic_height c' = ic_height c" "ic_hash c' = ic_hash c" "ic_links c' = ic_links c"
    "ic_tile_groups c' = ic_tile_groups c" "ic_types c' = ic_types c" "ic_type_map c' = ic_type_map c"
    "ic_undo c' = ic_undo c" "ic_changed c' = ic_changed c"
  using assms by (auto simp: get_random_subtile_def next_subtile_random_def Let_def split: if_splits)

definition same_cache :: "isom_cache \<Rightarrow> isom_cache \<Rightarrow> bool" where
  "same_cache c0 c \<longleftrightarrow> ic_width c = ic_width c0 \<and> ic_height c = ic_height c0 \<and> ic_hash c = ic_hash c0
     \<and> ic_links c = ic_links c0 \<and> ic_tile_groups c = ic_tile_groups c0 \<and> ic_types c = ic_types c0
     \<and> ic_type_map c = ic_type_map c0 \<and> ic_undo c = ic_undo c0 \<and> ic_changed c = ic_changed c0"

lemma update_tile_ok:
  assumes ok: "state_ok (m, c)" "tiles_ok m" "hash_ok c" and p: "in_bounds m (ix, y)"
  shows "\<exists>m' c'. update_tile_from_isom (m, c) (ix, y) = Inr (m', c') \<and> same_section m m' \<and> same_cache c c'"
proof (cases "ic_width c \<le> size_add ix 1 \<or> ic_height c \<le> size_add y 1")
  case True
  then show ?thesis using ok(2) by (simp add: update_tile_from_isom_def same_section_def same_cache_def)
next
  case False
  note isom = state_okD(1) [OF ok(1)]
  have small: "ix < 0x10000" "y < 0x20000"
    using p isom_width_bounds(2) [of m] isom_height_bounds(2) [of m] by (simp_all add: in_bounds_def)
  then have "ix + 1 < ic_width c" "y + 1 < ic_height c"
    using False by (simp_all add: size_limit_def)
  then have xy: "2 * ix + 1 < unat (sm_tile_width m)" "2 * ix < unat (sm_tile_width m)" "y < unat (sm_tile_height m)"
    using isom by (simp_all add: isom_ok_def isom_width_def isom_height_def)
  have rects: "\<exists>r. rect_at m (ix, y') = Inr r \<and> rect_ok (length (ic_links c)) r" if "y' < unat (sm_tile_height m)" for y'
  proof -
    have b: "in_bounds m (ix, y')" using p that by (simp add: in_bounds_def isom_height_def)
    then have "sm_rects m ! rect_index m (ix, y') \<in> set (sm_rects m)"
      using rect_index_less [OF b] isom by (simp add: isom_ok_def)
    then show ?thesis using rect_at_ok [OF isom b] state_okD(3) [OF ok(1)] by blast
  qed
  obtain r where r: "rect_at m (ix, y) = Inr r" "rect_ok (length (ic_links c)) r" using rects xy(3) by blast
  obtain h where h: "rect_hash (ic_links c) r = Inr h" using rect_hash_ok [OF r(2)] by blast
  have sec: "same_section m m" using ok(2) by (simp add: same_section_def)
  show ?thesis
  proof (cases "ic_hash c h")
    case None
    obtain m1 where m1: "set_tile_value (2 * ix) y 0 m = Inr m1" "same_section m m1"
      using set_tile_ok [OF sec xy(2,3)] by blast
    obtain m2 where m2: "set_tile_value (2 * ix + 1) y 0 m1 = Inr m2" "same_section m m2"
      using set_tile_ok [OF m1(2) xy(1,3)] by blast
    show ?thesis using False r h None m1 m2 by (simp add: update_tile_from_isom_def same_cache_def)
  next
    case (Some gs)
    then have gs: "gs \<noteq> []" "\<forall>g \<in> set gs. unat g < length (ic_tile_groups c)"
      using ok(3) by (auto simp: hash_ok_def)
    define choice where "choice = (if 0 < y then
        bindE (get_tile_value m (2 * ix) (y - 1)) (\<lambda>t.
          if tile_group_of t < length (ic_tile_groups c) then
            bindE (stack_bottom_of c (tile_group_of t)) (\<lambda>bottom.
            bindE (find_stackable c bottom gs) (\<lambda>found. Inr (case found of None \<Rightarrow> gs ! 0 | Some g \<Rightarrow> g)))
          else Inr (gs ! 0))
      else Inr (gs ! 0))"
    have "\<exists>dest. choice = Inr dest"
    proof (cases "0 < y")
      case True
      have "y - 1 < unat (sm_tile_height m)" using xy(3) by arith
      then obtain t where t: "get_tile_value m (2 * ix) (y - 1) = Inr t" using get_tile_ok [OF sec xy(2)] by blast
      show ?thesis
      proof (cases "tile_group_of t < length (ic_tile_groups c)")
        case g: True
        then obtain b where "stack_bottom_of c (tile_group_of t) = Inr b" using stack_of_ok by blast
        then show ?thesis using True t g find_stackable_ok [OF gs(2), of b] by (auto simp: choice_def)
      qed (use True t in \<open>simp add: choice_def\<close>)
    qed (simp add: choice_def)
    then obtain dest where dest: "choice = Inr dest" ..
    obtain tile c' where sub: "get_random_subtile dest c = (tile, c')" by force
    note same = random_subtile_cache [OF sub]
    let ?s = "tile mod 16"
    obtain m1 where m1: "set_tile_value (2 * ix) y (16 * dest + ?s) m = Inr m1" "same_section m m1"
      using set_tile_ok [OF sec xy(2,3)] by blast
    obtain m2 where m2: "set_tile_value (2 * ix + 1) y (16 * (dest + 1) + ?s) m1 = Inr m2" "same_section m m2"
      using set_tile_ok [OF m1(2) xy(1,3)] by blast
    obtain t where t: "get_tile_value m2 (2 * ix) y = Inr t" using get_tile_ok [OF m2(2) xy(2,3)] by blast
    obtain k where k: "stack_top m2 c' (2 * ix) y (tile_group_of t) = Inr k" "k \<le> y"
      using stack_top_ok [OF m2(2) xy(2,3)] by blast
    have ky: "k < unat (sm_tile_height m)" using k(2) xy(3) by simp
    obtain tl where tl: "get_tile_value m2 (2 * ix) k = Inr tl" using get_tile_ok [OF m2(2) xy(2) ky] by blast
    obtain m3 where m3: "set_tile_value (2 * ix) k (group_tile (tile_group_of tl) ?s) m2 = Inr m3" "same_section m m3"
      using set_tile_ok [OF m2(2) xy(2) ky] by blast
    obtain tr where tr: "get_tile_value m3 (2 * ix + 1) k = Inr tr" using get_tile_ok [OF m3(2) xy(1) ky] by blast
    obtain m4 where m4: "set_tile_value (2 * ix + 1) k (group_tile (tile_group_of tr) ?s) m3 = Inr m4" "same_section m m4"
      using set_tile_ok [OF m3(2) xy(1) ky] by blast
    have height: "sm_tile_height m4 = sm_tile_height m" using same_sectionD [OF m4(2)] by simp
    obtain m5 where m5: "rest_of_stack c' ix ?s m4 [k + 1..<unat (sm_tile_height m4)] = Inr m5" "same_section m m5"
      using rest_of_stack_ok [OF m4(2) xy(1), of "[k + 1..<unat (sm_tile_height m4)]" c' ?s] rects same ok(3) height
      by (auto simp: hash_ok_def)
    have "update_tile_from_isom (m, c) (ix, y) = bindE choice (\<lambda>dest.
        let (tile, c) = get_random_subtile dest c; subtile = tile mod 16
        in bindE (set_tile_value (2 * ix) y (16 * dest + subtile) m) (\<lambda>m.
           bindE (set_tile_value (2 * ix + 1) y (16 * (dest + 1) + subtile) m) (\<lambda>m.
           bindE (get_tile_value m (2 * ix) y) (\<lambda>t.
           bindE (stack_top m c (2 * ix) y (tile_group_of t)) (\<lambda>top.
           bindE (get_tile_value m (2 * ix) top) (\<lambda>tl.
           bindE (set_tile_value (2 * ix) top (group_tile (tile_group_of tl) subtile) m) (\<lambda>m.
           bindE (get_tile_value m (2 * ix + 1) top) (\<lambda>tr.
           bindE (set_tile_value (2 * ix + 1) top (group_tile (tile_group_of tr) subtile) m) (\<lambda>m.
           bindE (rest_of_stack c ix subtile m [top + 1..<unat (sm_tile_height m)]) (\<lambda>m. Inr (m, c)))))))))))"
      using False r h Some gs(1) unfolding update_tile_from_isom_def choice_def by simp
    also have "\<dots> = Inr (m5, c')"
      using dest sub m1 m2 t k m3 tl tr m4 m5 by simp
    finally show ?thesis using m5(2) same by (simp add: same_cache_def)
  qed
qed

section \<open>The whole changed area\<close>

definition tiles_state_ok :: "sc_map \<Rightarrow> isom_cache \<Rightarrow> isom_state \<Rightarrow> bool" where
  "tiles_state_ok m0 c0 = (\<lambda>(m, c). state_ok (m, c) \<and> tiles_ok m \<and> hash_ok c
     \<and> sm_tile_width m = sm_tile_width m0 \<and> sm_tile_height m = sm_tile_height m0 \<and> sm_tileset m = sm_tileset m0
     \<and> ic_tile_groups c = ic_tile_groups c0 \<and> ic_links c = ic_links c0 \<and> ic_changed c = ic_changed c0)"

lemma state_ok_tiles:
  assumes "state_ok (m, c)" "same_section m m'" "same_cache c c'"
  shows "state_ok (m', c')"
  using assms by (simp add: state_ok_def isom_ok_def isom_width_def isom_height_def same_section_def same_cache_def cache_ok_def)

lemma refresh_point_ok:
  assumes st: "tiles_state_ok m0 c0 (m, c)" and p: "in_bounds m0 (x, y)"
  shows "\<exists>st'. refresh_point (m, c) (x, y) = Inr st' \<and> tiles_state_ok m0 c0 st'"
proof -
  have ok: "state_ok (m, c)" "tiles_ok m" "hash_ok c" and b: "in_bounds m (x, y)"
    using st p by (simp_all add: tiles_state_ok_def in_bounds_def isom_width_def isom_height_def)
  obtain r where r: "rect_at m (x, y) = Inr r" using rect_at_ok [OF state_okD(1) [OF ok(1)] b] by blast
  obtain m' c' where u: "(if is_left_or_right_modified r then update_tile_from_isom (m, c) (x, y) else Inr (m, c)) = Inr (m', c')"
    "same_section m m'" "same_cache c c'"
    using update_tile_ok [OF ok b] ok(2) by (cases "is_left_or_right_modified r") (auto simp: same_section_def same_cache_def)
  have ok': "state_ok (m', c')" by (rule state_ok_tiles [OF ok(1) u(2,3)])
  have b': "in_bounds m' (x, y)" using b u(2) by (simp add: same_section_def in_bounds_def isom_width_def isom_height_def)
  have i: "rect_index m' (x, y) < length (sm_rects m')"
    using rect_index_less [OF b'] state_okD(1) [OF ok'] by (simp add: isom_ok_def)
  let ?r = "sm_rects m' ! rect_index m' (x, y)"
  have "rect_ok (length (ic_links c')) ?r" using i state_okD(3) [OF ok'] by simp
  then have fin: "state_ok (m'\<lparr>sm_rects := (sm_rects m')[rect_index m' (x, y) := clear_editor_flags ?r]\<rparr>, c')"
    using ok' rect_ok_cleared by (intro state_ok_update) auto
  have "refresh_point (m, c) (x, y) =
      Inr (m'\<lparr>sm_rects := (sm_rects m')[rect_index m' (x, y) := clear_editor_flags ?r]\<rparr>, c')"
    using r u(1) i by (simp add: refresh_point_def rect_at_def set_rect_at_def)
  then show ?thesis
    using fin st u(2,3) by (auto simp: tiles_state_ok_def same_section_def same_cache_def tiles_ok_def hash_ok_def)
qed

lemma changed_points_in_bounds:
  assumes "bb_right b < isom_width m" "bb_bottom b < isom_height m" "p \<in> set (changed_points b)"
  shows "in_bounds m p"
  using assms by (auto simp: changed_points_def area_points_def in_bounds_def)

lemma update_tiles_ok:
  assumes "state_ok (m, c)" "tiles_ok m" "hash_ok c"
    and "bb_right (ic_changed c) < isom_width m" "bb_bottom (ic_changed c) < isom_height m"
  shows "\<exists>m' c'. update_tiles_from_isom (m, c) = Inr (m', c') \<and> tiles_ok m' \<and> state_ok (m', c')
     \<and> sm_tile_width m' = sm_tile_width m \<and> sm_tile_height m' = sm_tile_height m \<and> sm_tileset m' = sm_tileset m
     \<and> ic_links c' = ic_links c"
proof -
  let ?ps = "changed_points (ic_changed c)"
  have "\<exists>st. foldE refresh_point (m, c) ?ps = Inr st \<and> tiles_state_ok m c st"
  proof (rule foldE_total)
    show "tiles_state_ok m c (m, c)" using assms by (simp add: tiles_state_ok_def)
    show "\<exists>v. refresh_point u p = Inr v \<and> tiles_state_ok m c v" if "p \<in> set ?ps" "tiles_state_ok m c u" for u p
      using refresh_point_ok [of m c "fst u" "snd u" "fst p" "snd p"] that
        changed_points_in_bounds [OF assms(4,5) that(1)] by simp
  qed
  then obtain m' c' where "foldE refresh_point (m, c) ?ps = Inr (m', c')" "tiles_state_ok m c (m', c')" by auto
  then show ?thesis
    by (auto simp: update_tiles_from_isom_def tiles_state_ok_def reset_changed_area_def state_ok_changed)
qed

section \<open>Brushing and regenerating the tiles\<close>

definition placed_ok :: "sc_map \<Rightarrow> isom_cache \<Rightarrow> isom_state \<Rightarrow> bool" where
  "placed_ok m c st \<longleftrightarrow> state_ok st \<and> changed_ok m st \<and> same_frame m c st"

lemma placed_ok_start:
  assumes "state_ok (m, c)"
  shows "changed_ok m (m, reset_changed_area c)" "same_frame m c (m, reset_changed_area c)"
  using changed_ok_start [OF state_okD(1) [OF assms]] by (simp_all add: same_frame_def reset_changed_area_def)

lemma place_brush_placed:
  assumes "state_ok (m, c)"
  shows "\<exists>b st. place_isom_terrain d t extent (m, c) = Inr (b, st) \<and> (b \<longrightarrow> placed_ok m c st)"
  using changed_edit.place_keeps [OF assms placed_ok_start(1) [OF assms] refl, of d t extent]
    frame_edit.place_keeps [OF assms placed_ok_start(2) [OF assms] refl, of d t extent]
  by (auto simp: placed_ok_def)

lemma place_diamonds_placed:
  assumes "state_ok (m, c)"
  shows "\<exists>b st. place_isom_terrain_diamonds ds t (m, c) = Inr (b, st) \<and> (b \<longrightarrow> placed_ok m c st)"
  using changed_edit.place_diamonds_keeps [OF assms placed_ok_start(1) [OF assms] refl, of ds t]
    frame_edit.place_diamonds_keeps [OF assms placed_ok_start(2) [OF assms] refl, of ds t]
  by (auto simp: placed_ok_def)

lemma placed_then_tiles:
  assumes st: "placed_ok m c st" and "tiles_ok m" "hash_ok c"
  shows "\<exists>m' c'. update_tiles_from_isom st = Inr (m', c') \<and> tiles_ok m' \<and> state_ok (m', c')
     \<and> sm_tile_width m' = sm_tile_width m \<and> sm_tile_height m' = sm_tile_height m \<and> sm_tileset m' = sm_tileset m
     \<and> ic_links c' = ic_links c"
proof -
  obtain m1 c1 where st1: "st = (m1, c1)" by (cases st)
  have frame: "same_frame m c (m1, c1)" using st st1 by (simp add: placed_ok_def)
  have pre: "state_ok (m1, c1)" "tiles_ok m1" "hash_ok c1"
    "bb_right (ic_changed c1) < isom_width m1" "bb_bottom (ic_changed c1) < isom_height m1"
    using assms st1 by (simp_all add: placed_ok_def same_frame_def changed_ok_def tiles_ok_def hash_ok_def)
  obtain m' c' where "update_tiles_from_isom (m1, c1) = Inr (m', c')" "tiles_ok m'" "state_ok (m', c')"
    "sm_tile_width m' = sm_tile_width m1" "sm_tile_height m' = sm_tile_height m1" "sm_tileset m' = sm_tileset m1"
    "ic_links c' = ic_links c1"
    using update_tiles_ok [OF pre] by blast
  then show ?thesis using st1 frame by (auto simp: same_frame_def)
qed

text \<open>A set of diamonds in the section is placed whenever the brush is one of the tileset.\<close>

lemma place_diamonds_succeeds:
  assumes ok: "state_ok (m, c)" and ds: "ds \<noteq> []" "\<forall>d \<in> set ds. is_valid_diamond d \<and> in_bounds m d"
    and brush: "brush_allowed c (terrain_type_isom_value c t)"
  shows "\<exists>st. place_isom_terrain_diamonds ds t (m, c) = Inr (True, st) \<and> placed_ok m c st"
proof -
  obtain b st where run: "place_isom_terrain_diamonds ds t (m, c) = Inr (b, st)" "b \<longrightarrow> placed_ok m c st"
    using place_diamonds_placed [OF ok] by blast
  have b using run(1) ds brush
    by (auto simp: place_isom_terrain_diamonds_def Let_def bindE_Inr split: if_splits)
  with run show ?thesis by simp
qed

end
