(* ===== verification/AgentEditProps.thy ===== *)
theory AgentEditProps
  imports AgentMapEdit IsomTilesProps ScenarioStringsProps
begin

text \<open>
  What the operations of a batch keep: every one of them changes its own layer only, and leaves a map
  whose arrays, terrain and objects are well-formed.
\<close>

section \<open>Well-formed game data and maps\<close>

definition tileset_ok :: "tileset_data \<Rightarrow> bool" where
  "tileset_ok td \<longleftrightarrow> cache_ok (new_cache 0 0 0 td) \<and> hash_ok (new_cache 0 0 0 td)"

definition isom_section_size :: "scenario \<Rightarrow> nat" where
  "isom_section_size m = (tile_width m div 2 + 1) * (tile_height m + 1)"

definition terrain_ok :: "edit_assets \<Rightarrow> scenario \<Rightarrow> bool" where
  "terrain_ok a m \<longleftrightarrow> length (sc_tiles m) = tile_width m * tile_height m
     \<and> length (sc_editor_tiles m) = tile_width m * tile_height m
     \<and> (length (sc_isom m) = isom_section_size m \<longrightarrow>
          (\<forall>r \<in> set (sc_isom m). rect_ok (length (td_isom_links (isom_of a (sc_tileset m)))) r))"

definition unit_ok :: "scenario \<Rightarrow> chk_unit \<Rightarrow> bool" where
  "unit_ok m u \<longleftrightarrow> unat (un_type u) < total_unit_types \<and> un_owner u \<le> max_owner \<and> un_hitpoint_percent u \<le> 100
     \<and> un_shield_percent u \<le> 100 \<and> un_energy_percent u \<le> 100 \<and> \<not> outside_map m (un_x u) (un_y u)"

definition sprite_ok :: "scenario \<Rightarrow> chk_sprite \<Rightarrow> bool" where
  "sprite_ok m s \<longleftrightarrow> unat (sp_type s) < total_sprites \<and> sp_owner s \<le> max_owner \<and> \<not> outside_map m (sp_x s) (sp_y s)"

definition doodad_ok :: "scenario \<Rightarrow> chk_doodad \<Rightarrow> bool" where
  "doodad_ok m d \<longleftrightarrow> dd_owner d \<le> max_owner \<and> \<not> outside_map m (dd_x d) (dd_y d)"

definition objects_ok :: "scenario \<Rightarrow> bool" where
  "objects_ok m \<longleftrightarrow> (\<forall>u \<in> set (sc_units m). unit_ok m u) \<and> (\<forall>s \<in> set (sc_sprites m). sprite_ok m s)
     \<and> (\<forall>d \<in> set (sc_doodads m). doodad_ok m d)"

definition map_ok_for :: "edit_assets \<Rightarrow> scenario \<Rightarrow> bool" where
  "map_ok_for a m \<longleftrightarrow> arrays_ok m \<and> terrain_ok a m \<and> objects_ok m"

definition same_dimensions :: "scenario \<Rightarrow> scenario \<Rightarrow> bool" where
  "same_dimensions m n \<longleftrightarrow> sc_width n = sc_width m \<and> sc_height n = sc_height m \<and> sc_tileset n = sc_tileset m"

lemma same_dimensions_objects:
  "same_dimensions m n \<Longrightarrow> outside_map n = outside_map m"
  "same_dimensions m n \<Longrightarrow> unit_ok n = unit_ok m"
  "same_dimensions m n \<Longrightarrow> sprite_ok n = sprite_ok m"
  "same_dimensions m n \<Longrightarrow> doodad_ok n = doodad_ok m"
  by (auto simp: same_dimensions_def fun_eq_iff outside_map_def pixel_width_def pixel_height_def
      unit_ok_def sprite_ok_def doodad_ok_def)

section \<open>Layers\<close>

text \<open>Each kind of operation overwrites some fields of the map and keeps the others.\<close>

definition terrain_change :: "scenario \<Rightarrow> scenario \<Rightarrow> bool" where
  "terrain_change m n \<longleftrightarrow>
     (\<exists>ts es rs. n = m\<lparr>sc_tiles := ts, sc_editor_tiles := es, sc_isom := rs\<rparr>)"

definition unit_layer_change :: "scenario \<Rightarrow> scenario \<Rightarrow> bool" where
  "unit_layer_change m n \<longleftrightarrow> (\<exists>us. n = m\<lparr>sc_units := us\<rparr>)"

definition sprite_layer_change :: "scenario \<Rightarrow> scenario \<Rightarrow> bool" where
  "sprite_layer_change m n \<longleftrightarrow> (\<exists>ss. n = m\<lparr>sc_sprites := ss\<rparr>)"

definition doodad_layer_change :: "scenario \<Rightarrow> scenario \<Rightarrow> bool" where
  "doodad_layer_change m n \<longleftrightarrow>
     (\<exists>ts es ss ds. n = m\<lparr>sc_tiles := ts, sc_editor_tiles := es, sc_sprites := ss, sc_doodads := ds\<rparr>)"

definition location_layer_change :: "scenario \<Rightarrow> scenario \<Rightarrow> bool" where
  "location_layer_change m n \<longleftrightarrow> (\<exists>ls strs. n = m\<lparr>sc_locations := ls, sc_strings := strs\<rparr>)"

definition text_layer_change :: "scenario \<Rightarrow> scenario \<Rightarrow> bool" where
  "text_layer_change m n \<longleftrightarrow>
     (\<exists>strs i j. n = m\<lparr>sc_strings := strs, sc_name_id := i, sc_description_id := j\<rparr>)"

definition player_layer_change :: "scenario \<Rightarrow> scenario \<Rightarrow> bool" where
  "player_layer_change m n \<longleftrightarrow>
     (\<exists>ts is rs fs. n = m\<lparr>sc_slot_types := ts, sc_iown_slot_types := is, sc_races := rs, sc_player_forces := fs\<rparr>)"

definition force_layer_change :: "scenario \<Rightarrow> scenario \<Rightarrow> bool" where
  "force_layer_change m n \<longleftrightarrow>
     (\<exists>strs ids flags. n = m\<lparr>sc_strings := strs, sc_force_strings := ids, sc_force_flags := flags\<rparr>)"

section \<open>Exact tiles\<close>

definition repainted :: "scenario \<Rightarrow> scenario \<Rightarrow> bool" where
  "repainted m n \<longleftrightarrow> (\<exists>ts es. n = m\<lparr>sc_tiles := ts, sc_editor_tiles := es\<rparr> \<and> length ts = length (sc_tiles m)
     \<and> (length (sc_editor_tiles m) = length (sc_tiles m) \<longrightarrow> length es = length (sc_tiles m)))"

lemma repaintedI:
  assumes "n = m\<lparr>sc_tiles := ts, sc_editor_tiles := es\<rparr>" "length ts = length (sc_tiles m)"
    "length (sc_editor_tiles m) = length (sc_tiles m) \<Longrightarrow> length es = length (sc_tiles m)"
  shows "repainted m n"
  using assms unfolding repainted_def by blast

lemma repainted_refl [simp]: "repainted m m"
  by (rule repaintedI [where m = m and ts = "sc_tiles m" and es = "sc_editor_tiles m"]) simp_all

lemma repainted_trans:
  assumes "repainted m n" "repainted n k"
  shows "repainted m k"
proof -
  obtain ts es where n: "n = m\<lparr>sc_tiles := ts, sc_editor_tiles := es\<rparr>" "length ts = length (sc_tiles m)"
    "length (sc_editor_tiles m) = length (sc_tiles m) \<longrightarrow> length es = length (sc_tiles m)"
    using assms(1) unfolding repainted_def by blast
  obtain ts' es' where k: "k = n\<lparr>sc_tiles := ts', sc_editor_tiles := es'\<rparr>" "length ts' = length (sc_tiles n)"
    "length (sc_editor_tiles n) = length (sc_tiles n) \<longrightarrow> length es' = length (sc_tiles n)"
    using assms(2) unfolding repainted_def by blast
  show ?thesis
  proof (rule repaintedI)
    show "k = m\<lparr>sc_tiles := ts', sc_editor_tiles := es'\<rparr>" using k(1) n(1) by simp
    show "length ts' = length (sc_tiles m)" using k(2) n(1,2) by simp
    show "length es' = length (sc_tiles m)" if "length (sc_editor_tiles m) = length (sc_tiles m)"
      using that n k(3) by simp
  qed
qed

lemma repainted_tiles:
  "length ts = length (sc_tiles m) \<Longrightarrow> repainted m (m\<lparr>sc_tiles := ts\<rparr>)"
  by (rule repaintedI [where m = m and ts = ts and es = "sc_editor_tiles m"]) simp_all

lemma set_exact_tile_repaints:
  assumes "set_exact_tile x y t m = Inr n"
  shows "repainted m n"
proof (rule repaintedI)
  let ?i = "y * tile_width m + x" and ?es = "if length (sc_editor_tiles m) \<noteq> tile_width m * tile_height m
      then sc_tiles m else sc_editor_tiles m"
  show "n = m\<lparr>sc_tiles := (sc_tiles m)[?i := t], sc_editor_tiles := ?es[?i := t]\<rparr>"
    using assms by (simp add: set_exact_tile_def Let_def split: if_splits)
  show "length (?es[?i := t]) = length (sc_tiles m)" if "length (sc_editor_tiles m) = length (sc_tiles m)"
    using that by simp
qed simp

lemma paint_tiles_repaints: "paint_tiles x y w h f m = Inr n \<Longrightarrow> repainted m n"
  unfolding paint_tiles_def
  by (erule foldE_invariant) (auto intro: repainted_trans set_exact_tile_repaints)

lemma repainted_kept:
  assumes "repainted m n"
  shows "terrain_change m n" "doodad_layer_change m n" "same_dimensions m n"
    "map_ok_for a m \<Longrightarrow> map_ok_for a n"
proof -
  obtain ts es where n: "n = m\<lparr>sc_tiles := ts, sc_editor_tiles := es\<rparr>" "length ts = length (sc_tiles m)"
    "length (sc_editor_tiles m) = length (sc_tiles m) \<longrightarrow> length es = length (sc_tiles m)"
    using assms unfolding repainted_def by blast
  have "n = m\<lparr>sc_tiles := ts, sc_editor_tiles := es, sc_isom := sc_isom m\<rparr>" using n(1) by simp
  then show "terrain_change m n" unfolding terrain_change_def by blast
  have "n = m\<lparr>sc_tiles := ts, sc_editor_tiles := es, sc_sprites := sc_sprites m, sc_doodads := sc_doodads m\<rparr>"
    using n(1) by simp
  then show "doodad_layer_change m n" unfolding doodad_layer_change_def by blast
  show same: "same_dimensions m n" using n(1) by (simp add: same_dimensions_def)
  show "map_ok_for a n" if "map_ok_for a m"
    using that n same_dimensions_objects [OF same]
    by (simp add: map_ok_for_def arrays_ok_def terrain_ok_def objects_ok_def isom_section_size_def)
qed

lemma terrain_set_repaints: "terrain_set a name ctx obj m = Inr (n, e) \<Longrightarrow> repainted m n"
  by (auto simp: terrain_set_def bindE_Inr dest: set_exact_tile_repaints split: if_splits)

lemma terrain_rect_repaints: "terrain_rect a name ctx obj m = Inr (n, e) \<Longrightarrow> repainted m n"
  by (auto simp: terrain_rect_def bindE_Inr dest: paint_tiles_repaints split: if_splits)

lemma terrain_blit_repaints: "terrain_blit a name ctx obj m = Inr (n, e) \<Longrightarrow> repainted m n"
  by (auto simp: terrain_blit_def bindE_Inr dest: paint_tiles_repaints split: if_splits)

section \<open>Semantic brushes\<close>

definition batch_cache :: "edit_assets \<Rightarrow> scenario \<Rightarrow> u32 \<Rightarrow> isom_cache" where
  "batch_cache a m seed = seed_subtile_variation seed
     (new_cache (sc_tileset m) (tile_width m) (tile_height m) (isom_of a (sc_tileset m)))"

lemma batch_cache_simps [simp]:
  "ic_links (batch_cache a m seed) = td_isom_links (isom_of a (sc_tileset m))"
  "isom_width (copy_to_sc_map m) = tile_width m div 2 + 1" "isom_height (copy_to_sc_map m) = tile_height m + 1"
  by (simp_all add: batch_cache_def seed_subtile_variation_def new_cache_def Let_def reset_changed_area_def
      isom_width_def isom_height_def copy_to_sc_map_def)

lemma batch_state_ok:
  assumes "tileset_ok (isom_of a (sc_tileset m))" "terrain_ok a m" "length (sc_isom m) = isom_section_size m"
  shows "state_ok (copy_to_sc_map m, batch_cache a m seed)" "tiles_ok (copy_to_sc_map m)"
    "hash_ok (batch_cache a m seed)"
  using assms
  by (simp_all add: state_ok_def isom_ok_def cache_ok_def hash_ok_def tiles_ok_def terrain_ok_def tileset_ok_def
      isom_section_size_def batch_cache_def seed_subtile_variation_def new_cache_def Let_def reset_changed_area_def
      copy_to_sc_map_def isom_width_def isom_height_def)

text \<open>Once the brush is placed, the tiles are regenerated and the map takes over its terrain.\<close>

definition retextured :: "edit_assets \<Rightarrow> scenario \<Rightarrow> scenario \<Rightarrow> bool" where
  "retextured a m n \<longleftrightarrow> terrain_change m n \<and> same_dimensions m n \<and> terrain_ok a n"

lemma finish_placed:
  assumes ok: "tileset_ok (isom_of a (sc_tileset m))" "terrain_ok a m" "length (sc_isom m) = isom_section_size m"
    and st: "placed_ok (copy_to_sc_map m) (batch_cache a m seed) st"
  shows "\<exists>n e. finish_isom name index ctx diamonds m (Inr (True, st)) = Inr (n, e) \<and> retextured a m n"
proof -
  note pre = batch_state_ok [OF ok]
  obtain s c where u: "update_tiles_from_isom st = Inr (s, c)" "tiles_ok s" "state_ok (s, c)"
    "sm_tile_width s = sc_width m" "sm_tile_height s = sc_height m" "sm_tileset s = sc_tileset m"
    "ic_links c = td_isom_links (isom_of a (sc_tileset m))"
    using placed_then_tiles [OF st pre(2,3)] by (auto simp: copy_to_sc_map_def)
  let ?n = "copy_from_sc_map m s"
  have "?n = m\<lparr>sc_tiles := sm_tiles s, sc_editor_tiles := sm_editor_tiles s, sc_isom := sm_rects s\<rparr>"
    using u(4-6) by (simp add: copy_from_sc_map_def)
  then have "terrain_change m ?n" unfolding terrain_change_def by blast
  moreover have "same_dimensions m ?n" using u(4-6) by (simp add: same_dimensions_def copy_from_sc_map_def)
  moreover have "terrain_ok a ?n"
    using u(2-7) by (simp add: terrain_ok_def tiles_ok_def state_ok_def copy_from_sc_map_def)
  ultimately show ?thesis using u(1) by (simp add: finish_isom_def retextured_def)
qed

lemma require_isom_section_Inr:
  "require_isom_section m ctx = Inr u \<longleftrightarrow> length (sc_isom m) = isom_section_size m"
  by (simp add: require_isom_section_def isom_section_size_def Let_def)

lemma finish_isom_kept:
  assumes ok: "tileset_ok (isom_of a (sc_tileset m))" "terrain_ok a m" "length (sc_isom m) = isom_section_size m"
    and placed: "\<exists>b st. placed = Inr (b, st) \<and> (b \<longrightarrow> placed_ok (copy_to_sc_map m) (batch_cache a m seed) st)"
    and run: "finish_isom name index ctx diamonds m placed = Inr (n, e)"
  shows "retextured a m n"
proof -
  obtain b st where st: "placed = Inr (b, st)" "b \<longrightarrow> placed_ok (copy_to_sc_map m) (batch_cache a m seed) st"
    using placed by blast
  have "b" using run st(1) by (simp add: finish_isom_def split: if_splits)
  with st have p: "placed = Inr (True, st)" "placed_ok (copy_to_sc_map m) (batch_cache a m seed) st" by simp_all
  obtain n' e' where "finish_isom name index ctx diamonds m placed = Inr (n', e')" "retextured a m n'"
    using finish_placed [OF ok p(2), of name index ctx diamonds] p(1) by blast
  then show ?thesis using run by simp
qed

lemma isom_brush_retextures:
  assumes "tileset_ok (isom_of a (sc_tileset m))" "terrain_ok a m"
    "terrain_isom_brush a index name ctx obj m = Inr (n, e)"
  shows "retextured a m n"
proof -
  obtain x y brush extent where run: "length (sc_isom m) = isom_section_size m"
    "finish_isom name index ctx (size_mul extent extent) m (place_isom_terrain (x, y) brush extent
       (copy_to_sc_map m, batch_cache a m (isom_variation_seed [x, y, brush, extent]))) = Inr (n, e)"
    using assms(3) unfolding terrain_isom_brush_def
    by (auto simp: bindE_Inr Let_def require_isom_section_Inr batch_cache_def)
  show ?thesis
    using finish_isom_kept [OF assms(1,2) run(1) place_brush_placed [OF batch_state_ok(1) [OF assms(1,2) run(1)]] run(2)] .
qed

lemma isom_rect_retextures:
  assumes "tileset_ok (isom_of a (sc_tileset m))" "terrain_ok a m"
    "terrain_isom_rect a index name ctx obj m = Inr (n, e)"
  shows "retextured a m n"
proof -
  obtain ds brush seed where run: "length (sc_isom m) = isom_section_size m"
    "finish_isom name index ctx (length ds) m (place_isom_terrain_diamonds ds brush
       (copy_to_sc_map m, batch_cache a m seed)) = Inr (n, e)"
    using assms(3) unfolding terrain_isom_rect_def
    by (auto simp: bindE_Inr Let_def require_isom_section_Inr batch_cache_def split: if_splits)
  show ?thesis
    using finish_isom_kept [OF assms(1,2) run(1) place_diamonds_placed [OF batch_state_ok(1) [OF assms(1,2) run(1)]] run(2)] .
qed

lemma retextured_kept:
  assumes "retextured a m n" "map_ok_for a m"
  shows "map_ok_for a n"
proof -
  obtain ts es rs where n: "n = m\<lparr>sc_tiles := ts, sc_editor_tiles := es, sc_isom := rs\<rparr>"
    using assms(1) by (auto simp: retextured_def terrain_change_def)
  have same: "same_dimensions m n" "terrain_ok a n" using assms(1) by (simp_all add: retextured_def)
  show ?thesis
    using assms(2) same(2) same_dimensions_objects [OF same(1)] n
    by (simp add: map_ok_for_def arrays_ok_def objects_ok_def)
qed

end
