(* ===== verification/AgentEditLayers.thy ===== *)
theory AgentEditLayers
  imports AgentEditKept
begin

text \<open>
  The operations of a batch that take several steps, through the interface \<open>edit_layer\<close>: a relation
  between maps that is reflexive and transitive, so that every step of an operation stays in its layer.
\<close>

section \<open>Layers as an interface\<close>

definition kept_by :: "(scenario \<Rightarrow> scenario \<Rightarrow> bool) \<Rightarrow> scenario \<Rightarrow> scenario \<Rightarrow> bool" where
  "kept_by layer m n \<longleftrightarrow> layer m n \<and> same_dimensions m n \<and> (\<forall>a. map_ok_for a m \<longrightarrow> map_ok_for a n)"

lemma kept_byI:
  assumes "layer m n" "same_dimensions m n" "\<And>a. map_ok_for a m \<Longrightarrow> map_ok_for a n"
  shows "kept_by layer m n"
  using assms by (simp add: kept_by_def)

locale edit_layer =
  fixes layer :: "scenario \<Rightarrow> scenario \<Rightarrow> bool"
  assumes layer_refl: "layer m m" and layer_trans: "layer m n \<Longrightarrow> layer n k \<Longrightarrow> layer m k"
begin

lemma kept_refl: "kept_by layer m m"
  by (simp add: kept_by_def layer_refl same_dimensions_def)

lemma kept_trans: "kept_by layer m n \<Longrightarrow> kept_by layer n k \<Longrightarrow> kept_by layer m k"
  using layer_trans by (auto simp: kept_by_def same_dimensions_def)

lemma kept_foldE:
  assumes "foldE f m xs = Inr n" "\<And>k x k'. x \<in> set xs \<Longrightarrow> f k x = Inr k' \<Longrightarrow> kept_by layer k k'"
  shows "kept_by layer m n"
  using assms(1) kept_refl
  by (rule foldE_invariant) (use assms(2) kept_trans in blast)

lemma kept_option:
  assumes "case_option (Inr m) f v = Inr n" "\<And>x. f x = Inr n \<Longrightarrow> kept_by layer m n"
  shows "kept_by layer m n"
  using assms kept_refl by (cases v) auto

end

interpretation doodad_layer: edit_layer doodad_layer_change
proof
  fix m n k :: scenario
  have "m = m\<lparr>sc_tiles := sc_tiles m, sc_editor_tiles := sc_editor_tiles m, sc_sprites := sc_sprites m,
      sc_doodads := sc_doodads m\<rparr>" by simp
  then show "doodad_layer_change m m" unfolding doodad_layer_change_def by blast
  assume steps: "doodad_layer_change m n" "doodad_layer_change n k"
  show "doodad_layer_change m k"
  proof -
    obtain ts es ss ds where "k = n\<lparr>sc_tiles := ts, sc_editor_tiles := es, sc_sprites := ss, sc_doodads := ds\<rparr>"
      using steps(2) unfolding doodad_layer_change_def by blast
    with steps(1) have "k = m\<lparr>sc_tiles := ts, sc_editor_tiles := es, sc_sprites := ss, sc_doodads := ds\<rparr>"
      unfolding doodad_layer_change_def by auto
    then show ?thesis unfolding doodad_layer_change_def by blast
  qed
qed

interpretation location_layer: edit_layer location_layer_change
proof
  fix m n k :: scenario
  have "m = m\<lparr>sc_locations := sc_locations m, sc_strings := sc_strings m\<rparr>" by simp
  then show "location_layer_change m m" unfolding location_layer_change_def by blast
  assume steps: "location_layer_change m n" "location_layer_change n k"
  show "location_layer_change m k"
  proof -
    obtain ls ss where "k = n\<lparr>sc_locations := ls, sc_strings := ss\<rparr>"
      using steps(2) unfolding location_layer_change_def by blast
    with steps(1) have "k = m\<lparr>sc_locations := ls, sc_strings := ss\<rparr>"
      unfolding location_layer_change_def by auto
    then show ?thesis unfolding location_layer_change_def by blast
  qed
qed

interpretation text_layer: edit_layer text_layer_change
proof
  fix m n k :: scenario
  have "m = m\<lparr>sc_strings := sc_strings m, sc_name_id := sc_name_id m, sc_description_id := sc_description_id m\<rparr>" by simp
  then show "text_layer_change m m" unfolding text_layer_change_def by blast
  assume steps: "text_layer_change m n" "text_layer_change n k"
  show "text_layer_change m k"
  proof -
    obtain ss i j where "k = n\<lparr>sc_strings := ss, sc_name_id := i, sc_description_id := j\<rparr>"
      using steps(2) unfolding text_layer_change_def by blast
    with steps(1) have "k = m\<lparr>sc_strings := ss, sc_name_id := i, sc_description_id := j\<rparr>"
      unfolding text_layer_change_def by auto
    then show ?thesis unfolding text_layer_change_def by blast
  qed
qed

interpretation player_layer: edit_layer player_layer_change
proof
  fix m n k :: scenario
  have "m = m\<lparr>sc_slot_types := sc_slot_types m, sc_iown_slot_types := sc_iown_slot_types m, sc_races := sc_races m,
      sc_player_forces := sc_player_forces m\<rparr>" by simp
  then show "player_layer_change m m" unfolding player_layer_change_def by blast
  assume steps: "player_layer_change m n" "player_layer_change n k"
  show "player_layer_change m k"
  proof -
    obtain ts js rs fs where "k = n\<lparr>sc_slot_types := ts, sc_iown_slot_types := js, sc_races := rs, sc_player_forces := fs\<rparr>"
      using steps(2) unfolding player_layer_change_def by blast
    with steps(1) have "k = m\<lparr>sc_slot_types := ts, sc_iown_slot_types := js, sc_races := rs, sc_player_forces := fs\<rparr>"
      unfolding player_layer_change_def by auto
    then show ?thesis unfolding player_layer_change_def by blast
  qed
qed

interpretation force_layer: edit_layer force_layer_change
proof
  fix m n k :: scenario
  have "m = m\<lparr>sc_strings := sc_strings m, sc_force_strings := sc_force_strings m, sc_force_flags := sc_force_flags m\<rparr>" by simp
  then show "force_layer_change m m" unfolding force_layer_change_def by blast
  assume steps: "force_layer_change m n" "force_layer_change n k"
  show "force_layer_change m k"
  proof -
    obtain ss i j where "k = n\<lparr>sc_strings := ss, sc_force_strings := i, sc_force_flags := j\<rparr>"
      using steps(2) unfolding force_layer_change_def by blast
    with steps(1) have "k = m\<lparr>sc_strings := ss, sc_force_strings := i, sc_force_flags := j\<rparr>"
      unfolding force_layer_change_def by auto
    then show ?thesis unfolding force_layer_change_def by blast
  qed
qed

section \<open>Doodads\<close>

lemma repainted_doodad:
  assumes "repainted m n"
  shows "kept_by doodad_layer_change m n"
  by (rule kept_byI) (fact repainted_kept [OF assms])+

lemma apply_cell_repaints: "apply_cell t s origin ctx m c = Inr n \<Longrightarrow> repainted m n"
  by (cases c) (auto simp: apply_cell_def bindE_Inr Let_def intro!: repainted_tiles split: if_splits)

lemma apply_footprint_repaints:
  assumes "apply_doodad_footprint d a ctx m = Inr n"
  shows "repainted m n"
proof -
  let ?m = "if length (sc_editor_tiles m) \<noteq> length (sc_tiles m) then m\<lparr>sc_editor_tiles := sc_tiles m\<rparr> else m"
  obtain t s origin where run: "foldE (apply_cell t s origin ctx) ?m (shape_cells s) = Inr n"
    using assms by (auto simp: apply_doodad_footprint_def bindE_Inr Let_def split: if_splits)
  have "repainted m (m\<lparr>sc_editor_tiles := sc_tiles m\<rparr>)"
    by (rule repaintedI [where ts = "sc_tiles m" and es = "sc_tiles m"]) simp_all
  then have "repainted m ?m" by simp
  with run show ?thesis
    by (rule foldE_invariant) (blast intro: repainted_trans apply_cell_repaints)
qed

lemma replace_cell_repaints: "replace_cell t s origin ctx y m c = Inr n \<Longrightarrow> repainted m n"
  by (cases c) (auto simp: replace_cell_def bindE_Inr dest: set_exact_tile_repaints split: if_splits)

lemma replace_row_repaints:
  assumes "replace_row t s origin ctx m c = Inr n"
  shows "repainted m n"
proof -
  obtain y row where "foldE (replace_cell t s origin ctx y) m (enumerate 0 row) = Inr n"
    using assms by (cases c) (auto simp: replace_row_def bindE_Inr split: if_splits)
  then show ?thesis
    by (rule foldE_invariant) (auto intro: repainted_trans replace_cell_repaints)
qed

lemma replace_footprint_repaints:
  assumes "replace_doodad_footprint d v a ctx m = Inr n"
  shows "repainted m n"
proof -
  obtain t s origin rows where "foldE (replace_row t s origin ctx) m (enumerate 0 rows) = Inr n"
    using assms by (auto simp: replace_doodad_footprint_def bindE_Inr split: if_splits)
  then show ?thesis
    by (rule foldE_invariant) (auto intro: repainted_trans replace_row_repaints)
qed

lemma sprites_doodad:
  assumes "sprites_edited m n"
  shows "kept_by doodad_layer_change m n"
proof (rule kept_byI)
  obtain ss where "n = m\<lparr>sc_sprites := ss\<rparr>" using assms unfolding sprites_edited_def by blast
  then have "n = m\<lparr>sc_tiles := sc_tiles m, sc_editor_tiles := sc_editor_tiles m, sc_sprites := ss,
      sc_doodads := sc_doodads m\<rparr>" by simp
  then show "doodad_layer_change m n" unfolding doodad_layer_change_def by blast
qed (use sprites_edited_kept [OF assms] in auto)

lemma add_overlay_sprites:
  assumes "add_doodad_overlay d a ctx m = Inr n" "\<forall>s \<in> set (sc_sprites m). sprite_ok m s \<Longrightarrow> doodad_ok m d"
  shows "sprites_edited m n"
proof -
  obtain overlay where o: "doodad_overlay m d a ctx = Inr overlay"
    "n = (case overlay of None \<Rightarrow> m | Some s \<Rightarrow> m\<lparr>sc_sprites := sc_sprites m @ [s]\<rparr>)"
    using assms(1) by (auto simp: add_doodad_overlay_def bindE_Inr add_sprite_def split: option.splits)
  show ?thesis
  proof (cases overlay)
    case None
    then show ?thesis using o by (intro sprites_editedI [where ss = "sc_sprites m"]) auto
  next
    case (Some s)
    have "sprite_ok m s" if "doodad_ok m d"
      using o(1) Some that by (auto simp: doodad_overlay_def bindE_Inr Let_def sprite_ok_def doodad_ok_def split: if_splits)
    then show ?thesis using o(2) Some assms(2)
      by (intro sprites_editedI [where ss = "sc_sprites m @ [s]"]) auto
  qed
qed

lemma add_overlay_layer:
  assumes "add_doodad_overlay d a ctx m = Inr n"
  shows "doodad_layer_change m n" "same_dimensions m n"
proof -
  obtain overlay where o: "doodad_overlay m d a ctx = Inr overlay"
    using assms unfolding add_doodad_overlay_def bindE_Inr by blast
  obtain ss where "n = m\<lparr>sc_sprites := ss\<rparr>"
  proof (cases overlay)
    case None
    then show ?thesis using that [of "sc_sprites m"] o assms by (simp add: add_doodad_overlay_def)
  next
    case (Some s)
    then show ?thesis using that [of "sc_sprites m @ [s]"] o assms
      by (simp add: add_doodad_overlay_def add_sprite_def)
  qed
  then have "n = m\<lparr>sc_tiles := sc_tiles m, sc_editor_tiles := sc_editor_tiles m, sc_sprites := ss,
      sc_doodads := sc_doodads m\<rparr>" and "same_dimensions m n" by (simp_all add: same_dimensions_def)
  then show "doodad_layer_change m n" "same_dimensions m n" unfolding doodad_layer_change_def by blast+
qed

lemma delete_overlay_sprites:
  assumes "delete_doodad_overlay d a ctx m = Inr n"
  shows "sprites_edited m n"
proof -
  have "n = m \<or> (\<exists>i. n = m\<lparr>sc_sprites := erase_at i (sc_sprites m)\<rparr>)"
    using assms by (auto simp: delete_doodad_overlay_def bindE_Inr delete_sprite_def split: option.splits)
  then obtain ss where n: "n = m\<lparr>sc_sprites := ss\<rparr>" "set ss \<subseteq> set (sc_sprites m)"
  proof
    assume "n = m"
    then show ?thesis by (intro that [of "sc_sprites m"]) simp_all
  next
    assume "\<exists>i. n = m\<lparr>sc_sprites := erase_at i (sc_sprites m)\<rparr>"
    then obtain i where "n = m\<lparr>sc_sprites := erase_at i (sc_sprites m)\<rparr>" ..
    then show ?thesis by (rule that [OF _ erase_at_subset])
  qed
  show ?thesis by (rule sprites_editedI [OF n(1)]) (use n(2) in blast)
qed

lemma doodads_kept:
  assumes "n = m\<lparr>sc_doodads := ds\<rparr>"
    "\<And>d. \<forall>d \<in> set (sc_doodads m). doodad_ok m d \<Longrightarrow> d \<in> set ds \<Longrightarrow> doodad_ok m d"
  shows "kept_by doodad_layer_change m n"
proof (rule kept_byI)
  have "n = m\<lparr>sc_tiles := sc_tiles m, sc_editor_tiles := sc_editor_tiles m, sc_sprites := sc_sprites m,
      sc_doodads := ds\<rparr>" using assms(1) by simp
  then show "doodad_layer_change m n" unfolding doodad_layer_change_def by blast
  show same: "same_dimensions m n" using assms(1) by (simp add: same_dimensions_def)
  show "map_ok_for a n" if "map_ok_for a m" for a
    using that assms same_dimensions_objects [OF same]
    by (simp add: map_ok_for_def arrays_ok_def terrain_ok_def objects_ok_def isom_section_size_def)
qed


lemma doodad_add_kept:
  assumes "doodad_add a name ctx obj m = Inr (n, e)"
  shows "kept_by doodad_layer_change m n"
proof -
  obtain v d k where d: "parse_doodad_state v (ctx @ ''.state'') = Inr d" "\<not> outside_map m (dd_x d) (dd_y d)"
    and k: "apply_doodad_footprint d a ctx m = Inr k"
    and n: "add_doodad_overlay d a ctx (k\<lparr>sc_doodads := sc_doodads k @ [d]\<rparr>) = Inr n"
    using assms by (auto simp: doodad_add_def bindE_Inr Let_def add_doodad_def)
  let ?k = "k\<lparr>sc_doodads := sc_doodads k @ [d]\<rparr>"
  note painted = apply_footprint_repaints [OF k]
  have "doodad_ok m d" using d parse_doodad_state_ok by (simp add: doodad_ok_def)
  then have ok: "doodad_ok k d" using same_dimensions_objects(4) [OF repainted_kept(3) [OF painted]] by simp
  have k1: "kept_by doodad_layer_change k ?k" by (rule doodads_kept [OF refl]) (use ok in auto)
  have "doodad_ok ?k d" using ok same_dimensions_objects(4) [of k ?k] k1 by (simp add: kept_by_def)
  then have "kept_by doodad_layer_change ?k n" by (intro sprites_doodad add_overlay_sprites [OF n])
  then show ?thesis using doodad_layer.kept_trans [OF doodad_layer.kept_trans [OF repainted_doodad [OF painted] k1]] by blast
qed

lemma changed_doodad_owner:
  "changed_doodad verb ctx obj before = Inr d \<Longrightarrow> dd_owner before \<le> max_owner \<Longrightarrow> dd_owner d \<le> max_owner"
  by (auto simp: changed_doodad_def bindE_Inr parse_doodad_state_ok split: if_splits)

lemma change_doodad_kept:
  assumes run: "change_doodad a verb ctx obj (sc_doodads m ! i) i m = Inr n" and i: "i < length (sc_doodads m)"
  shows "kept_by doodad_layer_change m n"
proof (cases "verb = ''delete''")
  case True
  then have n: "n = m\<lparr>sc_doodads := erase_at i (sc_doodads m)\<rparr>" using run by (simp add: change_doodad_def delete_doodad_def)
  show ?thesis by (rule doodads_kept [OF n]) (use erase_at_subset [of i "sc_doodads m"] in blast)
next
  case False
  obtain d k where d: "changed_doodad verb ctx obj (sc_doodads m ! i) = Inr d" "\<not> outside_map m (dd_x d) (dd_y d)"
    and k: "apply_doodad_footprint d a ctx m = Inr k"
    and n: "add_doodad_overlay d a ctx (k\<lparr>sc_doodads := (sc_doodads k)[i := d]\<rparr>) = Inr n"
    using run False by (auto simp: change_doodad_def bindE_Inr)
  let ?k = "k\<lparr>sc_doodads := (sc_doodads k)[i := d]\<rparr>"
  note painted = apply_footprint_repaints [OF k]
  have ds: "sc_doodads k = sc_doodads m" using painted unfolding repainted_def by auto
  have same: "doodad_ok k = doodad_ok m" "doodad_ok ?k = doodad_ok m" "sprite_ok ?k = sprite_ok k"
    using same_dimensions_objects(4) [OF repainted_kept(3) [OF painted]]
      same_dimensions_objects(3,4) [of k ?k] by (simp_all add: same_dimensions_def)
  have ok: "doodad_ok m d" if "\<forall>d \<in> set (sc_doodads m). doodad_ok m d"
    using d that i changed_doodad_owner [OF d(1)] by (auto simp: doodad_ok_def)
  have k1: "kept_by doodad_layer_change k ?k"
    by (rule doodads_kept [OF refl])
      (use ok ds same(1) set_update_subset_insert [of "sc_doodads k" i d] in auto)
  have first: "kept_by doodad_layer_change m ?k"
    by (rule doodad_layer.kept_trans [OF repainted_doodad [OF painted] k1])
  show ?thesis
  proof (cases "\<forall>d \<in> set (sc_doodads m). doodad_ok m d")
    case True
    have "kept_by doodad_layer_change ?k n"
      by (intro sprites_doodad add_overlay_sprites [OF n]) (use ok [OF True] same in simp)
    with first show ?thesis by (rule doodad_layer.kept_trans)
  next
    case False
    then have "\<not> map_ok_for a' m" for a' by (simp add: map_ok_for_def objects_ok_def)
    moreover have "doodad_layer_change ?k n" "same_dimensions ?k n" by (fact add_overlay_layer [OF n])+
    ultimately show ?thesis
      using first doodad_layer.layer_trans [of m ?k n] by (auto simp: kept_by_def same_dimensions_def)
  qed
qed

lemma doodad_change_kept:
  assumes "doodad_change lib a verb name ctx obj m = Inr (n, e)"
  shows "kept_by doodad_layer_change m n"
proof -
  obtain i v k l where i: "i < length (sc_doodads m)"
    and k: "replace_doodad_footprint (sc_doodads m ! i) v a ctx m = Inr k"
    and l: "delete_doodad_overlay (sc_doodads m ! i) a ctx k = Inr l"
    and n: "change_doodad a verb ctx obj (sc_doodads m ! i) i l = Inr n"
    using assms by (auto simp: doodad_change_def bindE_Inr Let_def not_le split: if_splits)
  note painted = replace_footprint_repaints [OF k] and edited = delete_overlay_sprites [OF l]
  have "sc_doodads k = sc_doodads m" "sc_doodads l = sc_doodads k"
    using painted edited unfolding repainted_def sprites_edited_def by auto
  then have "kept_by doodad_layer_change l n" using change_doodad_kept [of a verb ctx obj l i n] n i by simp
  with doodad_layer.kept_trans [OF repainted_doodad [OF painted] sprites_doodad [OF edited]]
  show ?thesis by (rule doodad_layer.kept_trans)
qed


section \<open>Locations\<close>

lemma add_string_frame:
  assumes "add_string s auto m = Inr (i, n)"
  obtains strs where "n = m\<lparr>sc_strings := strs\<rparr>"
proof (cases "find_string s m = 0")
  case False
  then have "n = m\<lparr>sc_strings := sc_strings m\<rparr>"
    using add_string_cases(1) [of s m auto] assms by simp
  then show ?thesis by (rule that)
next
  case True
  then obtain k where "first_unused (mark_used_strings UsageEither user_all m {}) = Some k"
    using add_string_cases(2) [OF True, of auto] assms
    by (cases "first_unused (mark_used_strings UsageEither user_all m {})") (auto simp: maximum_strings_exceeded_def)
  with add_string_cases(3) [OF True this, of auto] assms
  have "n = m\<lparr>sc_strings := put_string k s (sc_strings m)\<rparr>" by simp
  then show ?thesis by (rule that)
qed

lemma location_kept:
  assumes "n = m\<lparr>sc_locations := ls, sc_strings := strs\<rparr>"
  shows "kept_by location_layer_change m n"
proof (rule kept_byI)
  show "location_layer_change m n" using assms unfolding location_layer_change_def by blast
  show same: "same_dimensions m n" using assms by (simp add: same_dimensions_def)
  show "map_ok_for a n" if "map_ok_for a m" for a
    using that assms same_dimensions_objects [OF same]
    by (simp add: map_ok_for_def arrays_ok_def terrain_ok_def objects_ok_def isom_section_size_def)
qed

lemma put_location_kept:
  assumes "put_location name ctx i l m = Inr (j, n)"
  shows "kept_by location_layer_change m n"
proof -
  have "n = m \<or> (\<exists>ls. n = m\<lparr>sc_locations := ls\<rparr>)"
    using assms by (auto simp: put_location_def add_location_def bindE_Inr Let_def split: if_splits option.splits)
  then show ?thesis
  proof
    assume "n = m"
    then show ?thesis using location_layer.kept_refl by simp
  next
    assume "\<exists>ls. n = m\<lparr>sc_locations := ls\<rparr>"
    then obtain ls where "n = m\<lparr>sc_locations := ls\<rparr>" ..
    then show ?thesis by (intro location_kept [where ls = ls and strs = "sc_strings m"]) simp
  qed
qed

lemma name_location_kept:
  assumes "name_location i v ctx m = Inr n"
  shows "kept_by location_layer_change m n"
proof -
  obtain raw j k where k: "add_string raw False m = Inr (j, k)"
    and n: "n = k \<or> (\<exists>ls. n = k\<lparr>sc_locations := ls\<rparr>)"
    using assms by (auto simp: name_location_def set_location_name_def bindE_Inr split: if_splits)
  obtain strs where "k = m\<lparr>sc_strings := strs\<rparr>" by (rule add_string_frame [OF k])
  with n have "n = m\<lparr>sc_locations := sc_locations n, sc_strings := strs\<rparr>" by auto
  then show ?thesis by (rule location_kept)
qed

lemma location_put_kept:
  assumes "location_put name ctx obj m = Inr (n, e)"
  shows "kept_by location_layer_change m n"
proof -
  obtain l i j k v sctx where k: "put_location name ctx i l m = Inr (j, k)"
    and n: "(case v of None \<Rightarrow> Inr k | Some v \<Rightarrow> name_location j v sctx k) = Inr n"
    using assms by (auto simp: location_put_def bindE_Inr Let_def)
  have "kept_by location_layer_change k n"
    using n name_location_kept by (rule location_layer.kept_option)
  with put_location_kept [OF k] show ?thesis by (rule location_layer.kept_trans)
qed

lemma location_rename_kept:
  "location_rename name ctx obj m = Inr (n, e) \<Longrightarrow> kept_by location_layer_change m n"
  by (auto simp: location_rename_def bindE_Inr dest: name_location_kept)

lemma location_delete_kept:
  assumes "location_delete name ctx obj m = Inr (n, e)"
  shows "kept_by location_layer_change m n"
proof -
  obtain i where "n = delete_location i True m"
    using assms by (auto simp: location_delete_def bindE_Inr Let_def split: if_splits)
  then have "n = m \<or> n = m\<lparr>sc_locations := (sc_locations m)[i := empty_location]\<rparr>"
    by (simp add: delete_location_def)
  then have "n = m\<lparr>sc_locations := sc_locations n, sc_strings := sc_strings m\<rparr>" by auto
  then show ?thesis by (rule location_kept)
qed

section \<open>Texts, players and forces\<close>

lemma text_kept:
  assumes "n = m\<lparr>sc_strings := strs, sc_name_id := i, sc_description_id := j\<rparr>"
  shows "kept_by text_layer_change m n"
proof (rule kept_byI)
  show "text_layer_change m n" using assms unfolding text_layer_change_def by blast
  show same: "same_dimensions m n" using assms by (simp add: same_dimensions_def)
  show "map_ok_for a n" if "map_ok_for a m" for a
    using that assms same_dimensions_objects [OF same]
    by (simp add: map_ok_for_def arrays_ok_def terrain_ok_def objects_ok_def isom_section_size_def)
qed

lemma set_name_kept:
  assumes "set_scenario_name s auto m = Inr n"
  shows "kept_by text_layer_change m n"
proof -
  obtain j k where k: "add_string s auto m = Inr (j, k)" and n: "n = k \<or> n = k\<lparr>sc_name_id := of_nat j\<rparr>"
    using assms by (auto simp: set_scenario_name_def bindE_Inr split: if_splits)
  obtain strs where "k = m\<lparr>sc_strings := strs\<rparr>" by (rule add_string_frame [OF k])
  with n have "n = m\<lparr>sc_strings := strs, sc_name_id := sc_name_id n, sc_description_id := sc_description_id m\<rparr>" by auto
  then show ?thesis by (rule text_kept)
qed

lemma set_description_kept:
  assumes "set_scenario_description s auto m = Inr n"
  shows "kept_by text_layer_change m n"
proof -
  obtain j k where k: "add_string s auto m = Inr (j, k)" and n: "n = k \<or> n = k\<lparr>sc_description_id := of_nat j\<rparr>"
    using assms by (auto simp: set_scenario_description_def bindE_Inr split: if_splits)
  obtain strs where "k = m\<lparr>sc_strings := strs\<rparr>" by (rule add_string_frame [OF k])
  with n have "n = m\<lparr>sc_strings := strs, sc_name_id := sc_name_id m, sc_description_id := sc_description_id n\<rparr>" by auto
  then show ?thesis by (rule text_kept)
qed

lemma scenario_set_kept:
  assumes "scenario_set name ctx obj m = Inr (n, e)"
  shows "kept_by text_layer_change m n"
proof -
  obtain k v w c d where
    k: "set_text v c 1 1024 (\<lambda>raw. set_scenario_name raw True) m = Inr k"
    and n: "set_text w d 0 4096 (\<lambda>raw. set_scenario_description raw True) k = Inr n"
    using assms by (auto simp: scenario_set_def bindE_Inr Let_def split: if_splits)
  have "kept_by text_layer_change m k"
    using k unfolding set_text_def
    by (rule text_layer.kept_option) (auto simp: bindE_Inr dest: set_name_kept)
  moreover have "kept_by text_layer_change k n"
    using n unfolding set_text_def
    by (rule text_layer.kept_option) (auto simp: bindE_Inr dest: set_description_kept)
  ultimately show ?thesis by (rule text_layer.kept_trans)
qed

lemma player_kept:
  assumes "n = m\<lparr>sc_slot_types := ts, sc_iown_slot_types := is', sc_races := rs, sc_player_forces := fs\<rparr>"
    "length ts = length (sc_slot_types m)" "length is' = length (sc_iown_slot_types m)"
    "length rs = length (sc_races m)" "length fs = length (sc_player_forces m)"
  shows "kept_by player_layer_change m n"
proof (rule kept_byI)
  show "player_layer_change m n" using assms(1) unfolding player_layer_change_def by blast
  show same: "same_dimensions m n" using assms by (simp add: same_dimensions_def)
  show "map_ok_for a n" if "map_ok_for a m" for a
    using that assms same_dimensions_objects [OF same]
    by (simp add: map_ok_for_def arrays_ok_def terrain_ok_def objects_ok_def isom_section_size_def)
qed

lemma set_slot_type_kept: "set_slot_type i v BothScope m = Inr n \<Longrightarrow> kept_by player_layer_change m n"
  by (rule player_kept [where ts = "(sc_slot_types m)[i := v]" and is' = "(sc_iown_slot_types m)[i := v]" and rs = "sc_races m" and fs = "sc_player_forces m"])
    (simp_all add: set_slot_type_def index_error_def split: if_splits)

lemma set_player_race_kept: "set_player_race i v m = Inr n \<Longrightarrow> kept_by player_layer_change m n"
  by (rule player_kept [where ts = "sc_slot_types m" and is' = "sc_iown_slot_types m" and rs = "(sc_races m)[i := v]" and fs = "sc_player_forces m"])
    (simp_all add: set_player_race_def index_error_def split: if_splits)

lemma set_player_force_kept: "set_player_force i v m = Inr n \<Longrightarrow> kept_by player_layer_change m n"
  by (rule player_kept [where ts = "sc_slot_types m" and is' = "sc_iown_slot_types m" and rs = "sc_races m" and fs = "(sc_player_forces m)[i := v]"])
    (simp_all add: set_player_force_def index_error_def split: if_splits)

lemma set_optional_kept:
  assumes "set_optional v f m = Inr n" "\<And>x. f x m = Inr n \<Longrightarrow> kept_by player_layer_change m n"
  shows "kept_by player_layer_change m n"
  using assms player_layer.kept_refl by (cases v) (auto simp: set_optional_def)

lemma player_set_kept:
  assumes "player_set name ctx obj m = Inr (n, e)"
  shows "kept_by player_layer_change m n"
proof -
  obtain i t r f k l where k: "set_optional t (\<lambda>t. set_slot_type i t BothScope) m = Inr k"
    and l: "set_optional r (set_player_race i) k = Inr l"
    and n: "set_optional f (\<lambda>n. set_player_force i (of_nat n)) l = Inr n"
    using assms unfolding player_set_def Let_def by (auto simp: bindE_Inr split: if_splits)
  have "kept_by player_layer_change m k" using k by (rule set_optional_kept) (rule set_slot_type_kept)
  moreover have "kept_by player_layer_change k l" using l by (rule set_optional_kept) (rule set_player_race_kept)
  moreover have "kept_by player_layer_change l n" using n by (rule set_optional_kept) (rule set_player_force_kept)
  ultimately show ?thesis by (blast intro: player_layer.kept_trans)
qed

lemma force_kept:
  assumes "n = m\<lparr>sc_strings := strs, sc_force_strings := ids, sc_force_flags := flags\<rparr>"
    "length ids = length (sc_force_strings m)" "length flags = length (sc_force_flags m)"
  shows "kept_by force_layer_change m n"
proof (rule kept_byI)
  show "force_layer_change m n" using assms(1) unfolding force_layer_change_def by blast
  show same: "same_dimensions m n" using assms by (simp add: same_dimensions_def)
  show "map_ok_for a n" if "map_ok_for a m" for a
    using that assms same_dimensions_objects [OF same]
    by (simp add: map_ok_for_def arrays_ok_def terrain_ok_def objects_ok_def isom_section_size_def)
qed

lemma set_force_name_kept:
  assumes "set_force_name f s auto m = Inr n"
  shows "kept_by force_layer_change m n"
proof (cases "unat f < total_forces")
  case True
  obtain j k where k: "add_string s auto m = Inr (j, k)"
    and n: "n = k \<or> n = k\<lparr>sc_force_strings := (sc_force_strings k)[unat f := of_nat j]\<rparr>"
    using assms True by (auto simp: set_force_name_def bindE_Inr split: if_splits)
  obtain strs where "k = m\<lparr>sc_strings := strs\<rparr>" by (rule add_string_frame [OF k])
  with n have "n = m\<lparr>sc_strings := strs, sc_force_strings := sc_force_strings n, sc_force_flags := sc_force_flags m\<rparr>"
    "length (sc_force_strings n) = length (sc_force_strings m)" by auto
  then show ?thesis by (rule force_kept) simp
next
  case False
  then show ?thesis using assms force_layer.kept_refl by (simp add: set_force_name_def)
qed

lemma set_force_flags_kept: "set_force_flags f v m = Inr n \<Longrightarrow> kept_by force_layer_change m n"
  by (rule force_kept [where strs = "sc_strings m" and ids = "sc_force_strings m" and flags = "(sc_force_flags m)[unat f := v]"])
    (simp_all add: set_force_flags_def index_error_def split: if_splits)

lemma force_set_kept:
  assumes "force_set name ctx obj m = Inr (n, e)"
  shows "kept_by force_layer_change m n"
proof -
  obtain f v c k flags where
    k: "set_text v c 1 256 (\<lambda>raw. set_force_name f raw True) m = Inr k"
    and n: "set_force_flags f flags k = Inr n"
    using assms unfolding force_set_def Let_def by (auto simp: bindE_Inr split: if_splits)
  have "kept_by force_layer_change m k"
    using k unfolding set_text_def
    by (rule force_layer.kept_option) (auto simp: bindE_Inr dest: set_force_name_kept)
  with set_force_flags_kept [OF n] show ?thesis by (blast intro: force_layer.kept_trans)
qed

end
