(* ===== verification/AgentBatchProps.thy ===== *)
theory AgentBatchProps
  imports AgentEditLayers
begin

text \<open>
  Two properties of a batch: the layer an operation reports is the only one it changes, and a whole batch
  keeps a map well-formed.
\<close>

section \<open>The layer an operation reports\<close>

definition layer_relation :: "string \<Rightarrow> scenario \<Rightarrow> scenario \<Rightarrow> bool" where
  "layer_relation layer =
     (if layer = ''terrain'' then terrain_change
      else if layer = ''unit'' then unit_layer_change
      else if layer = ''sprite'' then sprite_layer_change
      else if layer = ''doodad'' then doodad_layer_change
      else if layer = ''location'' then location_layer_change
      else if layer = ''scenario'' then text_layer_change
      else if layer = ''players'' then player_layer_change
      else if layer = ''forces'' then force_layer_change
      else (\<lambda>m n. False))"

definition effect_layer :: "json_object \<Rightarrow> string \<Rightarrow> bool" where
  "effect_layer e layer \<longleftrightarrow> map_of e ''layer'' = Some (JStr layer)"

lemma effect_layer_effect: "effect_layer (effect name layer ordinal) layer"
  by (simp add: effect_layer_def effect_def map_init_def map_of_emplace)

lemma effect_layer_isom: "effect_layer (isom_effect name index diamonds changed) ''terrain''"
  using effect_layer_effect by (simp add: effect_layer_def isom_effect_def map_of_assign)

lemma terrain_effects:
  "terrain_set a name ctx obj m = Inr (n, e) \<Longrightarrow> effect_layer e ''terrain''"
  "terrain_rect a name ctx obj m = Inr (n, e) \<Longrightarrow> effect_layer e ''terrain''"
  "terrain_blit a name ctx obj m = Inr (n, e) \<Longrightarrow> effect_layer e ''terrain''"
  by (auto simp: terrain_set_def terrain_rect_def terrain_blit_def bindE_Inr effect_layer_effect split: if_splits)

lemma finish_isom_effect: "finish_isom name index ctx d m placed = Inr (n, e) \<Longrightarrow> effect_layer e ''terrain''"
  by (auto simp: finish_isom_def bindE_Inr effect_layer_isom split: if_splits)

lemma isom_effects:
  "terrain_isom_brush a index name ctx obj m = Inr (n, e) \<Longrightarrow> effect_layer e ''terrain''"
  "terrain_isom_rect a index name ctx obj m = Inr (n, e) \<Longrightarrow> effect_layer e ''terrain''"
  by (auto simp: terrain_isom_brush_def terrain_isom_rect_def bindE_Inr Let_def dest: finish_isom_effect split: if_splits)

lemma object_effects:
  "unit_add name ctx obj m = Inr (n, e) \<Longrightarrow> effect_layer e ''unit''"
  "unit_change lib verb name ctx obj m = Inr (n, e) \<Longrightarrow> effect_layer e ''unit''"
  "sprite_add name ctx obj m = Inr (n, e) \<Longrightarrow> effect_layer e ''sprite''"
  "sprite_change lib verb name ctx obj m = Inr (n, e) \<Longrightarrow> effect_layer e ''sprite''"
  "doodad_add a name ctx obj m = Inr (n, e) \<Longrightarrow> effect_layer e ''doodad''"
  "doodad_change lib a verb name ctx obj m = Inr (n, e) \<Longrightarrow> effect_layer e ''doodad''"
  by (auto simp: unit_add_def unit_change_def sprite_add_def sprite_change_def doodad_add_def doodad_change_def
      bindE_Inr Let_def effect_layer_effect split: if_splits)

lemma other_effects:
  "location_put name ctx obj m = Inr (n, e) \<Longrightarrow> effect_layer e ''location''"
  "location_rename name ctx obj m = Inr (n, e) \<Longrightarrow> effect_layer e ''location''"
  "location_delete name ctx obj m = Inr (n, e) \<Longrightarrow> effect_layer e ''location''"
  "scenario_set name ctx obj m = Inr (n, e) \<Longrightarrow> effect_layer e ''scenario''"
  "player_set name ctx obj m = Inr (n, e) \<Longrightarrow> effect_layer e ''players''"
  "force_set name ctx obj m = Inr (n, e) \<Longrightarrow> effect_layer e ''forces''"
  by (auto simp: location_put_def location_rename_def location_delete_def scenario_set_def player_set_def force_set_def
      bindE_Inr Let_def effect_layer_effect split: if_splits)

lemma layer_names [simp]:
  "layer_relation ''terrain'' = terrain_change" "layer_relation ''unit'' = unit_layer_change"
  "layer_relation ''sprite'' = sprite_layer_change" "layer_relation ''doodad'' = doodad_layer_change"
  "layer_relation ''location'' = location_layer_change" "layer_relation ''scenario'' = text_layer_change"
  "layer_relation ''players'' = player_layer_change" "layer_relation ''forces'' = force_layer_change"
  by (simp_all add: layer_relation_def)

text \<open>An operation stays in the layer it reports.\<close>

definition stays_in_layer :: "edit_assets \<Rightarrow> scenario \<Rightarrow> scenario \<Rightarrow> json_object \<Rightarrow> bool" where
  "stays_in_layer a m n e \<longleftrightarrow> same_dimensions m n \<and> map_ok_for a n \<and>
     (\<exists>layer. effect_layer e layer \<and> layer_relation layer m n)"

lemma kept_stays:
  assumes "kept_by (layer_relation layer) m n" "effect_layer e layer" "map_ok_for a m"
  shows "stays_in_layer a m n e"
  using assms by (auto simp: stays_in_layer_def kept_by_def)

lemma terrain_stays:
  assumes "repainted m n" "effect_layer e ''terrain''" "map_ok_for a m"
  shows "stays_in_layer a m n e"
proof -
  have "kept_by terrain_change m n" by (rule kept_byI) (fact repainted_kept [OF assms(1)])+
  then show ?thesis using kept_stays [of "''terrain''"] assms(2,3) by simp
qed

lemma retextured_stays:
  assumes "retextured a m n" "effect_layer e ''terrain''" "map_ok_for a m"
  shows "stays_in_layer a m n e"
  unfolding stays_in_layer_def
  using assms(1,2) retextured_kept [OF assms(1,3)]
  by (intro conjI exI [of _ "''terrain''"]) (simp_all add: retextured_def)

lemma units_stay:
  assumes "units_edited m n" "effect_layer e ''unit''" "map_ok_for a m"
  shows "stays_in_layer a m n e"
proof -
  have "kept_by unit_layer_change m n" by (rule kept_byI) (fact units_edited_kept [OF assms(1)])+
  then show ?thesis using kept_stays [of "''unit''"] assms(2,3) by simp
qed

lemma sprites_stay:
  assumes "sprites_edited m n" "effect_layer e ''sprite''" "map_ok_for a m"
  shows "stays_in_layer a m n e"
proof -
  have "kept_by sprite_layer_change m n" by (rule kept_byI) (fact sprites_edited_kept [OF assms(1)])+
  then show ?thesis using kept_stays [of "''sprite''"] assms(2,3) by simp
qed

lemma if_eq_cases: "(if b then p else q) = r \<Longrightarrow> (p = r \<Longrightarrow> P) \<Longrightarrow> (q = r \<Longrightarrow> P) \<Longrightarrow> P"
  by (cases b) simp_all

lemma edit_step_stays:
  assumes tables: "\<And>t. tileset_ok (isom_of a t)" and ok: "map_ok_for a m"
    and run: "edit_step lib a index name ctx obj m = Inr (n, e)"
  shows "stays_in_layer a m n e"
proof -
  have terrain: "terrain_ok a m" using ok by (simp add: map_ok_for_def)
  note keep = kept_stays [OF _ _ ok]
  consider "terrain_set a name ctx obj m = Inr (n, e)" | "terrain_rect a name ctx obj m = Inr (n, e)"
    | "terrain_blit a name ctx obj m = Inr (n, e)" | "terrain_isom_brush a index name ctx obj m = Inr (n, e)"
    | "terrain_isom_rect a index name ctx obj m = Inr (n, e)" | "unit_add name ctx obj m = Inr (n, e)"
    | verb where "unit_change lib verb name ctx obj m = Inr (n, e)" | "sprite_add name ctx obj m = Inr (n, e)"
    | verb where "sprite_change lib verb name ctx obj m = Inr (n, e)" | "doodad_add a name ctx obj m = Inr (n, e)"
    | verb where "doodad_change lib a verb name ctx obj m = Inr (n, e)" | "location_put name ctx obj m = Inr (n, e)"
    | "location_rename name ctx obj m = Inr (n, e)" | "location_delete name ctx obj m = Inr (n, e)"
    | "scenario_set name ctx obj m = Inr (n, e)" | "player_set name ctx obj m = Inr (n, e)"
    | "force_set name ctx obj m = Inr (n, e)"
    using run unfolding edit_step_def by (elim if_eq_cases) ((erule that)+, simp)
  then show ?thesis
  proof cases
    case 1 then show ?thesis using terrain_stays [OF terrain_set_repaints terrain_effects(1) ok] by simp
  next
    case 2 then show ?thesis using terrain_stays [OF terrain_rect_repaints terrain_effects(2) ok] by simp
  next
    case 3 then show ?thesis using terrain_stays [OF terrain_blit_repaints terrain_effects(3) ok] by simp
  next
    case 4 then show ?thesis using retextured_stays [OF isom_brush_retextures [OF tables terrain] isom_effects(1) ok] by simp
  next
    case 5 then show ?thesis using retextured_stays [OF isom_rect_retextures [OF tables terrain] isom_effects(2) ok] by simp
  next
    case 6 then show ?thesis using units_stay [OF unit_add_edits object_effects(1) ok] by simp
  next
    case 7 then show ?thesis using units_stay [OF unit_change_edits object_effects(2) ok] by simp
  next
    case 8 then show ?thesis using sprites_stay [OF sprite_add_edits object_effects(3) ok] by simp
  next
    case 9 then show ?thesis using sprites_stay [OF sprite_change_edits object_effects(4) ok] by simp
  next
    case 10 then show ?thesis using keep [of "''doodad''"] doodad_add_kept object_effects(5) by simp
  next
    case 11 then show ?thesis using keep [of "''doodad''"] doodad_change_kept object_effects(6) by simp
  next
    case 12 then show ?thesis using keep [of "''location''"] location_put_kept other_effects(1) by simp
  next
    case 13 then show ?thesis using keep [of "''location''"] location_rename_kept other_effects(2) by simp
  next
    case 14 then show ?thesis using keep [of "''location''"] location_delete_kept other_effects(3) by simp
  next
    case 15 then show ?thesis using keep [of "''scenario''"] scenario_set_kept other_effects(4) by simp
  next
    case 16 then show ?thesis using keep [of "''players''"] player_set_kept other_effects(5) by simp
  next
    case 17 then show ?thesis using keep [of "''forces''"] force_set_kept other_effects(6) by simp
  qed
qed

text \<open>
  C9: An operation of a batch changes the layer it reports and nothing else: terrain operations the tiles
  and the ISOM section, doodad operations doodads, tiles and overlay sprites, the operations on locations,
  texts and forces their fields and the string table, every other one a single list. The dimensions stay.
\<close>

theorem edit_step_layer:
  assumes "\<forall>t. tileset_ok (isom_of a t)" and "map_ok_for a m"
    and "edit_step lib a index name ctx obj m = Inr (n, e)"
  shows "\<exists>layer. map_of e ''layer'' = Some (JStr layer) \<and> layer_relation layer m n \<and> same_dimensions m n"
  using edit_step_stays [of a m lib index name ctx obj n e] assms
  by (auto simp: stays_in_layer_def effect_layer_def)

section \<open>A whole batch\<close>

lemma edit_operation_cases:
  assumes "edit_operation lib a (m, effects) (index, v) = Inr (n, effects')"
  obtains name ctx obj e where "edit_step lib a index name ctx obj m = Inr (n, e)" "effects' = effects @ [JObj e]"
  using assms by (auto simp: edit_operation_def bindE_Inr Let_def)

lemma batch_kept:
  assumes "\<And>t. tileset_ok (isom_of a t)"
  shows "foldE (edit_operation lib a) (m, effects) ops = Inr (n, effects') \<Longrightarrow> map_ok_for a m \<Longrightarrow>
    map_ok_for a n \<and> same_dimensions m n \<and> length effects' = length effects + length ops"
proof (induction ops arbitrary: m effects)
  case Nil
  then show ?case by (simp add: same_dimensions_def)
next
  case (Cons op ops)
  obtain index v where op: "op = (index, v)" by (cases op)
  from Cons.prems(1) op obtain k es where k: "edit_operation lib a (m, effects) (index, v) = Inr (k, es)"
    "foldE (edit_operation lib a) (k, es) ops = Inr (n, effects')" by (auto simp: bindE_Inr)
  obtain name ctx obj e where e: "edit_step lib a index name ctx obj m = Inr (k, e)" "es = effects @ [JObj e]"
    by (rule edit_operation_cases [OF k(1)])
  have "map_ok_for a k" "same_dimensions m k"
    using edit_step_stays [OF assms Cons.prems(2) e(1)] by (simp_all add: stays_in_layer_def)
  with Cons.IH [OF k(2)] e(2) show ?case by (auto simp: same_dimensions_def)
qed

end
