(* ===== verification/AgentDoodadProps.thy ===== *)
theory AgentDoodadProps
  imports AgentEditLayers
begin

text \<open>
  Adding a doodad and deleting it again with the terrain that was under it restores the map.
\<close>

section \<open>Footprints\<close>

definition cell_index :: "scenario \<Rightarrow> nat \<times> nat \<Rightarrow> nat \<Rightarrow> nat \<Rightarrow> nat" where
  "cell_index m origin x y = (snd origin + y) * tile_width m + (fst origin + x)"

text \<open>The cells of the map a doodad puts a tile on.\<close>

definition owned_cells :: "terrain_tiles \<Rightarrow> doodad_shape \<Rightarrow> nat \<times> nat \<Rightarrow> scenario \<Rightarrow> nat set" where
  "owned_cells t s origin m =
     {cell_index m origin x y |x y. x < shape_width s \<and> y < shape_height s \<and> doodad_cell_tile t s x y \<noteq> 0}"

text \<open>The tiles under a footprint as \<open>replacementTiles\<close> wants them.\<close>

definition terrain_under :: "doodad_shape \<Rightarrow> nat \<times> nat \<Rightarrow> scenario \<Rightarrow> json" where
  "terrain_under s origin m = JArr (map (\<lambda>y. JArr (map (\<lambda>x.
     JInt (int (unat (sc_tiles m ! cell_index m origin x y)))) [0..<shape_width s])) [0..<shape_height s])"

lemma resolve_doodad_ctx: "resolve_doodad a t i ctx = Inr s \<Longrightarrow> resolve_doodad a t i ctx' = Inr s"
  by (auto simp: resolve_doodad_def Let_def split: option.splits if_splits)

lemma footprint_origin_ctx:
  "doodad_footprint_origin m d s ctx = Inr p \<Longrightarrow> same_dimensions m n \<Longrightarrow> doodad_footprint_origin n d s ctx' = Inr p"
  by (auto simp: doodad_footprint_origin_def same_dimensions_def Let_def split: if_splits)

lemma footprint_inside:
  assumes "doodad_footprint_origin m d s ctx = Inr (l, r)"
  shows "l + shape_width s \<le> tile_width m" "r + shape_height s \<le> tile_height m"
  using assms by (auto simp: doodad_footprint_origin_def Let_def simp del: of_nat_unat split: if_splits; arith)+

text \<open>Applying a footprint changes owned cells only.\<close>

lemma apply_footprint_tiles:
  assumes run: "apply_doodad_footprint d a ctx m = Inr n"
    and sizes: "length (sc_editor_tiles m) = length (sc_tiles m)"
  shows "\<exists>s origin ts. resolve_doodad a (sc_tileset m) (dd_type d) ctx = Inr s
    \<and> doodad_footprint_origin m d s ctx = Inr origin \<and> n = m\<lparr>sc_tiles := ts\<rparr> \<and> length ts = length (sc_tiles m)
    \<and> (\<forall>i. i \<notin> owned_cells (terrain_of a (sc_tileset m)) s origin m \<longrightarrow> ts ! i = sc_tiles m ! i)
    \<and> length (sc_tiles m) = tile_width m * tile_height m"
proof -
  let ?t = "terrain_of a (sc_tileset m)"
  obtain s origin where s: "resolve_doodad a (sc_tileset m) (dd_type d) ctx = Inr s"
    "doodad_footprint_origin m d s ctx = Inr origin" "length (sc_tiles m) = tile_width m * tile_height m"
    and loop: "foldE (apply_cell ?t s origin ctx) m (shape_cells s) = Inr n"
    using run sizes by (auto simp: apply_doodad_footprint_def bindE_Inr Let_def split: if_splits)
  let ?I = "\<lambda>k. \<exists>ts. k = m\<lparr>sc_tiles := ts\<rparr> \<and> length ts = length (sc_tiles m)
    \<and> (\<forall>i. i \<notin> owned_cells ?t s origin m \<longrightarrow> ts ! i = sc_tiles m ! i)"
  have "?I n"
    using loop
  proof (rule foldE_invariant)
    have "m = m\<lparr>sc_tiles := sc_tiles m\<rparr>" by simp
    then show "?I m" by blast
    show "?I k'" if "c \<in> set (shape_cells s)" and "?I k" and step: "apply_cell ?t s origin ctx k c = Inr k'" for k c k'
    proof -
      obtain ts where k: "k = m\<lparr>sc_tiles := ts\<rparr>" "length ts = length (sc_tiles m)"
        "\<forall>i. i \<notin> owned_cells ?t s origin m \<longrightarrow> ts ! i = sc_tiles m ! i" using \<open>?I k\<close> by blast
      have "snd c < shape_width s" "fst c < shape_height s" using that(1) by (auto simp: shape_cells_def)
      then obtain y x where yx: "c = (y, x)" "x < shape_width s" "y < shape_height s" by (cases c) simp
      show ?thesis
      proof (cases "doodad_cell_tile ?t s x y = 0")
        case True
        then have "k' = k" using step yx by (simp add: apply_cell_def)
        then show ?thesis using \<open>?I k\<close> by simp
      next
        case False
        let ?i = "cell_index m origin x y"
        have k': "k' = m\<lparr>sc_tiles := ts[?i := doodad_cell_tile ?t s x y]\<rparr>"
          using step yx(1) False k(1)
          by (auto simp: apply_cell_def bindE_Inr cell_index_def add.assoc Let_def split: if_splits)
        have "?i \<in> owned_cells ?t s origin m" using yx False by (auto simp: owned_cells_def)
        then have "\<forall>i. i \<notin> owned_cells ?t s origin m \<longrightarrow>
            ts[?i := doodad_cell_tile ?t s x y] ! i = sc_tiles m ! i"
          using k(3) by (metis nth_list_update_neq)
        then show ?thesis using k(2) k' by (intro exI [of _ "ts[?i := doodad_cell_tile ?t s x y]"]) simp
      qed
    qed
  qed
  with s show ?thesis by blast
qed

text \<open>Restoring it: every round writes the tile that was there.\<close>

definition restored :: "scenario \<Rightarrow> nat \<Rightarrow> scenario \<Rightarrow> bool" where
  "restored m i k \<longleftrightarrow> sc_tiles k ! i = sc_tiles m ! i \<and> sc_editor_tiles k ! i = sc_editor_tiles m ! i"

definition over_terrain :: "scenario \<Rightarrow> scenario \<Rightarrow> scenario \<Rightarrow> bool" where
  "over_terrain m n k \<longleftrightarrow> k = n\<lparr>sc_tiles := sc_tiles k, sc_editor_tiles := sc_editor_tiles k\<rparr>
     \<and> length (sc_tiles k) = length (sc_tiles m) \<and> length (sc_editor_tiles k) = length (sc_tiles m)"

text \<open>The tiles under a footprint are valid, and the editor sees them too.\<close>

definition restorable :: "terrain_tiles \<Rightarrow> doodad_shape \<Rightarrow> nat \<times> nat \<Rightarrow> scenario \<Rightarrow> bool" where
  "restorable t s origin m \<longleftrightarrow> length (sc_tiles m) = tile_width m * tile_height m
     \<and> length (sc_editor_tiles m) = tile_width m * tile_height m
     \<and> (\<forall>i \<in> owned_cells t s origin m. sc_editor_tiles m ! i = sc_tiles m ! i)
     \<and> (\<forall>x < shape_width s. \<forall>y < shape_height s.
          tile_graphics_valid t (sc_tiles m ! cell_index m origin x y))"

lemma unat_size_value: "size_value (JInt (int (unat (w :: u16)))) ctx False = Inr (unat w)"
  "size_value (JInt (uint w)) ctx False = Inr (unat w)"
  using unat_u16_less [of w] by (simp_all add: size_value_def size_max_def size_limit_def integer_value_def)

lemma replace_cell_restores:
  assumes m: "restorable t s (l, r) m" and dims: "sc_width n = sc_width m" "sc_height n = sc_height m"
    and inside: "l + shape_width s \<le> tile_width m" "r + shape_height s \<le> tile_height m"
    and k: "over_terrain m n k" and xy: "x < shape_width s" "y < shape_height s"
    and v: "v = JInt (int (unat (sc_tiles m ! cell_index m (l, r) x y)))"
  shows "\<exists>k'. replace_cell t s (l, r) ctx y k (x, v) = Inr k' \<and> over_terrain m n k'
    \<and> (\<forall>i \<in> {cell_index m (l, r) x y} \<inter> owned_cells t s (l, r) m. restored m i k')
    \<and> (\<forall>i. restored m i k \<longrightarrow> restored m i k')"
proof -
  let ?i = "cell_index m (l, r) x y" and ?tile = "sc_tiles m ! cell_index m (l, r) x y"
  have valid: "tile_graphics_valid t ?tile" using m xy by (simp add: restorable_def)
  have owned: "doodad_cell_tile t s x y \<noteq> 0 \<longleftrightarrow> ?i \<in> owned_cells t s (l, r) m"
  proof
    assume "?i \<in> owned_cells t s (l, r) m"
    then obtain x' y' where xy': "?i = cell_index m (l, r) x' y'" "x' < shape_width s" "y' < shape_height s"
      "doodad_cell_tile t s x' y' \<noteq> 0" by (auto simp: owned_cells_def)
    have "l + x < tile_width m" "l + x' < tile_width m" using xy xy'(2) inside by simp_all
    then have "r + y = r + y' \<and> l + x = l + x'"
      using grid_index_inj [of "l + x" "tile_width m" "l + x'" "r + y" "r + y'"] xy'(1)
      by (simp add: cell_index_def)
    then show "doodad_cell_tile t s x y \<noteq> 0" using xy'(4) by simp
  qed (use xy in \<open>auto simp: owned_cells_def\<close>)
  have tile: "of_nat (unat ?tile) = ?tile" "\<not> 0xFFFF < unat ?tile" using unat_u16_less [of ?tile] by simp_all
  show ?thesis
  proof (cases "doodad_cell_tile t s x y = 0")
    case True
    then have "replace_cell t s (l, r) ctx y k (x, v) = Inr k"
      using valid tile by (simp add: replace_cell_def v unat_size_value)
    then show ?thesis using k True owned by auto
  next
    case False
    have o: "k = n\<lparr>sc_tiles := sc_tiles k, sc_editor_tiles := sc_editor_tiles k\<rparr>"
      "length (sc_tiles k) = length (sc_tiles m)" "length (sc_editor_tiles k) = length (sc_tiles m)"
      using k by (simp_all add: over_terrain_def)
    have w: "sc_width k = sc_width m" "sc_height k = sc_height m"
      using arg_cong [OF o(1), of sc_width] arg_cong [OF o(1), of sc_height] dims by simp_all
    have len: "length (sc_tiles m) = tile_width m * tile_height m" using m by (simp add: restorable_def)
    let ?k = "k\<lparr>sc_tiles := (sc_tiles k)[?i := ?tile], sc_editor_tiles := (sc_editor_tiles k)[?i := ?tile]\<rparr>"
    have "l + x < tile_width m" "r + y < tile_height m" using xy inside by simp_all
    then have run: "replace_cell t s (l, r) ctx y k (x, v) = Inr ?k" and i: "?i < length (sc_tiles m)"
      using valid tile False o(2,3) w len grid_index_less [of "l + x" "tile_width m" "r + y" "tile_height m"]
      by (simp_all add: replace_cell_def v unat_size_value set_exact_tile_def cell_index_def Let_def)
    have "sc_editor_tiles m ! ?i = ?tile" using m False owned by (simp add: restorable_def)
    then have "\<forall>j. j = ?i \<or> restored m j k \<longrightarrow> restored m j ?k"
      using i o(2,3) by (auto simp: restored_def nth_list_update)
    moreover have "over_terrain m n ?k"
      using arg_cong [OF o(1), of "\<lambda>z. z\<lparr>sc_tiles := (sc_tiles k)[?i := ?tile],
        sc_editor_tiles := (sc_editor_tiles k)[?i := ?tile]\<rparr>"] o(2,3)
      by (simp add: over_terrain_def)
    ultimately show ?thesis using run by auto
  qed
qed

lemma enumerate_upt: "p \<in> set (enumerate 0 (map f [0..<n])) \<longleftrightarrow> (\<exists>x < n. p = (x, f x))"
  by (cases p) (auto simp: in_set_enumerate_eq)

lemma replace_row_restores:
  assumes m: "restorable t s (l, r) m" and dims: "sc_width n = sc_width m" "sc_height n = sc_height m"
    and inside: "l + shape_width s \<le> tile_width m" "r + shape_height s \<le> tile_height m"
    and k: "over_terrain m n k" and y: "y < shape_height s"
  shows "\<exists>k'. replace_row t s (l, r) ctx k (y, JArr (map (\<lambda>x.
      JInt (int (unat (sc_tiles m ! cell_index m (l, r) x y)))) [0..<shape_width s])) = Inr k' \<and> over_terrain m n k'
    \<and> (\<forall>i \<in> {i \<in> owned_cells t s (l, r) m. \<exists>x < shape_width s. i = cell_index m (l, r) x y}. restored m i k')
    \<and> (\<forall>i. restored m i k \<longrightarrow> restored m i k')"
proof -
  let ?row = "map (\<lambda>x. JInt (int (unat (sc_tiles m ! cell_index m (l, r) x y)))) [0..<shape_width s]"
  have "\<exists>k'. foldE (replace_cell t s (l, r) ctx y) k (enumerate 0 ?row) = Inr k' \<and> over_terrain m n k'
    \<and> (\<forall>p \<in> set (enumerate 0 ?row). \<forall>i \<in> {cell_index m (l, r) (fst p) y} \<inter> owned_cells t s (l, r) m. restored m i k')
    \<and> (\<forall>i. restored m i k \<longrightarrow> restored m i k')"
    using k
  proof (rule foldE_total_establishes)
    show "\<exists>v. replace_cell t s (l, r) ctx y u p = Inr v \<and> over_terrain m n v
        \<and> (\<forall>i \<in> {cell_index m (l, r) (fst p) y} \<inter> owned_cells t s (l, r) m. restored m i v)
        \<and> (\<forall>i. restored m i u \<longrightarrow> restored m i v)"
      if p: "p \<in> set (enumerate 0 ?row)" and u: "over_terrain m n u" for u p
    proof -
      obtain x where "p = (x, JInt (int (unat (sc_tiles m ! cell_index m (l, r) x y))))" "x < shape_width s"
        using p unfolding enumerate_upt by blast
      then show ?thesis using replace_cell_restores [OF m dims inside u _ y refl] by auto
    qed
  qed
  then obtain k' where k': "foldE (replace_cell t s (l, r) ctx y) k (enumerate 0 ?row) = Inr k'" "over_terrain m n k'"
    and finished: "\<forall>p \<in> set (enumerate 0 ?row). \<forall>i \<in> {cell_index m (l, r) (fst p) y} \<inter> owned_cells t s (l, r) m. restored m i k'"
    and keep: "\<forall>i. restored m i k \<longrightarrow> restored m i k'" by blast
  have "restored m i k'" if "i \<in> owned_cells t s (l, r) m" "x < shape_width s" "i = cell_index m (l, r) x y" for i x
  proof -
    have "\<exists>v. (x, v) \<in> set (enumerate 0 ?row)" unfolding enumerate_upt using that(2) by blast
    then show ?thesis using finished that by fastforce
  qed
  then show ?thesis using k' keep by (auto simp: replace_row_def array_value_def)
qed

lemma replace_footprint_restores:
  assumes m: "restorable t s (l, r) m" and n: "over_terrain m n n" and dims: "sc_width n = sc_width m" "sc_height n = sc_height m"
    and inside: "l + shape_width s \<le> tile_width m" "r + shape_height s \<le> tile_height m"
    and other: "\<forall>i. i \<notin> owned_cells t s (l, r) m \<longrightarrow> restored m i n"
    and rows: "terrain_under s (l, r) m = JArr rows"
  shows "foldE (replace_row t s (l, r) ctx) n (enumerate 0 rows) =
    Inr (n\<lparr>sc_tiles := sc_tiles m, sc_editor_tiles := sc_editor_tiles m\<rparr>)"
proof -
  let ?row = "\<lambda>y. JArr (map (\<lambda>x. JInt (int (unat (sc_tiles m ! cell_index m (l, r) x y)))) [0..<shape_width s])"
  let ?G = "\<lambda>p :: nat \<times> json. {i \<in> owned_cells t s (l, r) m. \<exists>x < shape_width s. i = cell_index m (l, r) x (fst p)}"
  have rows': "rows = map ?row [0..<shape_height s]" using rows by (simp add: terrain_under_def)
  have "\<exists>k. foldE (replace_row t s (l, r) ctx) n (enumerate 0 rows) = Inr k \<and> over_terrain m n k
    \<and> (\<forall>p \<in> set (enumerate 0 rows). \<forall>i \<in> ?G p. restored m i k) \<and> (\<forall>i. restored m i n \<longrightarrow> restored m i k)"
    using n
  proof (rule foldE_total_establishes)
    show "\<exists>v. replace_row t s (l, r) ctx u p = Inr v \<and> over_terrain m n v
        \<and> (\<forall>i \<in> ?G p. restored m i v) \<and> (\<forall>i. restored m i u \<longrightarrow> restored m i v)"
      if p: "p \<in> set (enumerate 0 rows)" and u: "over_terrain m n u" for u p
    proof -
      obtain y where y: "p = (y, ?row y)" "y < shape_height s"
        using p unfolding rows' enumerate_upt by blast
      then show ?thesis using replace_row_restores [OF m dims inside u y(2)] by simp
    qed
  qed
  then obtain k where k: "foldE (replace_row t s (l, r) ctx) n (enumerate 0 rows) = Inr k" "over_terrain m n k"
    and finished: "\<forall>p \<in> set (enumerate 0 rows). \<forall>i \<in> ?G p. restored m i k"
    and keep: "\<forall>i. restored m i n \<longrightarrow> restored m i k" by blast
  have all: "restored m i k" for i
  proof (cases "i \<in> owned_cells t s (l, r) m")
    case True
    then obtain x y where xy: "i = cell_index m (l, r) x y" "x < shape_width s" "y < shape_height s"
      by (auto simp: owned_cells_def)
    have "\<exists>v. (y, v) \<in> set (enumerate 0 rows)" unfolding rows' enumerate_upt using xy(3) by blast
    then show ?thesis using finished True xy by fastforce
  next
    case False
    then show ?thesis using other keep by blast
  qed
  have len: "length (sc_tiles k) = length (sc_tiles m)" "length (sc_editor_tiles k) = length (sc_tiles m)"
    "length (sc_editor_tiles m) = length (sc_tiles m)"
    using k(2) m by (simp_all add: over_terrain_def restorable_def)
  have "sc_tiles k = sc_tiles m" "sc_editor_tiles k = sc_editor_tiles m"
    using len all by (auto simp: restored_def intro: nth_equalityI)
  moreover have "k = n\<lparr>sc_tiles := sc_tiles k, sc_editor_tiles := sc_editor_tiles k\<rparr>"
    using k(2) by (simp add: over_terrain_def)
  ultimately show ?thesis using k(1) by simp
qed

section \<open>Overlays\<close>

lemma find_rev_last: "P n \<Longrightarrow> List.find P (rev [0..<Suc n]) = Some n"
  by simp

lemma delete_last_overlay:
  assumes "doodad_overlay m d a ctx = Inr v" "sc_tileset n = sc_tileset m"
    and "sc_sprites n = sc_sprites m @ (case v of None \<Rightarrow> [] | Some s \<Rightarrow> [s])"
  shows "delete_doodad_overlay d a ctx' n = Inr (n\<lparr>sc_sprites := sc_sprites m\<rparr>)"
proof -
  obtain s where s: "resolve_doodad a (sc_tileset m) (dd_type d) ctx = Inr s"
    using assms(1) by (auto simp: doodad_overlay_def bindE_Inr)
  have "doodad_overlay n d a ctx' = Inr v"
    using assms(1) s resolve_doodad_ctx [OF s, of ctx']
    by (simp add: doodad_overlay_def assms(2) Let_def split: if_splits)
  then show ?thesis using assms(3)
    by (cases v) (simp_all add: delete_doodad_overlay_def same_overlay_def delete_sprite_def erase_at_def)
qed

section \<open>The round trip\<close>

text \<open>The operation that deletes the last doodad of a map and puts the tiles back.\<close>

definition delete_request :: "archive_lib \<Rightarrow> nat \<Rightarrow> chk_doodad \<Rightarrow> json \<Rightarrow> json_object" where
  "delete_request lib i d tiles =
     [(''beforeFingerprint'', JStr (doodad_fingerprint lib d)), (''op'', JStr ''doodad.delete''),
      (''ordinal'', JInt (int i)), (''replacementTiles'', tiles)]"

lemma delete_request_fields:
  assumes "i < size_limit"
  shows "exact_fields (delete_request lib i d tiles) (object_fields ''delete'' [''replacementTiles'']) ctx = Inr ()"
    "checked_size (delete_request lib i d tiles) ''ordinal'' ctx False = Inr i"
    "check_fingerprint (doodad_fingerprint lib d) (delete_request lib i d tiles) ''doodad'' ctx = Inr ()"
    "required_field (delete_request lib i d tiles) ''replacementTiles'' ctx = Inr tiles"
  using assms
  by (auto simp: delete_request_def exact_fields_Inr object_fields_def checked_size_def required_field_def
    check_fingerprint_def size_value_def size_max_def size_limit_def integer_value_def string_value_def)

text \<open>What \<open>doodad_add\<close> does to a map.\<close>

lemma doodad_add_cases:
  assumes run: "doodad_add a name ctx obj m = Inr (n, e)"
    and sizes: "length (sc_editor_tiles m) = length (sc_tiles m)"
  obtains d s origin ts v where "resolve_doodad a (sc_tileset m) (dd_type d) ctx = Inr s"
    "doodad_footprint_origin m d s ctx = Inr origin"
    "doodad_overlay m d a ctx = Inr v"
    "n = m\<lparr>sc_tiles := ts, sc_doodads := sc_doodads m @ [d],
       sc_sprites := sc_sprites m @ (case v of None \<Rightarrow> [] | Some w \<Rightarrow> [w])\<rparr>"
    "length ts = length (sc_tiles m)"
    "\<forall>i. i \<notin> owned_cells (terrain_of a (sc_tileset m)) s origin m \<longrightarrow> ts ! i = sc_tiles m ! i"
proof -
  obtain d k where k: "apply_doodad_footprint d a ctx m = Inr k"
    and n: "add_doodad_overlay d a ctx (k\<lparr>sc_doodads := sc_doodads k @ [d]\<rparr>) = Inr n"
    using run by (auto simp: doodad_add_def bindE_Inr add_doodad_def Let_def)
  obtain s origin ts where s: "resolve_doodad a (sc_tileset m) (dd_type d) ctx = Inr s"
    "doodad_footprint_origin m d s ctx = Inr origin" "k = m\<lparr>sc_tiles := ts\<rparr>" "length ts = length (sc_tiles m)"
    "\<forall>i. i \<notin> owned_cells (terrain_of a (sc_tileset m)) s origin m \<longrightarrow> ts ! i = sc_tiles m ! i"
    using apply_footprint_tiles [OF k sizes] by blast
  obtain v where v: "doodad_overlay m d a ctx = Inr v"
    "n = k\<lparr>sc_doodads := sc_doodads k @ [d], sc_sprites := sc_sprites k @ (case v of None \<Rightarrow> [] | Some w \<Rightarrow> [w])\<rparr>"
    using n s(3) by (auto simp: add_doodad_overlay_def doodad_overlay_def bindE_Inr add_sprite_def split: option.splits)
  show thesis by (rule that [OF s(1,2) v(1) _ s(4,5)]) (simp add: v(2) s(3))
qed

text \<open>
  What deleting needs: both layers have a tile for every cell, and the tiles under the whole footprint can be
  drawn. The map with the editor's tiles on the owned cells set to the tiles of the game:
\<close>

definition deletable :: "terrain_tiles \<Rightarrow> doodad_shape \<Rightarrow> nat \<times> nat \<Rightarrow> scenario \<Rightarrow> bool" where
  "deletable t s origin m \<longleftrightarrow> length (sc_tiles m) = tile_width m * tile_height m
     \<and> length (sc_editor_tiles m) = tile_width m * tile_height m
     \<and> (\<forall>x < shape_width s. \<forall>y < shape_height s.
          tile_graphics_valid t (sc_tiles m ! cell_index m origin x y))"

definition synced :: "nat set \<Rightarrow> scenario \<Rightarrow> scenario" where
  "synced cells m = m\<lparr>sc_editor_tiles := map (\<lambda>i. if i \<in> cells then sc_tiles m ! i else sc_editor_tiles m ! i)
     [0..<length (sc_editor_tiles m)]\<rparr>"

lemma synced_cells [simp]:
  "cell_index (synced cells m) = cell_index m" "owned_cells t s origin (synced cells m) = owned_cells t s origin m"
  "terrain_under s origin (synced cells m) = terrain_under s origin m"
  "tile_width (synced cells m) = tile_width m" "tile_height (synced cells m) = tile_height m"
  "sc_tiles (synced cells m) = sc_tiles m" "length (sc_editor_tiles (synced cells m)) = length (sc_editor_tiles m)"
proof -
  show dims: "tile_width (synced cells m) = tile_width m" "tile_height (synced cells m) = tile_height m"
    by (simp_all add: synced_def)
  show "cell_index (synced cells m) = cell_index m" by (simp add: cell_index_def fun_eq_iff dims)
  then show "owned_cells t s origin (synced cells m) = owned_cells t s origin m"
    "terrain_under s origin (synced cells m) = terrain_under s origin m"
    by (simp_all add: owned_cells_def terrain_under_def synced_def)
qed (simp_all add: synced_def)

lemma synced_outside: "i \<notin> cells \<Longrightarrow> sc_editor_tiles (synced cells m) ! i = sc_editor_tiles m ! i"
proof (cases "i < length (sc_editor_tiles m)")
  case False
  then have "sc_editor_tiles (synced cells m) ! i = [] ! (i - length (sc_editor_tiles m))"
    "sc_editor_tiles m ! i = [] ! (i - length (sc_editor_tiles m))"
    using nth_append [of "sc_editor_tiles (synced cells m)" "[]" i] nth_append [of "sc_editor_tiles m" "[]" i] by simp_all
  then show ?thesis by simp
qed (simp add: synced_def)

lemma doodad_add_last:
  assumes run: "doodad_add a name ctx obj m = Inr (n, e)"
    and len: "length (sc_editor_tiles m) = length (sc_tiles m)" and d: "d = last (sc_doodads n)"
    and s: "resolve_doodad a (sc_tileset m) (dd_type d) ctx = Inr s"
    and origin: "doodad_footprint_origin m d s ctx = Inr origin"
  shows "\<exists>ts v. doodad_overlay m d a ctx = Inr v \<and>
    n = m\<lparr>sc_tiles := ts, sc_doodads := sc_doodads m @ [d],
       sc_sprites := sc_sprites m @ (case v of None \<Rightarrow> [] | Some s \<Rightarrow> [s])\<rparr> \<and>
    length ts = length (sc_tiles m) \<and>
    (\<forall>i. i \<notin> owned_cells (terrain_of a (sc_tileset m)) s origin m \<longrightarrow> ts ! i = sc_tiles m ! i)"
proof (rule doodad_add_cases [OF run len])
  fix d' s' o' ts v
  assume 1: "resolve_doodad a (sc_tileset m) (dd_type d') ctx = Inr s'" "doodad_footprint_origin m d' s' ctx = Inr o'"
    "doodad_overlay m d' a ctx = Inr v"
    and 2: "n = m\<lparr>sc_tiles := ts, sc_doodads := sc_doodads m @ [d'],
     sc_sprites := sc_sprites m @ (case v of None \<Rightarrow> [] | Some w \<Rightarrow> [w])\<rparr>"
    and 3: "length ts = length (sc_tiles m)" "\<forall>i. i \<notin> owned_cells (terrain_of a (sc_tileset m)) s' o' m \<longrightarrow> ts ! i = sc_tiles m ! i"
  have "d' = d" using d 2 by simp
  then have "s' = s" "o' = origin" using 1 s origin by auto
  with \<open>d' = d\<close> show ?thesis using 1(3) 2 3 by blast
qed

lemma restorable_synced:
  assumes "deletable t s origin m" "\<And>i. i \<in> owned_cells t s origin m \<Longrightarrow> i < length (sc_tiles m)"
  shows "restorable t s origin (synced (owned_cells t s origin m) m)"
  using assms by (auto simp: restorable_def deletable_def) (auto simp: synced_def)

lemma owned_inside:
  assumes "doodad_footprint_origin m d s ctx = Inr (l, r)" "i \<in> owned_cells t s (l, r) m"
  shows "i < tile_width m * tile_height m"
proof -
  obtain x y where "i = cell_index m (l, r) x y" "x < shape_width s" "y < shape_height s"
    using assms(2) by (auto simp: owned_cells_def)
  then show ?thesis
    using footprint_inside [OF assms(1)] grid_index_less [of "l + x" "tile_width m" "r + y" "tile_height m"]
    by (simp add: cell_index_def)
qed

text \<open>
  C11: Adding a doodad and deleting it again, with the tiles that were under its footprint as
  \<open>replacementTiles\<close>, succeeds on a map with tiles for every cell whose tiles under the footprint can be
  drawn, and gives back the map: its tiles, its doodads, and its sprites without the overlay the doodad had
  brought. Only the editor's layer can differ: adding leaves it alone, deleting writes the game's tile to it
  on every cell the doodad owned. So the very map comes back when the two layers agree on those cells.
\<close>

theorem doodad_add_then_delete:
  assumes run: "doodad_add a name ctx obj m = Inr (n, e)"
    and d: "d = last (sc_doodads n)"
    and s: "resolve_doodad a (sc_tileset m) (dd_type d) ctx = Inr s"
    and origin: "doodad_footprint_origin m d s ctx = Inr origin"
    and ok: "deletable (terrain_of a (sc_tileset m)) s origin m" and few: "length (sc_doodads m) < size_limit"
  shows "\<exists>es. doodad_change lib a ''delete'' name' ctx'
      (delete_request lib (length (sc_doodads m)) d (terrain_under s origin m)) n =
      Inr (m\<lparr>sc_editor_tiles := es\<rparr>, effect name' ''doodad'' (length (sc_doodads m))) \<and>
    length es = length (sc_editor_tiles m) \<and>
    (\<forall>i < length es. es ! i = (if i \<in> owned_cells (terrain_of a (sc_tileset m)) s origin m
       then sc_tiles m ! i else sc_editor_tiles m ! i))"
proof -
  let ?t = "terrain_of a (sc_tileset m)" and ?i = "length (sc_doodads m)"
  obtain l r where lr: "origin = (l, r)" by (cases origin)
  let ?m = "synced (owned_cells ?t s origin m) m"
  have len: "length (sc_editor_tiles m) = length (sc_tiles m)" using ok by (simp add: deletable_def)
  have "i < length (sc_tiles m)" if "i \<in> owned_cells ?t s origin m" for i
    using owned_inside [OF origin [unfolded lr]] that ok by (simp add: lr deletable_def)
  then have rest: "restorable ?t s (l, r) ?m" using restorable_synced [OF ok] lr by simp
  obtain ts v where v: "doodad_overlay m d a ctx = Inr v"
    and n: "n = m\<lparr>sc_tiles := ts, sc_doodads := sc_doodads m @ [d],
       sc_sprites := sc_sprites m @ (case v of None \<Rightarrow> [] | Some s \<Rightarrow> [s])\<rparr>"
    and ts: "length ts = length (sc_tiles m)" "\<forall>i. i \<notin> owned_cells ?t s origin m \<longrightarrow> ts ! i = sc_tiles m ! i"
    using doodad_add_last [OF run len d s origin] by blast
  have frame: "sc_tileset n = sc_tileset m" "sc_doodads n = sc_doodads m @ [d]" "same_dimensions m n"
    "sc_width n = sc_width m" "sc_height n = sc_height m"
    using n by (simp_all add: same_dimensions_def)
  obtain rows where rows: "terrain_under s origin m = JArr rows" "length rows = shape_height s"
    by (simp add: terrain_under_def)
  have "foldE (replace_row ?t s (l, r) ctx') n (enumerate 0 rows) =
      Inr (n\<lparr>sc_tiles := sc_tiles ?m, sc_editor_tiles := sc_editor_tiles ?m\<rparr>)"
  proof (rule replace_footprint_restores [OF rest])
    show "over_terrain ?m n n" using n ts len by (simp add: over_terrain_def)
    show "sc_width n = sc_width ?m" "sc_height n = sc_height ?m" using frame by (simp_all add: synced_def)
    show "l + shape_width s \<le> tile_width ?m" "r + shape_height s \<le> tile_height ?m"
      using footprint_inside [OF origin [unfolded lr]] by simp_all
    show "\<forall>i. i \<notin> owned_cells ?t s (l, r) ?m \<longrightarrow> restored ?m i n"
      using ts(2) n by (auto simp: restored_def lr synced_outside)
    show "terrain_under s (l, r) ?m = JArr rows" using rows(1) lr by simp
  qed
  then have back_tiles: "replace_doodad_footprint d (terrain_under s origin m) a ctx' n =
      Inr (n\<lparr>sc_tiles := sc_tiles m, sc_editor_tiles := sc_editor_tiles ?m\<rparr>)"
    using resolve_doodad_ctx [OF s, of ctx'] footprint_origin_ctx [OF origin frame(3), of "ctx' @ '' (old doodad)''"]
      rows frame(1) lr by (simp add: replace_doodad_footprint_def array_value_def)
  let ?n = "n\<lparr>sc_tiles := sc_tiles m, sc_editor_tiles := sc_editor_tiles ?m\<rparr>"
  have "delete_doodad_overlay d a ctx' ?n = Inr (?n\<lparr>sc_sprites := sc_sprites m\<rparr>)"
    by (rule delete_last_overlay [OF v]) (simp_all add: n)
  moreover have "delete_doodad ?i (?n\<lparr>sc_sprites := sc_sprites m\<rparr>) = m\<lparr>sc_editor_tiles := sc_editor_tiles ?m\<rparr>"
    by (simp add: n delete_doodad_def erase_at_def)
  ultimately have "doodad_change lib a ''delete'' name' ctx'
      (delete_request lib (length (sc_doodads m)) d (terrain_under s origin m)) n =
      Inr (m\<lparr>sc_editor_tiles := sc_editor_tiles ?m\<rparr>, effect name' ''doodad'' (length (sc_doodads m)))"
    using few back_tiles frame(2)
    by (simp add: doodad_change_def delete_request_fields Let_def nth_append change_doodad_def)
  then show ?thesis by (intro exI [of _ "sc_editor_tiles ?m"]) (simp, simp add: synced_def)
qed

end
