(* ===== verification/AgentIsomProps.thy ===== *)
theory AgentIsomProps
  imports AgentEditProps
begin

text \<open>
  The semantic rectangle of \<open>mapEdit\<close>: which diamonds \<open>isomDiamondsInside\<close> takes, and that the operation
  succeeds on every rectangle that is large enough.
\<close>

section \<open>The diamonds of a rectangle\<close>

text \<open>The four by two tiles a diamond is drawn on, and the tiles of a rectangle.\<close>

definition diamond_footprint :: "point \<Rightarrow> (int \<times> int) set" where
  "diamond_footprint d = {2 * int (fst d) - 2..2 * int (fst d) + 1} \<times> {int (snd d) - 1..int (snd d)}"

definition tile_rectangle :: "nat \<Rightarrow> nat \<Rightarrow> nat \<Rightarrow> nat \<Rightarrow> (int \<times> int) set" where
  "tile_rectangle x y width height = {int x..<int (x + width)} \<times> {int y..<int (y + height)}"

lemma footprint_inside_rectangle:
  "diamond_footprint d \<subseteq> tile_rectangle x y width height \<longleftrightarrow>
     x + 2 \<le> 2 * fst d \<and> 2 * fst d + 2 \<le> x + width \<and> y + 1 \<le> snd d \<and> snd d < y + height"
proof -
  have interval: "{a..b} \<subseteq> {c..<d} \<longleftrightarrow> c \<le> a \<and> b < d" if "a \<le> b" for a b c d :: int
    using that by (auto simp: subset_eq)
  show ?thesis
    by (simp add: diamond_footprint_def tile_rectangle_def times_subset_iff interval) linarith
qed

lemma set_diamond_columns:
  "d \<in> set (diamond_columns x right) \<longleftrightarrow> x + 2 \<le> 2 * d \<and> 2 * d + 2 \<le> right"
proof -
  have "d \<in> set (takeWhile (\<lambda>dx. 2 * dx + 2 \<le> right) [k..<right]) \<longleftrightarrow> k \<le> d \<and> 2 * d + 2 \<le> right" for k
  proof (induction "right - k" arbitrary: k)
    case 0
    then show ?case by auto
  next
    case (Suc n)
    then have "[k..<right] = k # [Suc k..<right]" by (simp add: upt_conv_Cons)
    moreover have "n = right - Suc k" using Suc.hyps(2) by simp
    ultimately show ?case using Suc.hyps(1) [of "Suc k"] by auto
  qed
  then show ?thesis by (auto simp: diamond_columns_def)
qed

lemma set_isom_diamonds_inside:
  "d \<in> set (isom_diamonds_inside x y width height) \<longleftrightarrow>
     (fst d + snd d) mod 2 = 0 \<and> diamond_footprint d \<subseteq> tile_rectangle x y width height"
proof (cases d)
  case (Pair dx dy)
  show ?thesis
    unfolding footprint_inside_rectangle Pair
    by (simp add: isom_diamonds_inside_def Let_def set_diamond_columns image_iff) blast
qed

lemma distinct_isom_diamonds_inside: "distinct (isom_diamonds_inside x y width height)"
proof -
  have "distinct (diamond_columns x right)" for right by (simp add: diamond_columns_def)
  moreover have "distinct (concat (map (\<lambda>dy. map (\<lambda>dx. (dx, dy)) (filter (P dy) xs)) ys))"
    if "distinct xs" "distinct ys" for P :: "nat \<Rightarrow> nat \<Rightarrow> bool" and xs ys :: "nat list"
    using that(2) by (induction ys) (auto simp: distinct_map inj_on_def that(1))
  ultimately show ?thesis by (simp add: isom_diamonds_inside_def Let_def)
qed

text \<open>
  C13: The diamonds of a semantic rectangle are, each once, the points of the diamond lattice whose whole
  footprint of four by two tiles lies in the rectangle; stopping a row at the first diamond that sticks
  out loses none.
\<close>

theorem isom_rect_diamonds:
  "set (isom_diamonds_inside x y width height) =
     {d. (fst d + snd d) mod 2 = 0 \<and> diamond_footprint d \<subseteq> tile_rectangle x y width height}
   \<and> distinct (isom_diamonds_inside x y width height)"
  using set_isom_diamonds_inside distinct_isom_diamonds_inside by auto

lemma isom_diamonds_nonempty:
  assumes "5 \<le> width" "3 \<le> height"
  shows "isom_diamonds_inside x y width height \<noteq> []"
proof -
  let ?dx = "(x + 3) div 2"
  have column: "x + 2 \<le> 2 * ?dx \<and> 2 * ?dx + 2 \<le> x + width" using assms(1) by linarith
  have "(?dx + (y + 1)) mod 2 = 0 \<or> (?dx + (y + 2)) mod 2 = 0" by presburger
  then obtain dy where "(?dx + dy) mod 2 = 0" "dy = y + 1 \<or> dy = y + 2"
    by (elim disjE) (erule that, simp)+
  then have "(?dx, dy) \<in> set (isom_diamonds_inside x y width height)"
    using column assms(2) by (auto simp: set_isom_diamonds_inside footprint_inside_rectangle)
  then show ?thesis by force
qed

section \<open>The operation succeeds\<close>

definition rect_request :: "nat \<Rightarrow> nat \<Rightarrow> nat \<Rightarrow> nat \<Rightarrow> nat \<Rightarrow> json_object" where
  "rect_request x y width height brush =
     [(''brush'', JInt (int brush)), (''height'', JInt (int height)), (''op'', JStr ''terrain.isom_rect''),
      (''width'', JInt (int width)), (''x'', JInt (int x)), (''y'', JInt (int y))]"

text \<open>The brushes a tileset knows.\<close>

definition semantic_brush :: "edit_assets \<Rightarrow> nat \<Rightarrow> nat \<Rightarrow> bool" where
  "semantic_brush a tileset brush \<longleftrightarrow> 0 < brush \<and> brush < size_limit
     \<and> brush_allowed (new_cache tileset 0 0 (isom_of a tileset))
         (terrain_type_isom_value (new_cache tileset 0 0 (isom_of a tileset)) brush)"

lemma new_cache_tables [simp]:
  "ic_links (new_cache tileset w h td) = td_isom_links td" "ic_types (new_cache tileset w h td) = td_terrain_types td"
  by (simp_all add: new_cache_def Let_def reset_changed_area_def)

lemma semantic_brush_allowed:
  assumes "semantic_brush a (sc_tileset m) brush"
  shows "brush_allowed (batch_cache a m seed) (terrain_type_isom_value (batch_cache a m seed) brush)"
    "require_isom_brush (new_cache (sc_tileset m) (tile_width m) (tile_height m) (isom_of a (sc_tileset m))) brush ctx
       = Inr ()"
  using assms
  by (simp_all add: semantic_brush_def brush_allowed_def terrain_type_isom_value_def batch_cache_def
      seed_subtile_variation_def require_isom_brush_def Let_def split: if_splits)

lemma size_value_nat [simp]:
  "n < size_limit \<Longrightarrow> (positive \<longrightarrow> 0 < n) \<Longrightarrow> size_value (JInt (int n)) ctx positive = Inr n"
  by (auto simp: size_value_def integer_value_def size_max_def size_limit_def)

lemma isom_diamonds_on_section:
  assumes "x + width \<le> tile_width m" "y + height \<le> tile_height m" "d \<in> set (isom_diamonds_inside x y width height)"
  shows "is_valid_diamond d \<and> in_bounds (copy_to_sc_map m) d"
proof -
  have d: "(fst d + snd d) mod 2 = 0" "2 * fst d + 2 \<le> x + width" "snd d < y + height"
    using assms(3) by (simp_all add: set_isom_diamonds_inside footprint_inside_rectangle)
  then have "fst d < tile_width m div 2 + 1" "snd d < tile_height m + 1" using assms(1,2) by linarith+
  moreover have "fst d + snd d < size_limit"
    using d assms(1,2) unat_u16_less [of "sc_width m"] unat_u16_less [of "sc_height m"] by (simp add: size_limit_def)
  ultimately show ?thesis using d(1) by (simp add: in_bounds_def is_valid_diamond_def)
qed

text \<open>
  C12: A semantic rectangle of at least five by three tiles inside a well-formed map with an ISOM section
  is always painted: the operation succeeds for every brush of the tileset, the tiles of the whole changed
  area are regenerated, and only tiles and ISOM section change, which stay well-formed.
\<close>

theorem isom_rect_succeeds:
  assumes "tileset_ok (isom_of a (sc_tileset m))" and "terrain_ok a m" and "length (sc_isom m) = isom_section_size m"
    and "x + width \<le> tile_width m" and "y + height \<le> tile_height m" and "5 \<le> width" and "3 \<le> height"
    and "semantic_brush a (sc_tileset m) brush"
  shows "\<exists>n e. terrain_isom_rect a index name ctx (rect_request x y width height brush) m = Inr (n, e)
    \<and> terrain_change m n \<and> same_dimensions m n \<and> terrain_ok a n"
proof -
  let ?ds = "isom_diamonds_inside x y width height" and ?obj = "rect_request x y width height brush"
    and ?seed = "isom_variation_seed [x, y, width, height, brush]"
  have small: "x < size_limit" "y < size_limit" "width < size_limit" "height < size_limit" "brush < size_limit"
    "x + width < size_limit" "y + height < size_limit"
    using assms(4,5,8) unat_u16_less [of "sc_width m"] unat_u16_less [of "sc_height m"]
    by (simp_all add: size_limit_def semantic_brush_def)
  have pos: "0 < width" "0 < height" "0 < brush" using assms(6-8) by (simp_all add: semantic_brush_def)
  note pre = batch_state_ok(1) [OF assms(1-3), of ?seed]
  obtain st where placed: "place_isom_terrain_diamonds ?ds brush (copy_to_sc_map m, batch_cache a m ?seed) = Inr (True, st)"
    "placed_ok (copy_to_sc_map m) (batch_cache a m ?seed) st"
    using place_diamonds_succeeds [OF pre isom_diamonds_nonempty [OF assms(6,7)] _
        semantic_brush_allowed(1) [OF assms(8)]] isom_diamonds_on_section [OF assms(4,5)] by blast
  obtain n e where "finish_isom name index ctx (length ?ds) m (Inr (True, st)) = Inr (n, e)" "retextured a m n"
    using finish_placed [OF assms(1-3) placed(2)] by blast
  moreover have "terrain_isom_rect a index name ctx ?obj m = finish_isom name index ctx (length ?ds) m (Inr (True, st))"
  proof -
    have "exact_fields ?obj [''op'', ''x'', ''y'', ''width'', ''height'', ''brush''] ctx = Inr ()"
      by (auto simp: exact_fields_Inr rect_request_def)
    moreover have "checked_size ?obj ''x'' ctx False = Inr x" "checked_size ?obj ''y'' ctx False = Inr y"
      "checked_size ?obj ''width'' ctx True = Inr width" "checked_size ?obj ''height'' ctx True = Inr height"
      "checked_size ?obj ''brush'' ctx True = Inr brush"
      using small pos by (simp_all add: checked_size_def required_field_def rect_request_def)
    moreover have "\<not> outside_terrain x y width height m" using small assms(4,5) by (simp add: outside_terrain_def)
    moreover have "require_isom_section m ctx = Inr ()" using assms(3) by (simp add: require_isom_section_Inr)
    ultimately show ?thesis
      using placed(1) isom_diamonds_nonempty [OF assms(6,7), of x y] semantic_brush_allowed(2) [OF assms(8), of ctx]
      by (simp add: terrain_isom_rect_def Let_def batch_cache_def)
  qed
  ultimately show ?thesis by (auto simp: retextured_def)
qed

end
