(* ===== verification/AgentNew.thy ===== *)
theory AgentNew
  imports AgentMapEdit
begin

text \<open>
  \<open>mapNew\<close> of \<open>IsomTerrain/MapAgentCore.cpp\<close>: a new map filled with one terrain brush, its texts,
  forces, players and start locations from a JSON specification, saved, renamed to the output and read
  back; with the constructor of \<open>Scenario\<close> for a new map.
\<close>

section \<open>The constructor\<close>

definition race_zerg :: u8 where "race_zerg = 0"
definition race_terran :: u8 where "race_terran = 1"
definition race_protoss :: u8 where "race_protoss = 2"
definition race_neutral :: u8 where "race_neutral = 4"
definition race_inactive :: u8 where "race_inactive = 7"
definition slot_inactive :: u8 where "slot_inactive = 0"
definition slot_open :: u8 where "slot_open = 6"
definition force_flags_all :: u8 where "force_flags_all = 0x0F"
definition total_locations :: nat where "total_locations = 255"

definition default_races :: "u8 list" where
  "default_races =
     [race_terran, race_zerg, race_protoss, race_terran, race_zerg, race_protoss, race_terran, race_zerg,
      race_inactive, race_inactive, race_inactive, race_neutral]"

definition default_slots :: "u8 list" where
  "default_slots = replicate total_slots slot_open @ replicate (total_players - total_slots) slot_inactive"

definition default_strings :: "string option list" where
  "default_strings =
     (let named = [None, Some ''Untitled Scenario'', Some ''Destroy all enemy buildings.'', Some ''Anywhere'',
                   Some ''Force 1'', Some ''Force 2'', Some ''Force 3'', Some ''Force 4'']
      in named @ replicate (1025 - length named) None)"

definition anywhere_location :: "u16 \<Rightarrow> u16 \<Rightarrow> chk_location" where
  "anywhere_location width height =
     empty_location\<lparr>loc_right := of_nat (unat width * 32), loc_bottom := of_nat (unat height * 32),
       loc_string_id := 3\<rparr>"

definition default_locations :: "u16 \<Rightarrow> u16 \<Rightarrow> chk_location list" where
  "default_locations width height =
     replicate location_anywhere empty_location @ [anywhere_location width height] @
     replicate (total_locations - location_anywhere) empty_location"

definition new_scenario :: "nat \<Rightarrow> u16 \<Rightarrow> u16 \<Rightarrow> scenario" where
  "new_scenario tileset width height =
     (let cells = unat width * unat height
      in \<lparr>sc_strings = default_strings, sc_name_id = 1, sc_description_id = 2, sc_races = default_races,
          sc_player_forces = replicate total_slots 0, sc_force_strings = [4, 5, 6, 7],
          sc_force_flags = replicate total_forces force_flags_all, sc_slot_types = default_slots,
          sc_iown_slot_types = default_slots, sc_sprites = [], sc_doodads = [], sc_units = [],
          sc_locations = default_locations width height, sc_width = width, sc_height = height,
          sc_tileset = tileset, sc_tiles = replicate cells 0, sc_editor_tiles = replicate cells 0,
          sc_isom = replicate ((unat width div 2 + 1) * (unat height + 1)) empty_rect,
          sc_unit_names = replicate total_unit_types 0, sc_orig_unit_names = replicate total_unit_types 0,
          sc_triggers = [], sc_briefing_triggers = [], sc_switch_names = replicate total_switches 0,
          sc_sound_paths = replicate total_sounds 0, sc_trigger_extensions = []\<rparr>)"

section \<open>The specification\<close>

datatype save_type = RemasteredScx | ExpansionScx

record force_spec =
  fs_name :: string
  fs_flags :: u8

record player_spec =
  ps_slot :: nat
  ps_type :: u8
  ps_race :: u8
  ps_force :: "nat option"
  ps_start :: "(u16 \<times> u16) option"

record new_spec =
  ns_save_type :: save_type
  ns_tileset :: nat
  ns_width :: nat
  ns_height :: nat
  ns_terrain_type :: nat
  ns_title :: string
  ns_description :: string
  ns_forces :: "force_spec list"
  ns_players :: "player_spec list"

abbreviation spec_ctx :: string where "spec_ctx \<equiv> ''map new spec''"

definition parse_version :: "json_object \<Rightarrow> save_type result" where
  "parse_version spec =
     bindE (case optional_field spec ''version'' of
              None \<Rightarrow> Inr ''remastered'' | Some v \<Rightarrow> string_value v (spec_ctx @ ''.version'')) (\<lambda>version.
       if version = ''broodWar'' then Inr ExpansionScx
       else if version \<noteq> ''remastered'' then fail ''map new spec.version must be remastered or broodWar''
       else Inr RemasteredScx)"

definition or_flag :: "json_object \<Rightarrow> string \<Rightarrow> u8 \<Rightarrow> string \<Rightarrow> u8 \<Rightarrow> u8 result" where
  "or_flag obj field flag ctx flags =
     bindE (required_field obj field ctx) (\<lambda>v.
     bindE (bool_value v (ctx @ [CHR ''.''] @ field)) (\<lambda>b. Inr (if b then flags OR flag else flags)))"

definition parse_force_spec :: "nat \<Rightarrow> json \<Rightarrow> force_spec result" where
  "parse_force_spec index v =
     (let ctx = spec_ctx @ ''.forces['' @ nat_to_string index @ '']''
      in bindE (object_value v ctx) (\<lambda>force.
         bindE (exact_fields force [''nameBytesHex'', ''allied'', ''alliedVictory'', ''sharedVision'',
           ''randomStart''] ctx) (\<lambda>_.
         bindE (required_field force ''nameBytesHex'' ctx) (\<lambda>v.
         bindE (map_text_field v (ctx @ ''.nameBytesHex'') 1 256) (\<lambda>name.
         bindE (or_flag force ''allied'' flag_random_allies ctx 0) (\<lambda>flags.
         bindE (or_flag force ''alliedVictory'' flag_allied_victory ctx flags) (\<lambda>flags.
         bindE (or_flag force ''sharedVision'' flag_shared_vision ctx flags) (\<lambda>flags.
         bindE (or_flag force ''randomStart'' flag_random_start ctx flags) (\<lambda>flags.
         Inr \<lparr>fs_name = name, fs_flags = flags\<rparr>)))))))))"

definition parse_forces :: "json_object \<Rightarrow> force_spec list result" where
  "parse_forces spec =
     (case optional_field spec ''forces'' of
        None \<Rightarrow> Inr [\<lparr>fs_name = ''Force 1'', fs_flags = force_flags_all\<rparr>]
      | Some v \<Rightarrow>
          bindE (array_value v (spec_ctx @ ''.forces'')) (\<lambda>forces.
            if forces = [] \<or> total_forces < length forces
            then fail ''map new spec.forces must contain 1..4 entries''
            else mapE (\<lambda>(index, v). parse_force_spec index v) (enumerate 0 forces)))"

definition parse_start :: "nat \<Rightarrow> nat \<Rightarrow> nat \<Rightarrow> json \<Rightarrow> string \<Rightarrow> (u16 \<times> u16) result" where
  "parse_start width height slot v ctx =
     (if total_slots \<le> slot then fail (ctx @ ''.start is only valid for slots 0..7'')
      else
        let sctx = ctx @ ''.start''
        in bindE (object_value v sctx) (\<lambda>start.
           bindE (exact_fields start [''x'', ''y''] sctx) (\<lambda>_.
           bindE (checked_u16 start ''x'' sctx) (\<lambda>x.
           bindE (checked_u16 start ''y'' sctx) (\<lambda>y.
             if width * 32 \<le> unat x \<or> height * 32 \<le> unat y then fail (ctx @ ''.start is outside the map'')
             else Inr (x, y))))))"

text \<open>A force is required for the lobby slots and not allowed for the others.\<close>

definition parse_player_force :: "nat \<Rightarrow> nat \<Rightarrow> json_object \<Rightarrow> string \<Rightarrow> nat option result" where
  "parse_player_force forces slot player ctx =
     (let has_force = (optional_field player ''force'' \<noteq> None)
      in if slot < total_slots
         then if \<not> has_force then fail (ctx @ ''.force is required for slots 0..7'')
              else bindE (checked_size player ''force'' ctx False) (\<lambda>n.
                     if forces \<le> n then fail (ctx @ ''.force does not name a declared force'')
                     else Inr (Some n))
         else if has_force then fail (ctx @ ''.force is only valid for slots 0..7'') else Inr None)"

definition parse_player ::
    "nat \<Rightarrow> nat \<Rightarrow> nat \<Rightarrow> player_spec list \<Rightarrow> nat \<times> json \<Rightarrow> player_spec list result" where
  "parse_player width height forces players = (\<lambda>(index, v).
     let ctx = spec_ctx @ ''.players['' @ nat_to_string index @ '']''
     in bindE (object_value v ctx) (\<lambda>player.
        bindE (allowed_fields player [''slot'', ''type'', ''race'', ''force'', ''start''] ctx) (\<lambda>_.
        bindE (checked_size player ''slot'' ctx False) (\<lambda>slot.
          if total_players \<le> slot then fail (ctx @ ''.slot must be within 0..11'')
          else if slot \<in> ps_slot ` set players then fail (ctx @ ''.slot is duplicated'')
          else
            bindE (required_field player ''type'' ctx) (\<lambda>v.
            bindE (string_value v (ctx @ ''.type'')) (\<lambda>s.
            bindE (parse_slot_type s (ctx @ ''.type'')) (\<lambda>slot_type.
            bindE (required_field player ''race'' ctx) (\<lambda>v.
            bindE (string_value v (ctx @ ''.race'')) (\<lambda>s.
            bindE (parse_race s (ctx @ ''.race'')) (\<lambda>race.
            bindE (parse_player_force forces slot player ctx) (\<lambda>force.
            bindE (optional_value (optional_field player ''start'') (\<lambda>v.
              parse_start width height slot v ctx)) (\<lambda>start.
            Inr (players @ [\<lparr>ps_slot = slot, ps_type = slot_type, ps_race = race, ps_force = force,
              ps_start = start\<rparr>])))))))))))))"

definition parse_players :: "nat \<Rightarrow> nat \<Rightarrow> nat \<Rightarrow> json_object \<Rightarrow> player_spec list result" where
  "parse_players width height forces spec =
     (case optional_field spec ''players'' of
        None \<Rightarrow> Inr []
      | Some v \<Rightarrow>
          bindE (array_value v (spec_ctx @ ''.players'')) (\<lambda>players.
            if total_players < length players then fail ''map new spec.players must contain at most 12 entries''
            else foldE (parse_player width height forces) [] (enumerate 0 players)))"

definition parse_new_spec :: "string \<Rightarrow> new_spec result" where
  "parse_new_spec text =
     bindE (parse_json text spec_ctx) (\<lambda>root.
     bindE (object_value root spec_ctx) (\<lambda>spec.
     bindE (allowed_fields spec [''schema'', ''version'', ''tileset'', ''width'', ''height'', ''terrainType'',
       ''titleBytesHex'', ''descriptionBytesHex'', ''players'', ''forces''] spec_ctx) (\<lambda>_.
     bindE (required_field spec ''schema'' spec_ctx) (\<lambda>v.
     bindE (string_value v (spec_ctx @ ''.schema'')) (\<lambda>schema.
       if schema \<noteq> ''eud-map-new/1'' then fail ''unsupported map new schema''
       else
         bindE (parse_version spec) (\<lambda>save_type.
         bindE (checked_size spec ''tileset'' spec_ctx False) (\<lambda>tileset.
           if num_tilesets \<le> tileset then fail ''map new spec.tileset is out of range''
           else
             bindE (checked_size spec ''width'' spec_ctx True) (\<lambda>width.
             bindE (checked_size spec ''height'' spec_ctx True) (\<lambda>height.
               if width < 64 \<or> 256 < width \<or> height < 64 \<or> 256 < height
               then fail ''map new spec width and height must be within 64..256''
               else
                 bindE (checked_size spec ''terrainType'' spec_ctx True) (\<lambda>terrain_type.
                 bindE (required_field spec ''titleBytesHex'' spec_ctx) (\<lambda>v.
                 bindE (map_text_field v (spec_ctx @ ''.titleBytesHex'') 1 1024) (\<lambda>title.
                 bindE (required_field spec ''descriptionBytesHex'' spec_ctx) (\<lambda>v.
                 bindE (map_text_field v (spec_ctx @ ''.descriptionBytesHex'') 0 4096) (\<lambda>description.
                 bindE (parse_forces spec) (\<lambda>forces.
                 bindE (parse_players width height (length forces) spec) (\<lambda>players.
                 Inr \<lparr>ns_save_type = save_type, ns_tileset = tileset, ns_width = width, ns_height = height,
                      ns_terrain_type = terrain_type, ns_title = title, ns_description = description,
                      ns_forces = forces, ns_players = players\<rparr>))))))))))))))))"

section \<open>Building the map\<close>

text \<open>All rectangles get the value of the brush on all sides; then every tile is generated.\<close>

definition fill_terrain :: "tileset_data \<Rightarrow> new_spec \<Rightarrow> scenario \<Rightarrow> scenario result" where
  "fill_terrain td spec m =
     (let s = copy_to_sc_map m;
          c = seed_subtile_variation
                (isom_variation_seed [ns_tileset spec, ns_width spec, ns_height spec, ns_terrain_type spec])
                (new_cache (ns_tileset spec) (ns_width spec) (ns_height spec) td);
          v = push_bit 4 (terrain_type_isom_value c (ns_terrain_type spec)) OR flag_modified;
          s = s\<lparr>sm_rects := replicate (isom_width s * isom_height s)
                \<lparr>ir_left = v, ir_top = v, ir_right = v, ir_bottom = v\<rparr>\<rparr>
      in bindE (update_tiles_from_isom (s, set_all_changed c)) (\<lambda>(s, c). Inr (copy_from_sc_map m s)))"

definition add_force_spec :: "scenario \<Rightarrow> nat \<times> force_spec \<Rightarrow> scenario result" where
  "add_force_spec m = (\<lambda>(index, f).
     bindE (set_force_name (of_nat index) (fs_name f) True m) (\<lambda>m.
     set_force_flags (of_nat index) (fs_flags f) m))"

definition start_location :: u16 where
  "start_location = 214"

definition start_unit :: "player_spec \<Rightarrow> u16 \<times> u16 \<Rightarrow> chk_unit" where
  "start_unit p at_point =
     \<lparr>un_class_id = 0, un_x = fst at_point, un_y = snd at_point, un_type = start_location,
      un_relation_flags = 0, un_valid_state_flags = 0, un_valid_field_flags = 0,
      un_owner = of_nat (ps_slot p), un_hitpoint_percent = 100, un_shield_percent = 100,
      un_energy_percent = 100, un_resource_amount = 0, un_hanger_amount = 0, un_state_flags = 0,
      un_unused = 0, un_relation_class_id = 0\<rparr>"

definition add_player_spec :: "scenario \<Rightarrow> player_spec \<Rightarrow> scenario result" where
  "add_player_spec m p =
     bindE (set_slot_type (ps_slot p) (ps_type p) BothScope m) (\<lambda>m.
     bindE (set_player_race (ps_slot p) (ps_race p) m) (\<lambda>m.
     bindE (set_optional (ps_force p) (\<lambda>n. set_player_force (ps_slot p) (of_nat n)) m) (\<lambda>m.
     Inr (case ps_start p of None \<Rightarrow> m | Some at_point \<Rightarrow> snd (add_unit (start_unit p at_point) m)))))"

definition count_starts :: "scenario \<Rightarrow> nat" where
  "count_starts m = length (filter (\<lambda>u. un_type u = start_location) (sc_units m))"

definition build_new_map :: "edit_assets \<Rightarrow> new_spec \<Rightarrow> scenario result" where
  "build_new_map a spec =
     (let td = isom_of a (ns_tileset spec)
      in if \<not> list_ex (\<lambda>brush. unat (tti_index brush) = ns_terrain_type spec) (td_brushes td)
         then fail ''map new spec.terrainType is not a terrain brush of the selected tileset''
         else
           bindE (fill_terrain td spec
             (new_scenario (ns_tileset spec) (of_nat (ns_width spec)) (of_nat (ns_height spec)))) (\<lambda>m.
           bindE (set_scenario_name (ns_title spec) True m) (\<lambda>m.
           bindE (set_scenario_description (ns_description spec) True m) (\<lambda>m.
           bindE (foldE add_force_spec m (enumerate 0 (ns_forces spec))) (\<lambda>m.
           bindE (foldE (\<lambda>m slot. set_slot_type slot slot_inactive BothScope m) m [0..<total_players]) (\<lambda>m.
           foldE add_player_spec m (ns_players spec)))))))"

section \<open>The operation\<close>

definition verify_new :: "new_spec \<Rightarrow> scenario option \<Rightarrow> string option" where
  "verify_new spec verified =
     (case verified of
        None \<Rightarrow> Some ''saved map failed native re-open verification''
      | Some m \<Rightarrow>
          if sc_tileset m \<noteq> ns_tileset spec \<or> tile_width m \<noteq> ns_width spec \<or> tile_height m \<noteq> ns_height spec
          then Some ''saved map header does not match the requested spec''
          else if count_starts m \<noteq> length (filter (\<lambda>p. ps_start p \<noteq> None) (ns_players spec))
          then Some ''saved map start locations do not match the requested spec''
          else None)"

definition new_report :: "new_spec \<Rightarrow> string \<Rightarrow> string" where
  "new_report spec output_hash =
     serialize_json (JObj (map_init [(''schema'', JStr ''eud-map-new-report/1''), (''ok'', JBool True),
       (''tileset'', JStr (tileset_name (ns_tileset spec))), (''width'', json_size (ns_width spec)),
       (''height'', json_size (ns_height spec)), (''terrainType'', json_size (ns_terrain_type spec)),
       (''players'', json_size (length (ns_players spec))),
       (''startLocations'', json_size (length (filter (\<lambda>p. ps_start p \<noteq> None) (ns_players spec)))),
       (''outputSha256'', JStr output_hash)]))"

text \<open>\<open>save_new\<close> stands for \<open>save\<close> of a map that has no file yet, by its save type.\<close>

definition map_new ::
    "archive_lib \<Rightarrow> (save_type \<Rightarrow> scenario \<Rightarrow> bool \<times> u8 list option) \<Rightarrow> (string \<Rightarrow> edit_assets result) \<Rightarrow>
       string \<Rightarrow> string \<Rightarrow> string \<Rightarrow> string io" where
  "map_new lib save_new load_assets output star_craft text =
     io_check (output = [] \<or> star_craft = [] \<or> text = []) ''map new received an invalid argument'' (\<lambda>_.
     io_check (\<not> valid_map_container_path output) ''map new accepts only SCX/SCM output paths'' (\<lambda>_.
     io_bind (io_get (\<lambda>fs. if file_exists output fs then fail ''map new output path must not already exist''
       else Inr ())) (\<lambda>_.
     io_bind (io_return (parse_new_spec text)) (\<lambda>spec.
     io_bind (io_return (load_assets star_craft)) (\<lambda>a.
     io_bind (io_return (build_new_map a spec)) (\<lambda>m.
     let temporary = temporary_output_path lib output
     in io_bind (save_map (\<lambda>_. save_new (ns_save_type spec) m) temporary) (\<lambda>_.
        io_bind (promote_map lib temporary output) (\<lambda>_.
        io_bind (reopen_map lib output) (\<lambda>verified.
        io_fail_deleting output (verify_new spec verified \<noteq> None)
          (case verify_new spec verified of None \<Rightarrow> [] | Some message \<Rightarrow> message) (\<lambda>_.
        io_bind (file_sha256 lib output) (\<lambda>output_hash.
        io_return (Inr (new_report spec output_hash)))))))))))))"

end
