(* ===== verification/AgentSoundEdit.thy ===== *)
theory AgentSoundEdit
  imports AgentSound
begin

text \<open>
  The batch addition, replacement and removal of sounds, and the two read-only requests, of
  \<open>IsomTerrain/MapAgentCore.cpp\<close>: \<open>mapSoundAddBatch\<close>, \<open>mapSoundReplace\<close>, \<open>mapSoundRemove\<close>,
  \<open>mapDigest\<close> and \<open>mapAsset\<close>.
\<close>

section \<open>Adding a batch\<close>

definition max_sound_batch_items :: nat where
  "max_sound_batch_items = 128"

definition max_sound_batch_bytes :: nat where
  "max_sound_batch_bytes = 512 * 1024 * 1024"

record batch_item =
  bi_destination :: string
  bi_ogg :: "u8 list"
  bi_hash :: string
  bi_reused :: bool
  bi_index :: nat
  bi_string_id :: nat

fun batch_items ::
    "archive_lib \<Rightarrow> nat \<Rightarrow> string list \<Rightarrow> nat \<Rightarrow> (string \<times> u8 list) list \<Rightarrow> batch_item list result" where
  "batch_items lib i seen bytes_so_far [] = Inr []"
| "batch_items lib i seen bytes_so_far ((destination, ogg) # rest) =
     (if length ogg < 4 \<or> max_managed_ogg_bytes < length ogg
      then fail (''map sound batch item '' @ nat_to_string i @ '' is invalid'')
      else if \<not> valid_managed_sound_path destination
      then fail (''destination MPQ path is not an exact managed sound path: '' @ destination)
      else if lower_ascii destination \<in> set seen
      then fail (''map sound batch repeats a destination MPQ path: '' @ destination)
      else if take 4 ogg \<noteq> ogg_magic then fail (''map sound bytes are not OGG: '' @ destination)
      else if max_sound_batch_bytes < bytes_so_far + length ogg
      then fail ''map sound batch exceeds the total byte limit''
      else bindE (batch_items lib (i + 1) (lower_ascii destination # seen) (bytes_so_far + length ogg) rest) (\<lambda>items.
             Inr (\<lparr>bi_destination = destination, bi_ogg = ogg, bi_hash = lib_sha256 lib ogg, bi_reused = False,
               bi_index = total_sounds, bi_string_id = 0\<rparr> # items)))"

definition plan_item :: "sound_before \<Rightarrow> batch_item \<Rightarrow> batch_item result" where
  "plan_item b item =
     bindE (reuse_state b (bi_destination item) (bi_hash item) ('': '' @ bi_destination item)) (\<lambda>state.
       Inr (if fst state
            then item\<lparr>bi_reused := True, bi_index := fst (snd state), bi_string_id := snd (snd state)\<rparr>
            else item))"

definition added_items :: "batch_item list \<Rightarrow> nat" where
  "added_items items = length (filter (\<lambda>item. \<not> bi_reused item) items)"

definition free_slots :: "u32 list \<Rightarrow> nat" where
  "free_slots slots = length (filter (\<lambda>slot. slot = 0) slots)"

text \<open>The additions change the map, the ids added so far and the slots expected at the end.\<close>

record batch_state =
  bs_map :: map_file
  bs_ids :: "nat list"
  bs_slots :: "u32 list"

definition add_item :: "archive_lib \<Rightarrow> batch_state \<Rightarrow> batch_item \<Rightarrow> (batch_state \<times> batch_item) result" where
  "add_item lib st item =
     (if bi_reused item then Inr (st, item)
      else let expected = first_free_sound_slot (snapshot_sound_slots (mf_scenario (bs_map st)))
           in if expected = total_sounds then fail ''all 512 WAV slots are in use''
              else bindE (map_add_sound lib (bi_destination item) (bi_ogg item) (bs_map st)) (\<lambda>r.
                case snd r of
                  None \<Rightarrow> fail (''MappingCore MapFile::addSound failed: '' @ bi_destination item)
                | Some (string_id, index) \<Rightarrow>
                    if index \<noteq> expected then fail ''MappingCore added sound at an unexpected WAV slot''
                    else if string_id = 0 \<or> string_id \<in> set (bs_ids st)
                    then fail ''sound game string was not added exactly once''
                    else Inr (\<lparr>bs_map = fst r, bs_ids = string_id # bs_ids st,
                                bs_slots = (bs_slots st)[index := of_nat string_id]\<rparr>,
                              item\<lparr>bi_index := index, bi_string_id := string_id\<rparr>)))"

fun add_items :: "archive_lib \<Rightarrow> batch_state \<Rightarrow> batch_item list \<Rightarrow> (batch_state \<times> batch_item list) result" where
  "add_items lib st [] = Inr (st, [])"
| "add_items lib st (item # items) =
     bindE (add_item lib st item) (\<lambda>(st, item).
     bindE (add_items lib st items) (\<lambda>(st, items). Inr (st, item # items)))"

definition stage_batch ::
    "archive_lib \<Rightarrow> string \<Rightarrow> string \<Rightarrow> sound_before \<Rightarrow> batch_item list \<Rightarrow> (batch_state \<times> batch_item list) io" where
  "stage_batch lib input temporary b items =
     (let start = \<lparr>bs_map = \<lparr>mf_scenario = sb_map b, mf_modified = []\<rparr>, bs_ids = [], bs_slots = sb_slots b\<rparr>
      in if added_items items = 0 then stage_copy lib input temporary (start, items)
         else io_bind (io_return (add_items lib start items)) (\<lambda>(st, items).
           io_check (snapshot_sound_slots (mf_scenario (bs_map st)) \<noteq> bs_slots st)
             ''sound import changed an unrelated WAV slot or slot order'' (\<lambda>_.
           io_bind (io_return (unrelated_chk_digest lib (mf_scenario (bs_map st)))) (\<lambda>chk.
           io_check (chk \<noteq> sb_chk b) ''sound mutation changed an unrelated CHK section'' (\<lambda>_.
           io_bind (save_staged lib input temporary (bs_map st) ''sound map temporary save failed'') (\<lambda>_.
           io_return (Inr (st, items))))))))"

fun verify_items ::
    "archive_lib \<Rightarrow> string \<Rightarrow> scenario \<Rightarrow> u32 list \<Rightarrow> batch_item list \<Rightarrow> unit io" where
  "verify_items lib temporary reopened slots [] = io_return (Inr ())"
| "verify_items lib temporary reopened slots (item # items) =
     io_bind (reopened_asset lib temporary (bi_destination item)) (\<lambda>extracted.
     io_check (case extracted of None \<Rightarrow> True
               | Some bs \<Rightarrow> length bs \<noteq> length (bi_ogg item) \<or> lib_sha256 lib bs \<noteq> bi_hash item)
       (''saved MPQ sound bytes failed exact verification: '' @ bi_destination item) (\<lambda>_.
     io_check (find_string (bi_destination item) reopened \<noteq> bi_string_id item)
       (''saved sound game string id changed: '' @ bi_destination item) (\<lambda>_.
     io_check (sound_slot_for_string slots (bi_string_id item) \<noteq> (bi_index item, 1))
       (''saved sound WAV slot verification failed: '' @ bi_destination item) (\<lambda>_.
     verify_items lib temporary reopened slots items))))"

definition expected_batch_assets :: "inventory \<Rightarrow> batch_item list \<Rightarrow> inventory" where
  "expected_batch_assets before items =
     fold (\<lambda>item. map_emplace (bi_destination item) (bi_hash item)) items before"

definition unrelated_batch_assets :: "inventory \<Rightarrow> batch_item list \<Rightarrow> inventory" where
  "unrelated_batch_assets after items =
     fold (\<lambda>item assets. if bi_reused item then assets else map_erase (bi_destination item) assets) items after"

definition verify_batch_strings :: "string option list \<Rightarrow> nat list \<Rightarrow> scenario \<Rightarrow> unit result" where
  "verify_batch_strings before added m =
     (if length (sc_strings m) < length before
      then fail ''sound import removed existing game string ids''
      else if \<exists>i \<in> set [0..<length before]. i \<notin> set added \<and> get_string i m \<noteq> before ! i
      then fail ''sound import changed an existing game string id or bytes''
      else Inr ())"

text \<open>The result is the unrelated CHK and asset digests of the saved map.\<close>

definition verify_batch ::
    "archive_lib \<Rightarrow> string \<Rightarrow> sound_before \<Rightarrow> batch_state \<Rightarrow> batch_item list \<Rightarrow> (string \<times> string) io" where
  "verify_batch lib temporary b st items =
     io_bind (load_map lib temporary ''sound map temporary output could not be reopened'') (\<lambda>reopened.
     io_bind (inventory_mpq lib temporary) (\<lambda>after_assets.
     io_check (after_assets \<noteq> expected_batch_assets (sb_assets b) items)
       ''sound import MPQ delta is not exactly the requested OGG batch'' (\<lambda>_.
     let slots = snapshot_sound_slots reopened; unrelated = assets_digest lib (unrelated_batch_assets after_assets items)
     in io_check (slots \<noteq> bs_slots st)
          ''saved sound map changed an unrelated WAV slot or slot order'' (\<lambda>_.
        io_bind (verify_items lib temporary reopened slots items) (\<lambda>_.
        io_bind (io_return (verify_batch_strings (sb_strings b) (bs_ids st) reopened)) (\<lambda>_.
        io_bind (io_return (unrelated_chk_digest lib reopened)) (\<lambda>chk.
        io_check (chk \<noteq> sb_chk b) ''saved sound map changed an unrelated CHK section'' (\<lambda>_.
        io_check (unrelated \<noteq> assets_digest lib (sb_assets b))
          ''saved sound map changed an unrelated MPQ asset'' (\<lambda>_.
        io_return (Inr (chk, unrelated)))))))))))"

definition batch_item_json :: "batch_item \<Rightarrow> json" where
  "batch_item_json item =
     JObj (map_init [(''reused'', JBool (bi_reused item)), (''soundIndex'', json_size (bi_index item)),
       (''soundStringId'', json_size (bi_string_id item)), (''mpqPath'', JStr (bi_destination item)),
       (''assetSha256'', JStr (bi_hash item)), (''assetBytes'', json_size (length (bi_ogg item)))])"

definition map_sound_add_batch ::
    "archive_lib \<Rightarrow> string \<Rightarrow> string \<Rightarrow> string \<Rightarrow> (string \<times> u8 list) list \<Rightarrow> string io" where
  "map_sound_add_batch lib input output expected requests =
     io_check (input = [] \<or> output = [] \<or> requests = [] \<or> max_sound_batch_items < length requests)
       ''map sound batch received an invalid argument'' (\<lambda>_.
     check_paths input output (\<lambda>_.
     io_check (\<not> valid_map_container_path input \<or> \<not> valid_map_container_path output)
       ''map sound add accepts only SCX/SCM containers'' (\<lambda>_.
     io_check (\<not> exact_lower_hex expected 64) ''expected input SHA-256 must be exact lowercase hex'' (\<lambda>_.
     io_bind (io_return (batch_items lib 0 [] 0 requests)) (\<lambda>items.
     io_bind (check_output_free output) (\<lambda>_.
     io_bind (open_input lib input expected ''cannot load input map for sound import'') (\<lambda>m.
     io_bind (observe lib input m) (\<lambda>b.
     io_bind (io_return (mapE (plan_item b) items)) (\<lambda>items.
     let added = added_items items; free = free_slots (sb_slots b); temporary = temporary_output_path lib output
     in io_check (free < added)
          (''all 512 WAV slots are in use: the batch needs '' @ nat_to_string added @
             '' free slots but the map has '' @ nat_to_string free) (\<lambda>_.
        transact lib temporary output ''map'' (stage_batch lib input temporary b items)
          (\<lambda>(st, items). verify_batch lib temporary b st items)
          (\<lambda>(st, items) after output_hash.
             serialize_json (JObj (map_init ([(''schema'', JStr ''eud-map-sound-add-batch-report/1''),
               (''ok'', JBool True), (''sounds'', JArr (map batch_item_json items))] @
               file_report expected output_hash (sb_chk b) (fst after)
                 (assets_digest lib (sb_assets b)) (snd after)))))))))))))))"

section \<open>Replacing one sound\<close>

definition stage_replaced ::
    "archive_lib \<Rightarrow> string \<Rightarrow> string \<Rightarrow> sound_before \<Rightarrow> string \<Rightarrow> string \<Rightarrow> u8 list \<Rightarrow> nat \<Rightarrow> nat \<Rightarrow> unit io" where
  "stage_replaced lib input temporary b old_path destination ogg index old_id =
     io_bind (io_return (map_remove_sound index \<lparr>mf_scenario = sb_map b, mf_modified = []\<rparr>)) (\<lambda>removed.
     io_check (\<not> snd removed) ''MappingCore MapFile::removeSoundBySoundIndex failed'' (\<lambda>_.
     io_bind (io_return (map_add_sound lib destination ogg (fst removed))) (\<lambda>r.
     io_check (snd r = None) ''MappingCore MapFile::addSound failed during replacement'' (\<lambda>_.
     io_check (snd r \<noteq> Some (old_id, index))
       ''sound replacement did not preserve the WAV slot and game string id'' (\<lambda>_.
     let n = mf_scenario (fst r)
     in io_check (snapshot_sound_slots n \<noteq> sb_slots b)
          ''sound replacement changed an unrelated WAV slot or slot order'' (\<lambda>_.
        io_bind (io_return (verify_existing_game_strings (sb_strings b) n old_id)) (\<lambda>_.
        io_check (find_string old_path n \<noteq> 0) ''sound replacement retained the old game string'' (\<lambda>_.
        io_bind (io_return (unrelated_chk_digest lib n)) (\<lambda>chk.
        io_check (chk \<noteq> sb_chk b) ''sound replacement changed an unrelated CHK section'' (\<lambda>_.
        save_staged lib input temporary (fst r) ''sound replacement temporary save failed''))))))))))"

definition verify_replaced ::
    "archive_lib \<Rightarrow> string \<Rightarrow> sound_before \<Rightarrow> string \<Rightarrow> string \<Rightarrow> u8 list \<Rightarrow> nat \<Rightarrow> (string \<times> string) io" where
  "verify_replaced lib temporary b old_path destination ogg old_id =
     (let hash = lib_sha256 lib ogg
      in io_bind (load_map lib temporary ''sound replacement temporary output could not be reopened'') (\<lambda>reopened.
         io_bind (inventory_mpq lib temporary) (\<lambda>after_assets.
         io_check (after_assets \<noteq> map_emplace destination hash (map_erase old_path (sb_assets b)))
           ''sound replacement MPQ delta is not exact'' (\<lambda>_.
         io_check (map_of after_assets old_path \<noteq> None) ''sound replacement retained the old MPQ asset'' (\<lambda>_.
         io_bind (reopened_asset lib temporary destination) (\<lambda>extracted.
         io_check (case extracted of None \<Rightarrow> True | Some bs \<Rightarrow> lib_sha256 lib bs \<noteq> hash \<or> length bs \<noteq> length ogg)
           ''replaced MPQ sound bytes failed exact verification'' (\<lambda>_.
         io_check (find_string destination reopened \<noteq> old_id) ''replaced sound game string id changed'' (\<lambda>_.
         io_check (find_string old_path reopened \<noteq> 0) ''saved sound replacement retained the old game string'' (\<lambda>_.
         io_check (snapshot_sound_slots reopened \<noteq> sb_slots b)
           ''saved sound replacement changed the WAV slot table'' (\<lambda>_.
         io_bind (io_return (verify_existing_game_strings (sb_strings b) reopened old_id)) (\<lambda>_.
         io_bind (io_return (unrelated_chk_digest lib reopened)) (\<lambda>chk.
         io_check (chk \<noteq> sb_chk b) ''saved sound replacement changed an unrelated CHK section'' (\<lambda>_.
         let unrelated = assets_digest lib (map_erase destination after_assets)
         in io_check (unrelated \<noteq> assets_digest lib (map_erase old_path (sb_assets b)))
              ''saved sound replacement changed an unrelated MPQ asset'' (\<lambda>_.
            io_return (Inr (chk, unrelated))))))))))))))))"

text \<open>The source of a replacement: its string id and WAV slot.\<close>

definition replace_source :: "sound_before \<Rightarrow> string \<Rightarrow> string \<Rightarrow> (nat \<times> nat) result" where
  "replace_source b old_path destination =
     (if map_of (sb_assets b) old_path = None then fail ''managed sound replacement source MPQ asset is missing''
      else let old_id = find_string old_path (sb_map b); old_sound = sound_slot_for_string (sb_slots b) old_id
      in if old_id = 0 then fail ''managed sound replacement source game string is missing''
         else if snd old_sound \<noteq> 1 then fail ''managed sound replacement source WAV slot is inconsistent''
         else if map_of (sb_assets b) destination \<noteq> None \<or> find_string destination (sb_map b) \<noteq> 0
         then fail ''managed sound replacement destination already exists''
         else Inr (old_id, fst old_sound))"

definition map_sound_replace ::
    "archive_lib \<Rightarrow> string \<Rightarrow> string \<Rightarrow> string \<Rightarrow> string \<Rightarrow> string \<Rightarrow> u8 list \<Rightarrow> string io" where
  "map_sound_replace lib input output expected old_path destination ogg =
     io_check (input = [] \<or> output = [] \<or> ogg = [] \<or> max_managed_ogg_bytes < length ogg)
       ''map sound replace received an invalid argument'' (\<lambda>_.
     check_paths input output (\<lambda>_.
     io_check (lower_ascii old_path = lower_ascii destination) ''replacement MPQ paths must differ'' (\<lambda>_.
     io_check (\<not> valid_map_container_path input \<or> \<not> valid_map_container_path output)
       ''map sound replace accepts only SCX/SCM containers'' (\<lambda>_.
     io_check (\<not> exact_lower_hex expected 64) ''expected input SHA-256 must be exact lowercase hex'' (\<lambda>_.
     io_check (\<not> valid_managed_sound_path old_path \<or> \<not> valid_managed_sound_path destination)
       ''replacement MPQ path is not an exact managed sound path'' (\<lambda>_.
     io_check (length ogg < 4 \<or> take 4 ogg \<noteq> ogg_magic) ''map sound bytes are not OGG'' (\<lambda>_.
     io_bind (check_output_free output) (\<lambda>_.
     io_bind (open_input lib input expected ''cannot load input map for sound replacement'') (\<lambda>m.
     io_bind (observe lib input m) (\<lambda>b.
     io_bind (io_return (replace_source b old_path destination)) (\<lambda>source.
     let temporary = temporary_output_path lib output
     in transact lib temporary output ''replacement''
          (stage_replaced lib input temporary b old_path destination ogg (snd source) (fst source))
          (\<lambda>_. verify_replaced lib temporary b old_path destination ogg (fst source))
          (\<lambda>_ after output_hash.
             serialize_json (JObj (map_init ([(''schema'', JStr ''eud-map-sound-replace-report/1''),
               (''ok'', JBool True), (''soundIndex'', json_size (snd source)),
               (''soundStringId'', json_size (fst source)), (''oldMpqPath'', JStr old_path),
               (''mpqPath'', JStr destination), (''assetSha256'', JStr (lib_sha256 lib ogg)),
               (''assetBytes'', json_size (length ogg))] @
               file_report expected output_hash (sb_chk b) (fst after)
                 (assets_digest lib (map_erase old_path (sb_assets b))) (snd after))))))))))))))))"

end
