(* ===== verification/AgentSoundRemove.thy ===== *)
theory AgentSoundRemove
  imports AgentSound
begin

text \<open>
  \<open>mapSoundRemove\<close> and the read-only requests \<open>mapDigest\<close> and \<open>mapAsset\<close> of
  \<open>IsomTerrain/MapAgentCore.cpp\<close>.
\<close>

section \<open>What may be removed\<close>

record remove_item =
  ri_index :: nat
  ri_string_id :: nat
  ri_path :: string
  ri_key :: string
  ri_hash :: string

definition other_users :: u32 where
  "other_users = user_all AND NOT user_sound"

definition slot_label :: "nat \<Rightarrow> string" where
  "slot_label i = ''WAV slot '' @ nat_to_string i"

definition still_played :: "sound_before \<Rightarrow> u16 list \<Rightarrow> nat \<Rightarrow> string \<Rightarrow> bool" where
  "still_played b indexes i key \<longleftrightarrow>
     (\<exists>j \<in> set [0..<length (sb_slots b)]. j \<noteq> i \<and> sb_slots b ! j \<noteq> 0 \<and>
        (case get_string (unat (sb_slots b ! j)) (sb_map b) of None \<Rightarrow> False | Some p \<Rightarrow> lower_ascii p = key) \<and>
        of_nat j \<notin> set indexes)"

definition check_removal :: "sound_before \<Rightarrow> u16 list \<Rightarrow> nat list \<Rightarrow> u16 \<Rightarrow> remove_item result" where
  "check_removal b indexes seen w =
     (let i = unat w
      in if total_sounds \<le> i then fail (slot_label i @ '' is out of range'')
         else if i \<in> set seen then fail (''map sound remove repeats '' @ slot_label i)
         else let s = unat (sb_slots b ! i); path = get_string s (sb_map b)
         in if s = 0 then fail (slot_label i @ '' is not registered'')
            else if path = None \<or> path = Some [] then fail (slot_label i @ '' has no game string'')
            else if snd (sound_slot_for_string (sb_slots b) s) \<noteq> 1
            then fail (slot_label i @ '' shares its game string with another WAV slot'')
            else if string_used s UsageEither other_users False (sb_map b) \<or>
                    string_used s UsageGame other_users False (sb_map b)
            then fail (slot_label i @ '' game string is still used by a trigger, briefing, or other map data'')
            else let key = lower_ascii (the path)
            in if still_played b indexes i key
               then fail (slot_label i @ '' names an MPQ path another WAV slot still plays'')
               else Inr \<lparr>ri_index = i, ri_string_id = s, ri_path = the path, ri_key = key,
                      ri_hash = (case map_of (sb_assets b) key of None \<Rightarrow> [] | Some h \<Rightarrow> h)\<rparr>)"

fun check_removals :: "sound_before \<Rightarrow> u16 list \<Rightarrow> nat list \<Rightarrow> u16 list \<Rightarrow> remove_item list result" where
  "check_removals b indexes seen [] = Inr []"
| "check_removals b indexes seen (w # ws) =
     bindE (check_removal b indexes seen w) (\<lambda>item.
     bindE (check_removals b indexes (unat w # seen) ws) (\<lambda>items. Inr (item # items)))"

section \<open>What the removal must leave\<close>

definition remaining_assets :: "sound_before \<Rightarrow> remove_item list \<Rightarrow> inventory" where
  "remaining_assets b items =
     fold (\<lambda>item assets. if map_of (sb_assets b) (ri_key item) \<noteq> None then map_erase (ri_key item) assets
                         else assets) items (sb_assets b)"

definition remaining_slots :: "sound_before \<Rightarrow> remove_item list \<Rightarrow> u32 list" where
  "remaining_slots b items = fold (\<lambda>item slots. slots[ri_index item := 0]) items (sb_slots b)"

definition verify_removed_string ::
    "string \<Rightarrow> nat list \<Rightarrow> string option list \<Rightarrow> scenario \<Rightarrow> nat \<Rightarrow> unit result" where
  "verify_removed_string stage removed before m i =
     (let after = (if i < length (sc_strings m) then get_string i m else None)
      in if i \<in> set removed \<and> after \<noteq> None \<and> after \<noteq> Some []
         then fail (stage @ '' sound removal kept the game string of a removed sound: '' @ nat_to_string i)
         else if i \<notin> set removed \<and> after \<noteq> before ! i
         then fail (stage @ '' sound removal changed an unrelated game string: '' @ nat_to_string i)
         else Inr ())"

definition verify_removed_strings ::
    "string \<Rightarrow> nat list \<Rightarrow> string option list \<Rightarrow> scenario \<Rightarrow> unit result" where
  "verify_removed_strings stage removed before m =
     foldE (\<lambda>_ i. verify_removed_string stage removed before m i) () [0..<length before]"

section \<open>The removal\<close>

definition remove_item_step :: "remove_item \<Rightarrow> map_file \<times> string list \<Rightarrow> map_file \<times> string list" where
  "remove_item_step item st =
     (let m = fst st; scheduled = snd st;
          m = m\<lparr>mf_scenario := delete_string (ri_string_id item) True
                (set_sound_string_id (ri_index item) 0 (mf_scenario m))\<rparr>
      in if ri_hash item \<noteq> [] \<and> ri_key item \<notin> set scheduled
         then (remove_mpq_asset (ri_path item) m, ri_key item # scheduled)
         else (m, scheduled))"

definition remove_items :: "remove_item list \<Rightarrow> scenario \<Rightarrow> map_file" where
  "remove_items items sc = fst (fold remove_item_step items (\<lparr>mf_scenario = sc, mf_modified = []\<rparr>, []))"

definition stage_removed ::
    "archive_lib \<Rightarrow> string \<Rightarrow> string \<Rightarrow> sound_before \<Rightarrow> remove_item list \<Rightarrow> unit io" where
  "stage_removed lib input temporary b items =
     (let m = remove_items items (sb_map b); n = mf_scenario m
      in io_check (snapshot_sound_slots n \<noteq> remaining_slots b items)
           ''sound removal changed an unrelated WAV slot or slot order'' (\<lambda>_.
         io_bind (io_return (verify_removed_strings ''staged'' (map ri_string_id items) (sb_strings b) n)) (\<lambda>_.
         io_bind (io_return (unrelated_chk_digest lib n)) (\<lambda>chk.
         io_check (chk \<noteq> sb_chk b) ''sound removal changed an unrelated CHK section'' (\<lambda>_.
         save_staged lib input temporary m ''sound removal temporary save failed'')))))"

definition verify_removed ::
    "archive_lib \<Rightarrow> string \<Rightarrow> sound_before \<Rightarrow> remove_item list \<Rightarrow> (string \<times> string) io" where
  "verify_removed lib temporary b items =
     io_bind (load_map lib temporary ''sound removal temporary output could not be reopened'') (\<lambda>reopened.
     io_bind (inventory_mpq lib temporary) (\<lambda>after_assets.
     io_check (after_assets \<noteq> remaining_assets b items)
       ''sound removal MPQ delta is not exactly the removed sound assets'' (\<lambda>_.
     io_check (snapshot_sound_slots reopened \<noteq> remaining_slots b items)
       ''saved sound removal changed the WAV slot table'' (\<lambda>_.
     io_bind (io_return (verify_removed_strings ''saved'' (map ri_string_id items) (sb_strings b) reopened)) (\<lambda>_.
     io_bind (io_return (unrelated_chk_digest lib reopened)) (\<lambda>chk.
     io_check (chk \<noteq> sb_chk b) ''saved sound removal changed an unrelated CHK section'' (\<lambda>_.
     io_return (Inr (chk, assets_digest lib after_assets)))))))))"

definition remove_item_json :: "remove_item \<Rightarrow> json" where
  "remove_item_json item =
     JObj (map_init [(''soundIndex'', json_size (ri_index item)),
       (''soundStringId'', json_size (ri_string_id item)), (''assetSha256'', JStr (ri_hash item))])"

definition map_sound_remove ::
    "archive_lib \<Rightarrow> string \<Rightarrow> string \<Rightarrow> string \<Rightarrow> u16 list \<Rightarrow> string io" where
  "map_sound_remove lib input output expected indexes =
     io_check (input = [] \<or> output = [] \<or> indexes = [] \<or> total_sounds < length indexes)
       ''map sound remove received an invalid argument'' (\<lambda>_.
     check_paths input output (\<lambda>_.
     io_check (\<not> valid_map_container_path input \<or> \<not> valid_map_container_path output)
       ''map sound remove accepts only SCX/SCM containers'' (\<lambda>_.
     io_check (\<not> exact_lower_hex expected 64) ''expected input SHA-256 must be exact lowercase hex'' (\<lambda>_.
     io_bind (check_output_free output) (\<lambda>_.
     io_bind (open_input lib input expected ''cannot load input map for sound removal'') (\<lambda>m.
     io_bind (observe lib input m) (\<lambda>b.
     io_bind (io_return (check_removals b indexes [] indexes)) (\<lambda>items.
     let temporary = temporary_output_path lib output
     in transact lib temporary output ''removal'' (stage_removed lib input temporary b items)
          (\<lambda>_. verify_removed lib temporary b items)
          (\<lambda>_ after output_hash.
             serialize_json (JObj (map_init ([(''schema'', JStr ''eud-map-sound-remove-report/1''),
               (''ok'', JBool True), (''sounds'', JArr (map remove_item_json items))] @
               file_report expected output_hash (sb_chk b) (fst after)
                 (assets_digest lib (remaining_assets b items)) (snd after)))))))))))))"

section \<open>Requests that change nothing\<close>

definition map_digest :: "archive_lib \<Rightarrow> string \<Rightarrow> string io" where
  "map_digest lib path =
     io_check (path = []) ''map digest received an invalid path'' (\<lambda>_.
     io_bind (load_map lib path ''cannot load map for digest'') (\<lambda>m.
     io_bind (inventory_mpq lib path) (\<lambda>assets.
     io_bind (file_sha256 lib path) (\<lambda>hash.
     io_return (Inr (serialize_json (JObj (map_init
       [(''schema'', JStr ''eud-map-container-digest/1''), (''fileSha256'', JStr hash),
        (''tileset'', JStr (tileset_name (sc_tileset m))), (''width'', json_size (unat (sc_width m))),
        (''height'', json_size (unat (sc_height m))),
        (''extraAssets'', inventory_json (lib_junk lib) (lib_store lib) assets)]))))))))"

definition map_asset :: "archive_lib \<Rightarrow> string \<Rightarrow> string \<Rightarrow> nat \<Rightarrow> u8 list io" where
  "map_asset lib path name max_bytes =
     io_check (path = [] \<or> name = [] \<or> max_bytes = 0) ''map asset request received an invalid argument'' (\<lambda>_.
     io_check (ignored_mpq_asset name) (''map asset request names a reserved MPQ entry: '' @ name) (\<lambda>_.
     io_get (\<lambda>fs.
       case fs path of
         None \<Rightarrow> fail (''cannot open MPQ archive: '' @ path)
       | Some bs \<Rightarrow>
           if lib_entries lib bs = None then fail (''cannot open MPQ archive: '' @ path)
           else case lib_open_asset lib bs name of
                  AssetUnopened \<Rightarrow> fail (''map has no MPQ asset: '' @ name)
                | AssetTooLarge \<Rightarrow> fail (''MPQ asset exceeds the size limit: '' @ name)
                | AssetUnread n \<Rightarrow>
                    if max_bytes < n then fail (''MPQ asset exceeds the size limit: '' @ name)
                    else fail (''cannot read MPQ asset: '' @ name)
                | AssetBytes bytes \<Rightarrow>
                    if max_bytes < length bytes then fail (''MPQ asset exceeds the size limit: '' @ name)
                    else Inr bytes)))"

end
