(* ===== verification/AgentFieldsProps.thy ===== *)
theory AgentFieldsProps
  imports AgentFields
begin

text \<open>
  Properties of the field readers: hex text round trips, the digest of a file is that of its bytes,
  the digest of an inventory determines it, and managed sound paths are their own lower case.
\<close>

section \<open>Hex text\<close>

lemma nibble_hex: "d < 16 \<Longrightarrow> nibble ctx (hex_nibble d) = Inr (of_nat d)"
proof -
  have "\<forall>d \<in> set [0..<16]. nibble ctx (hex_nibble d) = Inr (of_nat d)"
    by (simp add: upt_conv_Cons nibble_def hex_nibble_def in_range_def)
  then show "d < 16 \<Longrightarrow> nibble ctx (hex_nibble d) = Inr (of_nat d)" by simp
qed

lemma nibbles_join: "push_bit 4 (drop_bit 4 b AND 15) OR (b AND 15) = (b :: u8)"
proof -
  have m: "(15 :: u8) = mask 4" by (simp add: mask_eq_exp_minus_1)
  show ?thesis
    unfolding m
    by (rule bit_eqI)
      (auto simp: bit_or_iff bit_and_iff bit_push_bit_iff bit_drop_bit_eq bit_mask_iff
        simp del: push_bit_and dest: bit_imp_le_length)
qed

lemma unat_nibble: "unat ((b :: u8) AND 15) < 16"
proof -
  have "b AND 15 \<le> 15" by (simp add: word_and_le1)
  then have "unat (b AND 15) \<le> unat (15 :: u8)" by (simp only: word_le_nat_alt)
  then show ?thesis by simp
qed

text \<open>
  Decoding the lower-case hex text of a byte sequence gives the bytes back, and decoding succeeds
  only on texts of even length.
\<close>

theorem decode_hex_string:
  "decode_hex (hex_string bs) ctx = Inr bs \<and>
   (odd (length t) \<longrightarrow>
      decode_hex t ctx = fail (ctx @ '': hex string must contain an even number of digits''))"
proof -
  have len: "length (hex_string bs) = 2 * length bs"
    by (induction bs) (simp_all add: hex_string_def)
  have pairs: "decode_pairs ctx (hex_string bs) = Inr bs"
  proof (induction bs)
    case Nil
    then show ?case by (simp add: hex_string_def)
  next
    case (Cons b bs)
    have "hex_string (b # bs) = hex_nibble (unat (drop_bit 4 b AND 15)) #
        hex_nibble (unat (b AND 15)) # hex_string bs"
      by (simp add: hex_string_def)
    with Cons show ?case by (simp add: nibble_hex unat_nibble nibbles_join del: push_bit_and)
  qed
  show ?thesis by (simp add: decode_hex_def len pairs odd_iff_mod_2_eq_one)
qed

lemma decode_hex_string_witness:
  "decode_hex ''a'' ''x'' = fail ''x: hex string must contain an even number of digits''"
  using decode_hex_string [where t = "''a''" and ctx = "''x''" and bs = "[]"] by simp

section \<open>Digests\<close>

lemma hash_reads_chunks:
  "\<exists>chunks. concat chunks = bs \<and> hash_reads s bs = foldl sha_add s chunks"
proof (induction s bs rule: hash_reads.induct)
  case (1 s bs)
  have pos: "0 < file_buffer" by (simp add: file_buffer_def)
  let ?chunk = "take file_buffer bs" and ?rest = "drop file_buffer bs"
  let ?s = "if 0 < length ?chunk then sha_add s ?chunk else s"
  show ?case
  proof (cases "length ?chunk < file_buffer")
    case True
    then have "?chunk = bs" by simp
    moreover have "hash_reads s bs = ?s" using True by (subst hash_reads.simps) (simp add: Let_def)
    ultimately have "concat (if bs = [] then [] else [bs]) = bs
        \<and> hash_reads s bs = foldl sha_add s (if bs = [] then [] else [bs])"
      by simp
    then show ?thesis by blast
  next
    case False
    then have ne: "bs \<noteq> []" using pos by auto
    then have s: "?s = sha_add s ?chunk" using pos by simp
    from 1 [OF refl refl False] obtain chunks where
      "concat chunks = ?rest" "hash_reads ?s ?rest = foldl sha_add ?s chunks" by blast
    moreover have "hash_reads s bs = hash_reads ?s ?rest"
      using False by (subst hash_reads.simps) (simp only: Let_def if_False)
    ultimately have "hash_reads s bs = foldl sha_add s (?chunk # chunks)" "concat (?chunk # chunks) = bs"
      by (simp_all only: s foldl.simps concat.simps append_take_drop_id)
    then show ?thesis by blast
  qed
qed

lemma digest_of_chunks:
  assumes "length store = 64"
  shows "fst (get_hash junk (foldl sha_add (new_sha store) chunks)) = fips_sha256 (concat chunks)"
proof -
  have "absorbed (new_sha store) []" using assms absorbed_reset by (simp add: new_sha_def)
  from sha.finish_spec [OF sha.holds_chunks [OF this]] show ?thesis by simp
qed

lemma sha256_bytes_fips: "length store = 64 \<Longrightarrow> sha256_bytes junk store bs = fips_sha256 bs"
  by (simp add: sha256_bytes_def sha_apply_fips new_sha_def sha_reset_def)

lemma read_file_digest:
  assumes "length store = 64"
  shows "read_file_sha256 junk store files path =
     (case files path of
        None \<Rightarrow> fail (''cannot open input map: '' @ path)
      | Some (bs, True) \<Rightarrow> Inr (fips_sha256 bs)
      | Some (bs, False) \<Rightarrow> fail (''cannot read input map: '' @ path))"
proof -
  have "fst (get_hash junk (hash_reads (new_sha store) bs)) = fips_sha256 bs" for bs
  proof -
    obtain chunks where "concat chunks = bs" "hash_reads (new_sha store) bs = foldl sha_add (new_sha store) chunks"
      using hash_reads_chunks by blast
    with digest_of_chunks [OF assms, of junk chunks] show ?thesis by simp
  qed
  then show ?thesis by (auto simp: read_file_sha256_def Let_def split: option.splits)
qed

text \<open>
  C32: The digest of an input file is the SHA-256 of all its bytes, whatever its size is relative to the
  read buffer; a file that cannot be opened or fails before its end is an error.
\<close>

theorem read_file_sha256_whole:
  assumes "length store = 64"
  shows "read_file_sha256 junk store files path =
     (case files path of
        None \<Rightarrow> fail (''cannot open input map: '' @ path)
      | Some (bs, True) \<Rightarrow> Inr (fips_sha256 bs)
      | Some (bs, False) \<Rightarrow> fail (''cannot read input map: '' @ path))"
  using assms by (rule read_file_digest)

lemma read_file_sha256_whole_witness:
  "read_file_sha256 (\<lambda>_. 0) (replicate 64 0) (\<lambda>p. if p = ''m'' then Some ([1, 2], True) else None) ''m''
     = Inr (fips_sha256 [1, 2])"
  using read_file_sha256_whole [of "replicate 64 0" "\<lambda>_. 0" "\<lambda>p. if p = ''m'' then Some ([1, 2], True) else None" "''m''"]
  by simp

text \<open>The text an inventory digest hashes.\<close>

definition inventory_text :: "inventory \<Rightarrow> u8 list" where
  "inventory_text assets = concat (map (\<lambda>e. bytes_of (fst e) @ nul @ bytes_of (snd e) @ nul) assets)"

lemma inventory_digest_chunks:
  "foldl (\<lambda>s e. sha_add (sha_add (sha_add (sha_add s (bytes_of (fst e))) nul) (bytes_of (snd e))) nul) s assets
     = foldl sha_add s (concat (map (\<lambda>e. [bytes_of (fst e), nul, bytes_of (snd e), nul]) assets))"
  by (induction assets arbitrary: s) simp_all

lemma inventory_chunks:
  "concat (concat (map (\<lambda>e. [bytes_of (fst e), nul, bytes_of (snd e), nul]) assets)) = inventory_text assets"
  by (induction assets) (simp_all add: inventory_text_def)

lemma inventory_digest_text:
  "length store = 64 \<Longrightarrow> inventory_digest junk store assets = fips_sha256 (inventory_text assets)"
  by (simp add: inventory_digest_def inventory_digest_chunks digest_of_chunks
      inventory_chunks)

lemma of_nat_char_inj: "(of_nat (of_char c) :: u8) = of_nat (of_char d) \<longleftrightarrow> c = d"
proof -
  have "unat (of_nat (of_char x) :: u8) = of_char x" for x by simp
  then show ?thesis by (metis of_char_eq_iff)
qed

lemma bytes_of_inj: "bytes_of s = bytes_of t \<longleftrightarrow> s = t"
  by (auto simp: bytes_of_def of_nat_char_inj list_eq_iff_nth_eq)

text \<open>NUL separates the fields of the hashed text, so names and digests without NUL can be read off it.\<close>

definition plain :: "string \<Rightarrow> bool" where
  "plain s \<longleftrightarrow> CHR 0x00 \<notin> set s"

lemma bytes_plain: "plain s \<Longrightarrow> 0 \<notin> set (bytes_of s)"
proof -
  assume "plain s"
  moreover have "c = CHR 0x00" if "(of_nat (of_char c) :: u8) = 0" for c
    using that of_nat_char_inj [of c "CHR 0x00"] by simp
  ultimately show ?thesis by (auto simp: plain_def bytes_of_def image_iff dest: sym)
qed

lemma split_at_nul:
  assumes "xs @ (0 :: u8) # us = ys @ 0 # vs" and "0 \<notin> set xs" and "0 \<notin> set ys"
  shows "xs = ys \<and> us = vs"
  using assms
proof (induction xs arbitrary: ys)
  case Nil
  then show ?case by (cases ys) auto
next
  case (Cons x xs)
  then show ?case by (cases ys) auto
qed

definition plain_inventory :: "inventory \<Rightarrow> bool" where
  "plain_inventory assets \<longleftrightarrow> (\<forall>e \<in> set assets. plain (fst e) \<and> plain (snd e))"

lemma inventory_text_inj:
  assumes "inventory_text xs = inventory_text ys" and "plain_inventory xs" and "plain_inventory ys"
  shows "xs = ys"
  using assms
proof (induction xs arbitrary: ys)
  case Nil
  then show ?case by (cases ys) (auto simp: inventory_text_def nul_def)
next
  case (Cons x xs)
  from Cons.prems(1) obtain y ys' where ys: "ys = y # ys'"
    by (cases ys) (auto simp: inventory_text_def nul_def)
  have "bytes_of (fst x) @ 0 # bytes_of (snd x) @ 0 # inventory_text xs
      = bytes_of (fst y) @ 0 # bytes_of (snd y) @ 0 # inventory_text ys'"
    using Cons.prems(1) by (simp add: ys inventory_text_def nul_def)
  moreover have "0 \<notin> set (bytes_of (fst x))" "0 \<notin> set (bytes_of (snd x))"
      "0 \<notin> set (bytes_of (fst y))" "0 \<notin> set (bytes_of (snd y))"
    using Cons.prems(2,3) by (auto simp: ys plain_inventory_def dest: bytes_plain)
  ultimately have "bytes_of (fst x) = bytes_of (fst y)" "bytes_of (snd x) = bytes_of (snd y)"
      "inventory_text xs = inventory_text ys'"
    using split_at_nul by blast+
  then show ?case
    using Cons.IH [of ys'] Cons.prems(2,3)
    by (auto simp: ys bytes_of_inj plain_inventory_def prod_eq_iff)
qed

text \<open>
  C33: Two asset inventories whose names and digests are free of NUL have one digest exactly when they are
  equal, or when SHA-256 collides on the two different texts that are hashed for them.
\<close>

theorem inventory_digest_determines:
  assumes "length store = 64" and "plain_inventory xs" and "plain_inventory ys"
  shows "inventory_digest junk store xs = inventory_digest junk store ys \<longleftrightarrow>
    xs = ys \<or>
    inventory_text xs \<noteq> inventory_text ys \<and> fips_sha256 (inventory_text xs) = fips_sha256 (inventory_text ys)"
  using inventory_text_inj [OF _ assms(2,3)]
  by (auto simp: inventory_digest_text [OF assms(1)])

lemma inventory_digest_determines_witness:
  "inventory_digest (\<lambda>_. 0) (replicate 64 0) [(''a'', ''b'')] = inventory_digest (\<lambda>_. 0) (replicate 64 0) [(''ab'', [])] \<longleftrightarrow>
     fips_sha256 [97, 0, 98, 0] = fips_sha256 [97, 98, 0, 0]"
proof -
  have "plain_inventory [(''a'', ''b'')]" "plain_inventory [(''ab'', [])]"
    by (simp_all add: plain_inventory_def plain_def)
  from inventory_digest_determines [OF _ this, of "replicate 64 0" "\<lambda>_. 0"] show ?thesis
    by (simp add: inventory_text_def bytes_of_def nul_def)
qed

section \<open>Names and paths\<close>

lemma parse_tileset_lower:
  assumes "parse_tileset s' = Inr t" and "lower_ascii s = lower_ascii s'"
  shows "parse_tileset s = Inr t"
  using assms(1) unfolding parse_tileset_def Let_def assms(2) by (auto split: if_splits)

text \<open>
  Every tileset name the catalog prints is read back as the same tileset, in any mixture of cases.
\<close>

theorem tileset_name_round_trip:
  "t < 8 \<Longrightarrow> lower_ascii s = tileset_name t \<Longrightarrow> parse_tileset s = Inr t"
proof -
  have names: "\<forall>t \<in> set [0..<8]. parse_tileset (tileset_name t) = Inr t \<and>
      lower_ascii (tileset_name t) = tileset_name t"
    by code_simp
  assume "t < 8" and "lower_ascii s = tileset_name t"
  with names have "parse_tileset (tileset_name t) = Inr t" "lower_ascii s = lower_ascii (tileset_name t)"
    by simp_all
  then show "parse_tileset s = Inr t" by (rule parse_tileset_lower)
qed

lemma tileset_name_round_trip_witness: "parse_tileset ''Jungle'' = Inr 4"
  by (rule tileset_name_round_trip) code_simp+

lemma lower_char_id: "\<not> in_range CHR ''A'' CHR ''Z'' c \<Longrightarrow> lower_char c = c"
  by (simp add: lower_char_def)

lemma lower_ascii_id: "list_all (\<lambda>c. \<not> in_range CHR ''A'' CHR ''Z'' c) s \<Longrightarrow> lower_ascii s = s"
  by (induction s) (simp_all add: lower_ascii_def lower_char_id)

lemma hex_not_upper: "exact_lower_hex s n \<Longrightarrow> list_all (\<lambda>c. \<not> in_range CHR ''A'' CHR ''Z'' c) s"
  by (auto simp: exact_lower_hex_def list_all_iff in_range_def)

text \<open>
  A managed sound path is its own lower-case form, so the inventory, which is keyed by lower-case
  names, finds the asset under the path itself; and such a path is none of the files the inventory leaves out.
\<close>

theorem managed_path_lower:
  assumes "valid_managed_sound_path p"
  shows "lower_ascii p = p \<and> \<not> ignored_mpq_asset p"
proof -
  let ?hash = "take (length p - length managed_prefix - length ogg_suffix) (drop (length managed_prefix) p)"
  have hex: "list_all (\<lambda>c. \<not> in_range CHR ''A'' CHR ''Z'' c) ?hash"
    using assms hex_not_upper by (auto simp: valid_managed_sound_path_def Let_def)
  have len: "length managed_prefix + length ogg_suffix < length p"
    and pre: "take (length managed_prefix) p = managed_prefix"
    and suf: "drop (length p - length ogg_suffix) p = ogg_suffix"
    using assms by (simp_all add: valid_managed_sound_path_def ends_with_def)
  have "p = managed_prefix @ drop (length managed_prefix) p"
    by (metis append_take_drop_id pre)
  also have "drop (length managed_prefix) p = ?hash @ drop (length p - length ogg_suffix) p"
  proof -
    have "length p - length managed_prefix - length ogg_suffix + length managed_prefix
        = length p - length ogg_suffix"
      using len by simp
    then show ?thesis by (metis append_take_drop_id drop_drop)
  qed
  finally have p: "p = managed_prefix @ ?hash @ ogg_suffix" using suf by simp
  have "list_all (\<lambda>c. \<not> in_range CHR ''A'' CHR ''Z'' c) (managed_prefix @ ?hash @ ogg_suffix)"
    using hex by (simp add: managed_prefix_def ogg_suffix_def in_range_def backslash_def)
  then have low: "lower_ascii p = p" using p lower_ascii_id by metis
  have "p ! 9 = CHR ''w''" by (subst p) (simp add: managed_prefix_def nth_append backslash_def)
  then have "\<not> ignored_mpq_asset p"
    unfolding ignored_mpq_asset_def low by auto
  with low show ?thesis by simp
qed

lemma managed_path_lower_witness:
  "lower_ascii (managed_prefix @ ''0123456789abcdef.ogg'') = managed_prefix @ ''0123456789abcdef.ogg''"
proof -
  have "valid_managed_sound_path (managed_prefix @ ''0123456789abcdef.ogg'')" by code_simp
  from managed_path_lower [OF this] show ?thesis by simp
qed

end
