(* ===== verification/AgentIo.thy ===== *)
theory AgentIo
  imports AgentSound AgentFieldsProps
begin

text \<open>
  Reasoning about computations on the file system: what an outcome says of the parts of a computation
  (\<open>io_inv\<close>) and which files a computation may change (\<open>frame\<close>).
\<close>

named_theorems frame "which files a computation may change"
named_theorems io_inv "what an outcome of a computation says of its parts"

section \<open>Outcomes\<close>

lemma io_bind_Inr [io_inv]:
  "io_bind m f fs = (Inr y, fs') \<longleftrightarrow> (\<exists>x fs1. m fs = (Inr x, fs1) \<and> f x fs1 = (Inr y, fs'))"
  by (cases "m fs") (auto simp: io_bind_def split: sum.splits)

lemma io_check_Inr [io_inv]: "io_check bad message f fs = (Inr y, fs') \<longleftrightarrow> \<not> bad \<and> f () fs = (Inr y, fs')"
  by (auto simp: io_check_def io_return_def)

lemma io_return_Inr [io_inv]: "io_return r fs = (Inr y, fs') \<longleftrightarrow> r = Inr y \<and> fs' = fs"
  by (auto simp: io_return_def)

lemma io_get_Inr [io_inv]: "io_get g fs = (Inr y, fs') \<longleftrightarrow> g fs = Inr y \<and> fs' = fs"
  by (auto simp: io_get_def)

lemma io_set_Inr [io_inv]: "io_set g fs = (Inr y, fs') \<longleftrightarrow> fs' = g fs"
  by (auto simp: io_set_def)

lemma io_guard_Inr [io_inv]: "io_guard m c fs = (Inr y, fs') \<longleftrightarrow> m fs = (Inr y, fs')"
  by (cases "m fs") (auto simp: io_guard_def split: sum.splits)

lemma bindE_is_Inr [io_inv]: "bindE m f = Inr y \<longleftrightarrow> (\<exists>x. m = Inr x \<and> f x = Inr y)"
  by (cases m) auto

section \<open>Frames\<close>

definition touches :: "string set \<Rightarrow> 'a io \<Rightarrow> bool" where
  "touches A m \<longleftrightarrow> (\<forall>fs p. p \<notin> A \<longrightarrow> snd (m fs) p = fs p)"

lemma touches_mono: "touches A m \<Longrightarrow> A \<subseteq> B \<Longrightarrow> touches B m"
  by (auto simp: touches_def)

lemma touchesD: "touches A m \<Longrightarrow> m fs = (r, fs') \<Longrightarrow> p \<notin> A \<Longrightarrow> fs' p = fs p"
  by (metis snd_conv touches_def)

lemma reads_unchanged: "touches {} m \<Longrightarrow> m fs = (r, fs') \<Longrightarrow> fs' = fs"
  by (auto intro!: ext elim!: touchesD)

lemma touches_bind [frame]: "touches A m \<Longrightarrow> (\<And>x. touches A (f x)) \<Longrightarrow> touches A (io_bind m f)"
  by (auto simp: touches_def io_bind_def split: sum.splits)

lemma touches_check [frame]: "(\<not> bad \<Longrightarrow> touches A (f ())) \<Longrightarrow> touches A (io_check bad message f)"
  by (auto simp: touches_def io_check_def io_return_def)

lemma touches_return [frame]: "touches A (io_return r)"
  by (simp add: touches_def io_return_def)

lemma touches_get [frame]: "touches A (io_get g)"
  by (simp add: touches_def io_get_def)

lemma touches_delete [frame]: "p \<in> A \<Longrightarrow> touches A (io_set (delete_file p))"
  by (auto simp: touches_def io_set_def delete_file_def)

lemma touches_write [frame]: "p \<in> A \<Longrightarrow> touches A (io_set (\<lambda>fs. fs(p := b)))"
  by (auto simp: touches_def io_set_def)

lemma touches_guard [frame]:
  "touches A m \<Longrightarrow> (\<And>fs p. p \<notin> A \<Longrightarrow> c fs p = fs p) \<Longrightarrow> touches A (io_guard m c)"
  by (auto simp: touches_def io_guard_def split: sum.splits)

lemma touches_replace [frame]: "s \<in> A \<Longrightarrow> t \<in> A \<Longrightarrow> touches A (replace_file lib s t)"
  by (auto simp: touches_def replace_file_def)

lemma touches_copy [frame]: "t \<in> A \<Longrightarrow> touches A (copy_file_no_overwrite lib s t)"
  by (auto simp: touches_def copy_file_no_overwrite_def)

lemma touches_if [frame]: "touches A m \<Longrightarrow> touches A n \<Longrightarrow> touches A (if c then m else n)"
  by simp

lemma touches_let [frame]: "(\<And>x. touches A (f x)) \<Longrightarrow> touches A (Let x f)"
  by (simp add: Let_def)

lemma touches_option [frame]: "touches A n \<Longrightarrow> (\<And>x. touches A (f x)) \<Longrightarrow> touches A (case_option n f x)"
  by (cases x) auto

lemma touches_pair [frame]: "(\<And>x y. touches A (f x y)) \<Longrightarrow> touches A (case_prod f x)"
  by (cases x) auto

lemma touches_sha256 [frame]: "touches A (file_sha256 lib path)"
  by (simp add: file_sha256_def touches_get)

lemma touches_load [frame]: "touches A (load_map lib path message)"
  by (simp add: load_map_def touches_get)

lemma touches_inventory [frame]: "touches A (inventory_mpq lib path)"
  by (simp add: inventory_mpq_def touches_get)

lemma touches_asset [frame]: "touches A (reopened_asset lib path name)"
  by (simp add: reopened_asset_def touches_get)

lemma touches_save [frame]: "temporary \<in> A \<Longrightarrow> touches A (save_staged lib input temporary m message)"
  unfolding save_staged_def by (intro frame)

lemma touches_stage_copy [frame]: "temporary \<in> A \<Longrightarrow> touches A (stage_copy lib input temporary x)"
  unfolding stage_copy_def by (intro frame)

lemma touches_promote [frame]: "temporary \<in> A \<Longrightarrow> output \<in> A \<Longrightarrow> touches A (promote lib temporary output what)"
  unfolding promote_def by (intro frame)

lemma touches_cleanup: "temporary \<in> A \<Longrightarrow> output \<in> A \<Longrightarrow> p \<notin> A \<Longrightarrow> cleanup temporary output fs p = fs p"
  by (auto simp: cleanup_def delete_file_def)

section \<open>Digests of files\<close>

lemma temporary_differs: "temporary_output_path lib output \<noteq> output"
  by (simp add: temporary_output_path_def)

lemma file_sha256_Inr:
  assumes "length (lib_store lib) = 64"
  shows "file_sha256 lib path fs = (Inr h, fs') \<longleftrightarrow>
    (\<exists>bs. fs path = Some bs \<and> lib_read lib path bs = ReadWhole \<and> h = fips_sha256 bs \<and> fs' = fs)"
  by (auto simp: file_sha256_def io_get_def read_file_digest [OF assms] opened_file_def
      split: option.splits file_read.splits)

lemma file_sha256_Inl:
  assumes "length (lib_store lib) = 64" and "file_sha256 lib path fs = (Inl e, fs')"
  shows "fs' = fs \<and> (\<forall>bs. fs path = Some bs \<longrightarrow> lib_read lib path bs \<noteq> ReadWhole)"
  using assms(2) by (auto simp: file_sha256_def io_get_def read_file_digest [OF assms(1)] opened_file_def
      split: option.splits file_read.splits)

lemma lib_sha256_fips: "length (lib_store lib) = 64 \<Longrightarrow> lib_sha256 lib bs = fips_sha256 bs"
  by (simp add: lib_sha256_def sha256_bytes_fips)

lemma promote_Inr:
  assumes "promote lib temporary output what fs = (Inr h, fs')" "length (lib_store lib) = 64"
  shows "\<exists>bs. fs temporary = Some bs \<and> h = fips_sha256 bs \<and> fs' = fs(output := Some bs, temporary := None)"
  using assms(1) unfolding promote_def
  by (auto simp: io_inv file_sha256_Inr [OF assms(2)] replace_file_def split: if_splits)

end
