(* ===== verification/AgentSoundProps.thy ===== *)
theory AgentSoundProps
  imports AgentSoundEdit AgentSoundRemove AgentIo ScenarioObjectsProps
begin

text \<open>
  The sound operations: which files they touch, what a failure leaves behind, and what holds of the
  output file when they succeed, whatever the MPQ library and the map writer do.
\<close>

section \<open>The staged change\<close>

text \<open>
  What the four operations share: staging writes the temporary file only and verification writes
  nothing. A failure then leaves neither file, and a success leaves at the output the very bytes that
  were verified under the temporary name.
\<close>

locale staged_change =
  fixes lib :: archive_lib and target :: string and stage :: "'a io" and verify :: "'a \<Rightarrow> 'b io"
  assumes stage_frame: "touches {temporary_output_path lib target} stage"
    and verify_frame: "touches {} (verify x)"
begin

lemma transact_frame:
  "touches {temporary_output_path lib target, target}
     (transact lib (temporary_output_path lib target) target what stage verify report)"
  unfolding transact_def
  by (intro frame touches_mono [OF stage_frame] touches_mono [OF verify_frame];
      simp add: cleanup_def delete_file_def)

lemma transact_error:
  assumes "transact lib (temporary_output_path lib target) target what stage verify report fs = (Inl e, fs')"
  shows "fs' = fs(temporary_output_path lib target := None, target := None)"
proof (rule ext)
  fix p
  show "fs' p = (fs(temporary_output_path lib target := None, target := None)) p"
  proof (cases "p \<in> {temporary_output_path lib target, target}")
    case True
    then show ?thesis
      using assms
      by (auto simp: transact_def io_bind_def [where m = "io_set _"] io_set_def io_guard_def cleanup_def delete_file_def
          split: sum.splits)
  next
    case False
    then show ?thesis using touchesD [OF transact_frame assms False] by auto
  qed
qed

lemma transact_ok:
  assumes "transact lib (temporary_output_path lib target) target what stage verify report fs = (Inr r, fs')"
    and "length (lib_store lib) = 64"
  shows "\<exists>x y bs fs1.
     stage (delete_file (temporary_output_path lib target) fs) = (Inr x, fs1) \<and>
     verify x fs1 = (Inr y, fs1) \<and> fs1 (temporary_output_path lib target) = Some bs \<and>
     r = report x y (fips_sha256 bs) \<and>
     fs' = fs(target := Some bs, temporary_output_path lib target := None)"
proof -
  let ?t = "temporary_output_path lib target"
  obtain x fs1 y fs2 h where
      st: "stage (delete_file ?t fs) = (Inr x, fs1)" and v: "verify x fs1 = (Inr y, fs2)"
    and p: "promote lib ?t target what fs2 = (Inr h, fs')" and r: "r = report x y h"
    using assms(1) by (auto simp: transact_def io_inv)
  have fs2: "fs2 = fs1" using reads_unchanged [OF verify_frame v] .
  obtain bs where bs: "fs1 ?t = Some bs" "h = fips_sha256 bs" "fs' = fs1(target := Some bs, ?t := None)"
    using promote_Inr [OF p assms(2)] fs2 by auto
  have "fs' = fs(target := Some bs, ?t := None)"
    using touchesD [OF stage_frame st] bs(3) by (auto simp: delete_file_def fun_eq_iff)
  with st v r bs fs2 show ?thesis by auto
qed

end

lemma touches_stage_added: "touches {temporary} (stage_added lib input temporary b destination ogg)"
  unfolding stage_added_def by (intro frame; simp)

lemma touches_verify_added: "touches {} (verify_added lib temporary b destination ogg reused index string_id)"
  unfolding verify_added_def by (intro frame)

interpretation adding: staged_change lib target
    "if reused then stage_copy lib input (temporary_output_path lib target) placed
     else stage_added lib input (temporary_output_path lib target) b destination ogg"
    "\<lambda>placed. verify_added lib (temporary_output_path lib target) b destination ogg reused (fst placed) (snd placed)"
  for lib target input reused placed b destination ogg
  by unfold_locales (simp_all add: touches_stage_added touches_verify_added touches_stage_copy)

lemma touches_stage_batch: "touches {temporary} (stage_batch lib input temporary b items)"
  unfolding stage_batch_def by (intro frame; simp)

lemma touches_verify_items: "touches {} (verify_items lib temporary reopened slots items)"
  by (induction items) (auto intro!: frame)

lemma touches_verify_batch: "touches {} (verify_batch lib temporary b st items)"
  unfolding verify_batch_def by (intro frame touches_verify_items)

interpretation batch: staged_change lib target
    "stage_batch lib input (temporary_output_path lib target) b items"
    "\<lambda>(st, items). verify_batch lib (temporary_output_path lib target) b st items"
  for lib target input b items
  by unfold_locales (auto intro: touches_stage_batch touches_verify_batch)

lemma touches_stage_replaced:
  "touches {temporary} (stage_replaced lib input temporary b old_path destination ogg index old_id)"
  unfolding stage_replaced_def by (intro frame; simp)

lemma touches_verify_replaced: "touches {} (verify_replaced lib temporary b old_path destination ogg old_id)"
  unfolding verify_replaced_def by (intro frame)

interpretation replacing: staged_change lib target
    "stage_replaced lib input (temporary_output_path lib target) b old_path destination ogg index old_id"
    "\<lambda>_. verify_replaced lib (temporary_output_path lib target) b old_path destination ogg old_id"
  for lib target input b old_path destination ogg index old_id
  by unfold_locales (rule touches_stage_replaced touches_verify_replaced)+

lemma touches_stage_removed: "touches {temporary} (stage_removed lib input temporary b items)"
  unfolding stage_removed_def by (intro frame; simp)

lemma touches_verify_removed: "touches {} (verify_removed lib temporary b items)"
  unfolding verify_removed_def by (intro frame)

interpretation removing: staged_change lib target
    "stage_removed lib input (temporary_output_path lib target) b items"
    "\<lambda>_. verify_removed lib (temporary_output_path lib target) b items"
  for lib target input b items
  by unfold_locales (rule touches_stage_removed touches_verify_removed)+

section \<open>Failures\<close>

text \<open>A computation that, when it fails, has left all files as they were or has deleted the temporary one.\<close>

definition fails_clean :: "(file_system \<Rightarrow> bool) \<Rightarrow> string \<Rightarrow> 'a io \<Rightarrow> bool" where
  "fails_clean ok temporary m \<longleftrightarrow>
     (\<forall>fs e fs'. ok fs \<longrightarrow> m fs = (Inl e, fs') \<longrightarrow> fs' = fs \<or> fs' = fs(temporary := None))"

named_theorems clean "rules for computations that fail without a trace"

lemma clean_bind [clean]:
  assumes "touches {} m" "\<And>x. fails_clean ok t (f x)"
  shows "fails_clean ok t (io_bind m f)"
  unfolding fails_clean_def
proof (intro allI impI)
  fix fs e fs'
  assume "ok fs" "io_bind m f fs = (Inl e, fs')"
  moreover have "snd (m fs) = fs" using reads_unchanged [OF assms(1)] by (cases "m fs") auto
  ultimately show "fs' = fs \<or> fs' = fs(t := None)"
    using assms(2) by (auto simp: io_bind_def fails_clean_def split: sum.splits)
qed

lemma clean_check [clean]: "(\<not> bad \<Longrightarrow> fails_clean ok t (f ())) \<Longrightarrow> fails_clean ok t (io_check bad message f)"
  by (auto simp: fails_clean_def io_check_def io_return_def)

lemma clean_output_free:
  assumes "fails_clean (\<lambda>fs. fs output = None) t (f ())"
  shows "fails_clean ok t (io_bind (check_output_free output) f)"
  using assms
  by (auto simp: fails_clean_def io_bind_def check_output_free_def io_get_def file_exists_def split: sum.splits if_splits)

lemma touches_open_input [frame]: "touches A (open_input lib input expected message)"
  unfolding open_input_def by (intro frame)

lemma touches_observe [frame]: "touches A (observe lib input m)"
  unfolding observe_def by (intro frame)

lemma clean_check_paths [clean]:
  "fails_clean ok t (f ()) \<Longrightarrow> fails_clean ok t (check_paths input output f)"
  unfolding check_paths_def by (intro clean)

context staged_change
begin

lemma clean_transact:
  "fails_clean (\<lambda>fs. fs target = None) (temporary_output_path lib target)
     (transact lib (temporary_output_path lib target) target what stage verify report)"
  unfolding fails_clean_def by (auto dest!: transact_error)

end

lemma clean_add: "fails_clean (\<lambda>_. True) (temporary_output_path lib output)
    (map_sound_add lib input output expected destination ogg)"
  unfolding map_sound_add_def Let_def
  by (intro clean_output_free clean frame adding.clean_transact)

lemma clean_add_batch: "fails_clean (\<lambda>_. True) (temporary_output_path lib output)
    (map_sound_add_batch lib input output expected requests)"
  unfolding map_sound_add_batch_def Let_def
  by (intro clean_output_free clean frame batch.clean_transact)

lemma clean_replace: "fails_clean (\<lambda>_. True) (temporary_output_path lib output)
    (map_sound_replace lib input output expected old_path destination ogg)"
  unfolding map_sound_replace_def Let_def
  by (intro clean_output_free clean frame replacing.clean_transact)

lemma clean_remove: "fails_clean (\<lambda>_. True) (temporary_output_path lib output)
    (map_sound_remove lib input output expected indexes)"
  unfolding map_sound_remove_def Let_def
  by (intro clean_output_free clean frame removing.clean_transact)

section \<open>What a success means\<close>

definition inventory_of :: "archive_lib \<Rightarrow> u8 list \<Rightarrow> inventory option" where
  "inventory_of lib bs =
     (case lib_entries lib bs of None \<Rightarrow> None
      | Some es \<Rightarrow> (case inventory_entries lib [] es of Inl _ \<Rightarrow> None | Inr assets \<Rightarrow> Some assets))"

lemma inventory_mpq_Inr [io_inv]:
  "inventory_mpq lib path fs = (Inr a, fs') \<longleftrightarrow> (\<exists>bs. fs path = Some bs \<and> inventory_of lib bs = Some a) \<and> fs' = fs"
proof (cases "fs path")
  case (Some bs)
  then show ?thesis
    by (cases "lib_entries lib bs") (auto simp: inventory_mpq_def io_get_def inventory_of_def split: sum.splits)
qed (auto simp: inventory_mpq_def io_get_def)

lemma load_map_Inr [io_inv]:
  "load_map lib path message fs = (Inr m, fs') \<longleftrightarrow> (\<exists>bs. fs path = Some bs \<and> lib_load lib bs = Some m) \<and> fs' = fs"
  by (auto simp: load_map_def io_get_def split: option.splits)

lemma reopened_asset_Inr [io_inv]:
  "reopened_asset lib path name fs = (Inr a, fs') \<longleftrightarrow> a = Option.bind (fs path) (\<lambda>bs. lib_asset lib bs name) \<and> fs' = fs"
  by (auto simp: reopened_asset_def io_get_def)

text \<open>
  \<open>sound_in\<close>: the saved file holds the sound's bytes under its path, up to a SHA-256 collision, its
  path is the string \<open>s\<close>, and the WAV slot \<open>i\<close> and no other plays that string.
\<close>

definition sound_in :: "archive_lib \<Rightarrow> u8 list \<Rightarrow> string \<Rightarrow> u8 list \<Rightarrow> nat \<Rightarrow> nat \<Rightarrow> bool" where
  "sound_in lib bs destination ogg s i \<longleftrightarrow>
     (\<exists>data. lib_asset lib bs destination = Some data \<and> length data = length ogg \<and> fips_sha256 data = fips_sha256 ogg) \<and>
     (\<exists>m. lib_load lib bs = Some m \<and> find_string destination m = s \<and>
        {j. j < total_sounds \<and> unat (sc_sound_paths m ! j) = s} = {i})"

definition same_strings_but :: "nat set \<Rightarrow> scenario \<Rightarrow> scenario \<Rightarrow> bool" where
  "same_strings_but ids m n \<longleftrightarrow>
     length (sc_strings m) \<le> length (sc_strings n) \<and>
     (\<forall>k < length (sc_strings m). k \<notin> ids \<longrightarrow> get_string k n = get_string k m)"

definition same_slots_but :: "nat set \<Rightarrow> scenario \<Rightarrow> scenario \<Rightarrow> bool" where
  "same_slots_but slots m n \<longleftrightarrow>
     (\<forall>j < total_sounds. j \<notin> slots \<longrightarrow> sc_sound_paths n ! j = sc_sound_paths m ! j)"

lemma snapshot_slots_simps [simp]:
  "length (snapshot_sound_slots m) = total_sounds"
  "j < total_sounds \<Longrightarrow> snapshot_sound_slots m ! j = sc_sound_paths m ! j"
  by (simp_all add: snapshot_sound_slots_def)

lemma snapshot_strings_simps [simp]:
  "length (snapshot_game_strings m) = length (sc_strings m)"
  "k < length (sc_strings m) \<Longrightarrow> snapshot_game_strings m ! k = get_string k m"
  by (simp_all add: snapshot_game_strings_def)

lemma found_once: "(case x of None \<Rightarrow> (a, 0 :: nat) | Some i \<Rightarrow> (i, n)) = (j, 1) \<Longrightarrow> x = Some j \<and> n = 1"
  by (cases x) auto

lemma find_upt: "List.find P [0..<n] = Some i \<Longrightarrow> i < n \<and> P i"
  unfolding find_Some_iff by auto

lemma unique_slot:
  assumes "sound_slot_for_string (snapshot_sound_slots m) s = (i, 1)"
  shows "{j. j < total_sounds \<and> unat (sc_sound_paths m ! j) = s} = {i}"
proof -
  let ?S = "{j. j < total_sounds \<and> unat (sc_sound_paths m ! j) = s}"
  let ?slots = "snapshot_sound_slots m"
  have found: "List.find (\<lambda>i. unat (?slots ! i) = s) [0..<total_sounds] = Some i \<and> length (filter (\<lambda>w. unat w = s) ?slots) = 1"
    using assms unfolding sound_slot_for_string_def snapshot_slots_simps(1) by (rule found_once)
  have "length (filter (\<lambda>w. unat w = s) ?slots) = card {j. j < length ?slots \<and> unat (?slots ! j) = s}"
    by (rule length_filter_conv_card)
  also have "{j. j < length ?slots \<and> unat (?slots ! j) = s} = ?S" by (auto simp del: One_nat_def)
  finally have one: "card ?S = 1" using found by simp
  have "i \<in> ?S" using find_upt [OF conjunct1 [OF found]] by auto
  moreover obtain x where "?S = {x}" using one by (rule card_1_singletonE)
  ultimately show ?thesis by auto
qed

lemma verify_strings_same:
  assumes "verify_existing_game_strings (snapshot_game_strings m) n s = Inr ()"
  shows "same_strings_but {s} m n"
  using assms by (auto simp: verify_existing_game_strings_def same_strings_but_def split: if_splits)

lemma verify_slots_reused:
  assumes "verify_sound_slots (snapshot_sound_slots m) (snapshot_sound_slots n) i s True = Inr ()"
  shows "same_slots_but {} m n"
proof -
  have "\<forall>j \<in> set [0..<total_sounds]. snapshot_sound_slots n ! j = snapshot_sound_slots m ! j"
    using assms by (simp add: verify_sound_slots_def split: if_split_asm)
  then show ?thesis by (force simp: same_slots_but_def)
qed

lemma verify_slots_same:
  assumes "verify_sound_slots (snapshot_sound_slots m) (snapshot_sound_slots n) i s reused = Inr ()"
  shows "same_slots_but {i} m n"
proof -
  have "\<forall>j \<in> set [0..<total_sounds].
      snapshot_sound_slots n ! j = (if \<not> reused \<and> j = i then of_nat s else snapshot_sound_slots m ! j)"
    using assms by (simp add: verify_sound_slots_def split: if_split_asm)
  then show ?thesis by (force simp: same_slots_but_def)
qed

lemma observe_Inr:
  "observe lib input m fs = (Inr b, fs') \<longleftrightarrow>
     fs' = fs \<and> (\<exists>bs. fs input = Some bs \<and> inventory_of lib bs = Some (sb_assets b)) \<and>
     unrelated_chk_digest lib m = Inr (sb_chk b) \<and> sb_map b = m \<and>
     sb_strings b = snapshot_game_strings m \<and> sb_slots b = snapshot_sound_slots m"
  by (cases b) (auto simp: observe_def io_inv)

lemma open_input_Inr:
  assumes "length (lib_store lib) = 64"
  shows "open_input lib input expected message fs = (Inr m, fs') \<longleftrightarrow>
     fs' = fs \<and> (\<exists>bs. fs input = Some bs \<and> lib_read lib input bs = ReadWhole \<and> fips_sha256 bs = expected
       \<and> lib_load lib bs = Some m)"
  by (auto simp: open_input_def io_inv file_sha256_Inr [OF assms])

lemma check_output_free_Inr [io_inv]:
  "check_output_free output fs = (Inr u, fs') \<longleftrightarrow> fs output = None \<and> fs' = fs"
  by (auto simp: check_output_free_def io_get_def file_exists_def)

lemma check_paths_Inr [io_inv]:
  "check_paths input output f fs = (Inr y, fs') \<longleftrightarrow> lower_ascii input \<noteq> lower_ascii output \<and> f () fs = (Inr y, fs')"
  by (simp add: check_paths_def io_inv)

lemma emplace_present: "map_of m k = Some w \<Longrightarrow> map_emplace k v m = m"
  by (auto simp: map_emplace_def)

lemma verify_added_Inr:
  assumes v: "verify_added lib t b destination ogg reused i s fs = (Inr r, fs')"
    and store: "length (lib_store lib) = 64" and t: "fs t = Some bs"
    and b: "sb_strings b = snapshot_game_strings m" "sb_slots b = snapshot_sound_slots m"
  shows "sound_in lib bs destination ogg s i \<and>
    inventory_of lib bs = Some (if reused then sb_assets b else map_emplace destination (fips_sha256 ogg) (sb_assets b)) \<and>
    (\<exists>n. lib_load lib bs = Some n \<and> same_strings_but {s} m n \<and> same_slots_but {i} m n \<and>
       (reused \<longrightarrow> same_slots_but {} m n) \<and> find_string destination n = s \<and>
       unrelated_chk_digest lib n = Inr (sb_chk b))"
proof -
  obtain n where n: "lib_load lib bs = Some n"
    and inv: "inventory_of lib bs = Some (if reused then sb_assets b else map_emplace destination (fips_sha256 ogg) (sb_assets b))"
    and asset: "\<exists>data. lib_asset lib bs destination = Some data \<and> length data = length ogg \<and> fips_sha256 data = fips_sha256 ogg"
    and f: "find_string destination n = s" and slot: "sound_slot_for_string (snapshot_sound_slots n) s = (i, 1)"
    and vs: "verify_sound_slots (snapshot_sound_slots m) (snapshot_sound_slots n) i s reused = Inr ()"
    and vg: "verify_existing_game_strings (snapshot_game_strings m) n s = Inr ()"
    and chk: "unrelated_chk_digest lib n = Inr (sb_chk b)"
    using v t b by (auto simp: verify_added_def Let_def io_inv lib_sha256_fips [OF store] split: option.splits)
  from unique_slot [OF slot] n asset f have "sound_in lib bs destination ogg s i" by (auto simp: sound_in_def)
  moreover have "reused \<longrightarrow> same_slots_but {} m n" using verify_slots_reused vs by auto
  ultimately show ?thesis using inv n verify_strings_same [OF vg] verify_slots_same [OF vs] chk f by auto
qed

text \<open>
  C34: If an operation on the sounds of a map fails, for whatever reason and wherever it stops, every file is
  as it was before, the input and the output path included, except that a file under the temporary name may
  have been deleted. So an operation that found no output file leaves none, and a file that was there before
  the call, for which the operation refuses to run, stays.
\<close>

theorem sound_failure_leaves_no_trace:
  assumes "op \<in> {map_sound_add lib input output expected destination ogg,
      map_sound_add_batch lib input output expected requests,
      map_sound_replace lib input output expected old_path destination ogg,
      map_sound_remove lib input output expected indexes}"
    and "op fs = (Inl e, fs')"
  shows "fs' = fs \<or> fs' = fs(temporary_output_path lib output := None)"
proof -
  have "fails_clean (\<lambda>_. True) (temporary_output_path lib output) op"
    using assms(1) clean_add clean_add_batch clean_replace clean_remove by auto
  with assms(2) show ?thesis by (auto simp: fails_clean_def)
qed

section \<open>Places for a new sound\<close>

text \<open>No string that can be read and no slot in use is lost.\<close>

definition keeps_strings :: "scenario \<Rightarrow> scenario \<Rightarrow> bool" where
  "keeps_strings m n \<longleftrightarrow> (\<forall>k. get_string k m \<noteq> None \<longrightarrow> get_string k n = get_string k m)"

definition keeps_slots :: "scenario \<Rightarrow> scenario \<Rightarrow> bool" where
  "keeps_slots m n \<longleftrightarrow>
     (\<forall>j < total_sounds. sc_sound_paths m ! j \<noteq> 0 \<longrightarrow> sc_sound_paths n ! j = sc_sound_paths m ! j)"

text \<open>A path is known wholly, by its asset, its string and one slot that plays it, or not at all.\<close>

definition known_sound :: "inventory \<Rightarrow> scenario \<Rightarrow> string \<Rightarrow> string \<Rightarrow> nat \<Rightarrow> nat \<Rightarrow> bool" where
  "known_sound assets m destination h s i \<longleftrightarrow>
     map_of assets destination = Some h \<and> s \<noteq> 0 \<and> find_string destination m = s \<and>
     {j. j < total_sounds \<and> unat (sc_sound_paths m ! j) = s} = {i}"

definition unknown_sound :: "inventory \<Rightarrow> scenario \<Rightarrow> string \<Rightarrow> bool" where
  "unknown_sound assets m destination \<longleftrightarrow> map_of assets destination = None \<and> find_string destination m = 0"

lemma find_string_get: "find_string s m = i \<Longrightarrow> i \<noteq> 0 \<Longrightarrow> get_string i m = Some (c_string s)"
  by (rule find_string_nonzero(2))

lemma first_free_slot_free:
  assumes "first_free_sound_slot (snapshot_sound_slots m) = i" and "i \<noteq> total_sounds"
  shows "i < total_sounds \<and> sc_sound_paths m ! i = 0"
proof -
  have "List.find (\<lambda>i. snapshot_sound_slots m ! i = 0) [0..<total_sounds] = Some i"
    using assms by (auto simp: first_free_sound_slot_def split: option.splits)
  from find_upt [OF this] show ?thesis by auto
qed

lemma free_string_slot_fresh:
  assumes "free_string_slot m = Inr (Some (i, n))"
  shows "get_string i m = None \<and> sc_sound_paths n = sc_sound_paths m \<and> (\<forall>k. get_string k n = get_string k m)"
proof (cases "List.find (\<lambda>i. sc_strings m ! i = None) [1..<length (sc_strings m)]")
  case (Some j)
  then have "i = j" "n = m" using assms by (simp_all add: free_string_slot_def)
  moreover have "sc_strings m ! j = None" using Some by (auto simp: find_Some_iff)
  ultimately show ?thesis by (simp add: get_string_def)
next
  case None
  let ?n = "length (sc_strings m)"
  have "set_capacity (?n + 1) False m = Inr n" "i = length (sc_strings n) - 1"
    using assms None by (auto simp: free_string_slot_def bindE_is_Inr split: if_splits)
  then have n: "n = m\<lparr>sc_strings := resize_strings (?n + 1) (sc_strings m)\<rparr>"
    by (auto simp: set_capacity_def Let_def bindE_is_Inr maximum_strings_exceeded_def insufficient_capacity_def
        split: if_splits)
  have "resize_strings (?n + 1) (sc_strings m) = sc_strings m @ [None]" by (simp add: resize_strings_def)
  then show ?thesis using n \<open>i = length (sc_strings n) - 1\<close> by (auto simp: get_string_def nth_append)
qed

lemma map_add_sound_fresh:
  assumes add: "map_add_sound lib path bytes m = Inr (m', Some (s, i))"
    and new: "find_string path (mf_scenario m) = 0"
  shows "get_string s (mf_scenario m) = None \<and> (\<forall>k. k \<noteq> s \<longrightarrow> get_string k (mf_scenario m') = get_string k (mf_scenario m)) \<and>
    sc_sound_paths (mf_scenario m') = (sc_sound_paths (mf_scenario m))[i := of_nat s]"
proof -
  obtain m1 where m1: "add_mpq_asset lib path bytes m = Some m1" "mf_scenario m1 = mf_scenario m"
    using add by (auto simp: map_add_sound_def add_mpq_asset_def split: if_splits)
  obtain place where place: "place_sound_string path (mf_scenario m) = Inr place"
    using add m1 by (auto simp: map_add_sound_def bindE_is_Inr)
  obtain k sc created where p: "place = Some (k, sc, created)"
    using add m1 place by (cases place) (auto simp: map_add_sound_def)
  obtain n where n: "free_string_slot (mf_scenario m) = Inr (Some (k, n))"
    "sc = n\<lparr>sc_strings := (sc_strings n)[k := Some path]\<rparr>"
    using place p new by (auto simp: place_sound_string_def bindE_is_Inr)
  note fresh = free_string_slot_fresh [OF n(1)]
  have "s = k" "add_sound k sc = (i, mf_scenario m')" "i \<noteq> total_sounds"
    using add m1 place p by (auto simp: map_add_sound_def Let_def prod_eq_iff split: if_splits)
  then have "mf_scenario m' = sc\<lparr>sc_sound_paths := (sc_sound_paths sc)[i := of_nat s]\<rparr>"
    by (auto simp: add_sound_def split: option.splits)
  with n(2) have slots: "sc_sound_paths (mf_scenario m') = (sc_sound_paths n)[i := of_nat s]"
    and strings: "j \<noteq> s \<Longrightarrow> get_string j (mf_scenario m') = get_string j n" for j
    using \<open>s = k\<close> by (simp_all add: get_string_def)
  with fresh \<open>s = k\<close> show ?thesis by simp
qed

lemma stage_added_Inr:
  assumes "stage_added lib input t b destination ogg fs = (Inr (i, s), fs')"
    and b: "sb_map b = m" "sb_slots b = snapshot_sound_slots m" and new: "find_string destination m = 0"
  shows "i < total_sounds \<and> sc_sound_paths m ! i = 0 \<and> get_string s m = None"
proof -
  have i: "i = first_free_sound_slot (snapshot_sound_slots m)" "i \<noteq> total_sounds"
    and "\<exists>r. map_add_sound lib destination ogg \<lparr>mf_scenario = m, mf_modified = []\<rparr> = Inr r \<and> snd r = Some (s, i)"
    using assms(1) b by (auto simp: stage_added_def Let_def io_inv split: option.splits)
  then obtain m' where "map_add_sound lib destination ogg \<lparr>mf_scenario = m, mf_modified = []\<rparr> = Inr (m', Some (s, i))"
    by (metis prod.collapse)
  with map_add_sound_fresh [OF this] new first_free_slot_free [OF i(1) [symmetric] i(2)] show ?thesis by simp
qed

lemma known_string_kept:
  assumes "find_string d m = s" "find_string d n = s" "s \<noteq> 0" "same_strings_but {s} m n"
  shows "keeps_strings m n"
  using find_string_get [OF assms(1,3)] find_string_get [OF assms(2,3)] assms(4)
  by (auto simp: keeps_strings_def same_strings_but_def get_string_def split: if_splits)

lemma new_string_kept:
  assumes "\<forall>k \<in> ids. get_string k m = None" "same_strings_but ids m n"
  shows "keeps_strings m n"
  unfolding keeps_strings_def
proof (intro allI impI)
  fix k assume k: "get_string k m \<noteq> None"
  then have "k < length (sc_strings m)" by (simp add: get_string_def split: if_splits)
  with k assms show "get_string k n = get_string k m" by (auto simp: same_strings_but_def)
qed

lemma reuse_state_Inr:
  assumes "reuse_state b destination h ending = Inr (reused, i, s)"
  shows "reused \<longleftrightarrow> map_of (sb_assets b) destination \<noteq> None"
    and "reused \<Longrightarrow> map_of (sb_assets b) destination = Some h \<and> s \<noteq> 0 \<and> s = find_string destination (sb_map b) \<and>
           sound_slot_for_string (sb_slots b) s = (i, 1)"
    and "\<not> reused \<Longrightarrow> unknown_sound (sb_assets b) (sb_map b) destination"
  using assms unfolding unknown_sound_def by (auto simp: reuse_state_def Let_def prod_eq_iff split: if_splits)

text \<open>
  C35: If a sound is added, the input was the map the caller hashed and is still there, and the output is a
  new file that loads. In it the sound is registered under its path in one WAV slot; no string that could be
  read and no slot in use is lost, and no other string, slot, asset or CHK section has changed. The sound was
  there before, wholly and in that very slot under that very string id, or not at all, and then its slot was
  free and its string id without a string. Nothing is assumed of the MPQ library or the map writer.
\<close>

theorem map_sound_add_exact:
  assumes store: "length (lib_store lib) = 64"
    and ok: "map_sound_add lib input output expected destination ogg fs = (Inr report, fs')"
  shows "\<exists>bs0 bs m n assets s i.
     fs input = Some bs0 \<and> fips_sha256 bs0 = expected \<and> lib_load lib bs0 = Some m \<and> fs output = None \<and>
     fs' = fs(output := Some bs, temporary_output_path lib output := None) \<and>
     inventory_of lib bs0 = Some assets \<and>
     inventory_of lib bs = Some (map_emplace destination (fips_sha256 ogg) assets) \<and>
     sound_in lib bs destination ogg s i \<and> lib_load lib bs = Some n \<and>
     same_strings_but {s} m n \<and> same_slots_but {i} m n \<and> keeps_strings m n \<and> keeps_slots m n \<and>
     (known_sound assets m destination (fips_sha256 ogg) s i \<or>
      unknown_sound assets m destination \<and> sc_sound_paths m ! i = 0 \<and> get_string s m = None) \<and>
     unrelated_chk_digest lib n = unrelated_chk_digest lib m"
proof -
  let ?t = "temporary_output_path lib output"
  obtain m b state report' where free: "fs output = None"
    and src: "\<exists>bs. fs input = Some bs \<and> fips_sha256 bs = expected \<and> lib_load lib bs = Some m"
    and b: "\<exists>bs. fs input = Some bs \<and> inventory_of lib bs = Some (sb_assets b)"
      "unrelated_chk_digest lib m = Inr (sb_chk b)" "sb_map b = m" "sb_strings b = snapshot_game_strings m"
      "sb_slots b = snapshot_sound_slots m"
    and state: "reuse_state b destination (lib_sha256 lib ogg) [] = Inr state"
    and tr: "transact lib ?t output ''map''
        (if fst state then stage_copy lib input ?t (snd state) else stage_added lib input ?t b destination ogg)
        (\<lambda>placed. verify_added lib ?t b destination ogg (fst state) (fst placed) (snd placed)) report' fs = (Inr report, fs')"
    using ok unfolding map_sound_add_def Let_def io_inv open_input_Inr [OF store] observe_Inr by blast
  obtain reused i0 s0 where st: "state = (reused, i0, s0)" by (cases state) auto
  obtain placed y bs fs1 where stage: "(if reused then stage_copy lib input ?t (i0, s0)
      else stage_added lib input ?t b destination ogg) (delete_file ?t fs) = (Inr placed, fs1)"
    and v: "verify_added lib ?t b destination ogg reused (fst placed) (snd placed) fs1 = (Inr y, fs1)"
    and bs: "fs1 ?t = Some bs" and fs': "fs' = fs(output := Some bs, ?t := None)"
    using adding.transact_ok [OF tr store] unfolding st fst_conv snd_conv by metis
  note reuse = reuse_state_Inr [OF state [unfolded st]]
  obtain i s where p: "placed = (i, s)" by (cases placed)
  obtain n where n: "lib_load lib bs = Some n" "same_strings_but {s} m n" "same_slots_but {i} m n"
    "reused \<longrightarrow> same_slots_but {} m n" "find_string destination n = s" "unrelated_chk_digest lib n = Inr (sb_chk b)"
    and sound: "sound_in lib bs destination ogg s i"
    and inv: "inventory_of lib bs = Some (if reused then sb_assets b else map_emplace destination (fips_sha256 ogg) (sb_assets b))"
    using verify_added_Inr [OF v store bs b(4, 5)] p by auto
  have assets: "(if reused then sb_assets b else map_emplace destination (fips_sha256 ogg) (sb_assets b)) =
      map_emplace destination (fips_sha256 ogg) (sb_assets b)"
    using reuse(1) by (auto simp: emplace_present)
  have "keeps_strings m n \<and> keeps_slots m n \<and> (known_sound (sb_assets b) m destination (fips_sha256 ogg) s i \<or>
      unknown_sound (sb_assets b) m destination \<and> sc_sound_paths m ! i = 0 \<and> get_string s m = None)"
  proof (cases reused)
    case True
    then have "i = i0" "s = s0" using stage p by (auto simp: stage_copy_def io_inv)
    then have k: "map_of (sb_assets b) destination = Some (fips_sha256 ogg)" "s \<noteq> 0" "find_string destination m = s"
      "sound_slot_for_string (snapshot_sound_slots m) s = (i, 1)"
      using reuse(2) [OF True] unfolding b(3,5) lib_sha256_fips [OF store] by metis+
    then have known: "known_sound (sb_assets b) m destination (fips_sha256 ogg) s i"
      unfolding known_sound_def using unique_slot [OF k(4)] by blast
    moreover have "keeps_strings m n" using known n(2,5) known_string_kept by (auto simp: known_sound_def)
    moreover have "keeps_slots m n" using n(4) True by (simp add: keeps_slots_def same_slots_but_def)
    ultimately show ?thesis by blast
  next
    case False
    then have unknown: "unknown_sound (sb_assets b) m destination" using reuse(3) b(3) by simp
    have new: "sc_sound_paths m ! i = 0" "get_string s m = None"
      using stage_added_Inr [of lib input ?t b destination ogg "delete_file ?t fs" i s fs1 m] stage False p b unknown
      by (simp_all add: unknown_sound_def)
    moreover have "keeps_strings m n" by (rule new_string_kept [OF _ n(2)]) (use new in simp)
    moreover have "keeps_slots m n" using n(3) new(1) by (auto simp: keeps_slots_def same_slots_but_def)
    ultimately show ?thesis using unknown by blast
  qed
  with free src b fs' n sound inv [unfolded assets] show ?thesis by fastforce
qed

section \<open>The batch\<close>

definition item_request :: "batch_item \<Rightarrow> string \<times> u8 list" where
  "item_request item = (bi_destination item, bi_ogg item)"

definition hashed :: "archive_lib \<Rightarrow> batch_item \<Rightarrow> bool" where
  "hashed lib item \<longleftrightarrow> bi_hash item = lib_sha256 lib (bi_ogg item)"

lemma batch_items_Inr:
  "batch_items lib i seen n requests = Inr items \<Longrightarrow>
     map item_request items = requests \<and> list_all (hashed lib) items \<and> (\<forall>item \<in> set items. \<not> bi_reused item)"
  by (induction lib i seen n requests arbitrary: items rule: batch_items.induct)
    (auto simp: bindE_is_Inr item_request_def hashed_def split: if_splits)

lemma plan_item_Inr:
  "plan_item b item = Inr item' \<Longrightarrow> item_request item' = item_request item \<and> hashed lib item' = hashed lib item"
  by (auto simp: plan_item_def bindE_is_Inr item_request_def hashed_def split: if_split_asm)

lemma plan_items_Inr:
  "mapE (plan_item b) items = Inr items' \<Longrightarrow>
     map item_request items' = map item_request items \<and> (list_all (hashed lib) items' \<longleftrightarrow> list_all (hashed lib) items)"
proof (induction items arbitrary: items')
  case (Cons item items)
  then show ?case using plan_item_Inr [of b item _ lib] by (fastforce simp: bindE_is_Inr)
qed simp

lemma add_item_Inr:
  assumes "add_item lib st item = Inr (st', item')"
  shows "item_request item' = item_request item \<and> hashed lib item' = hashed lib item \<and>
    set (bs_ids st') \<subseteq> insert (bi_string_id item') (set (bs_ids st)) \<and>
    length (bs_slots st') = length (bs_slots st) \<and>
    (\<forall>j. j \<noteq> bi_index item' \<longrightarrow> bs_slots st' ! j = bs_slots st ! j)"
proof (cases "bi_reused item")
  case False
  let ?expected = "first_free_sound_slot (snapshot_sound_slots (mf_scenario (bs_map st)))"
  obtain r where "(case snd r of
       None \<Rightarrow> fail (''MappingCore MapFile::addSound failed: '' @ bi_destination item)
     | Some (string_id, index) \<Rightarrow>
         if index \<noteq> ?expected then fail ''MappingCore added sound at an unexpected WAV slot''
         else if string_id = 0 \<or> string_id \<in> set (bs_ids st)
         then fail ''sound game string was not added exactly once''
         else Inr (\<lparr>bs_map = fst r, bs_ids = string_id # bs_ids st,
                     bs_slots = (bs_slots st)[index := of_nat string_id]\<rparr>,
                   item\<lparr>bi_index := index, bi_string_id := string_id\<rparr>)) = Inr (st', item')"
    using assms False by (simp add: add_item_def Let_def bindE_is_Inr del: split_paired_Ex split: if_split_asm) blast
  then obtain string_id index where
      "st' = \<lparr>bs_map = fst r, bs_ids = string_id # bs_ids st, bs_slots = (bs_slots st)[index := of_nat string_id]\<rparr>"
      "item' = item\<lparr>bi_index := index, bi_string_id := string_id\<rparr>"
    by (cases "snd r") (auto split: if_split_asm)
  then show ?thesis by (simp add: item_request_def hashed_def)
qed (use assms in \<open>auto simp: add_item_def\<close>)

lemma add_items_Inr:
  "add_items lib st items = Inr (st', items') \<Longrightarrow>
     map item_request items' = map item_request items \<and>
     (list_all (hashed lib) items' \<longleftrightarrow> list_all (hashed lib) items) \<and>
     set (bs_ids st') \<subseteq> set (bs_ids st) \<union> bi_string_id ` set items' \<and>
     (\<forall>j. j \<notin> bi_index ` set items' \<longrightarrow> bs_slots st' ! j = bs_slots st ! j)"
proof (induction items arbitrary: st items')
  case (Cons item items)
  then obtain st1 item1 items1 where one: "add_item lib st item = Inr (st1, item1)"
    and rest: "add_items lib st1 items = Inr (st', items1)" and items': "items' = item1 # items1"
    by (auto simp: bindE_is_Inr)
  show ?case using add_item_Inr [OF one] Cons.IH [OF rest] by (auto simp: items')
qed simp

text \<open>
  What the additions so far have done to the map \<open>m\<close> of the input: slots that were in use and strings outside
  the added ids are as before, and the added ids had no string.
\<close>

definition batch_so_far :: "scenario \<Rightarrow> batch_state \<Rightarrow> bool" where
  "batch_so_far m st \<longleftrightarrow>
     (\<forall>j < total_sounds. sc_sound_paths m ! j \<noteq> 0 \<longrightarrow>
        sc_sound_paths (mf_scenario (bs_map st)) ! j = sc_sound_paths m ! j \<and> bs_slots st ! j = sc_sound_paths m ! j) \<and>
     (\<forall>k. k \<notin> set (bs_ids st) \<longrightarrow> get_string k (mf_scenario (bs_map st)) = get_string k m) \<and>
     (\<forall>k \<in> set (bs_ids st). get_string k m = None)"

lemma batch_so_far_new:
  assumes so_far: "batch_so_far m st" and new: "find_string d m = 0"
    and add: "map_add_sound lib d bytes (bs_map st) = Inr (m', Some (s, i))"
    and i: "i = first_free_sound_slot (snapshot_sound_slots (mf_scenario (bs_map st)))" "i \<noteq> total_sounds"
    and s: "s \<noteq> 0" "s \<notin> set (bs_ids st)"
  shows "batch_so_far m \<lparr>bs_map = m', bs_ids = s # bs_ids st, bs_slots = (bs_slots st)[i := of_nat s]\<rparr>"
proof -
  let ?cur = "mf_scenario (bs_map st)"
  have same: "get_string k ?cur = get_string k m" if "k \<notin> set (bs_ids st)" for k
    using so_far that by (simp add: batch_so_far_def)
  have "find_string d ?cur = 0"
  proof (rule ccontr)
    assume found: "find_string d ?cur \<noteq> 0"
    then have "s = find_string d ?cur"
      using add by (auto simp: map_add_sound_def place_sound_string_def add_mpq_asset_def Let_def prod_eq_iff split: if_splits)
    then have "get_string s m = Some (c_string d)" using same [OF s(2)] find_string_get found by metis
    moreover have "s < length (sc_strings m)" using calculation by (simp add: get_string_def split: if_splits)
    ultimately show False using new s(1) unfolding find_string_zero by auto
  qed
  note fresh = map_add_sound_fresh [OF add this]
  have "sc_sound_paths ?cur ! i = 0" "i < total_sounds" using first_free_slot_free [OF i(1) [symmetric] i(2)] by simp_all
  then have "sc_sound_paths m ! i = 0" using so_far unfolding batch_so_far_def by metis
  moreover have "get_string s m = None" using fresh same [OF s(2)] by simp
  ultimately show ?thesis
    using so_far fresh by (auto simp: batch_so_far_def nth_list_update_neq)
      (metis nth_list_update_neq)+
qed

lemma add_item_so_far:
  assumes add: "add_item lib st item = Inr (st', item')" and so_far: "batch_so_far m st"
    and new: "\<not> bi_reused item \<Longrightarrow> find_string (bi_destination item) m = 0"
  shows "batch_so_far m st'"
proof (cases "bi_reused item")
  case True
  with add so_far show ?thesis by (simp add: add_item_def)
next
  case False
  let ?i = "first_free_sound_slot (snapshot_sound_slots (mf_scenario (bs_map st)))"
  obtain m' r where run: "?i \<noteq> total_sounds" "map_add_sound lib (bi_destination item) (bi_ogg item) (bs_map st) = Inr (m', r)"
    using add False by (auto simp: add_item_def Let_def bindE_is_Inr split: if_splits)
  then obtain s where "r = Some (s, ?i)" "s \<noteq> 0" "s \<notin> set (bs_ids st)"
    "st' = \<lparr>bs_map = m', bs_ids = s # bs_ids st, bs_slots = (bs_slots st)[?i := of_nat s]\<rparr>"
    using add False by (auto simp: add_item_def Let_def split: option.splits if_splits)
  then show ?thesis using batch_so_far_new [OF so_far new [OF False] _ refl run(1)] run(2) by simp
qed

lemma add_items_so_far:
  "add_items lib st items = Inr (st', items') \<Longrightarrow> batch_so_far m st \<Longrightarrow>
     (\<forall>item \<in> set items. \<not> bi_reused item \<longrightarrow> find_string (bi_destination item) m = 0) \<Longrightarrow> batch_so_far m st'"
proof (induction items arbitrary: st items')
  case (Cons item items)
  then obtain st1 item1 items1 where one: "add_item lib st item = Inr (st1, item1)"
    and rest: "add_items lib st1 items = Inr (st', items1)"
    by (auto simp: bindE_is_Inr)
  have "batch_so_far m st1" using add_item_so_far [OF one Cons.prems(2)] Cons.prems(3) by simp
  with Cons.IH [OF rest] Cons.prems(3) show ?case by simp
qed simp

lemma stage_batch_so_far:
  assumes "stage_batch lib input t b items fs = (Inr (st, items'), fs')"
    and "sb_map b = m" "sb_slots b = snapshot_sound_slots m"
    and "\<forall>item \<in> set items. \<not> bi_reused item \<longrightarrow> find_string (bi_destination item) m = 0"
  shows "batch_so_far m st"
proof -
  let ?start = "\<lparr>bs_map = \<lparr>mf_scenario = sb_map b, mf_modified = []\<rparr>, bs_ids = [], bs_slots = sb_slots b\<rparr>"
  have "batch_so_far m ?start" using assms(2,3) by (simp add: batch_so_far_def)
  moreover have "st = ?start \<or> add_items lib ?start items = Inr (st, items')"
    using assms(1) by (auto simp: stage_batch_def Let_def stage_copy_def io_inv split: if_splits)
  ultimately show ?thesis using add_items_so_far assms(4) by blast
qed

text \<open>Before the batch each request is known wholly or not at all.\<close>

lemma plan_item_status:
  assumes "plan_item b item = Inr item'" "\<not> bi_reused item" "sb_map b = m" "sb_slots b = snapshot_sound_slots m"
  shows "bi_destination item' = bi_destination item \<and>
    ((\<exists>s i. known_sound (sb_assets b) m (bi_destination item) (bi_hash item) s i) \<and> bi_reused item' \<or>
     unknown_sound (sb_assets b) m (bi_destination item) \<and> \<not> bi_reused item')"
proof -
  obtain reused i s where st: "reuse_state b (bi_destination item) (bi_hash item) ('': '' @ bi_destination item) = Inr (reused, i, s)"
    and item': "item' = (if reused then item\<lparr>bi_reused := True, bi_index := i, bi_string_id := s\<rparr> else item)"
    using assms(1) by (auto simp: plan_item_def bindE_is_Inr)
  note reuse = reuse_state_Inr [OF st]
  show ?thesis
  proof (cases reused)
    case True
    have "sound_slot_for_string (snapshot_sound_slots m) s = (i, 1)"
      using reuse(2) [OF True] unfolding assms(4) by blast
    then have "known_sound (sb_assets b) m (bi_destination item) (bi_hash item) s i"
      unfolding known_sound_def using reuse(2) [OF True] assms(3) unique_slot by blast
    then show ?thesis using True item' by auto
  next
    case False
    then show ?thesis using reuse(3) item' assms(2,3) by simp
  qed
qed

lemma plan_items_status:
  assumes "mapE (plan_item b) items = Inr items'" "\<forall>item \<in> set items. \<not> bi_reused item"
    and "sb_map b = m" "sb_slots b = snapshot_sound_slots m"
  shows "(\<forall>item \<in> set items. (\<exists>s i. known_sound (sb_assets b) m (bi_destination item) (bi_hash item) s i) \<or>
      unknown_sound (sb_assets b) m (bi_destination item)) \<and>
    (\<forall>item \<in> set items'. \<not> bi_reused item \<longrightarrow> find_string (bi_destination item) m = 0)"
  using assms(1,2)
proof (induction items arbitrary: items')
  case (Cons item items)
  then obtain item1 items1 where one: "plan_item b item = Inr item1" and rest: "mapE (plan_item b) items = Inr items1"
    and items': "items' = item1 # items1" by (auto simp: bindE_is_Inr)
  have "\<not> bi_reused item" using Cons.prems(2) by simp
  from plan_item_status [OF one this assms(3,4)] Cons.IH [OF rest] Cons.prems(2) show ?case
    by (auto simp: items' unknown_sound_def)
qed simp

lemma stage_batch_Inr:
  assumes "stage_batch lib input t b items fs = (Inr (st, items'), fs')"
  shows "map item_request items' = map item_request items \<and>
     (list_all (hashed lib) items' \<longleftrightarrow> list_all (hashed lib) items) \<and>
     set (bs_ids st) \<subseteq> bi_string_id ` set items' \<and>
     (\<forall>j. j \<notin> bi_index ` set items' \<longrightarrow> bs_slots st ! j = sb_slots b ! j)"
proof -
  let ?start = "\<lparr>bs_map = \<lparr>mf_scenario = sb_map b, mf_modified = []\<rparr>, bs_ids = [], bs_slots = sb_slots b\<rparr>"
  have "(st, items') = (?start, items) \<or> add_items lib ?start items = Inr (st, items')"
    using assms
    by (auto simp: stage_batch_def Let_def stage_copy_def io_inv split: if_splits)
  then show ?thesis using add_items_Inr [of lib ?start items st items'] by auto
qed

lemma verify_items_Inr:
  "verify_items lib t n slots items fs = (Inr u, fs') \<Longrightarrow> fs t = Some bs \<Longrightarrow> item \<in> set items \<Longrightarrow>
     (\<exists>data. lib_asset lib bs (bi_destination item) = Some data \<and> length data = length (bi_ogg item) \<and>
        lib_sha256 lib data = bi_hash item) \<and>
     find_string (bi_destination item) n = bi_string_id item \<and>
     sound_slot_for_string slots (bi_string_id item) = (bi_index item, 1)"
proof (induction items arbitrary: fs)
  case (Cons it items)
  have step: "verify_items lib t n slots items fs = (Inr u, fs')"
    and head: "(case lib_asset lib bs (bi_destination it) of None \<Rightarrow> True
       | Some data \<Rightarrow> length data \<noteq> length (bi_ogg it) \<or> lib_sha256 lib data \<noteq> bi_hash it) = False"
      "find_string (bi_destination it) n = bi_string_id it"
      "sound_slot_for_string slots (bi_string_id it) = (bi_index it, 1)"
    using Cons.prems(1,2) by (auto simp: io_inv)
  show ?case
  proof (cases "item = it")
    case True
    then show ?thesis using head by (auto split: option.splits)
  next
    case False
    then show ?thesis using Cons.IH [OF step Cons.prems(2)] Cons.prems(3) by auto
  qed
qed simp

lemma expected_batch_requests:
  "list_all (hashed lib) items \<Longrightarrow> length (lib_store lib) = 64 \<Longrightarrow>
     expected_batch_assets assets items =
       fold (\<lambda>(destination, ogg). map_emplace destination (fips_sha256 ogg)) (map item_request items) assets"
  by (induction items arbitrary: assets)
    (auto simp: expected_batch_assets_def hashed_def item_request_def lib_sha256_fips)

text \<open>The WAV slots that play one of the requested paths, and their strings.\<close>

definition requested_strings :: "(string \<times> u8 list) list \<Rightarrow> scenario \<Rightarrow> nat set" where
  "requested_strings requests n = (\<lambda>(destination, ogg). find_string destination n) ` set requests"

definition requested_slots :: "(string \<times> u8 list) list \<Rightarrow> scenario \<Rightarrow> nat set" where
  "requested_slots requests n =
     {j. j < total_sounds \<and> unat (sc_sound_paths n ! j) \<in> requested_strings requests n}"

lemma verify_batch_Inr:
  assumes v: "verify_batch lib t b st items fs = (Inr r, fs)"
    and store: "length (lib_store lib) = 64" and t: "fs t = Some bs"
    and b: "sb_strings b = snapshot_game_strings m" "sb_slots b = snapshot_sound_slots m"
    and hashes: "list_all (hashed lib) items"
    and ids: "set (bs_ids st) \<subseteq> bi_string_id ` set items"
    and slots: "\<forall>j. j \<notin> bi_index ` set items \<longrightarrow> bs_slots st ! j = sb_slots b ! j"
    and so_far: "batch_so_far m st"
  shows "\<exists>n. lib_load lib bs = Some n \<and> inventory_of lib bs = Some (expected_batch_assets (sb_assets b) items) \<and>
    (\<forall>(destination, ogg) \<in> item_request ` set items. \<exists>s i. sound_in lib bs destination ogg s i) \<and>
    same_strings_but (requested_strings (map item_request items) n) m n \<and>
    same_slots_but (requested_slots (map item_request items) n) m n \<and> keeps_strings m n \<and> keeps_slots m n \<and>
    unrelated_chk_digest lib n = Inr (sb_chk b)"
proof -
  obtain n fs2 where n: "lib_load lib bs = Some n"
    and inv: "inventory_of lib bs = Some (expected_batch_assets (sb_assets b) items)"
    and same: "snapshot_sound_slots n = bs_slots st"
    and each: "verify_items lib t n (snapshot_sound_slots n) items fs = (Inr (), fs2)"
    and str: "verify_batch_strings (snapshot_game_strings m) (bs_ids st) n = Inr ()"
    and chk: "unrelated_chk_digest lib n = Inr (sb_chk b)"
    using v t b(1) by (auto simp: verify_batch_def Let_def io_inv)
  note item = verify_items_Inr [OF each t]
  have slot: "{j. j < total_sounds \<and> unat (sc_sound_paths n ! j) = bi_string_id item} = {bi_index item}"
    if "item \<in> set items" for item
    using item [OF that] unique_slot by blast
  have sound: "\<exists>s i. sound_in lib bs destination ogg s i" if req: "(destination, ogg) \<in> item_request ` set items" for destination ogg
  proof -
    obtain it where "(destination, ogg) = item_request it" "it \<in> set items" using req by (rule imageE)
    then have it: "it \<in> set items" "bi_destination it = destination" "bi_ogg it = ogg"
      by (simp_all add: item_request_def)
    then have "bi_hash it = fips_sha256 ogg" using hashes by (auto simp: list_all_iff hashed_def lib_sha256_fips [OF store])
    then have "sound_in lib bs destination ogg (bi_string_id it) (bi_index it)"
      using item [OF it(1)] slot [OF it(1)] it n by (auto simp: sound_in_def lib_sha256_fips [OF store])
    then show ?thesis by blast
  qed
  have strings: "bi_string_id ` set items = requested_strings (map item_request items) n"
    using item by (force simp: requested_strings_def item_request_def image_image)
  have "same_strings_but (requested_strings (map item_request items) n) m n"
    using str ids strings
    by (auto simp: verify_batch_strings_def same_strings_but_def split: if_split_asm)
  moreover have "bi_index ` set items \<subseteq> requested_slots (map item_request items) n"
    using slot strings by (auto simp: requested_slots_def)
  then have "same_slots_but (requested_slots (map item_request items) n) m n"
    using slots same b(2) unfolding same_slots_but_def by (metis snapshot_slots_simps(2) subsetD)
  moreover have "keeps_strings m n"
  proof (rule new_string_kept)
    show "\<forall>k \<in> set (bs_ids st). get_string k m = None" using so_far by (simp add: batch_so_far_def)
    show "same_strings_but (set (bs_ids st)) m n"
      using str by (auto simp: verify_batch_strings_def same_strings_but_def split: if_split_asm)
  qed
  moreover have "keeps_slots m n"
    using so_far same unfolding batch_so_far_def keeps_slots_def by (metis snapshot_slots_simps(2))
  ultimately show ?thesis using n inv sound chk by blast
qed

text \<open>
  C36: A batch that is added is added wholly: the output is a new file in which every requested sound is
  registered in one WAV slot and holds the requested bytes, the assets are the input's and the
  requested ones, no string that could be read and no slot in use is lost, and no other string, slot or CHK
  section has changed. Each requested path was known wholly, with the requested bytes, or not at all.
\<close>

theorem map_sound_add_batch_exact:
  assumes store: "length (lib_store lib) = 64"
    and ok: "map_sound_add_batch lib input output expected requests fs = (Inr report, fs')"
  shows "\<exists>bs0 bs m n assets.
     fs input = Some bs0 \<and> fips_sha256 bs0 = expected \<and> lib_load lib bs0 = Some m \<and> fs output = None \<and>
     fs' = fs(output := Some bs, temporary_output_path lib output := None) \<and>
     inventory_of lib bs0 = Some assets \<and>
     inventory_of lib bs =
       Some (fold (\<lambda>(destination, ogg). map_emplace destination (fips_sha256 ogg)) requests assets) \<and>
     (\<forall>(destination, ogg) \<in> set requests. \<exists>s i. sound_in lib bs destination ogg s i) \<and>
     lib_load lib bs = Some n \<and> same_strings_but (requested_strings requests n) m n \<and>
     same_slots_but (requested_slots requests n) m n \<and> keeps_strings m n \<and> keeps_slots m n \<and>
     (\<forall>(destination, ogg) \<in> set requests. (\<exists>s i. known_sound assets m destination (fips_sha256 ogg) s i) \<or>
        unknown_sound assets m destination) \<and>
     unrelated_chk_digest lib n = unrelated_chk_digest lib m"
proof -
  let ?t = "temporary_output_path lib output"
  obtain m b items0 items report' where free: "fs output = None"
    and items0: "batch_items lib 0 [] 0 requests = Inr items0"
    and src: "\<exists>bs. fs input = Some bs \<and> fips_sha256 bs = expected \<and> lib_load lib bs = Some m"
    and b: "\<exists>bs. fs input = Some bs \<and> inventory_of lib bs = Some (sb_assets b)"
      "unrelated_chk_digest lib m = Inr (sb_chk b)" "sb_map b = m" "sb_strings b = snapshot_game_strings m"
      "sb_slots b = snapshot_sound_slots m"
    and items: "mapE (plan_item b) items0 = Inr items"
    and tr: "transact lib ?t output ''map'' (stage_batch lib input ?t b items)
        (\<lambda>(st, items). verify_batch lib ?t b st items) report' fs = (Inr report, fs')"
    using ok unfolding map_sound_add_batch_def Let_def io_inv open_input_Inr [OF store] observe_Inr by blast
  have "\<exists>x y bs fs1. stage_batch lib input ?t b items (delete_file ?t fs) = (Inr x, fs1) \<and>
      (case x of (st, items) \<Rightarrow> verify_batch lib ?t b st items) fs1 = (Inr y, fs1) \<and> fs1 ?t = Some bs \<and>
      fs' = fs(output := Some bs, ?t := None)"
    using batch.transact_ok [OF tr store] by blast
  then obtain st items' y bs fs1 where stage: "stage_batch lib input ?t b items (delete_file ?t fs) = (Inr (st, items'), fs1)"
    and v: "verify_batch lib ?t b st items' fs1 = (Inr y, fs1)"
    and bs: "fs1 ?t = Some bs" and fs': "fs' = fs(output := Some bs, ?t := None)"
    by auto
  have req: "map item_request items' = requests" and hashes: "list_all (hashed lib) items'"
    using batch_items_Inr [OF items0] plan_items_Inr [OF items] stage_batch_Inr [OF stage] by auto
  have set: "item_request ` set items' = set requests" using req by (metis set_map)
  note status = plan_items_status [OF items _ b(3, 5)]
  have "batch_so_far m st"
    by (rule stage_batch_so_far [OF stage b(3, 5)]) (use status batch_items_Inr [OF items0] in blast)
  note verified = verify_batch_Inr [OF v store bs b(4, 5) hashes _ _ this]
  have known: "\<forall>(destination, ogg) \<in> set requests.
      (\<exists>s i. known_sound (sb_assets b) m destination (fips_sha256 ogg) s i) \<or> unknown_sound (sb_assets b) m destination"
  proof -
    have "set requests = item_request ` set items0" "\<forall>item \<in> set items0. bi_hash item = fips_sha256 (bi_ogg item)"
      using batch_items_Inr [OF items0] by (auto simp: list_all_iff hashed_def lib_sha256_fips [OF store])
    then show ?thesis using status batch_items_Inr [OF items0] by (fastforce simp: item_request_def)
  qed
  from verified stage_batch_Inr [OF stage]
    expected_batch_requests [OF hashes store, of "sb_assets b"] free src b(1, 2) fs' known
  show ?thesis unfolding req set by fastforce
qed

section \<open>Replacing\<close>

lemma replace_source_Inr:
  "replace_source b old_path destination = Inr (s, i) \<Longrightarrow>
     s = find_string old_path (sb_map b) \<and> s \<noteq> 0 \<and> map_of (sb_assets b) old_path \<noteq> None \<and>
     map_of (sb_assets b) destination = None \<and> find_string destination (sb_map b) = 0 \<and>
     sound_slot_for_string (sb_slots b) s = (i, 1)"
  by (auto simp: replace_source_def Let_def prod_eq_iff split: if_split_asm)

lemma same_snapshot: "snapshot_sound_slots n = snapshot_sound_slots m \<Longrightarrow> same_slots_but {} m n"
  unfolding same_slots_but_def by (metis snapshot_slots_simps(2))

lemma verify_replaced_Inr:
  assumes v: "verify_replaced lib t b old_path destination ogg s fs = (Inr r, fs')"
    and store: "length (lib_store lib) = 64" and t: "fs t = Some bs"
    and b: "sb_strings b = snapshot_game_strings m" "sb_slots b = snapshot_sound_slots m"
    and slot: "sound_slot_for_string (sb_slots b) s = (i, 1)"
  shows "sound_in lib bs destination ogg s i \<and>
    inventory_of lib bs = Some (map_emplace destination (fips_sha256 ogg) (map_erase old_path (sb_assets b))) \<and>
    (\<exists>n. lib_load lib bs = Some n \<and> find_string old_path n = 0 \<and> same_strings_but {s} m n \<and>
       same_slots_but {} m n \<and> unrelated_chk_digest lib n = Inr (sb_chk b))"
proof -
  obtain n where n: "lib_load lib bs = Some n"
    and inv: "inventory_of lib bs = Some (map_emplace destination (fips_sha256 ogg) (map_erase old_path (sb_assets b)))"
    and asset: "\<exists>data. lib_asset lib bs destination = Some data \<and> length data = length ogg \<and> fips_sha256 data = fips_sha256 ogg"
    and f: "find_string destination n = s" "find_string old_path n = 0"
    and same: "snapshot_sound_slots n = snapshot_sound_slots m"
    and vg: "verify_existing_game_strings (snapshot_game_strings m) n s = Inr ()"
    and chk: "unrelated_chk_digest lib n = Inr (sb_chk b)"
    using v t b by (auto simp: verify_replaced_def Let_def io_inv lib_sha256_fips [OF store] split: option.splits)
  have "sound_slot_for_string (snapshot_sound_slots n) s = (i, 1)" using slot same b(2) by metis
  from unique_slot [OF this] n asset f have "sound_in lib bs destination ogg s i" by (auto simp: sound_in_def)
  with inv n f verify_strings_same [OF vg] same_snapshot [OF same] chk show ?thesis by auto
qed

text \<open>
  C37: A replaced sound keeps its WAV slot and its string id: the slot table is unchanged, the string
  now is the new path, the old path and its asset are gone, and no other string, asset or CHK section
  has changed.
\<close>

theorem map_sound_replace_exact:
  assumes store: "length (lib_store lib) = 64"
    and ok: "map_sound_replace lib input output expected old_path destination ogg fs = (Inr report, fs')"
  shows "\<exists>bs0 bs m n assets s i.
     fs input = Some bs0 \<and> fips_sha256 bs0 = expected \<and> lib_load lib bs0 = Some m \<and> fs output = None \<and>
     fs' = fs(output := Some bs, temporary_output_path lib output := None) \<and>
     inventory_of lib bs0 = Some assets \<and> map_of assets old_path \<noteq> None \<and> map_of assets destination = None \<and>
     inventory_of lib bs = Some (map_emplace destination (fips_sha256 ogg) (map_erase old_path assets)) \<and>
     s = find_string old_path m \<and> s \<noteq> 0 \<and> sound_in lib bs destination ogg s i \<and>
     lib_load lib bs = Some n \<and> find_string old_path n = 0 \<and>
     same_strings_but {s} m n \<and> same_slots_but {} m n \<and>
     unrelated_chk_digest lib n = unrelated_chk_digest lib m"
proof -
  let ?t = "temporary_output_path lib output"
  obtain m b source report' where free: "fs output = None"
    and src: "\<exists>bs. fs input = Some bs \<and> fips_sha256 bs = expected \<and> lib_load lib bs = Some m"
    and b: "\<exists>bs. fs input = Some bs \<and> inventory_of lib bs = Some (sb_assets b)"
      "unrelated_chk_digest lib m = Inr (sb_chk b)" "sb_map b = m" "sb_strings b = snapshot_game_strings m"
      "sb_slots b = snapshot_sound_slots m"
    and source: "replace_source b old_path destination = Inr source"
    and tr: "transact lib ?t output ''replacement''
        (stage_replaced lib input ?t b old_path destination ogg (snd source) (fst source))
        (\<lambda>_. verify_replaced lib ?t b old_path destination ogg (fst source)) report' fs = (Inr report, fs')"
    using ok unfolding map_sound_replace_def Let_def io_inv open_input_Inr [OF store] observe_Inr by blast
  obtain y bs fs1 where v: "verify_replaced lib ?t b old_path destination ogg (fst source) fs1 = (Inr y, fs1)"
    and bs: "fs1 ?t = Some bs" and fs': "fs' = fs(output := Some bs, ?t := None)"
    using replacing.transact_ok [OF tr store] by blast
  have "replace_source b old_path destination = Inr (fst source, snd source)" using source by simp
  note old = replace_source_Inr [OF this]
  from verify_replaced_Inr [OF v store bs b(4, 5)] old free src b fs' show ?thesis by fastforce
qed

section \<open>Which replacements fail\<close>

lemma find_upt_first: "List.find P [0..<n] = Some k \<Longrightarrow> j < k \<Longrightarrow> \<not> P j"
  unfolding find_Some_iff by auto

lemma set_capacity_keep: "set_capacity c False m = Inr n \<Longrightarrow> n = m\<lparr>sc_strings := resize_strings c (sc_strings m)\<rparr>"
  by (auto simp: set_capacity_def Let_def insufficient_capacity_def maximum_strings_exceeded_def split: if_splits)

text \<open>A new string takes a slot that held none.\<close>

lemma place_sound_string_Inr:
  assumes "place_sound_string path m = Inr (Some (s, n, created))"
  shows "sc_sound_paths n = sc_sound_paths m \<and>
    (if find_string path m \<noteq> 0 then s = find_string path m \<and> n = m
     else length (sc_strings m) \<le> s \<or> sc_strings m ! s = None)"
proof (cases "find_string path m = 0")
  case True
  then obtain k where k: "free_string_slot m = Inr (Some (s, k))" and n: "n = k\<lparr>sc_strings := (sc_strings k)[s := Some path]\<rparr>"
    using assms by (auto simp: place_sound_string_def bindE_is_Inr)
  show ?thesis
  proof (cases "List.find (\<lambda>i. sc_strings m ! i = None) [1..<length (sc_strings m)]")
    case None
    then have "set_capacity (length (sc_strings m) + 1) False m = Inr k" "s = length (sc_strings k) - 1"
      using k by (auto simp: free_string_slot_def bindE_is_Inr split: if_split_asm)
    with set_capacity_keep [OF this(1)] n True show ?thesis by simp
  next
    case (Some i)
    then have "i = s \<and> k = m" using k by (simp add: free_string_slot_def)
    moreover have "sc_strings m ! i = None" using Some unfolding find_Some_iff by auto
    ultimately show ?thesis using n True by simp
  qed
qed (use assms in \<open>auto simp: place_sound_string_def\<close>)

lemma map_add_sound_Inr:
  assumes "map_add_sound lib path bytes m = Inr (m', Some (s, k))"
  shows "(j < total_sounds \<and> sc_sound_paths (mf_scenario m) ! j = 0 \<longrightarrow> k \<le> j) \<and>
    (if find_string path (mf_scenario m) \<noteq> 0 then s = find_string path (mf_scenario m)
     else length (sc_strings (mf_scenario m)) \<le> s \<or> sc_strings (mf_scenario m) ! s = None)"
proof -
  let ?m = "mf_scenario m"
  obtain staged where staged: "add_mpq_asset lib path bytes m = Some staged" "mf_scenario staged = ?m"
    using assms by (auto simp: map_add_sound_def add_mpq_asset_def split: if_split_asm)
  obtain place where place: "place_sound_string path ?m = Inr place"
    using assms staged by (cases "place_sound_string path ?m") (simp_all add: map_add_sound_def)
  have rest: "(case place of None \<Rightarrow> Inr (remove_mpq_asset path staged, None)
      | Some (i, sc, created) \<Rightarrow>
          if fst (add_sound i sc) = total_sounds
          then Inr (remove_mpq_asset path (staged\<lparr>mf_scenario :=
                 if created then sc\<lparr>sc_strings := (sc_strings sc)[i := None]\<rparr> else sc\<rparr>), None)
          else Inr (staged\<lparr>mf_scenario := snd (add_sound i sc)\<rparr>, Some (i, fst (add_sound i sc)))) =
        (Inr (m', Some (s, k)) :: (map_file \<times> (nat \<times> nat) option) result)"
    using assms by (simp only: map_add_sound_def Let_def option.case bindE_simps staged place)
  obtain sc created where place: "place_sound_string path ?m = Inr (Some (s, sc, created))"
    and k: "fst (add_sound s sc) = k" "k \<noteq> total_sounds"
    using place rest by (cases place) (auto split: if_split_asm)
  note keep = place_sound_string_Inr [OF place]
  have found: "List.find (\<lambda>i. sc_sound_paths ?m ! i = 0) [0..<total_sounds] = Some k"
    using k keep by (auto simp: add_sound_def split: option.split_asm)
  show ?thesis
  proof (intro conjI impI)
    assume j: "j < total_sounds \<and> sc_sound_paths ?m ! j = 0"
    show "k \<le> j"
    proof (rule ccontr)
      assume "\<not> k \<le> j"
      with find_upt_first [OF found, of j] j show False by simp
    qed
  qed (use keep in presburger)
qed

lemma game_used_set_sound [simp]:
  "string_used s UsageGame users stored (set_sound_string_id i k m) = string_used s UsageGame users stored m"
  by (auto simp: usage_defs set_sound_string_id_def string_stored_def)

lemma map_remove_sound_Inr:
  assumes "map_remove_sound i mf = Inr (mf', True)" and "mf_scenario mf = m"
  shows "i < total_sounds \<and> (let s = unat (sc_sound_paths m ! i); n = mf_scenario mf' in
    (\<forall>j < length (sc_sound_paths m). sc_sound_paths m ! j = 0 \<longrightarrow> sc_sound_paths n ! j = 0) \<and>
    (string_used s UsageGame user_all False m \<longrightarrow> sc_strings n = sc_strings m))"
proof -
  let ?s = "unat (sc_sound_paths m ! i)" and ?n = "set_sound_string_id i 0 m"
  have i: "i < total_sounds" using assms
    by (auto simp: map_remove_sound_def get_sound_string_id_def index_error_def bindE_is_Inr split: if_split_asm)
  have "mf_scenario mf' = ?n \<or> mf_scenario mf' = delete_string ?s True ?n"
    using assms i
    by (auto simp: map_remove_sound_def get_sound_string_id_def bindE_is_Inr remove_mpq_asset_def Let_def
        split: if_split_asm option.split_asm)
  moreover have "\<forall>j < length (sc_sound_paths m). sc_sound_paths m ! j = 0 \<longrightarrow> sc_sound_paths ?n ! j = 0"
    using i by (simp add: set_sound_string_id_def nth_update)
  moreover have "\<forall>j < length (sc_sound_paths m). sc_sound_paths m ! j = 0 \<longrightarrow>
      sc_sound_paths (delete_string ?s True ?n) ! j = 0"
  proof (cases "string_used ?s UsageGame user_all False m")
    case True
    then show ?thesis using calculation(2) by (simp add: delete_string_def)
  next
    case False
    then have "sc_sound_paths (delete_string ?s True ?n) = map (clear32 ?s) (sc_sound_paths ?n)"
      by (intro delete_string_fields(7)) simp
    moreover have "length (sc_sound_paths ?n) = length (sc_sound_paths m)" by (simp add: set_sound_string_id_def)
    ultimately show ?thesis using \<open>\<forall>j < _. _ \<longrightarrow> sc_sound_paths ?n ! j = 0\<close> by (simp add: clear32_def)
  qed
  moreover have "string_used ?s UsageGame user_all False m \<longrightarrow>
      sc_strings (delete_string ?s True ?n) = sc_strings m \<and> sc_strings ?n = sc_strings m"
  proof
    assume "string_used ?s UsageGame user_all False m"
    then have "delete_string ?s True ?n = ?n" by (simp add: delete_string_def)
    then show "sc_strings (delete_string ?s True ?n) = sc_strings m \<and> sc_strings ?n = sc_strings m"
      by (simp add: set_sound_string_id_def)
  qed
  ultimately show ?thesis using i by (auto simp: Let_def)
qed

lemma not_failed: "\<nexists>e. fst x = Inl e \<Longrightarrow> \<exists>r s. x = (Inr r, s)"
  by (cases x; cases "fst x") auto

lemma map_sound_replace_inv:
  assumes store: "length (lib_store lib) = 64"
    and ok: "map_sound_replace lib input output expected old_path destination ogg fs = (Inr report, fs')"
    and bs0: "fs input = Some bs0" "lib_load lib bs0 = Some m"
  shows "\<exists>i removed r. sound_slot_for_string (snapshot_sound_slots m) (find_string old_path m) = (i, 1) \<and>
     find_string old_path m \<noteq> 0 \<and> find_string destination m = 0 \<and>
     map_remove_sound i \<lparr>mf_scenario = m, mf_modified = []\<rparr> = Inr (removed, True) \<and>
     map_add_sound lib destination ogg removed = Inr (r, Some (find_string old_path m, i))"
proof -
  let ?t = "temporary_output_path lib output"
  obtain b source report' where b: "sb_map b = m" "sb_slots b = snapshot_sound_slots m"
    and source: "replace_source b old_path destination = Inr source"
    and tr: "transact lib ?t output ''replacement''
        (stage_replaced lib input ?t b old_path destination ogg (snd source) (fst source))
        (\<lambda>_. verify_replaced lib ?t b old_path destination ogg (fst source)) report' fs = (Inr report, fs')"
    using ok bs0 unfolding map_sound_replace_def Let_def io_inv open_input_Inr [OF store] observe_Inr
    by (elim conjE exE) simp
  have "replace_source b old_path destination = Inr (fst source, snd source)" using source by simp
  note old = replace_source_Inr [OF this, unfolded b]
  obtain x fs1 where "stage_replaced lib input ?t b old_path destination ogg (snd source) (fst source) (delete_file ?t fs) = (Inr x, fs1)"
    using replacing.transact_ok [OF tr store] by blast
  then obtain removed r where "map_remove_sound (snd source) \<lparr>mf_scenario = m, mf_modified = []\<rparr> = Inr removed" "snd removed"
      "map_add_sound lib destination ogg (fst removed) = Inr r" "snd r = Some (fst source, snd source)"
    unfolding stage_replaced_def Let_def io_inv b by blast
  then have "map_remove_sound (snd source) \<lparr>mf_scenario = m, mf_modified = []\<rparr> = Inr (fst removed, True)"
      "map_add_sound lib destination ogg (fst removed) = Inr (fst r, Some (fst source, snd source))"
    by (simp_all add: prod_eq_iff)
  with old show ?thesis
    by - (rule exI [where x = "snd source"], rule exI [where x = "fst removed"], rule exI [where x = "fst r"], auto)
qed

text \<open>
  C39: A sound can be replaced only in the first free slot: if an earlier WAV slot of the map is free,
  for instance after a removal, \<open>mapSoundReplace\<close> fails, because the new sound is put there.
\<close>

theorem map_sound_replace_needs_first_slot:
  assumes "length (lib_store lib) = 64" and "fs input = Some bs0" and "lib_load lib bs0 = Some m"
    and "arrays_ok m" and "i < total_sounds" and "unat (sc_sound_paths m ! i) = find_string old_path m"
    and "j < i" and "sc_sound_paths m ! j = 0"
  shows "\<exists>e. fst (map_sound_replace lib input output expected old_path destination ogg fs) = Inl e"
proof (rule ccontr)
  assume "\<not> ?thesis"
  from not_failed [OF this]
  obtain report fs' where ok: "map_sound_replace lib input output expected old_path destination ogg fs = (Inr report, fs')"
    by blast
  obtain i' removed r where slot: "sound_slot_for_string (snapshot_sound_slots m) (find_string old_path m) = (i', 1)"
    and removed: "map_remove_sound i' \<lparr>mf_scenario = m, mf_modified = []\<rparr> = Inr (removed, True)"
    and added: "map_add_sound lib destination ogg removed = Inr (r, Some (find_string old_path m, i'))"
    using map_sound_replace_inv [OF assms(1) ok assms(2, 3)] by blast
  have "i \<in> {j. j < total_sounds \<and> unat (sc_sound_paths m ! j) = find_string old_path m}"
    using assms(5, 6) by (intro CollectI conjI)
  then have "i' = i" unfolding unique_slot [OF slot] by simp
  moreover have "length (sc_sound_paths m) = total_sounds" using assms(4) by (simp add: arrays_ok_def)
  then have "sc_sound_paths (mf_scenario removed) ! j = 0"
    using map_remove_sound_Inr [OF removed] assms(5, 7, 8) by (simp add: Let_def)
  then have "i' \<le> j" using map_add_sound_Inr [OF added, of j] assms(5, 7) by simp
  ultimately show False using assms(7) by simp
qed

text \<open>
  C40: A sound whose path string a trigger or any other part of the game data uses cannot be replaced:
  the string is then not deleted, its id is not free, and \<open>mapSoundReplace\<close> fails.
\<close>

theorem map_sound_replace_needs_unused:
  assumes "length (lib_store lib) = 64" and "fs input = Some bs0" and "lib_load lib bs0 = Some m"
    and "string_used (find_string old_path m) UsageGame user_all False m"
  shows "\<exists>e. fst (map_sound_replace lib input output expected old_path destination ogg fs) = Inl e"
proof (rule ccontr)
  assume "\<not> ?thesis"
  from not_failed [OF this]
  obtain report fs' where ok: "map_sound_replace lib input output expected old_path destination ogg fs = (Inr report, fs')"
    by blast
  obtain i removed r where slot: "sound_slot_for_string (snapshot_sound_slots m) (find_string old_path m) = (i, 1)"
    and removed: "map_remove_sound i \<lparr>mf_scenario = m, mf_modified = []\<rparr> = Inr (removed, True)"
    and added: "map_add_sound lib destination ogg removed = Inr (r, Some (find_string old_path m, i))"
    and found: "find_string old_path m \<noteq> 0" and fresh: "find_string destination m = 0"
    using map_sound_replace_inv [OF assms(1) ok assms(2, 3)] by blast
  have "unat (sc_sound_paths m ! i) = find_string old_path m" using unique_slot [OF slot] by auto
  then have same: "sc_strings (mf_scenario removed) = sc_strings m"
    using map_remove_sound_Inr [OF removed] assms(4) by (simp add: Let_def)
  have "find_string destination (mf_scenario removed) = 0"
    using fresh same by (simp add: find_string_def)
  then have "length (sc_strings m) \<le> find_string old_path m \<or> sc_strings m ! find_string old_path m = None"
    using map_add_sound_Inr [OF added] same by auto
  with find_string_nonzero [OF refl found] show False by (auto simp: get_string_def)
qed

section \<open>Removing\<close>

definition removable :: "sound_before \<Rightarrow> u16 \<Rightarrow> remove_item \<Rightarrow> bool" where
  "removable b w item \<longleftrightarrow>
     ri_index item = unat w \<and> unat w < total_sounds \<and> ri_string_id item = unat (sb_slots b ! unat w) \<and>
     ri_string_id item \<noteq> 0 \<and> get_string (ri_string_id item) (sb_map b) = Some (ri_path item) \<and>
     ri_key item = lower_ascii (ri_path item) \<and>
     \<not> string_used (ri_string_id item) UsageEither other_users False (sb_map b)"

lemma check_removal_Inr: "check_removal b indexes seen w = Inr item \<Longrightarrow> removable b w item \<and> unat w \<notin> set seen"
  by (auto simp: check_removal_def Let_def removable_def split: if_split_asm)

lemma check_removals_Inr:
  "check_removals b indexes seen ws = Inr items \<Longrightarrow>
     list_all2 (removable b) ws items \<and> distinct ws \<and> (\<forall>w \<in> set ws. unat w \<notin> set seen)"
proof (induction b indexes seen ws arbitrary: items rule: check_removals.induct)
  case (2 b indexes seen w ws)
  then obtain item rest where item: "check_removal b indexes seen w = Inr item"
    and rest: "check_removals b indexes (unat w # seen) ws = Inr rest" and items: "items = item # rest"
    by (auto simp: bindE_is_Inr)
  show ?case using check_removal_Inr [OF item] "2.IH" [OF item rest] items by auto
qed simp

lemma remaining_slots_nth:
  "j < length slots \<Longrightarrow> fold (\<lambda>item slots. slots[ri_index item := 0]) items slots ! j =
     (if j \<in> ri_index ` set items then 0 else slots ! j)"
  by (induction items arbitrary: slots) (auto simp: nth_update)

lemma remaining_assets_of:
  "map_of (remaining_assets b items) k = (if k \<in> ri_key ` set items then None else map_of (sb_assets b) k)"
proof -
  have "map_of (fold (\<lambda>item assets. if map_of (sb_assets b) (ri_key item) \<noteq> None then map_erase (ri_key item) assets
        else assets) items assets) k =
      (if k \<in> ri_key ` set items \<and> map_of (sb_assets b) k \<noteq> None then None else map_of assets k)" for assets
    by (induction items arbitrary: assets) (auto simp: map_of_erase)
  then have "map_of (remaining_assets b items) k =
      (if k \<in> ri_key ` set items \<and> map_of (sb_assets b) k \<noteq> None then None else map_of (sb_assets b) k)"
    unfolding remaining_assets_def .
  then show ?thesis by auto
qed

lemma foldE_unit: "foldE (\<lambda>_. f) () xs = Inr () \<longleftrightarrow> (\<forall>x \<in> set xs. f x = Inr ())"
  by (induction xs) (auto simp: bindE_is_Inr)

lemma verify_removed_strings_Inr:
  assumes "verify_removed_strings stage ids (snapshot_game_strings m) n = Inr ()" and "k < length (sc_strings m)"
  shows "if k \<in> set ids then get_string k n \<in> {None, Some []} else get_string k n = get_string k m"
proof -
  have "verify_removed_string stage ids (snapshot_game_strings m) n k = Inr ()"
    using assms by (simp add: verify_removed_strings_def foldE_unit)
  then show ?thesis
    using assms(2) by (auto simp: verify_removed_string_def Let_def get_string_def split: if_split_asm)
qed

lemma verify_removed_Inr:
  assumes v: "verify_removed lib t b items fs = (Inr r, fs')" and t: "fs t = Some bs"
    and b: "sb_strings b = snapshot_game_strings m" "sb_slots b = snapshot_sound_slots m"
  shows "inventory_of lib bs = Some (remaining_assets b items) \<and> (\<exists>n. lib_load lib bs = Some n \<and>
    (\<forall>j < total_sounds. sc_sound_paths n ! j = (if j \<in> ri_index ` set items then 0 else sc_sound_paths m ! j)) \<and>
    (\<forall>k < length (sc_strings m). if k \<in> ri_string_id ` set items then get_string k n \<in> {None, Some []}
       else get_string k n = get_string k m) \<and>
    unrelated_chk_digest lib n = Inr (sb_chk b))"
proof -
  obtain n where n: "lib_load lib bs = Some n" and inv: "inventory_of lib bs = Some (remaining_assets b items)"
    and slots: "snapshot_sound_slots n = remaining_slots b items"
    and strings: "verify_removed_strings ''saved'' (map ri_string_id items) (snapshot_game_strings m) n = Inr ()"
    and chk: "unrelated_chk_digest lib n = Inr (sb_chk b)"
    using v t b by (auto simp: verify_removed_def io_inv)
  have "sc_sound_paths n ! j = (if j \<in> ri_index ` set items then 0 else sc_sound_paths m ! j)" if "j < total_sounds" for j
  proof -
    have "sc_sound_paths n ! j = remaining_slots b items ! j" using slots that by (metis snapshot_slots_simps(2))
    then show ?thesis using that by (simp add: remaining_slots_def remaining_slots_nth b(2))
  qed
  moreover have "\<forall>k < length (sc_strings m). if k \<in> ri_string_id ` set items then get_string k n \<in> {None, Some []}
       else get_string k n = get_string k m"
    using verify_removed_strings_Inr [OF strings] by (simp only: list.set_map) blast
  ultimately show ?thesis using n inv chk by blast
qed

text \<open>
  C38: A removal takes out what was asked and nothing else: the given WAV slots, all registered and with
  strings nothing else uses, are free, their strings empty, the assets they name gone; every other
  slot, string, asset and CHK section is as it was.
\<close>

theorem map_sound_remove_exact:
  assumes store: "length (lib_store lib) = 64"
    and ok: "map_sound_remove lib input output expected indexes fs = (Inr report, fs')"
  shows "\<exists>bs0 bs m n assets assets'.
     fs input = Some bs0 \<and> fips_sha256 bs0 = expected \<and> lib_load lib bs0 = Some m \<and> fs output = None \<and>
     fs' = fs(output := Some bs, temporary_output_path lib output := None) \<and> distinct indexes \<and>
     (\<forall>w \<in> set indexes. unat w < total_sounds \<and> sc_sound_paths m ! unat w \<noteq> 0 \<and>
        get_string (unat (sc_sound_paths m ! unat w)) m \<noteq> None \<and>
        \<not> string_used (unat (sc_sound_paths m ! unat w)) UsageEither other_users False m) \<and>
     inventory_of lib bs0 = Some assets \<and> inventory_of lib bs = Some assets' \<and>
     (\<forall>k. map_of assets' k =
        (if \<exists>w \<in> set indexes. map_option lower_ascii (get_string (unat (sc_sound_paths m ! unat w)) m) = Some k
         then None else map_of assets k)) \<and>
     lib_load lib bs = Some n \<and>
     (\<forall>j < total_sounds. sc_sound_paths n ! j = (if j \<in> unat ` set indexes then 0 else sc_sound_paths m ! j)) \<and>
     (\<forall>k < length (sc_strings m).
        if k \<in> (\<lambda>w. unat (sc_sound_paths m ! unat w)) ` set indexes then get_string k n \<in> {None, Some []}
        else get_string k n = get_string k m) \<and>
     unrelated_chk_digest lib n = unrelated_chk_digest lib m"
proof -
  let ?t = "temporary_output_path lib output"
  obtain m b items report' where free: "fs output = None"
    and src: "\<exists>bs. fs input = Some bs \<and> fips_sha256 bs = expected \<and> lib_load lib bs = Some m"
    and b: "\<exists>bs. fs input = Some bs \<and> inventory_of lib bs = Some (sb_assets b)"
      "unrelated_chk_digest lib m = Inr (sb_chk b)" "sb_map b = m" "sb_strings b = snapshot_game_strings m"
      "sb_slots b = snapshot_sound_slots m"
    and items: "check_removals b indexes [] indexes = Inr items"
    and tr: "transact lib ?t output ''removal'' (stage_removed lib input ?t b items)
        (\<lambda>_. verify_removed lib ?t b items) report' fs = (Inr report, fs')"
    using ok unfolding map_sound_remove_def Let_def io_inv open_input_Inr [OF store] observe_Inr by blast
  obtain y bs fs1 where v: "verify_removed lib ?t b items fs1 = (Inr y, fs1)"
    and bs: "fs1 ?t = Some bs" and fs': "fs' = fs(output := Some bs, ?t := None)"
    using removing.transact_ok [OF tr store] by blast
  have all: "list_all2 (removable b) indexes items" and dist: "distinct indexes"
    using check_removals_Inr [OF items] by simp_all
  have each: "\<exists>item \<in> set items. removable b w item" if "w \<in> set indexes" for w
    using all that by (metis in_set_conv_nth list_all2_conv_all_nth)
  have conv: "\<exists>w \<in> set indexes. removable b w item" if "item \<in> set items" for item
    using all that by (metis in_set_conv_nth list_all2_conv_all_nth)
  have fact: "unat w < total_sounds \<and> ri_index item = unat w \<and> sc_sound_paths m ! unat w \<noteq> 0 \<and>
      ri_string_id item = unat (sc_sound_paths m ! unat w) \<and>
      map_option lower_ascii (get_string (unat (sc_sound_paths m ! unat w)) m) = Some (ri_key item) \<and>
      \<not> string_used (unat (sc_sound_paths m ! unat w)) UsageEither other_users False m"
    if "removable b w item" for w item
    using that b(3, 5) by (auto simp: removable_def)
  have idx: "ri_index ` set items = unat ` set indexes"
    using each conv by (force simp: removable_def)
  have ids: "ri_string_id ` set items = (\<lambda>w. unat (sc_sound_paths m ! unat w)) ` set indexes"
    using each conv b(5) by (force simp: removable_def)
  have keys: "k \<in> ri_key ` set items \<longleftrightarrow>
      (\<exists>w \<in> set indexes. map_option lower_ascii (get_string (unat (sc_sound_paths m ! unat w)) m) = Some k)" for k
  proof
    assume "k \<in> ri_key ` set items"
    then obtain item where item: "k = ri_key item" "item \<in> set items" by (rule imageE)
    from conv [OF item(2)] obtain w where w: "w \<in> set indexes" "removable b w item" ..
    from fact [OF w(2)] w(1) item(1)
    show "\<exists>w \<in> set indexes. map_option lower_ascii (get_string (unat (sc_sound_paths m ! unat w)) m) = Some k"
      by (intro bexI [of _ w]) simp_all
  next
    assume "\<exists>w \<in> set indexes. map_option lower_ascii (get_string (unat (sc_sound_paths m ! unat w)) m) = Some k"
    then obtain w where w: "w \<in> set indexes" and k: "map_option lower_ascii (get_string (unat (sc_sound_paths m ! unat w)) m) = Some k" ..
    from each [OF w] obtain item where item: "item \<in> set items" "removable b w item" ..
    from fact [OF item(2)] k have "k = ri_key item" by simp
    with item(1) show "k \<in> ri_key ` set items" by simp
  qed
  have ok: "\<forall>w \<in> set indexes. unat w < total_sounds \<and> sc_sound_paths m ! unat w \<noteq> 0 \<and>
        get_string (unat (sc_sound_paths m ! unat w)) m \<noteq> None \<and>
        \<not> string_used (unat (sc_sound_paths m ! unat w)) UsageEither other_users False m"
  proof
    fix w assume "w \<in> set indexes"
    from each [OF this] obtain item where "removable b w item" by blast
    from fact [OF this] show "unat w < total_sounds \<and> sc_sound_paths m ! unat w \<noteq> 0 \<and>
        get_string (unat (sc_sound_paths m ! unat w)) m \<noteq> None \<and>
        \<not> string_used (unat (sc_sound_paths m ! unat w)) UsageEither other_users False m"
      by auto
  qed
  from verify_removed_Inr [OF v bs b(4, 5)] obtain n where
    "inventory_of lib bs = Some (remaining_assets b items)" "lib_load lib bs = Some n"
    "\<forall>j < total_sounds. sc_sound_paths n ! j = (if j \<in> unat ` set indexes then 0 else sc_sound_paths m ! j)"
    "\<forall>k < length (sc_strings m).
        if k \<in> (\<lambda>w. unat (sc_sound_paths m ! unat w)) ` set indexes then get_string k n \<in> {None, Some []}
        else get_string k n = get_string k m"
    and "unrelated_chk_digest lib n = unrelated_chk_digest lib m"
    unfolding idx ids b(2) by blast
  moreover have "\<forall>k. map_of (remaining_assets b items) k =
      (if \<exists>w \<in> set indexes. map_option lower_ascii (get_string (unat (sc_sound_paths m ! unat w)) m) = Some k
       then None else map_of (sb_assets b) k)"
    unfolding remaining_assets_of keys by simp
  moreover obtain bs0 where "fs input = Some bs0" "fips_sha256 bs0 = expected" "lib_load lib bs0 = Some m"
    "inventory_of lib bs0 = Some (sb_assets b)"
    using src b(1) by auto
  ultimately show ?thesis using free fs' dist ok by blast
qed

end
