(* ===== verification/AgentSoundWitness.thy ===== *)
theory AgentSoundWitness
  imports AgentSoundProps
begin

text \<open>
  Concrete runs of the sound operations on a small archive library: a map is one byte, which names the
  scenario and the archive entries it holds; saving writes the byte 1.
\<close>

definition demo_path :: string where
  "demo_path = managed_prefix @ ''0123456789abcdef.ogg''"

definition demo_old_path :: string where
  "demo_old_path = managed_prefix @ ''fedcba9876543210.ogg''"

definition demo_lib :: "(u8 \<Rightarrow> scenario option) \<Rightarrow> (u8 \<Rightarrow> (string \<times> u8 list) list) \<Rightarrow> archive_lib" where
  "demo_lib maps assets =
     \<lparr>lib_load = (\<lambda>bs. maps (hd bs)),
      lib_entries = (\<lambda>bs. Some (map (\<lambda>(name, data). (name, AssetBytes data)) (assets (hd bs)))),
      lib_open_asset = (\<lambda>bs name. case map_of (assets (hd bs)) name of None \<Rightarrow> AssetUnopened | Some d \<Rightarrow> AssetBytes d),
      lib_asset = (\<lambda>bs name. map_of (assets (hd bs)) name),
      lib_save = (\<lambda>_ _. (True, Some [1])), lib_serialize = (\<lambda>_. replicate 12 0), lib_stage_asset = (\<lambda>_ _. True),
      lib_read = (\<lambda>_ _. ReadWhole),
      lib_replace_ok = True, lib_copy_ok = True, lib_temp_suffix = ''1-1'', lib_junk = (\<lambda>_. 0),
      lib_store = replicate 64 0\<rparr>"

definition demo_files :: file_system where
  "demo_files = [''in.scx'' \<mapsto> [0]]"

lemma demo_lib_simps [simp]:
  "lib_load (demo_lib maps assets) bs = maps (hd bs)"
  "lib_entries (demo_lib maps assets) bs = Some (map (\<lambda>(name, data). (name, AssetBytes data)) (assets (hd bs)))"
  "lib_asset (demo_lib maps assets) bs name = map_of (assets (hd bs)) name"
  "lib_save (demo_lib maps assets) bs m = (True, Some [1])"
  "lib_serialize (demo_lib maps assets) sc = replicate 12 0"
  "lib_stage_asset (demo_lib maps assets) name bs"
  "lib_replace_ok (demo_lib maps assets)" "lib_copy_ok (demo_lib maps assets)"
  "length (lib_store (demo_lib maps assets)) = 64" "lib_read (demo_lib maps assets) path bs = ReadWhole"
  by (simp_all add: demo_lib_def)

lemma demo_paths:
  "valid_managed_sound_path demo_path" "valid_managed_sound_path demo_old_path"
  "lower_ascii demo_old_path \<noteq> lower_ascii demo_path" "demo_old_path \<noteq> demo_path" "demo_path \<noteq> demo_old_path" "demo_path \<noteq> []"
  "valid_map_container_path ''in.scx''" "valid_map_container_path ''out.scx''"
  "lower_ascii ''in.scx'' \<noteq> lower_ascii ''out.scx''" "length ogg_magic = 4" "ogg_magic \<noteq> []"
  "c_string demo_path = demo_path" "c_string demo_old_path = demo_old_path"
  by code_simp+

lemma demo_names:
  "lower_ascii demo_path = demo_path" "lower_ascii demo_old_path = demo_old_path"
  "\<not> ignored_mpq_asset demo_path" "\<not> ignored_mpq_asset demo_old_path"
  by code_simp+

lemma demo_temporary [simp]:
  "temporary_output_path lib ''out.scx'' \<noteq> ''out.scx''" "temporary_output_path lib ''out.scx'' \<noteq> ''in.scx''"
  by (simp_all add: temporary_output_path_def)

lemma demo_old_nonempty: "demo_old_path \<noteq> []"
  by code_simp

lemma hex_nibble_lower:
  "d < 16 \<Longrightarrow> in_range CHR ''0'' CHR ''9'' (hex_nibble d) \<or> in_range CHR ''a'' CHR ''f'' (hex_nibble d)"
proof -
  have "\<forall>d \<in> set [0..<16]. in_range CHR ''0'' CHR ''9'' (hex_nibble d) \<or> in_range CHR ''a'' CHR ''f'' (hex_nibble d)"
    by code_simp
  then show "d < 16 \<Longrightarrow> in_range CHR ''0'' CHR ''9'' (hex_nibble d) \<or> in_range CHR ''a'' CHR ''f'' (hex_nibble d)"
    by simp
qed

lemma hex_string_lower: "exact_lower_hex (hex_string bs) (2 * length bs)"
proof -
  show ?thesis
    by (induction bs) (auto simp: hex_string_def exact_lower_hex_def hex_nibble_lower unat_nibble)
qed

lemma fips_sha256_lower [simp]: "exact_lower_hex (fips_sha256 m) 64"
proof -
  have "length (hash_bytes h) = 32" for h
    by (auto simp: hash_bytes_def word_bytes_def split: prod.split)
  then show ?thesis using hex_string_lower [of "hash_bytes (fips_fold initial_hash (fips_pad m))"]
    by (simp add: fips_sha256_def)
qed

lemma demo_digest_nonempty: "fips_sha256 m \<noteq> []"
  using fips_sha256_lower [of m] by (auto simp: exact_lower_hex_def)

section \<open>Evaluation\<close>

lemma demo_sha256 [simp]:
  "fs path = Some bs \<Longrightarrow> file_sha256 (demo_lib maps assets) path fs = (Inr (fips_sha256 bs), fs)"
  "lib_sha256 (demo_lib maps assets) bs = fips_sha256 bs"
  by (simp_all add: file_sha256_def io_get_def read_file_digest lib_sha256_fips opened_file_def)

definition demo_chk :: string where
  "demo_chk = fst (get_hash (\<lambda>_. 0) (new_sha (replicate 64 0)))"

lemma demo_unrelated [simp]: "unrelated_chk_digest (demo_lib maps assets) m = Inr demo_chk"
  by (simp add: unrelated_chk_digest_def chk_header_bytes_def unrelated_chunks.simps demo_lib_def demo_chk_def)

lemma find_first: "0 < n \<Longrightarrow> P 0 \<Longrightarrow> List.find P [0..<n] = Some 0"
  by (simp add: upt_conv_Cons)

lemma snapshot_demo: "length (sc_sound_paths m) = total_sounds \<Longrightarrow> snapshot_sound_slots m = sc_sound_paths m"
  by (simp add: snapshot_sound_slots_def list_eq_iff_nth_eq)

definition demo_map :: "string option list \<Rightarrow> u32 \<Rightarrow> scenario" where
  "demo_map strings slot = blank_scenario\<lparr>sc_strings := strings, sc_sound_paths := slot # replicate 511 0\<rparr>"

lemma demo_map_simps [simp]:
  "sc_strings (demo_map strings slot) = strings"
  "sc_sound_paths (demo_map strings slot) = slot # replicate 511 0"
  "demo_map strings slot\<lparr>sc_sound_paths := w # replicate 511 0\<rparr> = demo_map strings w"
  "demo_map strings slot\<lparr>sc_strings := ss\<rparr> = demo_map ss slot"
  by (simp_all add: demo_map_def)

lemma demo_snapshots [simp]:
  "snapshot_sound_slots (demo_map strings slot) = slot # replicate 511 0"
  "snapshot_game_strings (demo_map strings slot) = map (map_option c_string) strings"
proof -
  show "snapshot_sound_slots (demo_map strings slot) = slot # replicate 511 0"
    by (subst snapshot_demo) (simp_all add: total_sounds_def)
  show "snapshot_game_strings (demo_map strings slot) = map (map_option c_string) strings"
    by (rule nth_equalityI) (simp_all add: get_string_def)
qed

lemma demo_slot [simp]:
  "sound_slot_for_string (1 # replicate 511 0) (Suc 0) = (0, Suc 0)"
  "first_free_sound_slot (0 # replicate 511 0) = 0"
  by (simp_all add: sound_slot_for_string_def first_free_sound_slot_def find_first)

lemma demo_find [simp]:
  "find_string demo_path (demo_map [None, None] slot) = 0"
  "find_string demo_path (demo_map [None, Some demo_path] slot) = 1"
  by (simp_all add: find_string_def slot_equal_def str_equal_def upt_rec)

lemma demo_inventory [simp]:
  "fs path = Some bs \<Longrightarrow> assets (hd bs) = [] \<Longrightarrow> inventory_mpq (demo_lib maps assets) path fs = (Inr [], fs)"
  "fs path = Some bs \<Longrightarrow> assets (hd bs) = [(demo_path, data)] \<Longrightarrow>
     inventory_mpq (demo_lib maps assets) path fs = (Inr [(demo_path, fips_sha256 data)], fs)"
  by (simp_all add: inventory_mpq_def io_get_def demo_names)

lemmas io_defs = io_bind_def io_check_def io_return_def io_get_def io_set_def io_guard_def

definition demo_add_lib :: archive_lib where
  "demo_add_lib = demo_lib (\<lambda>b. Some (if b = 0 then demo_map [None, None] 0 else demo_map [None, Some demo_path] 1))
     (\<lambda>b. if b = 0 then [] else [(demo_path, ogg_magic)])"

lemma demo_map_add:
  "map_add_sound (demo_lib maps assets) demo_path bytes \<lparr>mf_scenario = demo_map [None, None] 0, mf_modified = []\<rparr> =
     Inr (\<lparr>mf_scenario = demo_map [None, Some demo_path] 1,
            mf_modified = [\<lparr>ac_path = demo_path, ac_bytes = Some bytes\<rparr>]\<rparr>, Some (1, 0))"
  by (simp add: map_add_sound_def add_mpq_asset_def place_sound_string_def free_string_slot_def
      upt_rec add_sound_def find_first total_sounds_def)

lemma demo_verify [simp]:
  "verify_sound_slots (0 # replicate 511 0) (1 # replicate 511 0) 0 (Suc 0) False = Inr ()"
  "verify_existing_game_strings [None, None] (demo_map [None, Some demo_path] slot) (Suc 0) = Inr ()"
  by (auto simp: verify_sound_slots_def verify_existing_game_strings_def get_string_def nth_Cons' less_Suc_eq)

lemma demo_stage_added:
  assumes "sb_map b = demo_map [None, None] 0" "sb_slots b = 0 # replicate 511 0" "sb_strings b = [None, None]"
    "sb_chk b = demo_chk" "fs input = Some bs0"
  shows "stage_added (demo_lib maps assets) input t b demo_path bytes fs = (Inr (0, 1), fs(t \<mapsto> [1]))"
  using assms
  by (simp add: stage_added_def io_defs demo_map_add save_staged_def total_sounds_def Let_def)

lemma demo_verify_added:
  assumes "sb_assets b = []" "sb_slots b = 0 # replicate 511 0" "sb_strings b = [None, None]"
    "sb_chk b = demo_chk" "fs t = Some [1]"
  shows "verify_added demo_add_lib t b demo_path ogg_magic False 0 1 fs =
    (Inr ([(demo_path, fips_sha256 ogg_magic)], demo_chk), fs)"
  using assms
  by (simp add: verify_added_def io_defs load_map_def reopened_asset_def Let_def map_emplace_def demo_add_lib_def)

lemma demo_observe:
  "fs input = Some [0] \<Longrightarrow> assets 0 = [] \<Longrightarrow> observe (demo_lib maps assets) input m fs =
     (Inr \<lparr>sb_map = m, sb_assets = [], sb_strings = snapshot_game_strings m,
        sb_slots = snapshot_sound_slots m, sb_chk = demo_chk\<rparr>, fs)"
  by (simp add: observe_def io_defs)

lemma demo_open:
  "fs input = Some [0] \<Longrightarrow> maps 0 = Some m \<Longrightarrow> open_input (demo_lib maps assets) input (fips_sha256 [0]) message fs = (Inr m, fs)"
  by (simp add: open_input_def io_defs load_map_def)

lemma demo_promote:
  assumes "fs t = Some bs" "t \<noteq> output"
  shows "promote (demo_lib maps assets) t output what fs = (Inr (fips_sha256 bs), fs(output := Some bs, t := None))"
  using assms by (simp add: promote_def io_defs replace_file_def)

lemmas demo_run = io_defs check_paths_def demo_paths check_output_free_def file_exists_def demo_files_def demo_open
  demo_observe demo_promote transact_def Let_def delete_file_def

lemma demo_sound_added:
  "\<exists>report fs'. map_sound_add demo_add_lib ''in.scx'' ''out.scx'' (fips_sha256 [0]) demo_path ogg_magic demo_files =
     (Inr report, fs')"
  by (simp add: demo_add_lib_def map_sound_add_def demo_run reuse_state_def demo_stage_added max_managed_ogg_bytes_def
      demo_verify_added [unfolded One_nat_def demo_add_lib_def])

lemma map_sound_add_exact_witness:
  "\<exists>fs' bs n s i. fs' = demo_files(''out.scx'' \<mapsto> bs, temporary_output_path demo_add_lib ''out.scx'' := None) \<and>
     sound_in demo_add_lib bs demo_path ogg_magic s i \<and> lib_load demo_add_lib bs = Some n \<and>
     same_slots_but {i} (demo_map [None, None] 0) n \<and> keeps_slots (demo_map [None, None] 0) n \<and>
     keeps_strings (demo_map [None, None] 0) n"
proof -
  obtain report fs' where run: "map_sound_add demo_add_lib ''in.scx'' ''out.scx'' (fips_sha256 [0]) demo_path ogg_magic
      demo_files = (Inr report, fs')"
    using demo_sound_added by blast
  have "length (lib_store demo_add_lib) = 64" by (simp add: demo_add_lib_def)
  from map_sound_add_exact [OF this run] show ?thesis
    by (fastforce simp: demo_files_def demo_add_lib_def)
qed

text \<open>The saved map does not load: the addition fails after the temporary file has been written.\<close>

definition demo_broken_lib :: archive_lib where
  "demo_broken_lib = demo_lib (\<lambda>b. if b = 0 then Some (demo_map [None, None] 0) else None) (\<lambda>_. [])"

lemma demo_sound_fails:
  "\<exists>e fs'. map_sound_add demo_broken_lib ''in.scx'' ''out.scx'' (fips_sha256 [0]) demo_path ogg_magic demo_files = (Inl e, fs')"
  by (simp add: demo_broken_lib_def map_sound_add_def demo_run reuse_state_def demo_stage_added
      max_managed_ogg_bytes_def verify_added_def load_map_def)

lemma sound_failure_leaves_no_trace_witness:
  "snd (map_sound_add demo_broken_lib ''in.scx'' ''out.scx'' (fips_sha256 [0]) demo_path ogg_magic demo_files) ''out.scx'' = None \<and>
   snd (map_sound_add demo_broken_lib ''in.scx'' ''out.scx'' (fips_sha256 [0]) demo_path ogg_magic demo_files) ''in.scx'' = Some [0]"
proof -
  obtain e fs' where run: "map_sound_add demo_broken_lib ''in.scx'' ''out.scx'' (fips_sha256 [0]) demo_path ogg_magic
      demo_files = (Inl e, fs')"
    using demo_sound_fails by blast
  have "fs' = demo_files \<or> fs' = demo_files(temporary_output_path demo_broken_lib ''out.scx'' := None)"
    using sound_failure_leaves_no_trace [OF insertI1 run] .
  with run show ?thesis by (auto simp: demo_files_def)
qed

section \<open>A batch\<close>

lemma demo_limits: "\<not> max_managed_ogg_bytes < 4" "\<not> max_sound_batch_bytes < 4"
  by (simp_all add: max_managed_ogg_bytes_def max_sound_batch_bytes_def)

lemma demo_batch_items:
  "batch_items (demo_lib maps assets) 0 [] 0 [(demo_path, ogg_magic)] =
     Inr [\<lparr>bi_destination = demo_path, bi_ogg = ogg_magic, bi_hash = fips_sha256 ogg_magic, bi_reused = False,
           bi_index = total_sounds, bi_string_id = 0\<rparr>]"
  by (simp add: demo_paths demo_limits)

definition demo_item :: "nat \<Rightarrow> nat \<Rightarrow> batch_item" where
  "demo_item i k = \<lparr>bi_destination = demo_path, bi_ogg = ogg_magic, bi_hash = fips_sha256 ogg_magic, bi_reused = False,
     bi_index = i, bi_string_id = k\<rparr>"

lemma demo_item_simps [simp]:
  "bi_destination (demo_item i k) = demo_path" "bi_ogg (demo_item i k) = ogg_magic"
  "bi_hash (demo_item i k) = fips_sha256 ogg_magic" "\<not> bi_reused (demo_item i k)"
  "bi_index (demo_item i k) = i" "bi_string_id (demo_item i k) = k"
  "demo_item i k\<lparr>bi_index := i', bi_string_id := k'\<rparr> = demo_item i' k'"
  by (simp_all add: demo_item_def)

definition demo_before :: sound_before where
  "demo_before = \<lparr>sb_map = demo_map [None, None] 0, sb_assets = [], sb_strings = [None, None],
     sb_slots = 0 # replicate 511 0, sb_chk = demo_chk\<rparr>"

definition demo_batch_end :: batch_state where
  "demo_batch_end = \<lparr>bs_map = \<lparr>mf_scenario = demo_map [None, Some demo_path] 1,
       mf_modified = [\<lparr>ac_path = demo_path, ac_bytes = Some ogg_magic\<rparr>]\<rparr>,
     bs_ids = [1], bs_slots = 1 # replicate 511 0\<rparr>"

lemma demo_add_item:
  "add_item (demo_lib maps assets) \<lparr>bs_map = \<lparr>mf_scenario = demo_map [None, None] 0, mf_modified = []\<rparr>,
      bs_ids = [], bs_slots = 0 # replicate 511 0\<rparr> (demo_item i k) =
    Inr (demo_batch_end, demo_item 0 1)"
  by (simp add: add_item_def demo_map_add total_sounds_def demo_batch_end_def)

lemma demo_stage_batch:
  assumes "fs input = Some [0]"
  shows "stage_batch (demo_lib maps assets) input t demo_before [demo_item i k] fs =
    (Inr (demo_batch_end, [demo_item 0 1]), fs(t \<mapsto> [1]))"
  using assms
  by (simp add: stage_batch_def demo_before_def added_items_def io_defs demo_add_item save_staged_def)
    (simp add: demo_batch_end_def)

lemma demo_batch_strings [simp]:
  "verify_batch_strings [None, None] [Suc 0] (demo_map [None, Some demo_path] slot) = Inr ()"
  by (auto simp: verify_batch_strings_def get_string_def nth_Cons' less_Suc_eq)

lemma demo_verify_batch:
  assumes "fs t = Some [1]"
  shows "\<exists>r. verify_batch demo_add_lib t demo_before (demo_batch_end) [demo_item 0 1] fs = (Inr r, fs)"
  using assms
  by (simp add: verify_batch_def demo_before_def demo_batch_end_def io_defs load_map_def reopened_asset_def
      Let_def expected_batch_assets_def map_emplace_def unrelated_batch_assets_def map_erase_def demo_add_lib_def)

lemma demo_plan:
  "plan_item demo_before (demo_item i k) = Inr (demo_item i k)"
  by (simp add: plan_item_def reuse_state_def demo_before_def)

lemma demo_batch_added:
  "\<exists>report fs'. map_sound_add_batch demo_add_lib ''in.scx'' ''out.scx'' (fips_sha256 [0]) [(demo_path, ogg_magic)] demo_files =
     (Inr report, fs')"
proof -
  let ?fs = "demo_files(temporary_output_path demo_add_lib ''out.scx'' \<mapsto> [1])"
  obtain r where v: "verify_batch demo_add_lib (temporary_output_path demo_add_lib ''out.scx'') demo_before demo_batch_end
      [demo_item 0 1] ?fs = (Inr r, ?fs)"
    using demo_verify_batch [of ?fs "temporary_output_path demo_add_lib ''out.scx''"] by auto
  have before: "\<lparr>sb_map = demo_map [None, None] 0, sb_assets = [], sb_strings = [None, None],
      sb_slots = 0 # replicate 511 0, sb_chk = demo_chk\<rparr> = demo_before"
    by (simp add: demo_before_def)
  have free: "free_slots (sb_slots demo_before) = 512"
    by (simp add: demo_before_def free_slots_def)
  show ?thesis
    using v
    by (simp add: demo_add_lib_def map_sound_add_batch_def demo_run max_sound_batch_items_def demo_batch_items
        demo_item_def [symmetric] before demo_plan free added_items_def demo_stage_batch fun_upd_twist
        demo_before_def [symmetric] fun_upd_idem_iff demo_limits)
qed

lemma map_sound_add_batch_exact_witness:
  "\<exists>bs s i m n. sound_in demo_add_lib bs demo_path ogg_magic s i \<and>
     inventory_of demo_add_lib bs = Some [(demo_path, fips_sha256 ogg_magic)] \<and>
     lib_load demo_add_lib [0] = Some m \<and> lib_load demo_add_lib bs = Some n \<and> keeps_slots m n \<and> keeps_strings m n"
proof -
  obtain report fs' where run: "map_sound_add_batch demo_add_lib ''in.scx'' ''out.scx'' (fips_sha256 [0])
      [(demo_path, ogg_magic)] demo_files = (Inr report, fs')"
    using demo_batch_added by blast
  have "length (lib_store demo_add_lib) = 64" by (simp add: demo_add_lib_def)
  from map_sound_add_batch_exact [OF this run] obtain bs0 bs m n assets where
      "lib_load demo_add_lib bs0 = Some m" "lib_load demo_add_lib bs = Some n" "keeps_slots m n" "keeps_strings m n"
      "demo_files ''in.scx'' = Some bs0" "inventory_of demo_add_lib bs0 = Some assets"
      "inventory_of demo_add_lib bs = Some (fold (\<lambda>(destination, ogg). map_emplace destination (fips_sha256 ogg))
         [(demo_path, ogg_magic)] assets)"
      "\<forall>(destination, ogg) \<in> set [(demo_path, ogg_magic)]. \<exists>s i. sound_in demo_add_lib bs destination ogg s i"
    by blast
  moreover have "inventory_of demo_add_lib [0] = Some []" by (simp add: inventory_of_def demo_add_lib_def)
  ultimately show ?thesis by (auto simp: demo_files_def map_emplace_def)
qed

section \<open>A replacement\<close>

definition demo_replace_lib :: archive_lib where
  "demo_replace_lib = demo_lib (\<lambda>b. Some (demo_map [None, Some (if b = 0 then demo_old_path else demo_path)] 1))
     (\<lambda>b. [(if b = 0 then demo_old_path else demo_path, ogg_magic)])"

lemma demo_old_find [simp]:
  "find_string demo_old_path (demo_map [None, Some demo_old_path] slot) = 1"
  "find_string demo_path (demo_map [None, Some demo_old_path] slot) = 0"
  "find_string demo_old_path (demo_map [None, Some demo_path] slot) = 0"
  by (simp_all add: find_string_def slot_equal_def str_equal_def upt_rec demo_paths)

lemma demo_old_inventory [simp]:
  "fs path = Some bs \<Longrightarrow> assets (hd bs) = [(demo_old_path, data)] \<Longrightarrow>
     inventory_mpq (demo_lib maps assets) path fs = (Inr [(demo_old_path, fips_sha256 data)], fs)"
  by (simp add: inventory_mpq_def io_get_def demo_names)

lemma on_tail_replicate: "f x = x \<Longrightarrow> on_tail f (replicate n x) = replicate n x"
  by (cases n) (simp_all add: on_tail_def)

lemma demo_unused: "\<not> string_used (Suc 0) UsageGame user_all False (demo_map strings slot)"
  by (simp add: usage_defs demo_map_def blank_scenario_def numeral_eq_Suc)

lemma demo_delete [simp]:
  "delete_string (Suc 0) True (demo_map [None, Some t] 0) = demo_map [None, None] 0"
  using demo_unused
  by (simp add: delete_string_def demo_map_def blank_scenario_def delete_trigger_string_def delete_location_string_def
      delete_unit_string_def delete_force_string_def clear16_def clear32_def on_tail_replicate empty_location_def)

lemma demo_map_remove:
  "map_remove_sound 0 \<lparr>mf_scenario = demo_map [None, Some demo_old_path] 1, mf_modified = []\<rparr> =
     Inr (\<lparr>mf_scenario = demo_map [None, None] 0, mf_modified = [\<lparr>ac_path = demo_old_path, ac_bytes = None\<rparr>]\<rparr>, True)"
  by (simp add: map_remove_sound_def get_sound_string_id_def total_sounds_def set_sound_string_id_def
      remove_mpq_asset_def get_string_def demo_paths)

lemma demo_map_add_after:
  "map_add_sound (demo_lib maps assets) demo_path bytes \<lparr>mf_scenario = demo_map [None, None] 0, mf_modified = cs\<rparr> =
     Inr (\<lparr>mf_scenario = demo_map [None, Some demo_path] 1,
            mf_modified = cs @ [\<lparr>ac_path = demo_path, ac_bytes = Some bytes\<rparr>]\<rparr>, Some (1, 0))"
  by (simp add: map_add_sound_def add_mpq_asset_def place_sound_string_def free_string_slot_def
      upt_rec add_sound_def find_first total_sounds_def)

lemma demo_replaced_strings [simp]:
  "verify_existing_game_strings [None, Some demo_old_path] (demo_map [None, Some demo_path] slot) (Suc 0) = Inr ()"
  by (auto simp: verify_existing_game_strings_def get_string_def nth_Cons' less_Suc_eq)

definition demo_replace_before :: sound_before where
  "demo_replace_before = \<lparr>sb_map = demo_map [None, Some demo_old_path] 1,
     sb_assets = [(demo_old_path, fips_sha256 ogg_magic)], sb_strings = [None, Some demo_old_path],
     sb_slots = 1 # replicate 511 0, sb_chk = demo_chk\<rparr>"

lemma demo_stage_replaced:
  assumes "fs input = Some [0]"
  shows "stage_replaced (demo_lib maps assets) input t demo_replace_before demo_old_path demo_path ogg_magic 0 1 fs =
    (Inr (), fs(t \<mapsto> [1]))"
  using assms
  by (simp add: stage_replaced_def demo_replace_before_def io_defs demo_map_remove [unfolded One_nat_def]
      demo_map_add_after save_staged_def Let_def)

lemma demo_verify_replaced:
  assumes "fs t = Some [1]"
  shows "\<exists>r. verify_replaced demo_replace_lib t demo_replace_before demo_old_path demo_path ogg_magic 1 fs = (Inr r, fs)"
  using assms demo_paths(4, 5)
  by (simp add: verify_replaced_def demo_replace_before_def io_defs load_map_def reopened_asset_def
      Let_def map_emplace_def map_erase_def demo_replace_lib_def)

lemma demo_replace_source: "replace_source demo_replace_before demo_old_path demo_path = Inr (1, 0)"
  using demo_paths(4, 5)
  by (simp add: replace_source_def demo_replace_before_def Let_def)

lemma demo_sound_replaced:
  "\<exists>report fs'. map_sound_replace demo_replace_lib ''in.scx'' ''out.scx'' (fips_sha256 [0]) demo_old_path demo_path
     ogg_magic demo_files = (Inr report, fs')"
proof -
  let ?t = "temporary_output_path demo_replace_lib ''out.scx''"
  let ?fs = "demo_files(?t \<mapsto> [1])"
  obtain r where v: "verify_replaced demo_replace_lib ?t demo_replace_before demo_old_path demo_path ogg_magic 1 ?fs = (Inr r, ?fs)"
    using demo_verify_replaced [of ?fs ?t] by auto
  have before: "\<lparr>sb_map = demo_map [None, Some demo_old_path] 1,
      sb_assets = [(demo_old_path, fips_sha256 ogg_magic)], sb_strings = [None, Some demo_old_path],
      sb_slots = 1 # replicate 511 0, sb_chk = demo_chk\<rparr> = demo_replace_before"
    by (simp add: demo_replace_before_def)
  show ?thesis
    using v
    by (simp add: demo_replace_lib_def map_sound_replace_def demo_run observe_def before demo_limits
        demo_replace_source [unfolded One_nat_def] demo_stage_replaced [unfolded One_nat_def] fun_upd_twist)
qed

lemma map_sound_replace_exact_witness:
  "\<exists>bs i n. sound_in demo_replace_lib bs demo_path ogg_magic 1 i \<and> lib_load demo_replace_lib bs = Some n \<and>
     find_string demo_old_path n = 0"
proof -
  obtain report fs' where run: "map_sound_replace demo_replace_lib ''in.scx'' ''out.scx'' (fips_sha256 [0]) demo_old_path
      demo_path ogg_magic demo_files = (Inr report, fs')"
    using demo_sound_replaced by blast
  have "length (lib_store demo_replace_lib) = 64" by (simp add: demo_replace_lib_def)
  from map_sound_replace_exact [OF this run] show ?thesis
    by (fastforce simp: demo_files_def demo_replace_lib_def)
qed

text \<open>A map whose first slot is free and whose second slot plays the sound.\<close>

definition demo_gap :: scenario where
  "demo_gap = blank_scenario\<lparr>sc_strings := [None, Some demo_old_path], sc_sound_paths := 0 # 1 # replicate 510 0\<rparr>"

lemma demo_gap_slots: "sc_sound_paths demo_gap = 0 # 1 # replicate 510 0"
  by (simp add: demo_gap_def)

lemma map_sound_replace_needs_first_slot_witness:
  "\<exists>e. fst (map_sound_replace (demo_lib (\<lambda>_. Some demo_gap) (\<lambda>_. [(demo_old_path, ogg_magic)])) ''in.scx'' ''out.scx''
     (fips_sha256 [0]) demo_old_path demo_path ogg_magic demo_files) = Inl e"
proof -
  have found: "find_string demo_old_path demo_gap = 1"
    by (simp add: find_string_def demo_gap_def slot_equal_def str_equal_def upt_rec)
  have ok: "arrays_ok demo_gap" using blank_arrays by (simp add: arrays_ok_def demo_gap_def total_sounds_def)
  show ?thesis
    by (rule map_sound_replace_needs_first_slot [where m = demo_gap and i = 1 and j = 0])
      (simp_all add: found [unfolded One_nat_def] ok total_sounds_def demo_files_def demo_gap_slots)
qed

text \<open>A map whose name is the path of the sound.\<close>

lemma map_sound_replace_needs_unused_witness:
  "\<exists>e. fst (map_sound_replace (demo_lib (\<lambda>_. Some (demo_map [None, Some demo_old_path] 1\<lparr>sc_name_id := 1\<rparr>))
     (\<lambda>_. [(demo_old_path, ogg_magic)])) ''in.scx'' ''out.scx'' (fips_sha256 [0]) demo_old_path demo_path ogg_magic
     demo_files) = Inl e"
proof -
  let ?m = "demo_map [None, Some demo_old_path] 1\<lparr>sc_name_id := 1\<rparr>"
  have found: "find_string demo_old_path ?m = 1"
    by (simp add: find_string_def slot_equal_def str_equal_def upt_rec)
  have used: "string_used 1 UsageGame user_all False ?m"
    by (simp add: usage_defs max_strings_def)
  show ?thesis
    by (rule map_sound_replace_needs_unused [where m = ?m])
      (simp_all add: found used [unfolded One_nat_def] demo_files_def)
qed

section \<open>A removal\<close>

definition demo_remove_lib :: archive_lib where
  "demo_remove_lib = demo_lib (\<lambda>b. Some (if b = 0 then demo_map [None, Some demo_old_path] 1 else demo_map [None, Some []] 0))
     (\<lambda>b. if b = 0 then [(demo_old_path, ogg_magic)] else [])"

lemma demo_other_users: "\<not> string_used (Suc 0) usage other_users False (demo_map strings slot) \<or> usage = UsageEditor"
proof -
  have "\<not> has_flag other_users user_sound" by code_simp
  then show ?thesis
    by (cases usage) (simp_all add: usage_defs demo_map_def blank_scenario_def numeral_eq_Suc empty_location_def)
qed

definition demo_removed :: remove_item where
  "demo_removed = \<lparr>ri_index = 0, ri_string_id = 1, ri_path = demo_old_path, ri_key = demo_old_path,
     ri_hash = fips_sha256 ogg_magic\<rparr>"

lemma demo_sum [simp]:
  "sound_slot_for_string (1 # replicate 511 0) 1 = (0, 1)"
  using demo_slot(1) by simp

lemma demo_check_removals:
  assumes "sb_map b = demo_map [None, Some demo_old_path] 1" "sb_slots b = 1 # replicate 511 0"
    "sb_assets b = [(demo_old_path, fips_sha256 ogg_magic)]"
  shows "check_removals b [0] [] [0] = Inr [demo_removed]"
proof -
  have path: "get_string (Suc 0) (demo_map [None, Some demo_old_path] 1) = Some demo_old_path"
    by (simp add: get_string_def demo_paths)
  have "\<not> still_played b [0] 0 demo_old_path"
    using assms by (auto simp: still_played_def nth_Cons' split: option.splits)
  then show ?thesis
    using assms demo_other_users [of UsageEither "[None, Some demo_old_path]" 1]
      demo_other_users [of UsageGame "[None, Some demo_old_path]" 1] demo_paths(5, 6)
    by (simp add: check_removal_def Let_def total_sounds_def path demo_names demo_removed_def demo_old_nonempty)
qed

definition demo_remove_before :: sound_before where
  "demo_remove_before = demo_replace_before"

lemma demo_remove_items:
  "remove_items [demo_removed] (demo_map [None, Some demo_old_path] 1) =
     \<lparr>mf_scenario = demo_map [None, None] 0, mf_modified = [\<lparr>ac_path = demo_old_path, ac_bytes = None\<rparr>]\<rparr>"
  by (simp add: remove_items_def remove_item_step_def demo_removed_def set_sound_string_id_def total_sounds_def
      remove_mpq_asset_def Let_def demo_digest_nonempty)

lemma demo_remaining:
  "remaining_slots demo_remove_before [demo_removed] = 0 # replicate 511 0"
  "remaining_assets demo_remove_before [demo_removed] = []"
  by (simp_all add: remaining_slots_def remaining_assets_def demo_remove_before_def demo_replace_before_def
      demo_removed_def map_erase_def)

lemma demo_removed_strings:
  "verify_removed_strings stage [Suc 0] [None, Some demo_old_path] (demo_map [None, None] 0) = Inr ()"
  "verify_removed_strings stage [Suc 0] [None, Some demo_old_path] (demo_map [None, Some []] 0) = Inr ()"
  by (simp_all add: verify_removed_strings_def upt_rec verify_removed_string_def get_string_def c_string_def)

lemma demo_stage_removed:
  assumes "fs input = Some [0]"
  shows "stage_removed (demo_lib maps assets) input t demo_remove_before [demo_removed] fs = (Inr (), fs(t \<mapsto> [1]))"
  using assms
  by (simp add: stage_removed_def demo_remaining, simp add: demo_remove_before_def demo_replace_before_def io_defs
      demo_remove_items Let_def save_staged_def demo_removed_strings, simp add: demo_removed_def demo_removed_strings io_defs)

lemma demo_verify_removed:
  assumes "fs t = Some [1]"
  shows "\<exists>r. verify_removed demo_remove_lib t demo_remove_before [demo_removed] fs = (Inr r, fs)"
  using assms
  by (simp add: verify_removed_def demo_remaining io_defs load_map_def demo_remove_lib_def demo_removed_strings,
      simp add: demo_removed_def demo_remove_before_def demo_replace_before_def demo_removed_strings io_defs)

lemma demo_sound_removed:
  "\<exists>report fs'. map_sound_remove demo_remove_lib ''in.scx'' ''out.scx'' (fips_sha256 [0]) [0] demo_files = (Inr report, fs')"
proof -
  let ?t = "temporary_output_path demo_remove_lib ''out.scx''"
  let ?fs = "demo_files(?t \<mapsto> [1])"
  obtain r where v: "verify_removed demo_remove_lib ?t demo_remove_before [demo_removed] ?fs = (Inr r, ?fs)"
    using demo_verify_removed [of ?fs ?t] by auto
  have before: "\<lparr>sb_map = demo_map [None, Some demo_old_path] 1,
      sb_assets = [(demo_old_path, fips_sha256 ogg_magic)], sb_strings = [None, Some demo_old_path],
      sb_slots = 1 # replicate 511 0, sb_chk = demo_chk\<rparr> = demo_remove_before"
    by (simp add: demo_remove_before_def demo_replace_before_def)
  have "check_removals demo_remove_before [0] [] [0] = Inr [demo_removed]"
    by (rule demo_check_removals) (simp_all add: demo_remove_before_def demo_replace_before_def)
  then show ?thesis
    using v
    by (simp add: demo_remove_lib_def map_sound_remove_def demo_run observe_def before
        demo_stage_removed total_sounds_def fun_upd_twist del: check_removals.simps)
qed

lemma map_sound_remove_exact_witness:
  "\<exists>bs n. lib_load demo_remove_lib bs = Some n \<and> sc_sound_paths n ! 0 = 0 \<and> get_string 1 n \<in> {None, Some []}"
proof -
  obtain report fs' where run: "map_sound_remove demo_remove_lib ''in.scx'' ''out.scx'' (fips_sha256 [0]) [0] demo_files
      = (Inr report, fs')"
    using demo_sound_removed by blast
  have "length (lib_store demo_remove_lib) = 64" by (simp add: demo_remove_lib_def)
  from map_sound_remove_exact [OF this run] obtain bs0 m bs n where
      "demo_files ''in.scx'' = Some bs0" "lib_load demo_remove_lib bs0 = Some m" and n: "lib_load demo_remove_lib bs = Some n"
    and slots: "\<forall>j < total_sounds. sc_sound_paths n ! j = (if j \<in> unat ` set [0 :: u16] then 0 else sc_sound_paths m ! j)"
    and strings: "\<forall>k < length (sc_strings m).
        if k \<in> (\<lambda>w. unat (sc_sound_paths m ! unat w)) ` set [0 :: u16] then get_string k n \<in> {None, Some []}
        else get_string k n = get_string k m"
    by blast
  then have "m = demo_map [None, Some demo_old_path] 1" by (auto simp: demo_files_def demo_remove_lib_def)
  then have "sc_sound_paths n ! 0 = 0" "get_string 1 n \<in> {None, Some []}"
    using spec [OF slots, of 0] spec [OF strings, of 1] by (simp_all add: total_sounds_def)
  with n show ?thesis by blast
qed

end
