(* ===== verification/AgentEditWitness.thy ===== *)
theory AgentEditWitness
  imports AgentBatchProps AgentDoodadProps AgentIsomProps AgentNew AgentSoundWitness
begin

text \<open>
  Concrete runs of the edit operations: a tileset with one brush, valid tiles 0 and 16384 and one doodad
  of two by one tiles, of which it draws the first, with an overlay sprite.
\<close>

definition demo_tileset :: tileset_data where
  "demo_tileset =
     \<lparr>td_tile_groups = [], td_terrain_type_map = [0, 0, 0, 1], td_hash_to_tile_group = (\<lambda>_. None),
      td_isom_links = [shape_links_of 0, shape_links_of 1],
      td_terrain_types = [plain_type 0 0, plain_type 1 1], td_brushes = [plain_type 1 1], td_default_brush = plain_type 1 1\<rparr>"

definition demo_terrain :: terrain_tiles where
  "demo_terrain = \<lparr>tt_groups = replicate 1024 (replicate 16 0) @ [1 # replicate 15 0],
     tt_graphics = [replicate 16 0, replicate 16 0], tt_flags = 2, tt_pixels = 1\<rparr>"

definition demo_doodad :: doodad_record where
  "demo_doodad = \<lparr>dr_index = 1, dr_flags = 0x10, dr_overlay_index = 5, dr_name = 1, dr_data_index = 7,
     dr_width = 2, dr_height = 1\<rparr>"

definition demo_assets :: edit_assets where
  "demo_assets = \<lparr>ea_isom = (\<lambda>_. demo_tileset), ea_terrain = (\<lambda>_. demo_terrain), ea_doodads = (\<lambda>_. [demo_doodad])\<rparr>"

lemma demo_assets_simps [simp]:
  "isom_of demo_assets t = demo_tileset" "terrain_of demo_assets t = demo_terrain"
  "doodads_of demo_assets t = [demo_doodad]"
  by (simp_all add: demo_assets_def isom_of_def terrain_of_def doodads_of_def)

lemma demo_tileset_ok: "tileset_ok demo_tileset"
  by (simp add: tileset_ok_def cache_ok_def hash_ok_def demo_tileset_def new_cache_def Let_def reset_changed_area_def
      shape_links_of_def)

definition demo_scenario :: scenario where
  "demo_scenario = new_scenario 0 6 4"

lemma demo_scenario_simps [simp]:
  "sc_width demo_scenario = 6" "sc_height demo_scenario = 4" "sc_tileset demo_scenario = 0"
  "sc_tiles demo_scenario = replicate 24 0" "sc_editor_tiles demo_scenario = replicate 24 0"
  "sc_isom demo_scenario = replicate 20 empty_rect"
  "sc_units demo_scenario = []" "sc_doodads demo_scenario = []" "sc_sprites demo_scenario = []"
  by (simp_all add: demo_scenario_def new_scenario_def)

lemma demo_section [simp]: "isom_section_size demo_scenario = 20"
  by (simp add: isom_section_size_def)

lemma empty_rect_ok: "0 < n \<Longrightarrow> rect_ok n empty_rect"
proof -
  have "rect_isom_value empty_rect s = 0" for s
    by (cases s) (simp_all add: rect_isom_value_def empty_rect_def)
  then show "0 < n \<Longrightarrow> rect_ok n empty_rect" by (simp add: rect_ok_def empty_rect_def)
qed

lemma demo_terrain_ok: "terrain_ok demo_assets demo_scenario"
  using empty_rect_ok by (simp add: terrain_ok_def isom_section_size_def demo_tileset_def)

lemma demo_scenario_ok: "map_ok_for demo_assets demo_scenario"
proof -
  have "arrays_ok demo_scenario"
    by (simp add: arrays_ok_def demo_scenario_def new_scenario_def default_races_def default_slots_def total_players_def
        total_slots_def total_forces_def)
  then show ?thesis using demo_terrain_ok by (simp add: map_ok_for_def objects_ok_def)
qed

section \<open>A semantic rectangle\<close>

lemma demo_brush: "semantic_brush demo_assets 0 1"
  by (simp add: semantic_brush_def brush_allowed_def terrain_type_isom_value_def demo_tileset_def plain_type_def
      shape_links_of_def size_limit_def brush_type_def)

lemma isom_rect_succeeds_witness:
  "\<exists>n e. terrain_isom_rect demo_assets 0 ''terrain.isom_rect'' ''op'' (rect_request 0 0 6 4 1) demo_scenario = Inr (n, e)
    \<and> terrain_change demo_scenario n \<and> same_dimensions demo_scenario n \<and> terrain_ok demo_assets n"
  by (rule isom_rect_succeeds) (use demo_tileset_ok demo_terrain_ok demo_brush in simp_all)

section \<open>A tile and a doodad\<close>

text \<open>The operation that sets one tile.\<close>

definition demo_tile :: json_object where
  "demo_tile = [(''after'', JInt 16384), (''before'', JInt 0), (''op'', JStr ''terrain.set''), (''x'', JInt 1),
     (''y'', JInt 2)]"

lemma demo_valid_tiles [simp]: "tile_graphics_valid demo_terrain 0" "tile_graphics_valid demo_terrain 16384"
  by (auto simp: tile_graphics_valid_def demo_terrain_def nth_append list_all_iff vr4_index_def)

definition demo_tiled :: scenario where
  "demo_tiled = demo_scenario\<lparr>sc_tiles := (replicate 24 0)[13 := 16384], sc_editor_tiles := (replicate 24 0)[13 := 16384]\<rparr>"

lemma demo_tile_set:
  "terrain_set demo_assets ''terrain.set'' ctx demo_tile demo_scenario =
     Inr (demo_tiled, effect ''terrain.set'' ''terrain'' 13)"
proof -
  have "exact_fields demo_tile [''op'', ''x'', ''y'', ''before'', ''after''] ctx = Inr ()"
    by (auto simp: exact_fields_Inr demo_tile_def)
  moreover have "size_value (JInt i) ctx False = Inr (nat i)" if "0 \<le> i" "i < 65536" for i ctx
    using that by (simp add: size_value_def integer_value_def size_max_def size_limit_def)
  ultimately show ?thesis
    by (simp add: terrain_set_def checked_size_def checked_u16_def required_field_def demo_tile_def get_tile_def
        set_exact_tile_def demo_tiled_def Let_def size_add_def size_mul_def size_limit_def)
qed

lemma demo_edit_step:
  "edit_step lib demo_assets 0 ''terrain.set'' ctx demo_tile demo_scenario =
     Inr (demo_tiled, effect ''terrain.set'' ''terrain'' 13)"
  by (simp add: edit_step_def demo_tile_set)

lemma edit_step_layer_witness:
  "\<exists>layer. map_of (effect ''terrain.set'' ''terrain'' 13) ''layer'' = Some (JStr layer)
    \<and> layer_relation layer demo_scenario demo_tiled \<and> same_dimensions demo_scenario demo_tiled"
  by (rule edit_step_layer [OF _ demo_scenario_ok demo_edit_step]) (simp add: demo_tileset_ok)

lemma demo_edit_operations:
  "edit_operations lib demo_assets [JObj demo_tile] demo_scenario =
     Inr (demo_tiled, [JObj (effect ''terrain.set'' ''terrain'' 13)])"
proof -
  have "required_field demo_tile ''op'' ctx = Inr (JStr ''terrain.set'')" for ctx
    by (simp add: required_field_def demo_tile_def)
  then show ?thesis by (simp add: edit_operations_def edit_operation_def demo_edit_step Let_def string_value_def object_value_def)
qed

section \<open>Adding and deleting the doodad\<close>

definition demo_placed :: chk_doodad where
  "demo_placed = \<lparr>dd_type = 7, dd_x = 64, dd_y = 64, dd_owner = 11, dd_enabled = 0\<rparr>"

definition demo_add_doodad :: json_object where
  "demo_add_doodad = [(''op'', JStr ''doodad.add''),
     (''state'', JObj [(''doodadId'', JInt 7), (''x'', JInt 64), (''y'', JInt 64)])]"

definition demo_shape :: doodad_shape where
  "demo_shape = \<lparr>ds_id = 7, ds_start_group = 1024, ds_record = demo_doodad\<rparr>"

definition demo_overlay :: chk_sprite where
  "demo_overlay = \<lparr>sp_type = 5, sp_x = 64, sp_y = 64, sp_owner = 11, sp_unused = 0, sp_flags = draw_as_sprite\<rparr>"

definition demo_with_doodad :: scenario where
  "demo_with_doodad = demo_scenario\<lparr>sc_tiles := (replicate 24 0)[13 := 16384], sc_doodads := [demo_placed],
     sc_sprites := [demo_overlay]\<rparr>"

lemma demo_resolve [simp]: "resolve_doodad demo_assets 0 7 ctx = Inr demo_shape"
  by (simp add: resolve_doodad_def doodad_starts_of_def demo_doodad_def max_tile_groups_def map_emplace_def
      Let_def size_sub_def size_limit_def demo_terrain_def demo_shape_def)

lemma demo_origin [simp]: "doodad_footprint_origin demo_scenario demo_placed demo_shape ctx = Inr (1, 2)"
  by (simp add: doodad_footprint_origin_def demo_placed_def demo_shape_def shape_width_def shape_height_def
      demo_doodad_def Let_def)

lemma demo_cells [simp]: "shape_cells demo_shape = [(0, 0), (0, 1)]"
  by (simp add: shape_cells_def demo_shape_def shape_width_def shape_height_def demo_doodad_def upt_rec)

lemma demo_cell_tiles [simp]:
  "doodad_cell_tile demo_terrain demo_shape 0 0 = 16384" "doodad_cell_tile demo_terrain demo_shape (Suc 0) 0 = 0"
  by (simp_all add: doodad_cell_tile_def demo_shape_def demo_terrain_def nth_append Let_def)

lemma demo_parse_doodad:
  "parse_doodad_state (JObj [(''doodadId'', JInt 7), (''x'', JInt 64), (''y'', JInt 64)]) ctx = Inr demo_placed"
proof -
  have "allowed_fields [(''doodadId'', JInt 7), (''x'', JInt 64), (''y'', JInt 64)]
      [''doodadId'', ''x'', ''y'', ''owner'', ''disabled''] ctx = Inr ()"
    by (simp add: allowed_fields_Inr)
  then show ?thesis
    by (simp add: parse_doodad_state_def object_value_def checked_u16_def checked_size_def required_field_def size_value_def
        integer_value_def size_max_def size_limit_def optional_u8_def optional_bool_def optional_field_def max_owner_def demo_placed_def)
qed

lemma demo_doodad_added:
  "doodad_add demo_assets ''doodad.add'' ctx demo_add_doodad demo_scenario =
     Inr (demo_with_doodad, effect ''doodad.add'' ''doodad'' 0)"
proof -
  have "exact_fields demo_add_doodad [''op'', ''state''] ctx = Inr ()"
    by (auto simp: exact_fields_Inr demo_add_doodad_def)
  moreover have "apply_doodad_footprint demo_placed demo_assets ctx demo_scenario =
      Inr (demo_scenario\<lparr>sc_tiles := (replicate 24 0)[13 := 16384]\<rparr>)"
    using demo_resolve [of ctx] demo_origin [of ctx]
    by (simp add: apply_doodad_footprint_def apply_cell_def Let_def vec_set_def demo_placed_def)
  moreover have "doodad_overlay m demo_placed demo_assets ctx = Inr (Some demo_overlay)" if "sc_tileset m = 0" for m
    using that by (simp add: doodad_overlay_def demo_placed_def demo_shape_def demo_doodad_def demo_overlay_def
        Let_def total_sprites_def)
  moreover have "\<not> outside_map demo_scenario 64 64" by (simp add: outside_map_def pixel_width_def pixel_height_def pixels_per_tile_def)
  ultimately show ?thesis
    using demo_parse_doodad
    by (simp add: doodad_add_def required_field_def demo_add_doodad_def add_doodad_def add_doodad_overlay_def
        add_sprite_def Let_def demo_with_doodad_def require_position_def demo_placed_def)
qed

lemma demo_deletable: "deletable (terrain_of demo_assets (sc_tileset demo_scenario)) demo_shape (1, 2) demo_scenario"
proof -
  have "cell_index demo_scenario (1, 2) x y < 24" if "x < shape_width demo_shape" "y < shape_height demo_shape" for x y
    using that by (simp add: cell_index_def shape_width_def shape_height_def demo_shape_def demo_doodad_def)
  then show ?thesis by (auto simp: deletable_def)
qed

lemma doodad_add_then_delete_witness:
  "doodad_change demo_add_lib demo_assets ''delete'' ''doodad.delete'' ''op''
      (delete_request demo_add_lib 0 demo_placed (terrain_under demo_shape (1, 2) demo_scenario)) demo_with_doodad =
    Inr (demo_scenario, effect ''doodad.delete'' ''doodad'' 0)"
proof -
  have "\<exists>es. doodad_change demo_add_lib demo_assets ''delete'' ''doodad.delete'' ''op''
      (delete_request demo_add_lib (length (sc_doodads demo_scenario)) demo_placed (terrain_under demo_shape (1, 2) demo_scenario))
      demo_with_doodad =
    Inr (demo_scenario\<lparr>sc_editor_tiles := es\<rparr>, effect ''doodad.delete'' ''doodad'' (length (sc_doodads demo_scenario))) \<and>
    length es = length (sc_editor_tiles demo_scenario) \<and>
    (\<forall>i < length es. es ! i = (if i \<in> owned_cells (terrain_of demo_assets (sc_tileset demo_scenario)) demo_shape (1, 2) demo_scenario
       then sc_tiles demo_scenario ! i else sc_editor_tiles demo_scenario ! i))"
    by (rule doodad_add_then_delete [OF demo_doodad_added [of "''op''"] _ _ _ demo_deletable])
      (simp_all add: demo_with_doodad_def, simp_all add: demo_placed_def size_limit_def)
  then obtain es where es: "doodad_change demo_add_lib demo_assets ''delete'' ''doodad.delete'' ''op''
      (delete_request demo_add_lib 0 demo_placed (terrain_under demo_shape (1, 2) demo_scenario)) demo_with_doodad =
    Inr (demo_scenario\<lparr>sc_editor_tiles := es\<rparr>, effect ''doodad.delete'' ''doodad'' 0)"
    "length es = 24" "\<forall>i < 24. es ! i = 0"
    by auto
  then have "es = sc_editor_tiles demo_scenario" by (auto intro: nth_equalityI)
  with es(1) show ?thesis by simp
qed

end
