(* ===== verification/AgentMapEditProps.thy ===== *)
theory AgentMapEditProps
  imports AgentBatchProps AgentNew AgentSoundProps
begin

text \<open>
  \<open>mapEdit\<close> and \<open>mapNew\<close> as a whole: what the output file holds when they succeed, and which files are
  left when they fail.
\<close>

section \<open>Writing the output\<close>

lemma io_fail_deleting_Inr [io_inv]:
  "io_fail_deleting path bad message f fs = (Inr y, fs') \<longleftrightarrow> \<not> bad \<and> f () fs = (Inr y, fs')"
  by (auto simp: io_fail_deleting_def io_inv)

lemma touches_fail_deleting [frame]:
  "path \<in> A \<Longrightarrow> (\<not> bad \<Longrightarrow> touches A (f ())) \<Longrightarrow> touches A (io_fail_deleting path bad message f)"
  unfolding io_fail_deleting_def by (cases bad) (auto intro!: frame)

lemma touches_save_map [frame]: "temporary \<in> A \<Longrightarrow> touches A (save_map save temporary)"
  unfolding save_map_def by (intro frame)

lemma touches_promote_map [frame]: "temporary \<in> A \<Longrightarrow> output \<in> A \<Longrightarrow> touches A (promote_map lib temporary output)"
  unfolding promote_map_def by (intro frame)

lemma touches_reopen [frame]: "touches A (reopen_map lib path)"
  by (simp add: reopen_map_def touches_get)

lemma reopen_map_Inr [io_inv]:
  "reopen_map lib path fs = (Inr v, fs') \<longleftrightarrow> v = Option.bind (fs path) (lib_load lib) \<and> fs' = fs"
  by (auto simp: reopen_map_def io_inv)

lemma save_map_Inr:
  "save_map save temporary fs = (Inr u, fs') \<longleftrightarrow>
     (\<exists>written. save (fs(temporary := None)) = (True, written) \<and> fs' = fs(temporary := written))"
  by (cases "save (fs(temporary := None))")
    (auto simp: save_map_def io_bind_def io_set_def io_get_def io_fail_deleting_def io_return_def delete_file_def)

lemma promote_map_Inr:
  "promote_map lib temporary output fs = (Inr u, fs') \<longleftrightarrow>
     lib_replace_ok lib \<and> (\<exists>bs. fs temporary = Some bs \<and> fs' = fs(output := Some bs, temporary := None))"
  by (auto simp: promote_map_def io_bind_def replace_file_def io_fail_deleting_def io_set_def io_return_def)

text \<open>
  The one way a new output file outlives a failure: it loads, but the stream that hashes it for the report
  fails, and \<open>e\<close> is the error of that stream.
\<close>

definition absent_or_unread :: "archive_lib \<Rightarrow> string \<Rightarrow> cxx_error \<Rightarrow> file_system \<Rightarrow> bool" where
  "absent_or_unread lib p e fs \<longleftrightarrow>
     fs p = None \<or> (\<exists>bs. fs p = Some bs \<and> lib_load lib bs \<noteq> None \<and> file_sha256 lib p fs = (Inl e, fs))"

definition fails_absent :: "archive_lib \<Rightarrow> string \<Rightarrow> 'a io \<Rightarrow> bool" where
  "fails_absent lib p m \<longleftrightarrow> (\<forall>fs e fs'. fs p = None \<longrightarrow> m fs = (Inl e, fs') \<longrightarrow> absent_or_unread lib p e fs')"

lemma absent_or_unread_None [intro]: "fs p = None \<Longrightarrow> absent_or_unread lib p e fs"
  by (simp add: absent_or_unread_def)

lemma fails_absent_touches: "touches A m \<Longrightarrow> p \<notin> A \<Longrightarrow> fails_absent lib p m"
  by (auto simp: fails_absent_def intro!: absent_or_unread_None dest: touchesD)

lemma fails_absent_bind:
  assumes "touches A m" "p \<notin> A" "\<And>x. fails_absent lib p (f x)"
  shows "fails_absent lib p (io_bind m f)"
  unfolding fails_absent_def
proof (intro allI impI)
  fix fs e fs' assume fs: "fs p = None" and run: "io_bind m f fs = (Inl e, fs')"
  obtain r fs1 where m: "m fs = (r, fs1)" by (cases "m fs")
  have "fs1 p = None" using touchesD [OF assms(1) m assms(2)] fs by simp
  then show "absent_or_unread lib p e fs'"
    using run m assms(3) by (cases r) (auto simp: io_bind_def fails_absent_def)
qed

lemma fails_absent_check: "fails_absent lib p (f ()) \<Longrightarrow> fails_absent lib p (io_check bad message f)"
  by (auto simp: fails_absent_def io_check_def io_return_def)

lemma fails_absent_deleting:
  "path \<noteq> p \<Longrightarrow> fails_absent lib p (f ()) \<Longrightarrow> fails_absent lib p (io_fail_deleting path bad message f)"
  by (auto simp: fails_absent_def io_fail_deleting_def io_bind_def io_set_def io_return_def delete_file_def)

lemma io_bind_assoc [simp]: "io_bind (io_bind m f) g = io_bind m (\<lambda>x. io_bind (f x) g)"
  by (auto simp: io_bind_def fun_eq_iff split: sum.splits)

lemma io_bind_return [simp]: "io_bind (io_return (Inr x)) f = f x"
  by (simp add: io_bind_def io_return_def fun_eq_iff)

lemma io_bind_deleting [simp]:
  "io_bind (io_fail_deleting path bad message f) g = io_fail_deleting path bad message (\<lambda>u. io_bind (f u) g)"
  by (cases bad) (simp_all add: io_fail_deleting_def io_bind_def io_set_def io_return_def fun_eq_iff)

lemma fails_absent_pair: "(\<And>x y. fails_absent lib p (f x y)) \<Longrightarrow> fails_absent lib p (case_prod f x)"
  by (cases x) auto

text \<open>Hashing the output for the report succeeds, or fails and leaves all files.\<close>

definition hash_or_fail :: "archive_lib \<Rightarrow> string \<Rightarrow> 'a io \<Rightarrow> bool" where
  "hash_or_fail lib path m \<longleftrightarrow> (\<forall>fs e fs'. m fs = (Inl e, fs') \<longrightarrow> fs' = fs \<and> file_sha256 lib path fs = (Inl e, fs))"

lemma hash_or_fail_report:
  assumes "length (lib_store lib) = 64"
  shows "hash_or_fail lib path (io_bind (file_sha256 lib path) (\<lambda>h. io_return (Inr (report h))))"
  unfolding hash_or_fail_def
proof (intro allI impI)
  fix fs e fs'
  assume run: "io_bind (file_sha256 lib path) (\<lambda>h. io_return (Inr (report h))) fs = (Inl e, fs')"
  obtain r fs1 where r: "file_sha256 lib path fs = (r, fs1)" by (cases "file_sha256 lib path fs")
  then have "r = Inl e" "fs1 = fs'" using run by (cases r; simp add: io_bind_def io_return_def)+
  then show "fs' = fs \<and> file_sha256 lib path fs = (Inl e, fs)" using r file_sha256_Inl [OF assms] by blast
qed

text \<open>Renaming and reading back: a failure deletes the output, unless it is one of hashing it.\<close>

lemma finish_output_absent:
  assumes t: "temporary \<noteq> output" and rest: "\<And>v. hash_or_fail lib output (f v)" and bad: "bad None"
  shows "fails_absent lib output (io_bind (promote_map lib temporary output) (\<lambda>_. io_bind (reopen_map lib output) (\<lambda>v.
    io_fail_deleting output (bad v) (message v) (\<lambda>_. f v))))"
  unfolding fails_absent_def
proof (intro allI impI)
  fix fs e fs'
  assume none: "fs output = None" and run: "io_bind (promote_map lib temporary output) (\<lambda>_. io_bind (reopen_map lib output) (\<lambda>v.
    io_fail_deleting output (bad v) (message v) (\<lambda>_. f v))) fs = (Inl e, fs')"
  show "absent_or_unread lib output e fs'"
  proof (cases "lib_replace_ok lib \<and> fs temporary \<noteq> None")
    case False
    then have "promote_map lib temporary output fs = (fail ''map output atomic promotion failed'', fs(temporary := None))"
      by (auto simp: promote_map_def io_bind_def replace_file_def io_fail_deleting_def io_set_def io_return_def delete_file_def)
    then show ?thesis using run none t by (auto simp: io_bind_def)
  next
    case True
    then obtain bs where bs: "fs temporary = Some bs" "lib_replace_ok lib" by blast
    let ?fs = "fs(output := Some bs, temporary := None)" and ?v = "lib_load lib bs"
    have "promote_map lib temporary output fs = (Inr (), ?fs)" using bs by (simp add: promote_map_Inr)
    moreover have "reopen_map lib output ?fs = (Inr ?v, ?fs)" using t by (simp add: reopen_map_def io_get_def)
    ultimately have tail: "io_fail_deleting output (bad ?v) (message ?v) (\<lambda>_. f ?v) ?fs = (Inl e, fs')"
      using run by (simp add: io_bind_def)
    show ?thesis
    proof (cases "bad ?v")
      case True
      then have "fs' output = None"
        using tail by (auto simp: io_fail_deleting_def io_bind_def io_set_def io_return_def delete_file_def)
      then show ?thesis by blast
    next
      case False
      then have "f ?v ?fs = (Inl e, fs')" using tail by (simp add: io_fail_deleting_def)
      then have "fs' = ?fs" "file_sha256 lib output ?fs = (Inl e, ?fs)"
        using rest [of ?v] unfolding hash_or_fail_def by blast+
      moreover have "?v \<noteq> None" using False bad by metis
      ultimately show ?thesis using t by (simp add: absent_or_unread_def)
    qed
  qed
qed

section \<open>Failures\<close>

text \<open>
  A run that ends with an error has deleted the output or left one that could not be hashed, or it has
  changed nothing at all.
\<close>

definition leaves_no_output :: "archive_lib \<Rightarrow> string \<Rightarrow> string \<Rightarrow> 'a io \<Rightarrow> bool" where
  "leaves_no_output lib temporary output m \<longleftrightarrow> (\<forall>fs e fs'. m fs = (Inl e, fs') \<longrightarrow>
     (absent_or_unread lib output e fs' \<or> fs' = fs) \<and> (\<forall>p. p \<notin> {temporary, output} \<longrightarrow> fs' p = fs p))"

lemma leaves_no_output_check:
  "leaves_no_output lib t p (f ()) \<Longrightarrow> leaves_no_output lib t p (io_check bad message f)"
  by (auto simp: leaves_no_output_def io_check_def io_return_def)

lemma leaves_no_output_read:
  assumes "touches {} m" "\<And>x. leaves_no_output lib t p (f x)"
  shows "leaves_no_output lib t p (io_bind m f)"
  unfolding leaves_no_output_def
proof (intro allI impI)
  fix fs e fs' assume run: "io_bind m f fs = (Inl e, fs')"
  obtain r where m: "m fs = (r, fs)" using reads_unchanged [OF assms(1)] by (cases "m fs") blast
  show "(absent_or_unread lib p e fs' \<or> fs' = fs) \<and> (\<forall>q. q \<notin> {t, p} \<longrightarrow> fs' q = fs q)"
  proof (cases r)
    case (Inl e')
    then show ?thesis using run m by (simp add: io_bind_def)
  next
    case (Inr x)
    then have "f x fs = (Inl e, fs')" using run m by (simp add: io_bind_def)
    then show ?thesis using assms(2) [of x] unfolding leaves_no_output_def by blast
  qed
qed

lemma leaves_no_output_absent:
  assumes "touches {t, p} m" "fails_absent lib p m"
  shows "leaves_no_output lib t p (io_bind (io_set (delete_file p)) (\<lambda>_. m))"
  using assms unfolding leaves_no_output_def fails_absent_def touches_def io_bind_def io_set_def delete_file_def
  by (auto simp: prod_eq_iff)

lemma map_edit_failure:
  assumes store: "length (lib_store lib) = 64"
  shows "leaves_no_output lib (temporary_output_path lib output) output (map_edit lib load_assets input output star_craft batch)"
proof -
  let ?t = "temporary_output_path lib output"
  note differ = temporary_differs [of lib "output"]
  define rest where "rest b ops effects = (\<lambda>assets.
     io_bind (file_sha256 lib output) (\<lambda>h. io_return (Inr (edit_report lib (length ops) effects (eb_hash b) h assets))))"
    for b :: edit_batch and ops effects :: "json list"
  have tail: "fails_absent lib output (io_bind (write_edited lib input output ?t m) (rest b ops effects))" for m b ops effects
    unfolding write_edited_def rest_def io_bind_assoc io_bind_deleting io_bind_return
    by (intro fails_absent_bind [where A = "{?t}"] fails_absent_deleting finish_output_absent [OF differ]
        hash_or_fail_report [OF store] frame)
      (use differ in auto)
  have touched: "touches {?t, output} (io_bind (write_edited lib input output ?t m) (rest b ops effects))" for m b ops effects
    unfolding write_edited_def rest_def by (intro frame) auto
  define body where "body b x = (case x of (ops, m, effects) \<Rightarrow>
    io_bind (write_edited lib input output ?t m) (rest b ops effects))" for b :: edit_batch and x
  have body: "fails_absent lib output (body b x)" "touches {?t, output} (body b x)" for b x
    using tail touched by (simp_all add: body_def split: prod.split)
  have "leaves_no_output lib ?t output
     (io_check (star_craft = [] \<or> batch = []) ''mapedit received an invalid argument'' (\<lambda>_.
     io_check (input = [] \<or> output = [] \<or> lower_ascii input = lower_ascii output)
       ''mapedit requires distinct non-empty input and output paths'' (\<lambda>_.
     io_bind (io_set (delete_file output)) (\<lambda>_.
     io_bind (io_return (parse_edit_batch batch)) (\<lambda>b.
     io_bind (file_sha256 lib input) (\<lambda>hash.
     io_check (hash \<noteq> lower_ascii (eb_hash b)) ''input map sha256 does not match batch expected authority'' (\<lambda>_.
     io_bind (load_map lib input (''cannot load input map: '' @ input)) (\<lambda>m.
     io_bind (io_return (run_batch lib load_assets star_craft b m)) (body b)))))))))"
    by (intro leaves_no_output_check leaves_no_output_absent frame fails_absent_bind [where A = "{}"]
        fails_absent_check body; simp)
  then show ?thesis unfolding map_edit_def body_def [abs_def] rest_def .
qed

lemma map_new_failure:
  assumes store: "length (lib_store lib) = 64"
  shows "leaves_no_output lib (temporary_output_path lib output) output (map_new lib save_new load_assets output star_craft text)"
proof -
  let ?t = "temporary_output_path lib output"
  note differ = temporary_differs [of lib "output"]
  define body where "body spec m = io_bind (save_map (\<lambda>_. save_new (ns_save_type spec) m) ?t) (\<lambda>_.
        io_bind (promote_map lib ?t output) (\<lambda>_.
        io_bind (reopen_map lib output) (\<lambda>verified.
        io_fail_deleting output (verify_new spec verified \<noteq> None)
          (case verify_new spec verified of None \<Rightarrow> [] | Some message \<Rightarrow> message) (\<lambda>_.
        io_bind (file_sha256 lib output) (\<lambda>output_hash.
        io_return (Inr (new_report spec output_hash)))))))" for spec :: new_spec and m :: scenario
  have tail: "fails_absent lib output (body spec m)" for spec m
    unfolding body_def
    by (intro fails_absent_bind [where A = "{?t}"] finish_output_absent [OF differ, where bad = "\<lambda>v. verify_new spec v \<noteq> None"
          and message = "\<lambda>v. case verify_new spec v of None \<Rightarrow> [] | Some message \<Rightarrow> message"]
        hash_or_fail_report [OF store] frame)
      (use differ in \<open>auto simp: verify_new_def\<close>)
  have touched: "touches {?t, output} (body spec m)" for spec m
    unfolding body_def by (intro frame) auto
  let ?head = "\<lambda>fs. if file_exists output fs then fail ''map new output path must not already exist'' else Inr ()"
  have "leaves_no_output lib ?t output (io_bind (io_get ?head) (\<lambda>_.
     io_bind (io_return (parse_new_spec text)) (\<lambda>spec.
     io_bind (io_return (load_assets star_craft)) (\<lambda>a.
     io_bind (io_return (build_new_map a spec)) (body spec)))))" (is "leaves_no_output _ _ _ (io_bind _ (\<lambda>_. ?rest))")
  proof -
    have "fails_absent lib output ?rest" "touches {?t, output} ?rest"
      by (intro frame fails_absent_bind [where A = "{}"] tail touched; simp)+
    then show ?thesis
      unfolding leaves_no_output_def
      by (auto simp: io_bind_def io_get_def fails_absent_def touches_def file_exists_def prod_eq_iff split: if_splits)
  qed
  then show ?thesis
    unfolding map_new_def body_def [abs_def] Let_def by (intro leaves_no_output_check)
qed

text \<open>
  C6: If \<open>mapEdit\<close> or \<open>mapNew\<close> fails, wherever it stops, then there is no output file, or nothing at all has
  changed, or the output is the new map, which has been read back, and the error is that of the stream that
  hashes it for the report: that call comes after the promotion and outside every cleanup. No file but the
  output and the temporary one is ever touched.
\<close>

theorem edit_failure_output_state:
  assumes "length (lib_store lib) = 64"
    and "op \<in> {map_edit lib load_assets input output star_craft batch,
      map_new lib save_new load_assets output star_craft text}"
    and "op fs = (Inl e, fs')"
  shows "(fs' output = None \<or> fs' = fs \<or>
      (\<exists>bs. fs' output = Some bs \<and> lib_load lib bs \<noteq> None \<and> file_sha256 lib output fs' = (Inl e, fs'))) \<and>
    (p \<in> {temporary_output_path lib output, output} \<or> fs' p = fs p)"
proof -
  have "leaves_no_output lib (temporary_output_path lib output) output op"
    using assms(2) map_edit_failure [OF assms(1)] map_new_failure [OF assms(1)] by auto
  then show ?thesis using assms(3) unfolding leaves_no_output_def absent_or_unread_def by blast
qed

section \<open>Success\<close>

lemma run_batch_Inr [io_inv]:
  "run_batch lib load_assets star_craft b m = Inr (ops, n, effects) \<longleftrightarrow>
     check_expected_map (eb_expected b) m = Inr () \<and> batch_operations (eb_object b) = Inr ops \<and>
     (\<exists>a. load_assets star_craft = Inr a \<and> edit_operations lib a ops m = Inr (n, effects))"
  by (auto simp: run_batch_def bindE_is_Inr)

lemma write_edited_Inr:
  assumes "write_edited lib input output t m fs = (Inr assets, fs')" "input \<noteq> t" "t \<noteq> output"
  shows "\<exists>bs0 bs. fs input = Some bs0 \<and> inventory_of lib bs0 = Some assets \<and>
    lib_save lib bs0 \<lparr>mf_scenario = m, mf_modified = []\<rparr> = (True, Some bs) \<and> inventory_of lib bs = Some assets \<and>
    lib_load lib bs \<noteq> None \<and> fs' = fs(output := Some bs, t := None)"
proof -
  obtain bs0 where src: "fs input = Some bs0" "inventory_of lib bs0 = Some assets"
    and run: "io_bind (save_map (save_edited lib input m) t) (\<lambda>_.
      io_bind (inventory_mpq lib t) (\<lambda>after_assets.
      io_fail_deleting t (assets \<noteq> after_assets) ''map save changed unrelated MPQ assets'' (\<lambda>_.
      io_bind (promote_map lib t output) (\<lambda>_.
      io_bind (reopen_map lib output) (\<lambda>verified.
      io_fail_deleting output (verified = None) ''saved map failed native re-open verification'' (\<lambda>_.
      io_return (Inr after_assets))))))) fs = (Inr assets, fs')"
    using assms(1) unfolding write_edited_def by (auto simp: io_inv)
  obtain written where saved: "save_edited lib input m (fs(t := None)) = (True, written)"
    and rest: "\<exists>bs. written = Some bs \<and> inventory_of lib bs = Some assets \<and> lib_load lib bs \<noteq> None
      \<and> fs' = fs(output := Some bs, t := None)"
    using run assms(3) by (auto simp: io_inv save_map_Inr promote_map_Inr)
  have "save_edited lib input m (fs(t := None)) = lib_save lib bs0 \<lparr>mf_scenario = m, mf_modified = []\<rparr>"
    using src(1) assms(2) by (simp add: save_edited_def file_bytes_def)
  with saved rest src show ?thesis by auto
qed

text \<open>
  C5: If \<open>mapEdit\<close> succeeds, the input is the map the batch names, by digest, tileset and size, and is
  still there; the output holds what the writer makes of the input map after all operations, its assets are
  those of the input and it loads; the temporary file is gone. An input map that is well-formed for the game
  data stays so, with the same dimensions, and there is one effect for each operation in the report.
\<close>

theorem map_edit_exact:
  assumes store: "length (lib_store lib) = 64" and t: "input \<noteq> temporary_output_path lib output"
    and ok: "map_edit lib load_assets input output star_craft batch fs = (Inr report, fs')"
  shows "\<exists>bs0 bs b m n a ops effects assets.
     parse_edit_batch batch = Inr b \<and> fs input = Some bs0 \<and> fips_sha256 bs0 = lower_ascii (eb_hash b) \<and>
     lib_load lib bs0 = Some m \<and> check_expected_map (eb_expected b) m = Inr () \<and>
     batch_operations (eb_object b) = Inr ops \<and> load_assets star_craft = Inr a \<and>
     edit_operations lib a ops m = Inr (n, effects) \<and>
     lib_save lib bs0 \<lparr>mf_scenario = n, mf_modified = []\<rparr> = (True, Some bs) \<and>
     inventory_of lib bs0 = Some assets \<and> inventory_of lib bs = Some assets \<and> lib_load lib bs \<noteq> None \<and>
     fs' = fs(output := Some bs, temporary_output_path lib output := None) \<and>
     report = edit_report lib (length ops) effects (eb_hash b) (fips_sha256 bs) assets \<and>
     ((\<forall>k. tileset_ok (isom_of a k)) \<and> map_ok_for a m \<longrightarrow>
        map_ok_for a n \<and> same_dimensions m n \<and> length effects = length ops)"
proof -
  let ?t = "temporary_output_path lib output" and ?fs = "fs(output := None)"
  obtain b m ops n effects assets h where paths: "lower_ascii input \<noteq> lower_ascii output"
    and b: "parse_edit_batch batch = Inr b"
    and src: "\<exists>bs0. ?fs input = Some bs0 \<and> fips_sha256 bs0 = lower_ascii (eb_hash b) \<and> lib_load lib bs0 = Some m"
    and run: "check_expected_map (eb_expected b) m = Inr ()" "batch_operations (eb_object b) = Inr ops"
      "\<exists>a. load_assets star_craft = Inr a \<and> edit_operations lib a ops m = Inr (n, effects)"
    and written: "\<exists>fs1. write_edited lib input output ?t n ?fs = (Inr assets, fs1) \<and> file_sha256 lib output fs1 = (Inr h, fs')"
    and report: "report = edit_report lib (length ops) effects (eb_hash b) h assets"
    using ok unfolding map_edit_def
    by (auto simp: io_inv file_sha256_Inr [OF store] delete_file_def split: prod.splits)
  have differ: "input \<noteq> output" using paths by auto
  obtain fs1 where fs1: "write_edited lib input output ?t n ?fs = (Inr assets, fs1)" "file_sha256 lib output fs1 = (Inr h, fs')"
    using written by blast
  obtain bs0 bs where w: "?fs input = Some bs0" "inventory_of lib bs0 = Some assets"
    "lib_save lib bs0 \<lparr>mf_scenario = n, mf_modified = []\<rparr> = (True, Some bs)" "inventory_of lib bs = Some assets"
    "lib_load lib bs \<noteq> None" "fs1 = ?fs(output := Some bs, ?t := None)"
    using write_edited_Inr [OF fs1(1) t temporary_differs] by blast
  have h: "h = fips_sha256 bs" "fs' = fs(output := Some bs, ?t := None)"
    using fs1(2) w(6) temporary_differs [of lib "output"] by (auto simp: file_sha256_Inr [OF store])
  obtain a where a: "load_assets star_craft = Inr a" "edit_operations lib a ops m = Inr (n, effects)" using run(3) by blast
  have "(\<forall>k. tileset_ok (isom_of a k)) \<and> map_ok_for a m \<longrightarrow>
      map_ok_for a n \<and> same_dimensions m n \<and> length effects = length ops"
    using batch_kept [of a lib m "[]" "enumerate 0 ops" n effects] a(2) by (auto simp: edit_operations_def)
  moreover have "fs input = Some bs0" "fips_sha256 bs0 = lower_ascii (eb_hash b)" "lib_load lib bs0 = Some m"
    using w(1) src differ by auto
  ultimately show ?thesis using b run(1,2) a w(2-5) h report by blast
qed

lemma verify_new_None:
  "verify_new spec v = None \<longleftrightarrow> (\<exists>m. v = Some m \<and> sc_tileset m = ns_tileset spec \<and> tile_width m = ns_width spec
     \<and> tile_height m = ns_height spec \<and> count_starts m = length (filter (\<lambda>p. ps_start p \<noteq> None) (ns_players spec)))"
  by (auto simp: verify_new_def split: option.splits if_splits)

text \<open>
  C8: If \<open>mapNew\<close> succeeds, there was no output file before; the output now holds what the writer makes of
  the map built from the specification, and it loads to a map of the specified tileset and size with as
  many start locations as specified. No other file has changed.
\<close>

theorem map_new_exact:
  assumes store: "length (lib_store lib) = 64"
    and ok: "map_new lib save_new load_assets output star_craft text fs = (Inr report, fs')"
  shows "\<exists>spec a m bs n.
     fs output = None \<and> parse_new_spec text = Inr spec \<and> load_assets star_craft = Inr a \<and>
     build_new_map a spec = Inr m \<and> save_new (ns_save_type spec) m = (True, Some bs) \<and> lib_load lib bs = Some n \<and>
     sc_tileset n = ns_tileset spec \<and> tile_width n = ns_width spec \<and> tile_height n = ns_height spec \<and>
     count_starts n = length (filter (\<lambda>p. ps_start p \<noteq> None) (ns_players spec)) \<and>
     fs' = fs(output := Some bs, temporary_output_path lib output := None) \<and>
     report = new_report spec (fips_sha256 bs)"
proof -
  let ?t = "temporary_output_path lib output"
  note differ = temporary_differs [of lib "output"]
  obtain spec a m where pre: "fs output = None" "parse_new_spec text = Inr spec" "load_assets star_craft = Inr a"
    "build_new_map a spec = Inr m"
    and rest: "\<exists>written bs h. save_new (ns_save_type spec) m = (True, written) \<and> written = Some bs
      \<and> verify_new spec (lib_load lib bs) = None \<and> h = fips_sha256 bs
      \<and> fs' = fs(output := Some bs, ?t := None) \<and> report = new_report spec h"
    using ok differ unfolding map_new_def Let_def
    by (auto simp: io_inv save_map_Inr promote_map_Inr file_sha256_Inr [OF store] file_exists_def split: if_splits)
  obtain bs where bs: "save_new (ns_save_type spec) m = (True, Some bs)" "verify_new spec (lib_load lib bs) = None"
    "fs' = fs(output := Some bs, ?t := None)" "report = new_report spec (fips_sha256 bs)" using rest by blast
  obtain n where "lib_load lib bs = Some n" "sc_tileset n = ns_tileset spec" "tile_width n = ns_width spec"
    "tile_height n = ns_height spec" "count_starts n = length (filter (\<lambda>p. ps_start p \<noteq> None) (ns_players spec))"
    using bs(2) unfolding verify_new_None by blast
  with pre bs show ?thesis by blast
qed

end
