(* ===== verification/AgentNewProps.thy ===== *)
theory AgentNewProps
  imports AgentBatchProps AgentNew
begin

text \<open>
  \<open>mapNew\<close>: every specification the parser accepts, with a brush of the tileset, is built, and the map
  built is the one specified; the check of the saved file agrees with the builder.
\<close>

section \<open>Accepted specifications\<close>

definition player_ok :: "nat \<Rightarrow> nat \<Rightarrow> nat \<Rightarrow> player_spec \<Rightarrow> bool" where
  "player_ok width height forces p \<longleftrightarrow> ps_slot p < total_players
     \<and> (\<forall>n. ps_force p = Some n \<longrightarrow> ps_slot p < total_slots \<and> n < forces)
     \<and> (\<forall>x y. ps_start p = Some (x, y) \<longrightarrow>
          ps_slot p < total_slots \<and> unat x < width * 32 \<and> unat y < height * 32)"

definition spec_ok :: "new_spec \<Rightarrow> bool" where
  "spec_ok spec \<longleftrightarrow> 64 \<le> ns_width spec \<and> ns_width spec \<le> 256 \<and> 64 \<le> ns_height spec \<and> ns_height spec \<le> 256
     \<and> length (ns_forces spec) \<le> total_forces \<and> distinct (map ps_slot (ns_players spec))
     \<and> (\<forall>p \<in> set (ns_players spec). player_ok (ns_width spec) (ns_height spec) (length (ns_forces spec)) p)"

lemma parse_start_Inr:
  "parse_start width height slot v ctx = Inr (x, y) \<Longrightarrow> slot < total_slots \<and> unat x < width * 32 \<and> unat y < height * 32"
  by (auto simp: parse_start_def Let_def bindE_Inr not_le split: if_splits)

lemma parse_player_force_Inr:
  "parse_player_force forces slot player ctx = Inr (Some n) \<Longrightarrow> slot < total_slots \<and> n < forces"
  by (auto simp: parse_player_force_def Let_def bindE_Inr not_le split: if_splits)

lemma optional_value_Some: "optional_value v f = Inr (Some x) \<Longrightarrow> \<exists>w. f w = Inr x"
  by (cases v) (auto simp: optional_value_def bindE_Inr)

lemma parse_player_ok:
  assumes "parse_player width height forces players (index, v) = Inr players'"
    and "distinct (map ps_slot players)" "\<forall>p \<in> set players. player_ok width height forces p"
  shows "distinct (map ps_slot players') \<and> (\<forall>p \<in> set players'. player_ok width height forces p)"
proof -
  obtain slot t race force start player ctx w where p: "players' = players @ [\<lparr>ps_slot = slot, ps_type = t, ps_race = race,
      ps_force = force, ps_start = start\<rparr>]"
    "slot < total_players" "slot \<notin> ps_slot ` set players"
    and force: "parse_player_force forces slot player ctx = Inr force"
    and start: "optional_value w (\<lambda>v. parse_start width height slot v ctx) = Inr start"
    using assms(1) by (auto simp: parse_player_def Let_def bindE_Inr not_le split: if_splits)
  have "player_ok width height forces \<lparr>ps_slot = slot, ps_type = t, ps_race = race, ps_force = force, ps_start = start\<rparr>"
    using p(2) parse_player_force_Inr force start
    by (auto simp: player_ok_def dest!: optional_value_Some dest: parse_start_Inr)
  with p assms(2,3) show ?thesis by auto
qed

lemma parse_players_ok:
  assumes "parse_players width height forces spec = Inr players"
  shows "distinct (map ps_slot players) \<and> (\<forall>p \<in> set players. player_ok width height forces p)"
proof (cases "optional_field spec ''players''")
  case None
  then show ?thesis using assms by (simp add: parse_players_def)
next
  case (Some v)
  then obtain ps where "foldE (parse_player width height forces) [] (enumerate 0 ps) = Inr players"
    using assms by (auto simp: parse_players_def bindE_Inr split: if_splits)
  then show ?thesis
    by (rule foldE_invariant) (use parse_player_ok in \<open>auto simp: split_paired_all\<close>)
qed

lemma parse_forces_length:
  assumes "parse_forces spec = Inr forces"
  shows "length forces \<le> total_forces"
proof (cases "optional_field spec ''forces''")
  case None
  then show ?thesis using assms by (auto simp: parse_forces_def total_forces_def)
next
  case (Some v)
  then show ?thesis
    using assms by (auto simp: parse_forces_def bindE_Inr not_less dest!: length_mapE split: if_splits)
qed

lemma parse_new_spec_ok:
  assumes "parse_new_spec text = Inr spec"
  shows "spec_ok spec"
proof -
  obtain obj forces players w h where "parse_forces obj = Inr forces" "parse_players w h (length forces) obj = Inr players"
    "ns_forces spec = forces" "ns_players spec = players" "ns_width spec = w" "ns_height spec = h"
    "64 \<le> w" "w \<le> 256" "64 \<le> h" "h \<le> 256"
    using assms unfolding parse_new_spec_def
    by (auto simp: bindE_Inr not_less not_le split: if_split_asm)
  then show ?thesis using parse_forces_length parse_players_ok by (simp add: spec_ok_def)
qed

section \<open>Texts\<close>

text \<open>A map on which only its texts, forces and locations use strings.\<close>

definition bare :: "scenario \<Rightarrow> bool" where
  "bare m \<longleftrightarrow> arrays_ok m \<and> sc_triggers m = [] \<and> sc_briefing_triggers m = [] \<and> set (sc_unit_names m) \<subseteq> {0}
     \<and> set (sc_orig_unit_names m) \<subseteq> {0} \<and> set (sc_switch_names m) \<subseteq> {0} \<and> set (sc_sound_paths m) \<subseteq> {0}
     \<and> length (sc_locations m) \<le> 256"

lemma bare_unused:
  assumes "bare m"
  shows "\<exists>i. 0 < i \<and> i < max_strings \<and> \<not> string_used i UsageEither user_all False m"
proof (rule ccontr)
  assume all: "\<not> ?thesis"
  let ?ids = "unat (sc_name_id m) # unat (sc_description_id m) # map unat (sc_force_strings m) @
    map (\<lambda>l. unat (loc_string_id l)) (sc_locations m)"
  have "{1..<max_strings} \<subseteq> set ?ids"
  proof
    fix i assume "i \<in> {1..<max_strings}"
    then have i: "0 < i" "i < max_strings" by auto
    then have small: "i < 65536" by (simp add: max_strings_def)
    have zero: "(of_nat i :: u16) \<noteq> 0" "(of_nat i :: u32) \<noteq> 0" using of_nat_id_nonzero i by auto
    have "of_nat i \<notin> set (sc_unit_names m)" "of_nat i \<notin> set (sc_orig_unit_names m)"
      "of_nat i \<notin> set (sc_switch_names m)" "of_nat i \<notin> set (sc_sound_paths m)"
      "sc_triggers m = []" "sc_briefing_triggers m = []"
      using assms zero by (auto simp: bare_def)
    moreover have "string_used i UsageEither user_all False m" using all i by blast
    ultimately have "of_nat i = sc_name_id m \<or> of_nat i = sc_description_id m \<or>
        of_nat i \<in> {sc_force_strings m ! 0, sc_force_strings m ! 1, sc_force_strings m ! 2, sc_force_strings m ! 3} \<or>
        (\<exists>l \<in> set (sc_locations m). i = unat (loc_string_id l))"
      using i unfolding string_used_def properties_string_used_def force_string_used_def unit_string_used_def
        location_string_used_def triggers_string_used_def string_is_sound_def
      by (simp, metis)
    moreover have "{sc_force_strings m ! 0, sc_force_strings m ! 1, sc_force_strings m ! 2, sc_force_strings m ! 3}
        \<subseteq> set (sc_force_strings m)"
      using assms by (auto simp: bare_def arrays_ok_def total_forces_def)
    ultimately have "of_nat i \<in> {sc_name_id m, sc_description_id m} \<union> set (sc_force_strings m) \<or>
        i \<in> set (map (\<lambda>l. unat (loc_string_id l)) (sc_locations m))" by auto
    then have "unat (of_nat i :: u16) \<in> set ?ids \<or> i \<in> set ?ids" by auto
    then show "i \<in> set ?ids" using small by simp
  qed
  then have "card {1..<max_strings} \<le> card (set ?ids)" by (intro card_mono) auto
  also have "\<dots> \<le> length ?ids" by (rule card_length)
  also have "\<dots> \<le> 262" using assms by (simp add: bare_def arrays_ok_def total_forces_def)
  finally show False by (simp add: max_strings_def)
qed

lemma bare_add_string:
  assumes "bare m"
  shows "\<exists>i strs. add_string s auto m = Inr (i, m\<lparr>sc_strings := strs\<rparr>)"
proof -
  have arrays: "arrays_ok m" using assms by (simp add: bare_def)
  have "first_unused (mark_used_strings UsageEither user_all m {}) \<noteq> None"
    using bare_unused [OF assms] either.first_unused_None [OF arrays] by blast
  then obtain i n where run: "add_string s auto m = Inr (i, n)"
    using add_string_cases(1) [of s m auto] add_string_cases(3) [of s m _ auto]
    by (cases "find_string s m = 0") fastforce+
  obtain strs where "n = m\<lparr>sc_strings := strs\<rparr>" by (rule add_string_frame [OF run])
  with run show ?thesis by auto
qed

text \<open>The stages that write texts.\<close>

definition relabelled :: "scenario \<Rightarrow> scenario \<Rightarrow> bool" where
  "relabelled m n \<longleftrightarrow> (\<exists>ss i j fs gs. n = m\<lparr>sc_strings := ss, sc_name_id := i, sc_description_id := j,
     sc_force_strings := fs, sc_force_flags := gs\<rparr>
     \<and> length fs = length (sc_force_strings m) \<and> length gs = length (sc_force_flags m))"

lemma relabelledI:
  assumes "n = m\<lparr>sc_strings := ss, sc_name_id := i, sc_description_id := j, sc_force_strings := fs, sc_force_flags := gs\<rparr>"
    "length fs = length (sc_force_strings m)" "length gs = length (sc_force_flags m)"
  shows "relabelled m n"
  using assms unfolding relabelled_def by blast

lemma relabelled_trans:
  assumes "relabelled m n" "relabelled n k"
  shows "relabelled m k"
proof -
  obtain ss i j fs gs where n: "n = m\<lparr>sc_strings := ss, sc_name_id := i, sc_description_id := j,
     sc_force_strings := fs, sc_force_flags := gs\<rparr>" "length fs = length (sc_force_strings m)" "length gs = length (sc_force_flags m)"
    using assms(1) unfolding relabelled_def by blast
  obtain ss' i' j' fs' gs' where k: "k = n\<lparr>sc_strings := ss', sc_name_id := i', sc_description_id := j',
     sc_force_strings := fs', sc_force_flags := gs'\<rparr>" "length fs' = length (sc_force_strings n)" "length gs' = length (sc_force_flags n)"
    using assms(2) unfolding relabelled_def by blast
  show ?thesis by (rule relabelledI [where ss = ss' and i = i' and j = j' and fs = fs' and gs = gs']) (use n k in simp_all)
qed

lemma relabelled_kept:
  assumes "relabelled m n"
  shows "bare n = bare m" "same_dimensions m n" "sc_units n = sc_units m"
    "sc_slot_types n = sc_slot_types m" "map_ok_for a n = map_ok_for a m"
proof -
  obtain ss i j fs gs where n: "n = m\<lparr>sc_strings := ss, sc_name_id := i, sc_description_id := j,
     sc_force_strings := fs, sc_force_flags := gs\<rparr>" "length fs = length (sc_force_strings m)" "length gs = length (sc_force_flags m)"
    using assms unfolding relabelled_def by blast
  show "bare n = bare m" "sc_units n = sc_units m" "sc_slot_types n = sc_slot_types m"
    using n by (simp_all add: bare_def arrays_ok_def)
  show same: "same_dimensions m n" using n by (simp add: same_dimensions_def)
  show "map_ok_for a n = map_ok_for a m"
    using n same_dimensions_objects [OF same]
    by (simp add: map_ok_for_def arrays_ok_def terrain_ok_def objects_ok_def isom_section_size_def)
qed

lemma set_name_total:
  assumes "bare m"
  shows "\<exists>n. set_scenario_name s True m = Inr n \<and> relabelled m n"
proof -
  obtain i strs where "add_string s True m = Inr (i, m\<lparr>sc_strings := strs\<rparr>)" using bare_add_string [OF assms] by blast
  then show ?thesis
    by (auto simp: set_scenario_name_def intro!: relabelledI [where m = m and ss = strs and j = "sc_description_id m"
      and fs = "sc_force_strings m" and gs = "sc_force_flags m" and i = "if i \<noteq> 0 then of_nat i else sc_name_id m"])
qed

lemma set_description_total:
  assumes "bare m"
  shows "\<exists>n. set_scenario_description s True m = Inr n \<and> relabelled m n"
proof -
  obtain i strs where "add_string s True m = Inr (i, m\<lparr>sc_strings := strs\<rparr>)" using bare_add_string [OF assms] by blast
  then show ?thesis
    by (auto simp: set_scenario_description_def intro!: relabelledI [where m = m and ss = strs and i = "sc_name_id m"
      and fs = "sc_force_strings m" and gs = "sc_force_flags m" and j = "if i \<noteq> 0 then of_nat i else sc_description_id m"])
qed

lemma add_force_spec_total:
  assumes "bare m" "index < total_forces"
  shows "\<exists>n. add_force_spec m (index, f) = Inr n \<and> relabelled m n"
proof -
  obtain i strs where add: "add_string (fs_name f) True m = Inr (i, m\<lparr>sc_strings := strs\<rparr>)"
    using bare_add_string [OF assms(1)] by blast
  have index: "unat (of_nat index :: u8) = index" using assms(2) by (simp add: total_forces_def)
  let ?fs = "if i \<noteq> 0 then (sc_force_strings m)[index := of_nat i] else sc_force_strings m"
  have "add_force_spec m (index, f) = Inr (m\<lparr>sc_strings := strs, sc_force_strings := ?fs,
      sc_force_flags := (sc_force_flags m)[index := fs_flags f]\<rparr>)"
    using add assms(2) by (simp add: add_force_spec_def set_force_name_def set_force_flags_def index)
  then show ?thesis
    by (intro exI conjI) (assumption, rule relabelledI [where ss = strs and i = "sc_name_id m" and
      j = "sc_description_id m" and fs = ?fs and gs = "(sc_force_flags m)[index := fs_flags f]"], simp_all)
qed

lemma add_forces_total:
  assumes "bare m" "length forces \<le> total_forces"
  shows "\<exists>n. foldE add_force_spec m (enumerate 0 forces) = Inr n \<and> relabelled m n"
proof (rule foldE_total)
  show "relabelled m m" by (rule relabelledI [where ss = "sc_strings m" and i = "sc_name_id m" and
      j = "sc_description_id m" and fs = "sc_force_strings m" and gs = "sc_force_flags m"]) simp_all
  show "\<exists>v. add_force_spec u x = Inr v \<and> relabelled m v" if "x \<in> set (enumerate 0 forces)" "relabelled m u" for u x
  proof -
    obtain index f where x: "x = (index, f)" by (cases x)
    then have "index < total_forces" using that(1) assms(2) by (auto simp: in_set_enumerate_eq)
    moreover have "bare u" using relabelled_kept(1) [OF that(2)] assms(1) by simp
    ultimately show ?thesis using add_force_spec_total [of u index f] relabelled_trans [OF that(2)] x by blast
  qed
qed

section \<open>Terrain\<close>

text \<open>Every terrain type of a tileset has a row of the link table.\<close>

definition type_values_ok :: "tileset_data \<Rightarrow> bool" where
  "type_values_ok td \<longleftrightarrow> (\<forall>t \<in> set (td_terrain_types td). unat (tti_isom_value t) < length (td_isom_links td))"

definition start_map :: "new_spec \<Rightarrow> scenario" where
  "start_map spec = new_scenario (ns_tileset spec) (of_nat (ns_width spec)) (of_nat (ns_height spec))"

lemma start_map_size:
  assumes "spec_ok spec"
  shows "tile_width (start_map spec) = ns_width spec" "tile_height (start_map spec) = ns_height spec"
  using assms by (simp_all add: start_map_def new_scenario_def Let_def spec_ok_def)

lemma uniform_rect_ok:
  assumes "unat v < n" "n \<le> 0x800" and w: "w = push_bit 4 v OR flag_modified"
  shows "rect_ok n \<lparr>ir_left = w, ir_top = w, ir_right = w, ir_bottom = w\<rparr>"
proof -
  have "v < 0x1000" using assms(1,2) by (simp add: word_less_nat_alt)
  then have d: "drop_bit 4 w = v" unfolding w by (rule drop_push_flags) (simp add: flag_modified_def)
  have "unat (drop_bit 4 (w AND flags_clear_all)) \<le> unat v" using clear_bits_le [of w] d by simp
  moreover have "rect_isom_value \<lparr>ir_left = w, ir_top = w, ir_right = w, ir_bottom = w\<rparr> s = w AND flags_clear_all" for s
    by (cases s) (simp_all add: rect_isom_value_def)
  ultimately show ?thesis using d assms(1) by (simp add: rect_ok_def)
qed

lemma fill_terrain_total:
  assumes td: "tileset_ok td" "type_values_ok td" and spec: "spec_ok spec" and a: "td = isom_of a (ns_tileset spec)"
  shows "\<exists>n. fill_terrain td spec (start_map spec) = Inr n \<and> terrain_change (start_map spec) n
    \<and> same_dimensions (start_map spec) n \<and> terrain_ok a n"
proof -
  let ?m = "start_map spec" and ?seed = "isom_variation_seed [ns_tileset spec, ns_width spec, ns_height spec, ns_terrain_type spec]"
  note dims = start_map_size [OF spec]
  define c where "c = seed_subtile_variation ?seed (new_cache (ns_tileset spec) (ns_width spec) (ns_height spec) td)"
  define v where "v = terrain_type_isom_value c (ns_terrain_type spec)"
  define w where "w = push_bit 4 v OR flag_modified"
  define s where "s = (copy_to_sc_map ?m)\<lparr>sm_rects := replicate (isom_width (copy_to_sc_map ?m) * isom_height (copy_to_sc_map ?m))
    \<lparr>ir_left = w, ir_top = w, ir_right = w, ir_bottom = w\<rparr>\<rparr>"
  have c: "ic_links c = td_isom_links td" "ic_types c = td_terrain_types td" "ic_width c = ns_width spec div 2 + 1"
    "ic_height c = ns_height spec + 1" "length (ic_undo c) = (ns_width spec div 2 + 1) * (ns_height spec + 1)"
    "cache_ok c" "hash_ok c"
    using td(1) by (simp_all add: c_def seed_subtile_variation_def new_cache_def Let_def reset_changed_area_def
        tileset_ok_def cache_ok_def hash_ok_def)
  have s: "isom_width s = ns_width spec div 2 + 1" "isom_height s = ns_height spec + 1"
    using dims by (simp_all add: s_def isom_width_def isom_height_def copy_to_sc_map_def)
  have "unat v < length (td_isom_links td)" "length (td_isom_links td) \<le> 0x800"
    using td c by (auto simp: v_def terrain_type_isom_value_def type_values_ok_def cache_ok_def)
  then have rects: "\<forall>r \<in> set (sm_rects s). rect_ok (length (td_isom_links td)) r"
    using uniform_rect_ok [OF _ _ w_def] by (simp add: s_def)
  have pre: "state_ok (s, set_all_changed c)" "tiles_ok s" "hash_ok (set_all_changed c)"
    "bb_right (ic_changed (set_all_changed c)) < isom_width s" "bb_bottom (ic_changed (set_all_changed c)) < isom_height s"
  proof -
    have "length (sm_rects s) = isom_width s * isom_height s"
      by (simp add: s_def isom_width_def isom_height_def copy_to_sc_map_def)
    then show "state_ok (s, set_all_changed c)"
      using c s rects by (simp add: state_ok_def isom_ok_def set_all_changed_def cache_ok_def)
    show "tiles_ok s" by (simp add: tiles_ok_def s_def copy_to_sc_map_def start_map_def new_scenario_def Let_def)
    show "hash_ok (set_all_changed c)" using c(7) by (simp add: hash_ok_def set_all_changed_def)
    have "ns_width spec div 2 + 1 < size_limit" "ns_height spec + 1 < size_limit"
      using spec by (auto simp: spec_ok_def size_limit_def)
    then show "bb_right (ic_changed (set_all_changed c)) < isom_width s" "bb_bottom (ic_changed (set_all_changed c)) < isom_height s"
      using c s by (simp_all add: set_all_changed_def)
  qed
  obtain s' c' where u: "update_tiles_from_isom (s, set_all_changed c) = Inr (s', c')" "tiles_ok s'" "state_ok (s', c')"
    "sm_tile_width s' = sm_tile_width s" "sm_tile_height s' = sm_tile_height s" "sm_tileset s' = sm_tileset s"
    "ic_links c' = ic_links (set_all_changed c)"
    using update_tiles_ok [OF pre] by blast
  have frame: "sm_tile_width s' = sc_width ?m" "sm_tile_height s' = sc_height ?m" "sm_tileset s' = sc_tileset ?m"
    "ic_links c' = td_isom_links td" "sc_tileset ?m = ns_tileset spec"
    using u(4-7) c(1) by (simp_all add: s_def copy_to_sc_map_def set_all_changed_def start_map_def new_scenario_def Let_def)
  let ?n = "copy_from_sc_map ?m s'"
  have "fill_terrain td spec ?m = Inr ?n"
    using u(1) unfolding s_def w_def v_def c_def by (simp add: fill_terrain_def Let_def)
  moreover have "?n = ?m\<lparr>sc_tiles := sm_tiles s', sc_editor_tiles := sm_editor_tiles s', sc_isom := sm_rects s'\<rparr>"
    using frame by (simp add: copy_from_sc_map_def)
  then have "terrain_change ?m ?n" unfolding terrain_change_def by blast
  moreover have "same_dimensions ?m ?n" using frame by (simp add: same_dimensions_def copy_from_sc_map_def)
  moreover have "terrain_ok a ?n"
    using u(2,3) frame a by (simp add: terrain_ok_def tiles_ok_def state_ok_def copy_from_sc_map_def)
  ultimately show ?thesis by blast
qed

section \<open>Slots and players\<close>

definition players_changed :: "scenario \<Rightarrow> chk_unit list \<Rightarrow> scenario \<Rightarrow> bool" where
  "players_changed m us n \<longleftrightarrow> (\<exists>ts js rs fs. n = m\<lparr>sc_slot_types := ts, sc_iown_slot_types := js, sc_races := rs,
     sc_player_forces := fs, sc_units := sc_units m @ us\<rparr> \<and> length ts = length (sc_slot_types m)
     \<and> length js = length (sc_iown_slot_types m) \<and> length rs = length (sc_races m) \<and> length fs = length (sc_player_forces m))"

lemma players_changedI:
  assumes "n = m\<lparr>sc_slot_types := ts, sc_iown_slot_types := js, sc_races := rs, sc_player_forces := fs,
      sc_units := sc_units m @ us\<rparr>"
    "length ts = length (sc_slot_types m)" "length js = length (sc_iown_slot_types m)"
    "length rs = length (sc_races m)" "length fs = length (sc_player_forces m)"
  shows "players_changed m us n"
  using assms unfolding players_changed_def by blast

lemma players_changed_refl: "players_changed m [] m"
  by (rule players_changedI [where ts = "sc_slot_types m" and js = "sc_iown_slot_types m" and rs = "sc_races m"
      and fs = "sc_player_forces m"]) simp_all

lemma players_changed_trans:
  assumes "players_changed m us n" "players_changed n ws k"
  shows "players_changed m (us @ ws) k"
proof -
  obtain ts js rs fs where n: "n = m\<lparr>sc_slot_types := ts, sc_iown_slot_types := js, sc_races := rs, sc_player_forces := fs,
      sc_units := sc_units m @ us\<rparr>" "length ts = length (sc_slot_types m)" "length js = length (sc_iown_slot_types m)"
    "length rs = length (sc_races m)" "length fs = length (sc_player_forces m)"
    using assms(1) unfolding players_changed_def by blast
  obtain ts' js' rs' fs' where k: "k = n\<lparr>sc_slot_types := ts', sc_iown_slot_types := js', sc_races := rs', sc_player_forces := fs',
      sc_units := sc_units n @ ws\<rparr>" "length ts' = length (sc_slot_types n)" "length js' = length (sc_iown_slot_types n)"
    "length rs' = length (sc_races n)" "length fs' = length (sc_player_forces n)"
    using assms(2) unfolding players_changed_def by blast
  show ?thesis
    by (rule players_changedI [where ts = ts' and js = js' and rs = rs' and fs = fs']) (use n k in simp_all)
qed

lemma players_changed_kept:
  assumes "players_changed m us n"
  shows "same_dimensions m n" "arrays_ok n = arrays_ok m" "sc_units n = sc_units m @ us"
    "map_ok_for a n \<longleftrightarrow> map_ok_for a m \<and> (\<forall>u \<in> set us. unit_ok m u)"
proof -
  obtain ts js rs fs where n: "n = m\<lparr>sc_slot_types := ts, sc_iown_slot_types := js, sc_races := rs, sc_player_forces := fs,
      sc_units := sc_units m @ us\<rparr>" "length ts = length (sc_slot_types m)" "length js = length (sc_iown_slot_types m)"
    "length rs = length (sc_races m)" "length fs = length (sc_player_forces m)"
    using assms unfolding players_changed_def by blast
  show same: "same_dimensions m n" using n by (simp add: same_dimensions_def)
  show arrays: "arrays_ok n = arrays_ok m" using n by (simp add: arrays_ok_def)
  show "sc_units n = sc_units m @ us" using n by simp
  show "map_ok_for a n \<longleftrightarrow> map_ok_for a m \<and> (\<forall>u \<in> set us. unit_ok m u)"
    using n arrays same_dimensions_objects [OF same]
    by (auto simp: map_ok_for_def terrain_ok_def objects_ok_def isom_section_size_def)
qed

lemma clear_slots_total:
  assumes "arrays_ok m"
  shows "\<exists>n. foldE (\<lambda>m slot. set_slot_type slot slot_inactive BothScope m) m [0..<total_players] = Inr n
    \<and> players_changed m [] n \<and> (\<forall>i < total_players. sc_slot_types n ! i = slot_inactive)"
proof -
  let ?f = "\<lambda>m slot. set_slot_type slot slot_inactive BothScope m"
  have "\<exists>n. foldE ?f m [0..<total_players] = Inr n \<and> (players_changed m [] n)
    \<and> (\<forall>x \<in> set [0..<total_players]. \<forall>i \<in> {x}. sc_slot_types n ! i = slot_inactive)
    \<and> (\<forall>i. sc_slot_types m ! i = slot_inactive \<longrightarrow> sc_slot_types n ! i = slot_inactive)"
  proof (rule foldE_total_establishes)
    show "players_changed m [] m" by (rule players_changed_refl)
    fix u x assume x: "x \<in> set [0..<total_players]" and u: "players_changed m [] u"
    let ?u = "u\<lparr>sc_slot_types := (sc_slot_types u)[x := slot_inactive],
      sc_iown_slot_types := (sc_iown_slot_types u)[x := slot_inactive]\<rparr>"
    have len: "length (sc_slot_types u) = total_players"
      using players_changed_kept(2) [OF u] assms by (simp add: arrays_ok_def)
    have "players_changed u [] ?u"
      by (rule players_changedI [where ts = "(sc_slot_types u)[x := slot_inactive]" and
          js = "(sc_iown_slot_types u)[x := slot_inactive]" and rs = "sc_races u" and fs = "sc_player_forces u"]) simp_all
    then have "players_changed m [] ?u" using players_changed_trans [OF u] by simp
    moreover have "?f u x = Inr ?u" using x by (simp add: set_slot_type_def)
    moreover have "\<forall>i. i = x \<or> sc_slot_types u ! i = slot_inactive \<longrightarrow> sc_slot_types ?u ! i = slot_inactive"
      using x len by (auto simp: nth_list_update)
    ultimately show "\<exists>v. ?f u x = Inr v \<and> players_changed m [] v \<and> (\<forall>i \<in> {x}. sc_slot_types v ! i = slot_inactive)
        \<and> (\<forall>i. sc_slot_types u ! i = slot_inactive \<longrightarrow> sc_slot_types v ! i = slot_inactive)" by blast
  qed
  then show ?thesis by auto
qed

text \<open>The start locations of a list of players, in its order.\<close>

definition start_units :: "player_spec list \<Rightarrow> chk_unit list" where
  "start_units ps = concat (map (\<lambda>p. case ps_start p of None \<Rightarrow> [] | Some q \<Rightarrow> [start_unit p q]) ps)"

lemma add_player_total:
  assumes "arrays_ok m" "player_ok width height forces p"
  shows "\<exists>n. add_player_spec m p = Inr n \<and> players_changed m (start_units [p]) n
    \<and> sc_slot_types n = (sc_slot_types m)[ps_slot p := ps_type p]"
proof -
  let ?i = "ps_slot p"
  let ?fs = "case ps_force p of None \<Rightarrow> sc_player_forces m | Some n \<Rightarrow> (sc_player_forces m)[?i := of_nat n]"
  let ?n = "m\<lparr>sc_slot_types := (sc_slot_types m)[?i := ps_type p], sc_iown_slot_types := (sc_iown_slot_types m)[?i := ps_type p],
    sc_races := (sc_races m)[?i := ps_race p], sc_player_forces := ?fs, sc_units := sc_units m @ start_units [p]\<rparr>"
  have "add_player_spec m p = Inr ?n"
    using assms(2)
    by (cases "ps_force p"; cases "ps_start p")
      (auto simp: add_player_spec_def player_ok_def set_slot_type_def set_player_race_def set_optional_def
        set_player_force_def add_unit_def start_units_def)
  moreover have "players_changed m (start_units [p]) ?n"
    by (rule players_changedI [where ts = "(sc_slot_types m)[?i := ps_type p]" and js = "(sc_iown_slot_types m)[?i := ps_type p]"
      and rs = "(sc_races m)[?i := ps_race p]" and fs = ?fs]) (simp_all split: option.split)
  ultimately show ?thesis by auto
qed

lemma add_players_total:
  assumes "arrays_ok m" "distinct (map ps_slot ps)" "\<forall>p \<in> set ps. player_ok width height forces p"
  shows "\<exists>n. foldE add_player_spec m ps = Inr n \<and> players_changed m (start_units ps) n
    \<and> (\<forall>p \<in> set ps. sc_slot_types n ! ps_slot p = ps_type p)
    \<and> (\<forall>i. i \<notin> ps_slot ` set ps \<longrightarrow> sc_slot_types n ! i = sc_slot_types m ! i)"
  using assms
proof (induction ps arbitrary: m)
  case Nil
  then show ?case using players_changed_refl by (simp add: start_units_def)
next
  case (Cons p ps)
  obtain k where k: "add_player_spec m p = Inr k" "players_changed m (start_units [p]) k"
    "sc_slot_types k = (sc_slot_types m)[ps_slot p := ps_type p]"
    using add_player_total [of m width height forces p] Cons.prems(1,3) by auto
  have "arrays_ok k" using players_changed_kept(2) [OF k(2)] Cons.prems(1) by simp
  then obtain n where n: "foldE add_player_spec k ps = Inr n" "players_changed k (start_units ps) n"
    "\<forall>p \<in> set ps. sc_slot_types n ! ps_slot p = ps_type p"
    "\<forall>i. i \<notin> ps_slot ` set ps \<longrightarrow> sc_slot_types n ! i = sc_slot_types k ! i"
    using Cons.IH [of k] Cons.prems(2,3) by auto
  have p: "ps_slot p < length (sc_slot_types m)" "ps_slot p \<notin> ps_slot ` set ps"
    using Cons.prems by (auto simp: player_ok_def arrays_ok_def)
  have units: "start_units (p # ps) = start_units [p] @ start_units ps" by (simp add: start_units_def)
  have "players_changed m (start_units (p # ps)) n"
    unfolding units using k(2) n(2) by (rule players_changed_trans)
  with k n p show ?case by (auto simp: nth_list_update)
qed

section \<open>The map that is built\<close>

lemma start_map_bare: "bare (start_map spec)" "sc_units (start_map spec) = []"
  by (simp_all add: bare_def arrays_ok_def start_map_def new_scenario_def Let_def default_races_def default_slots_def
      default_locations_def total_players_def total_slots_def total_forces_def total_locations_def location_anywhere_def set_replicate_conv_if)

lemma terrain_change_kept:
  assumes "terrain_change m n" "same_dimensions m n"
  shows "bare n = bare m" "sc_units n = sc_units m" "objects_ok n = objects_ok m"
proof -
  obtain ts es rs where n: "n = m\<lparr>sc_tiles := ts, sc_editor_tiles := es, sc_isom := rs\<rparr>"
    using assms(1) by (auto simp: terrain_change_def)
  then show "bare n = bare m" "sc_units n = sc_units m" by (simp_all add: bare_def arrays_ok_def)
  show "objects_ok n = objects_ok m" using n same_dimensions_objects [OF assms(2)] by (simp add: objects_ok_def)
qed

lemma start_units_ok:
  assumes "player_ok (tile_width m) (tile_height m) forces p" "u \<in> set (start_units [p])"
  shows "unit_ok m u \<and> un_type u = start_location"
proof -
  obtain x y where q: "ps_start p = Some (x, y)" "u = start_unit p (x, y)"
    using assms(2) by (cases "ps_start p") (auto simp: start_units_def)
  then have "ps_slot p < 8" "unat x < tile_width m * 32" "unat y < tile_height m * 32"
    using assms(1) by (simp_all add: player_ok_def total_slots_def)
  moreover from this have "(of_nat (ps_slot p) :: u8) \<le> max_owner"
    by (simp add: word_le_nat_alt max_owner_def)
  ultimately show ?thesis
    using q by (simp add: unit_ok_def start_unit_def start_location_def total_unit_types_def outside_map_def
        pixel_width_def pixel_height_def pixels_per_tile_def not_le mult.commute)
qed

lemma set_start_units: "set (start_units ps) = (\<Union>p \<in> set ps. set (start_units [p]))"
  by (auto simp: start_units_def)

lemma count_start_units:
  "length (filter (\<lambda>u. un_type u = start_location) (start_units ps)) = length (filter (\<lambda>p. ps_start p \<noteq> None) ps)"
  by (induction ps) (auto simp: start_units_def start_unit_def split: option.split)

definition specified_type :: "new_spec \<Rightarrow> nat \<Rightarrow> u8" where
  "specified_type spec i = (case List.find (\<lambda>p. ps_slot p = i) (ns_players spec) of
     None \<Rightarrow> slot_inactive | Some p \<Rightarrow> ps_type p)"

lemma specified_type_eq:
  assumes "distinct (map ps_slot (ns_players spec))"
  shows "p \<in> set (ns_players spec) \<Longrightarrow> specified_type spec (ps_slot p) = ps_type p"
    and "i \<notin> ps_slot ` set (ns_players spec) \<Longrightarrow> specified_type spec i = slot_inactive"
proof -
  show "specified_type spec (ps_slot p) = ps_type p" if p: "p \<in> set (ns_players spec)"
  proof (cases "List.find (\<lambda>q. ps_slot q = ps_slot p) (ns_players spec)")
    case None
    then show ?thesis using p by (auto simp: find_None_iff)
  next
    case (Some q)
    then have "q \<in> set (ns_players spec)" "ps_slot q = ps_slot p" by (auto simp: find_Some_iff)
    then have "q = p" using assms p by (auto simp: distinct_map inj_on_def)
    then show ?thesis using Some by (simp add: specified_type_def)
  qed
  show "specified_type spec i = slot_inactive" if "i \<notin> ps_slot ` set (ns_players spec)"
  proof -
    have "List.find (\<lambda>p. ps_slot p = i) (ns_players spec) = None" using that by (auto simp: find_None_iff)
    then show ?thesis by (simp add: specified_type_def)
  qed
qed

definition brush_of_tileset :: "edit_assets \<Rightarrow> new_spec \<Rightarrow> bool" where
  "brush_of_tileset a spec \<longleftrightarrow>
     list_ex (\<lambda>brush. unat (tti_index brush) = ns_terrain_type spec) (td_brushes (isom_of a (ns_tileset spec)))"

definition as_specified :: "new_spec \<Rightarrow> scenario \<Rightarrow> bool" where
  "as_specified spec m \<longleftrightarrow> tile_width m = ns_width spec \<and> tile_height m = ns_height spec \<and> sc_tileset m = ns_tileset spec
     \<and> sc_units m = start_units (ns_players spec) \<and> (\<forall>i < total_players. sc_slot_types m ! i = specified_type spec i)"

lemma build_new_map_total:
  assumes td: "tileset_ok (isom_of a (ns_tileset spec))" "type_values_ok (isom_of a (ns_tileset spec))"
    and spec: "spec_ok spec" and brush: "brush_of_tileset a spec"
  shows "\<exists>m. build_new_map a spec = Inr m \<and> map_ok_for a m \<and> as_specified spec m"
proof -
  obtain m1 where m1: "fill_terrain (isom_of a (ns_tileset spec)) spec (start_map spec) = Inr m1"
    "terrain_change (start_map spec) m1" "same_dimensions (start_map spec) m1" "terrain_ok a m1"
    using fill_terrain_total [OF td spec refl] by blast
  have b1: "bare m1" "sc_units m1 = []"
    using terrain_change_kept [OF m1(2,3)] start_map_bare [of spec] by simp_all
  have "objects_ok (start_map spec)" by (simp add: objects_ok_def start_map_def new_scenario_def Let_def)
  then have ok1: "map_ok_for a m1"
    using terrain_change_kept(3) [OF m1(2,3)] m1(4) b1(1) by (simp add: map_ok_for_def bare_def)
  obtain m2 where m2: "set_scenario_name (ns_title spec) True m1 = Inr m2" "relabelled m1 m2"
    using set_name_total [OF b1(1)] by blast
  obtain m3 where m3: "set_scenario_description (ns_description spec) True m2 = Inr m3" "relabelled m2 m3"
    using set_description_total [of m2] relabelled_kept(1) [OF m2(2)] b1(1) by blast
  obtain m4 where m4: "foldE add_force_spec m3 (enumerate 0 (ns_forces spec)) = Inr m4" "relabelled m3 m4"
    using add_forces_total [of m3 "ns_forces spec"] relabelled_kept(1) [OF m2(2)] relabelled_kept(1) [OF m3(2)] b1(1) spec
    by (auto simp: spec_ok_def)
  have r4: "relabelled m1 m4" by (rule relabelled_trans [OF m2(2) relabelled_trans [OF m3(2) m4(2)]])
  have b4: "arrays_ok m4" using relabelled_kept(1) [OF r4] b1(1) by (simp add: bare_def)
  obtain m5 where m5: "foldE (\<lambda>m slot. set_slot_type slot slot_inactive BothScope m) m4 [0..<total_players] = Inr m5"
    "players_changed m4 [] m5" "\<forall>i < total_players. sc_slot_types m5 ! i = slot_inactive"
    using clear_slots_total [OF b4] by blast
  have b5: "arrays_ok m5" using players_changed_kept(2) [OF m5(2)] b4 by simp
  have players: "distinct (map ps_slot (ns_players spec))"
    "\<forall>p \<in> set (ns_players spec). player_ok (ns_width spec) (ns_height spec) (length (ns_forces spec)) p"
    using spec by (simp_all add: spec_ok_def)
  obtain m where m: "foldE add_player_spec m5 (ns_players spec) = Inr m" "players_changed m5 (start_units (ns_players spec)) m"
    "\<forall>p \<in> set (ns_players spec). sc_slot_types m ! ps_slot p = ps_type p"
    "\<forall>i. i \<notin> ps_slot ` set (ns_players spec) \<longrightarrow> sc_slot_types m ! i = sc_slot_types m5 ! i"
    using add_players_total [OF b5 players] by blast
  have r: "players_changed m4 (start_units (ns_players spec)) m"
    using players_changed_trans [OF m5(2) m(2)] by simp
  have run: "build_new_map a spec = Inr m"
    using m1(1) m2(1) m3(1) m4(1) m5(1) m(1) brush
    by (simp add: build_new_map_def brush_of_tileset_def start_map_def Let_def)
  have dims: "same_dimensions m1 m"
    using relabelled_kept(2) [OF r4] players_changed_kept(1) [OF r] by (simp add: same_dimensions_def)
  then have size: "tile_width m = ns_width spec" "tile_height m = ns_height spec" "sc_tileset m = ns_tileset spec"
    using m1(3) start_map_size [OF spec] by (simp_all add: same_dimensions_def start_map_def new_scenario_def Let_def)
  have "unit_ok m4 = unit_ok m" "same_dimensions m4 m"
    using same_dimensions_objects(2) [OF players_changed_kept(1) [OF r]] players_changed_kept(1) [OF r] by simp_all
  then have "\<forall>u \<in> set (start_units (ns_players spec)). unit_ok m4 u"
    using start_units_ok [of m] size players(2) by (auto simp: set_start_units [of "ns_players spec"])
  then have "map_ok_for a m"
    using players_changed_kept(4) [OF r] relabelled_kept(5) [OF r4] ok1 by simp
  moreover have "sc_slot_types m ! i = specified_type spec i" if "i < total_players" for i
    using m(3,4) m5(3) that specified_type_eq [OF players(1)] by (cases "i \<in> ps_slot ` set (ns_players spec)") auto
  moreover have "sc_units m = start_units (ns_players spec)"
    using players_changed_kept(3) [OF r] relabelled_kept(3) [OF r4] b1(2) by simp
  ultimately show ?thesis using run size by (auto simp: as_specified_def)
qed

lemma as_specified_verifies: "as_specified spec m \<Longrightarrow> verify_new spec (Some m) = None"
  by (simp add: as_specified_def verify_new_def count_starts_def count_start_units)

text \<open>
  C7: Every specification the parser accepts is built for a tileset that has its brush: no step of the
  builder fails, the map is well-formed and has the size, the slot types and the start locations of the
  specification and nothing else on it, and the check \<open>mapNew\<close> makes of the file it reads back accepts it.
\<close>

theorem map_new_builds:
  assumes "tileset_ok (isom_of a (ns_tileset spec))" and "type_values_ok (isom_of a (ns_tileset spec))"
    and "parse_new_spec text = Inr spec" and "brush_of_tileset a spec"
  shows "\<exists>m. build_new_map a spec = Inr m \<and> map_ok_for a m \<and> as_specified spec m \<and> verify_new spec (Some m) = None"
  using build_new_map_total [OF assms(1,2) parse_new_spec_ok [OF assms(3)] assms(4)] as_specified_verifies by blast

section \<open>Maps that can be reached\<close>

text \<open>The maps in memory that \<open>mapNew\<close> builds, and those that batches of \<open>mapEdit\<close> make of them.\<close>

inductive reachable_map :: "archive_lib \<Rightarrow> edit_assets \<Rightarrow> scenario \<Rightarrow> bool" for lib a where
  built: "parse_new_spec text = Inr spec \<Longrightarrow> build_new_map a spec = Inr m \<Longrightarrow> reachable_map lib a m"
| edited: "reachable_map lib a m \<Longrightarrow> edit_operations lib a operations m = Inr (n, effects) \<Longrightarrow> reachable_map lib a n"

lemma batch_of_ok_map:
  assumes "\<forall>t. tileset_ok (isom_of a t)" and "map_ok_for a m" and "edit_operations lib a operations m = Inr (n, effects)"
  shows "map_ok_for a n \<and> same_dimensions m n \<and> length effects = length operations"
  using batch_kept [of a lib m "[]" "enumerate 0 operations" n effects] assms
  by (auto simp: edit_operations_def)

lemma built_map_ok:
  assumes "\<forall>t. tileset_ok (isom_of a t) \<and> type_values_ok (isom_of a t)"
    and "parse_new_spec text = Inr spec" and "build_new_map a spec = Inr m"
  shows "map_ok_for a m"
proof -
  have "brush_of_tileset a spec"
    using assms(3) by (simp add: build_new_map_def brush_of_tileset_def Let_def split: if_splits)
  with build_new_map_total [of a spec] assms parse_new_spec_ok [OF assms(2)] show ?thesis by auto
qed

text \<open>
  C10: Being well-formed is an invariant of editing. Every unit, sprite and doodad has an owner below twelve
  and lies on the map, types and percentages are in range, the tile vectors have a tile for every cell, the
  ISOM section refers to rows of the link table, and the arrays keep their length: this holds of every map
  that \<open>mapNew\<close> builds and of every map any sequence of batches makes of it, and whatever map a batch
  starts from, if it holds there, it holds at the end, with the same dimensions and one effect for each
  operation. That it holds of a map that was loaded from a file is not shown: the loader does not check it.
\<close>

theorem batch_keeps_map:
  assumes "\<forall>t. tileset_ok (isom_of a t) \<and> type_values_ok (isom_of a t)"
  shows "(reachable_map lib a k \<longrightarrow> map_ok_for a k) \<and>
    (map_ok_for a m \<and> edit_operations lib a operations m = Inr (n, effects) \<longrightarrow>
       map_ok_for a n \<and> same_dimensions m n \<and> length effects = length operations)"
proof -
  have tilesets: "\<forall>t. tileset_ok (isom_of a t)" using assms by blast
  have "map_ok_for a k" if "reachable_map lib a k"
    using that
  proof (induction rule: reachable_map.induct)
    case (built json_text spec m)
    then show ?case by (rule built_map_ok [OF assms])
  next
    case (edited m operations n effects)
    then show ?case using batch_of_ok_map [OF tilesets] by blast
  qed
  then show ?thesis using batch_of_ok_map [OF tilesets] by blast
qed

end
