(* ===== verification/AgentMapWitness.thy ===== *)
theory AgentMapWitness
  imports AgentEditWitness AgentMapEditProps AgentNewProps
begin

text \<open>
  Concrete runs of \<open>mapEdit\<close> and \<open>mapNew\<close> on the library of \<open>AgentSoundWitness\<close> and the game data of
  \<open>AgentEditWitness\<close>: the input file is the byte 0, a saved file the byte 1.
\<close>

section \<open>Editing\<close>

lemma lower_hex_unchanged:
  assumes "exact_lower_hex s n"
  shows "lower_ascii s = s"
proof -
  have "lower_char c = c" if "c \<in> set s" for c
  proof -
    have "in_range CHR ''0'' CHR ''9'' c \<or> in_range CHR ''a'' CHR ''f'' c"
      using assms that by (auto simp: exact_lower_hex_def list_all_iff)
    then show ?thesis by (auto simp: lower_char_def in_range_def)
  qed
  then show ?thesis by (auto simp: lower_ascii_def map_idI)
qed

definition demo_edit_lib :: archive_lib where
  "demo_edit_lib = demo_lib (\<lambda>b. Some (if b = 0 then demo_scenario else demo_tiled)) (\<lambda>_. [])"

definition demo_expected :: json_object where
  "demo_expected = [(''height'', JInt 4), (''inputFileSha256'', JStr (fips_sha256 [0])),
     (''tileset'', JStr ''badlands''), (''width'', JInt 6)]"

definition demo_batch_object :: json_object where
  "demo_batch_object = [(''expected'', JObj demo_expected), (''operations'', JArr [JObj demo_tile]),
     (''schema'', JStr ''eud-map-edit/1'')]"

definition demo_batch :: edit_batch where
  "demo_batch = \<lparr>eb_hash = fips_sha256 [0], eb_expected = demo_expected, eb_object = demo_batch_object\<rparr>"

lemma demo_batch_readable: "json_ok (JObj demo_batch_object)" "no_reals (JObj demo_batch_object)"
  by (simp_all add: demo_batch_object_def demo_expected_def demo_tile_def map_ok_def int64_ok_def int64_min_def
      int64_max_def)

lemma demo_parse_batch: "parse_edit_batch (serialize_json (JObj demo_batch_object)) = Inr demo_batch"
proof -
  have "exact_fields demo_batch_object [''schema'', ''expected'', ''operations''] ctx = Inr ()"
    "exact_fields demo_expected [''inputFileSha256'', ''tileset'', ''width'', ''height''] ctx = Inr ()" for ctx
    by (auto simp: exact_fields_Inr demo_batch_object_def demo_expected_def)
  moreover have "required_field demo_batch_object ''schema'' ctx = Inr (JStr ''eud-map-edit/1'')"
    "required_field demo_batch_object ''expected'' ctx = Inr (JObj demo_expected)"
    "required_field demo_expected ''inputFileSha256'' ctx = Inr (JStr (fips_sha256 [0]))" for ctx
    by (simp_all add: required_field_def demo_batch_object_def demo_expected_def)
  ultimately show ?thesis
    using read_serialized [OF demo_batch_readable, of "''map edit batch''"]
    by (simp add: parse_edit_batch_def object_value_def string_value_def demo_batch_def)
qed

lemma demo_tilesets: "parse_tileset ''badlands'' = Inr 0"
  by code_simp

lemma demo_check_expected: "check_expected_map demo_expected demo_scenario = Inr ()"
  by (simp add: check_expected_map_def demo_expected_def required_field_def string_value_def demo_tilesets
      checked_size_def size_value_def integer_value_def size_max_def size_limit_def)

lemma demo_run_batch:
  "run_batch demo_edit_lib (\<lambda>_. Inr demo_assets) ''sc'' demo_batch demo_scenario =
     Inr ([JObj demo_tile], demo_tiled, [JObj (effect ''terrain.set'' ''terrain'' 13)])"
proof -
  have "batch_operations demo_batch_object = Inr [JObj demo_tile]"
    by (simp add: batch_operations_def demo_batch_object_def required_field_def array_value_def max_operations_def)
  then show ?thesis
    using demo_check_expected by (simp add: run_batch_Inr demo_batch_def demo_edit_operations)
qed

abbreviation demo_temporary_path :: string where
  "demo_temporary_path \<equiv> temporary_output_path demo_edit_lib ''out.scx''"

lemma demo_file_simps [simp]:
  "demo_files ''in.scx'' = Some [0]" "''out.scx'' \<noteq> temporary_output_path lib ''out.scx''"
  "''in.scx'' \<noteq> temporary_output_path lib ''out.scx''"
proof -
  show "demo_files ''in.scx'' = Some [0]" by (simp add: demo_files_def)
  show "''out.scx'' \<noteq> temporary_output_path lib ''out.scx''" by (rule not_sym) (rule demo_temporary)
  show "''in.scx'' \<noteq> temporary_output_path lib ''out.scx''" by (rule not_sym) (rule demo_temporary)
qed

lemma demo_edit_lib_simps [simp]:
  "lib_load demo_edit_lib bs = Some (if hd bs = 0 then demo_scenario else demo_tiled)"
  "lib_save demo_edit_lib bs m = (True, Some [1])" "lib_read demo_edit_lib path bs = ReadWhole" "lib_replace_ok demo_edit_lib" "length (lib_store demo_edit_lib) = 64"
  "inventory_of demo_edit_lib bs = Some []"
  by (simp_all add: demo_edit_lib_def inventory_of_def)

lemma demo_write_edited:
  "write_edited demo_edit_lib ''in.scx'' ''out.scx'' demo_temporary_path demo_tiled (demo_files(''out.scx'' := None)) =
     (Inr [], demo_files(''out.scx'' := Some [1], demo_temporary_path := None))"
proof -
  let ?fs = "demo_files(''out.scx'' := None)"
  have start: "?fs ''in.scx'' = Some [0]" by (simp add: demo_files_def)
  have "inventory_mpq demo_edit_lib ''in.scx'' ?fs = (Inr [], ?fs)"
    by (simp add: inventory_mpq_Inr start)
  moreover have "save_map (save_edited demo_edit_lib ''in.scx'' demo_tiled) demo_temporary_path ?fs =
      (Inr (), ?fs(demo_temporary_path := Some [1]))"
    by (simp add: save_map_Inr save_edited_def)
  moreover have "inventory_mpq demo_edit_lib demo_temporary_path (?fs(demo_temporary_path := Some [1])) =
      (Inr [], ?fs(demo_temporary_path := Some [1]))"
    by (simp add: inventory_mpq_Inr)
  moreover have "promote_map demo_edit_lib demo_temporary_path ''out.scx'' (?fs(demo_temporary_path := Some [1])) =
      (Inr (), demo_files(''out.scx'' := Some [1], demo_temporary_path := None))"
    by (auto simp: promote_map_Inr fun_eq_iff)
  ultimately show ?thesis
    by (simp add: write_edited_def io_bind_def io_fail_deleting_def io_return_def reopen_map_def io_get_def)
qed

lemma demo_map_edit:
  "\<exists>report. map_edit demo_edit_lib (\<lambda>_. Inr demo_assets) ''in.scx'' ''out.scx'' ''sc''
     (serialize_json (JObj demo_batch_object)) demo_files =
       (Inr report, demo_files(''out.scx'' := Some [1], demo_temporary_path := None))"
proof -
  let ?fs = "demo_files(''out.scx'' := None)"
  have nonempty: "serialize_json (JObj demo_batch_object) \<noteq> []" by (simp add: serialize_json_def)
  have "file_sha256 demo_edit_lib ''in.scx'' ?fs = (Inr (fips_sha256 [0]), ?fs)"
    by (simp add: file_sha256_Inr demo_files_def)
  moreover have "load_map demo_edit_lib ''in.scx'' message ?fs = (Inr demo_scenario, ?fs)" for message
    by (simp add: load_map_Inr demo_files_def)
  moreover have "file_sha256 demo_edit_lib ''out.scx'' (demo_files(''out.scx'' := Some [1], demo_temporary_path := None)) =
      (Inr (fips_sha256 [1]), demo_files(''out.scx'' := Some [1], demo_temporary_path := None))"
    by (simp add: file_sha256_Inr)
  moreover have "lower_ascii (fips_sha256 [0]) = fips_sha256 [0]"
    using fips_sha256_lower by (rule lower_hex_unchanged)
  moreover have "lower_ascii ''in.scx'' \<noteq> lower_ascii ''out.scx''" by code_simp
  moreover have "eb_hash demo_batch = fips_sha256 [0]" by (simp add: demo_batch_def)
  ultimately show ?thesis
    using nonempty demo_parse_batch demo_run_batch demo_write_edited
    by (simp add: map_edit_def io_bind_def io_check_def io_return_def io_set_def delete_file_def)
qed

lemma map_edit_exact_witness:
  "\<exists>report fs' bs assets. map_edit demo_edit_lib (\<lambda>_. Inr demo_assets) ''in.scx'' ''out.scx'' ''sc''
     (serialize_json (JObj demo_batch_object)) demo_files = (Inr report, fs') \<and>
   lib_save demo_edit_lib [0] \<lparr>mf_scenario = demo_tiled, mf_modified = []\<rparr> = (True, Some bs) \<and>
   inventory_of demo_edit_lib bs = Some assets \<and> fs' = demo_files(''out.scx'' := Some bs, demo_temporary_path := None) \<and>
   report = edit_report demo_edit_lib 1 [JObj (effect ''terrain.set'' ''terrain'' 13)] (fips_sha256 [0]) (fips_sha256 bs) assets"
proof -
  obtain report fs' where run: "map_edit demo_edit_lib (\<lambda>_. Inr demo_assets) ''in.scx'' ''out.scx'' ''sc''
     (serialize_json (JObj demo_batch_object)) demo_files = (Inr report, fs')"
    using demo_map_edit by blast
  have "length (lib_store demo_edit_lib) = 64" "''in.scx'' \<noteq> demo_temporary_path" by simp_all
  from map_edit_exact [OF this run] show ?thesis
    unfolding demo_parse_batch using run
    by (auto simp: demo_batch_def demo_batch_object_def batch_operations_def required_field_def array_value_def
        max_operations_def demo_edit_operations)
qed

section \<open>A new map\<close>

definition demo_spec_object :: json_object where
  "demo_spec_object = [(''descriptionBytesHex'', JStr []), (''height'', JInt 64), (''schema'', JStr ''eud-map-new/1''),
     (''terrainType'', JInt 1), (''tileset'', JInt 0), (''titleBytesHex'', JStr ''41''), (''width'', JInt 64)]"

definition demo_spec :: new_spec where
  "demo_spec = \<lparr>ns_save_type = RemasteredScx, ns_tileset = 0, ns_width = 64, ns_height = 64, ns_terrain_type = 1,
     ns_title = ''A'', ns_description = [], ns_forces = [\<lparr>fs_name = ''Force 1'', fs_flags = force_flags_all\<rparr>],
     ns_players = []\<rparr>"

lemma demo_texts: "map_text_from_hex ''41'' ctx 1 1024 = Inr ''A''" "map_text_from_hex [] ctx 0 4096 = Inr []"
proof -
  have "char_of (65 :: nat) = CHR ''A''" by code_simp
  then show "map_text_from_hex ''41'' ctx 1 1024 = Inr ''A''"
    by (simp add: map_text_from_hex_def raw_string_from_hex_def decode_hex_def nibble_def in_range_def string_of_def)
  show "map_text_from_hex [] ctx 0 4096 = Inr []"
    by (simp add: map_text_from_hex_def raw_string_from_hex_def decode_hex_def string_of_def)
qed

lemma demo_parse_spec: "parse_new_spec (serialize_json (JObj demo_spec_object)) = Inr demo_spec"
proof -
  have "json_ok (JObj demo_spec_object)" "no_reals (JObj demo_spec_object)"
    by (simp_all add: demo_spec_object_def map_ok_def int64_ok_def int64_min_def int64_max_def)
  note read = read_serialized [OF this, of spec_ctx]
  have "allowed_fields demo_spec_object [''schema'', ''version'', ''tileset'', ''width'', ''height'', ''terrainType'',
       ''titleBytesHex'', ''descriptionBytesHex'', ''players'', ''forces''] spec_ctx = Inr ()"
    by (simp add: allowed_fields_Inr demo_spec_object_def)
  moreover have "parse_version demo_spec_object = Inr RemasteredScx"
    by (simp add: parse_version_def optional_field_def demo_spec_object_def)
  moreover have "parse_forces demo_spec_object = Inr [\<lparr>fs_name = ''Force 1'', fs_flags = force_flags_all\<rparr>]"
    by (simp add: parse_forces_def optional_field_def demo_spec_object_def)
  moreover have "parse_players w h n demo_spec_object = Inr []" for w h n
    by (simp add: parse_players_def optional_field_def demo_spec_object_def)
  moreover have "required_field demo_spec_object ''schema'' spec_ctx = Inr (JStr ''eud-map-new/1'')"
    "required_field demo_spec_object ''titleBytesHex'' spec_ctx = Inr (JStr ''41'')"
    "required_field demo_spec_object ''descriptionBytesHex'' spec_ctx = Inr (JStr [])"
    by (simp_all add: required_field_def demo_spec_object_def)
  moreover have "checked_size demo_spec_object ''tileset'' spec_ctx False = Inr 0"
    "checked_size demo_spec_object ''width'' spec_ctx True = Inr 64" "checked_size demo_spec_object ''height'' spec_ctx True = Inr 64"
    "checked_size demo_spec_object ''terrainType'' spec_ctx True = Inr 1"
    by (simp_all add: checked_size_def required_field_def demo_spec_object_def size_value_def integer_value_def
        size_max_def size_limit_def)
  ultimately show ?thesis
    using read by (simp add: parse_new_spec_def object_value_def string_value_def map_text_field_def demo_texts demo_texts [unfolded One_nat_def]
        demo_spec_def num_tilesets_def)
qed

lemma demo_new_assets:
  "tileset_ok (isom_of demo_assets (ns_tileset demo_spec))" "type_values_ok (isom_of demo_assets (ns_tileset demo_spec))"
  "brush_of_tileset demo_assets demo_spec"
  using demo_tileset_ok
  by (simp_all add: type_values_ok_def brush_of_tileset_def demo_tileset_def demo_spec_def plain_type_def brush_type_def)

lemma map_new_builds_witness:
  "\<exists>m. build_new_map demo_assets demo_spec = Inr m \<and> map_ok_for demo_assets m \<and> as_specified demo_spec m
     \<and> verify_new demo_spec (Some m) = None"
  by (rule map_new_builds [OF demo_new_assets(1,2) demo_parse_spec demo_new_assets(3)])

lemma demo_reached: "\<exists>m. reachable_map lib demo_assets m"
proof -
  obtain m where "build_new_map demo_assets demo_spec = Inr m"
    using build_new_map_total [OF demo_new_assets(1,2) parse_new_spec_ok [OF demo_parse_spec] demo_new_assets(3)] by blast
  with demo_parse_spec have "reachable_map lib demo_assets m" by (rule reachable_map.built)
  then show ?thesis by blast
qed

lemma batch_keeps_map_witness:
  "(\<exists>k. reachable_map demo_edit_lib demo_assets k \<and> map_ok_for demo_assets k) \<and>
   map_ok_for demo_assets demo_scenario \<and> map_ok_for demo_assets demo_tiled \<and> same_dimensions demo_scenario demo_tiled"
proof -
  have assets: "\<forall>t. tileset_ok (isom_of demo_assets t) \<and> type_values_ok (isom_of demo_assets t)"
    using demo_tileset_ok by (simp add: type_values_ok_def demo_tileset_def plain_type_def brush_type_def)
  obtain k where "reachable_map demo_edit_lib demo_assets k" using demo_reached by blast
  with batch_keeps_map [OF assets, of demo_edit_lib k demo_scenario "[JObj demo_tile]" demo_tiled] demo_scenario_ok
    demo_edit_operations [of demo_edit_lib]
  show ?thesis by blast
qed

definition demo_new_lib :: archive_lib where
  "demo_new_lib = demo_lib (\<lambda>_. Some (start_map demo_spec)) (\<lambda>_. [])"

definition demo_unread_lib :: archive_lib where
  "demo_unread_lib = demo_new_lib\<lparr>lib_read := (\<lambda>_ _. NotOpened)\<rparr>"

definition demo_new_run :: "archive_lib \<Rightarrow> string io" where
  "demo_new_run lib = map_new lib (\<lambda>_ _. (True, Some [1])) (\<lambda>_. Inr demo_assets) ''out.scx'' ''sc''
     (serialize_json (JObj demo_spec_object))"

definition demo_new_files :: "archive_lib \<Rightarrow> file_system" where
  "demo_new_files lib = demo_files(''out.scx'' := Some [1], temporary_output_path lib ''out.scx'' := None)"

lemma demo_new_lib_simps [simp]:
  "lib_load demo_new_lib bs = Some (start_map demo_spec)" "lib_replace_ok demo_new_lib"
  "length (lib_store demo_new_lib) = 64" "lib_read demo_new_lib path bs = ReadWhole"
  "lib_load demo_unread_lib bs = Some (start_map demo_spec)" "lib_replace_ok demo_unread_lib"
  "length (lib_store demo_unread_lib) = 64" "lib_read demo_unread_lib path bs = NotOpened"
  by (simp_all add: demo_new_lib_def demo_unread_lib_def)

lemma demo_new_output [simp]: "demo_new_files lib ''out.scx'' = Some [1]"
  by (simp add: demo_new_files_def)

lemma demo_map_new:
  assumes "lib \<in> {demo_new_lib, demo_unread_lib}"
  shows "demo_new_run lib demo_files =
    io_bind (file_sha256 lib ''out.scx'') (\<lambda>h. io_return (Inr (new_report demo_spec h))) (demo_new_files lib)"
proof -
  let ?t = "temporary_output_path lib ''out.scx''"
  have spec: "spec_ok demo_spec" by (rule parse_new_spec_ok [OF demo_parse_spec])
  obtain m where m: "build_new_map demo_assets demo_spec = Inr m"
    using build_new_map_total [OF demo_new_assets(1,2) spec demo_new_assets(3)] by blast
  have lib: "lib_load lib bs = Some (start_map demo_spec)" "lib_replace_ok lib" for bs using assms by auto
  have "verify_new demo_spec (Some (start_map demo_spec)) = None"
    using start_map_size [OF spec] start_map_bare(2) [of demo_spec]
    by (simp add: verify_new_None count_starts_def demo_spec_def start_map_def new_scenario_def Let_def)
  moreover have "save_map (\<lambda>_. (True, Some [1])) ?t demo_files = (Inr (), demo_files(?t := Some [1]))"
    by (simp add: save_map_Inr)
  moreover have "promote_map lib ?t ''out.scx'' (demo_files(?t := Some [1])) = (Inr (), demo_new_files lib)"
    using lib by (auto simp: promote_map_Inr fun_eq_iff demo_new_files_def)
  moreover have "reopen_map lib ''out.scx'' (demo_new_files lib) = (Inr (Some (start_map demo_spec)), demo_new_files lib)"
    using lib by (simp add: reopen_map_Inr)
  moreover have "serialize_json (JObj demo_spec_object) \<noteq> []" by (simp add: serialize_json_def)
  moreover have "valid_map_container_path ''out.scx''" by (rule demo_paths)
  moreover have "demo_files ''out.scx'' = None" by (simp add: demo_files_def)
  ultimately show ?thesis
    using demo_parse_spec m unfolding demo_new_run_def map_new_def
    by (simp add: io_bind_def [where m = "io_return _"] io_bind_def [where m = "io_get _"] io_bind_def [where m = "save_map _ _"]
        io_bind_def [where m = "promote_map _ _ _"] io_bind_def [where m = "reopen_map _ _"]
        io_check_def io_return_def io_get_def io_fail_deleting_def file_exists_def Let_def)
qed

text \<open>The new file cannot be opened again: the command fails, and the file stays.\<close>

lemma edit_failure_output_state_witness:
  "\<exists>e. demo_new_run demo_unread_lib demo_files = (Inl e, demo_new_files demo_unread_lib) \<and>
     demo_files ''out.scx'' = None \<and> demo_new_files demo_unread_lib ''out.scx'' = Some [1] \<and>
     file_sha256 demo_unread_lib ''out.scx'' (demo_new_files demo_unread_lib) = (Inl e, demo_new_files demo_unread_lib) \<and>
     demo_new_files demo_unread_lib ''in.scx'' = demo_files ''in.scx''"
proof -
  let ?fs = "demo_new_files demo_unread_lib"
  have "file_sha256 demo_unread_lib ''out.scx'' ?fs = (fail (''cannot open input map: '' @ ''out.scx''), ?fs)"
    by (simp add: file_sha256_def io_get_def read_file_digest opened_file_def)
  then obtain e where run: "demo_new_run demo_unread_lib demo_files = (Inl e, ?fs)"
    using demo_map_new [of demo_unread_lib] by (simp add: io_bind_def)
  have op: "demo_new_run demo_unread_lib \<in>
      {map_edit demo_unread_lib (\<lambda>_. Inr demo_assets) ''in.scx'' ''out.scx'' ''sc'' ''batch'',
       map_new demo_unread_lib (\<lambda>_ _. (True, Some [1])) (\<lambda>_. Inr demo_assets) ''out.scx'' ''sc''
         (serialize_json (JObj demo_spec_object))}"
    by (simp add: demo_new_run_def)
  have free: "demo_files ''out.scx'' = None" by (simp add: demo_files_def)
  then have "?fs \<noteq> demo_files" by (metis demo_new_output option.distinct(1))
  then show ?thesis
    using edit_failure_output_state [OF _ op run, where p = "''in.scx''"] run free by auto
qed

lemma map_new_exact_witness:
  "\<exists>report fs' bs n. demo_new_run demo_new_lib demo_files = (Inr report, fs') \<and> lib_load demo_new_lib bs = Some n \<and>
   tile_width n = 64 \<and> count_starts n = 0 \<and>
   fs' = demo_files(''out.scx'' := Some bs, temporary_output_path demo_new_lib ''out.scx'' := None) \<and>
   report = new_report demo_spec (fips_sha256 bs)"
proof -
  obtain report where run: "demo_new_run demo_new_lib demo_files = (Inr report, demo_new_files demo_new_lib)"
  proof -
    have "file_sha256 demo_new_lib ''out.scx'' (demo_new_files demo_new_lib) = (Inr (fips_sha256 [1]), demo_new_files demo_new_lib)"
      by (simp add: file_sha256_Inr)
    then show thesis using demo_map_new [of demo_new_lib] that by (simp add: io_bind_def io_return_def)
  qed
  have "length (lib_store demo_new_lib) = 64" by simp
  from map_new_exact [OF this run [unfolded demo_new_run_def]] show ?thesis
    unfolding demo_parse_spec using run by (auto simp: demo_spec_def)
qed

end
