(* ===== verification/AgentImage.thy ===== *)
theory AgentImage
  imports AgentObjects "HOL-Library.Product_Lexorder"
begin

text \<open>
  \<open>imageQuantize\<close> of \<open>IsomTerrain/MapAgentCore.cpp\<close>: an image of one pixel for each tile becomes terrain.
  Every pixel is blended over the terrain that is there, dithered, and replaced by the tile whose mean colour
  is nearest; the tiles are searched in a k-d tree over the three channels.

  The palette of a tileset is cached by the program under the path of the game; here it is computed anew.
\<close>

section \<open>Colours of tiles\<close>

text \<open>
  What the quantiser reads of a tileset beyond \<open>terrain_tiles\<close>: the ground height of each group, which of
  the sixteen mini tiles of a mega tile are walkable, the 64 palette indexes of each mini tile row by row, and
  the 256 colours of the palette. The vectors have the lengths \<open>terrain_tiles\<close> gives for groups, flags and pixels,
  so that the check of \<open>tile_graphics_valid\<close> covers every access.
\<close>

record image_tiles = terrain_tiles +
  it_heights :: "u8 list"
  it_walkable :: "bool list list"
  it_pixels :: "u8 list list"
  it_colors :: "(u8 \<times> u8 \<times> u8) list"

record image_color =
  im_red :: u8
  im_green :: u8
  im_blue :: u8
  im_walkability :: u8
  im_height :: u8
  im_tile :: u16
  im_eligible :: bool

definition mini_flipped :: "u32 \<Rightarrow> bool" where
  "mini_flipped g \<longleftrightarrow> g AND 1 = 1"

definition pixel_palette :: "image_tiles \<Rightarrow> nat \<Rightarrow> nat \<Rightarrow> nat \<Rightarrow> u8" where
  "pixel_palette t mega x y =
     (let mini = tt_graphics t ! mega ! (y div 8 * 4 + x div 8);
          sub_x = (if mini_flipped mini then 7 - x mod 8 else x mod 8)
      in it_pixels t ! vr4_index mini ! (y mod 8 * 8 + sub_x))"

text \<open>The sums of the three channels over the visible pixels, and their number.\<close>

definition add_sample :: "image_tiles \<Rightarrow> nat \<Rightarrow> nat \<times> nat \<Rightarrow> nat \<times> nat \<times> nat \<times> nat \<Rightarrow> nat \<times> nat \<times> nat \<times> nat" where
  "add_sample t mega = (\<lambda>(y, x) (red, green, blue, samples).
     let palette = pixel_palette t mega x y
     in if palette = 0 then (red, green, blue, samples)
        else case it_colors t ! unat palette of (r, g, b) \<Rightarrow>
               (red + unat r, green + unat g, blue + unat b, samples + 1))"

definition tile_samples :: "image_tiles \<Rightarrow> nat \<Rightarrow> nat \<times> nat \<times> nat \<times> nat" where
  "tile_samples t mega = fold (add_sample t mega) (List.product [0..<32] [0..<32]) (0, 0, 0, 0)"

definition rounded_mean :: "nat \<Rightarrow> nat \<Rightarrow> u8" where
  "rounded_mean samples v = of_nat ((v + samples div 2) div samples)"

definition walkability_of :: "bool list \<Rightarrow> u8" where
  "walkability_of flags = (if list_all id flags then 2 else if list_ex id flags then 1 else 0)"

definition image_tile_color :: "image_tiles \<Rightarrow> u16 \<Rightarrow> image_color option" where
  "image_tile_color t tile =
     (if \<not> tile_graphics_valid (terrain_tiles.truncate t) tile then None
      else let grp = unat tile div 16; mega = unat (tt_groups t ! grp ! (unat tile mod 16))
           in case tile_samples t mega of (red, green, blue, samples) \<Rightarrow>
              case it_colors t ! 0 of (red0, green0, blue0) \<Rightarrow>
              Some \<lparr>im_red = (if samples \<noteq> 0 then rounded_mean samples red else red0),
                    im_green = (if samples \<noteq> 0 then rounded_mean samples green else green0),
                    im_blue = (if samples \<noteq> 0 then rounded_mean samples blue else blue0),
                    im_walkability = walkability_of (it_walkable t ! mega), im_height = it_heights t ! grp,
                    im_tile = tile, im_eligible = (samples \<noteq> 0)\<rparr>)"

section \<open>The palette\<close>

record palette_node =
  pn_entry :: nat
  pn_lower :: nat
  pn_upper :: nat
  pn_axis :: nat

record image_palette =
  ip_entries :: "image_color list"
  ip_nodes :: "palette_node list"
  ip_root :: nat

definition image_color_channel :: "image_color \<Rightarrow> nat \<Rightarrow> u8" where
  "image_color_channel c axis = (if axis = 0 then im_red c else if axis = 1 then im_green c else im_blue c)"

definition sort_range :: "nat \<Rightarrow> nat \<Rightarrow> (nat \<Rightarrow> 'k::linorder) \<Rightarrow> nat list \<Rightarrow> nat list" where
  "sort_range first beyond key xs =
     take first xs @ sort_key key (take (beyond - first) (drop first xs)) @ drop beyond xs"

text \<open>No node is the largest \<open>size_t\<close>. A range that is not empty becomes a node with its median and the trees
  of the two halves; \<open>beyond\<close> is never below \<open>first\<close>.\<close>

function build_image_palette_tree ::
    "image_color list \<Rightarrow> nat \<Rightarrow> nat \<Rightarrow> nat \<Rightarrow> palette_node list \<times> nat list \<Rightarrow> nat \<times> palette_node list \<times> nat list" where
  "build_image_palette_tree entries first beyond depth (nodes, indices) =
     (if beyond \<le> first then (size_max, nodes, indices)
      else
        let axis = depth mod 3;
            indices = sort_range first beyond (\<lambda>i. (image_color_channel (entries ! i) axis, i)) indices;
            middle = first + (beyond - first) div 2;
            node = length nodes;
            nodes = nodes @ [\<lparr>pn_entry = indices ! middle, pn_lower = size_max, pn_upper = size_max, pn_axis = axis\<rparr>]
        in case build_image_palette_tree entries first middle (depth + 1) (nodes, indices) of
             (lower, nodes, indices) \<Rightarrow>
               let nodes = nodes[node := (nodes ! node)\<lparr>pn_lower := lower\<rparr>]
               in case build_image_palette_tree entries (middle + 1) beyond (depth + 1) (nodes, indices) of
                    (upper, nodes, indices) \<Rightarrow>
                      (node, nodes[node := (nodes ! node)\<lparr>pn_upper := upper\<rparr>], indices))"
  by pat_completeness auto
termination
  by (relation "measure (\<lambda>(entries, first, beyond, depth, st). beyond - first)") auto

declare build_image_palette_tree.simps [simp del]

definition color_key :: "image_color \<Rightarrow> u32" where
  "color_key c = push_bit 16 (ucast (im_red c)) OR push_bit 8 (ucast (im_green c)) OR ucast (im_blue c)"

text \<open>The first eligible tile of each colour.\<close>

definition add_palette_entry ::
    "image_tiles \<Rightarrow> nat \<Rightarrow> u32 set \<times> image_color list \<Rightarrow> u32 set \<times> image_color list" where
  "add_palette_entry t scan_order = (\<lambda>(seen, entries).
     case image_tile_color t (of_nat scan_order) of
       None \<Rightarrow> (seen, entries)
     | Some c \<Rightarrow> if \<not> im_eligible c \<or> color_key c \<in> seen then (seen, entries)
                 else (insert (color_key c) seen, entries @ [c]))"

definition palette_entries :: "image_tiles \<Rightarrow> image_color list" where
  "palette_entries t =
     snd (fold (add_palette_entry t) [0..<min max_tile_groups (length (tt_groups t)) * 16] ({}, []))"

definition image_palette_of :: "image_tiles \<Rightarrow> image_palette result" where
  "image_palette_of t =
     (let entries = palette_entries t
      in if entries = [] then fail ''image quantizer palette has no graphics-valid terrain tiles''
         else case build_image_palette_tree entries 0 (length entries) 0 ([], [0..<length entries]) of
                (top_node, nodes, indices) \<Rightarrow> Inr \<lparr>ip_entries = entries, ip_nodes = nodes, ip_root = top_node\<rparr>)"

section \<open>The nearest tile\<close>

type_synonym rgb = "u8 list"

definition channel_delta :: "rgb \<Rightarrow> image_color \<Rightarrow> nat \<Rightarrow> int" where
  "channel_delta rgb c axis = int (unat (rgb ! axis)) - int (unat (image_color_channel c axis))"

definition color_distance :: "rgb \<Rightarrow> image_color \<Rightarrow> u32" where
  "color_distance rgb c = of_int (channel_delta rgb c 0 * channel_delta rgb c 0
     + channel_delta rgb c 1 * channel_delta rgb c 1 + channel_delta rgb c 2 * channel_delta rgb c 2)"

definition closer :: "u32 \<Rightarrow> nat \<Rightarrow> nat \<times> u32 \<Rightarrow> nat \<times> u32" where
  "closer distance i = (\<lambda>(best, best_distance).
     if distance < best_distance \<or> distance = best_distance \<and> i < best then (i, distance)
     else (best, best_distance))"

text \<open>The recursion budget bounds the depth of the tree.\<close>

fun nearest_image_tile :: "nat \<Rightarrow> image_palette \<Rightarrow> rgb \<Rightarrow> nat \<Rightarrow> nat \<times> u32 \<Rightarrow> (nat \<times> u32) result" where
  "nearest_image_tile 0 p rgb node s = Inl OutOfFuel"
| "nearest_image_tile (Suc n) p rgb node s =
     (if node = size_max then Inr s
      else
        bindE (vec_get (ip_nodes p) node) (\<lambda>tree_node.
        bindE (vec_get (ip_entries p) (pn_entry tree_node)) (\<lambda>entry.
        let s = closer (color_distance rgb entry) (pn_entry tree_node) s;
            delta = channel_delta rgb entry (pn_axis tree_node);
            near_node = (if delta < 0 then pn_lower tree_node else pn_upper tree_node);
            far_node = (if delta < 0 then pn_upper tree_node else pn_lower tree_node)
        in bindE (nearest_image_tile n p rgb near_node s) (\<lambda>s.
           if of_int (delta * delta) \<le> snd s then nearest_image_tile n p rgb far_node s else Inr s))))"

section \<open>Quantising\<close>

definition bayer8 :: "nat list" where
  "bayer8 =
     [0, 48, 12, 60, 3, 51, 15, 63,
      32, 16, 44, 28, 35, 19, 47, 31,
      8, 56, 4, 52, 11, 59, 7, 55,
      40, 24, 36, 20, 43, 27, 39, 23,
      2, 50, 14, 62, 1, 49, 13, 61,
      34, 18, 46, 30, 33, 17, 45, 29,
      10, 58, 6, 54, 9, 57, 5, 53,
      42, 26, 38, 22, 41, 25, 37, 21]"

text \<open>Division of C++, which cuts off towards zero.\<close>

definition quotient :: "int \<Rightarrow> int \<Rightarrow> int" where
  "quotient a b = sgn a * sgn b * (\<bar>a\<bar> div \<bar>b\<bar>)"

definition composite_channel :: "nat \<Rightarrow> nat \<Rightarrow> u8 \<Rightarrow> u8 \<Rightarrow> u8 \<Rightarrow> u8" where
  "composite_channel width index source alpha background =
     (let v = unat source * unat alpha + unat background * (255 - unat alpha);
          blended = int ((v + 127) div 255);
          centered = int (bayer8 ! (index div width mod 8 * 8 + index mod width mod 8)) * 2 - 63;
          adjusted = blended + quotient (centered * 24) 63
      in of_int (max 0 (min 255 adjusted)))"

definition composite :: "nat \<Rightarrow> nat \<Rightarrow> u8 list \<Rightarrow> image_color \<Rightarrow> rgb" where
  "composite width index rgba background =
     map (\<lambda>channel. composite_channel width index (rgba ! (index * 4 + channel)) (rgba ! (index * 4 + 3))
            (image_color_channel background channel)) [0..<3]"

definition before_color :: "image_tiles \<Rightarrow> u16 \<Rightarrow> image_color result" where
  "before_color t tile =
     (case image_tile_color t tile of
        None \<Rightarrow> fail ''image quantizer candidate terrain contains invalid or transparent-only graphics''
      | Some c \<Rightarrow> Inr c)"

definition choose_color :: "image_palette \<Rightarrow> nat \<Rightarrow> nat \<Rightarrow> u8 list \<Rightarrow> image_color \<Rightarrow> image_color result" where
  "choose_color p width index rgba background =
     (if rgba ! (index * 4 + 3) = 0 then Inr background
      else bindE (nearest_image_tile (Suc (length (ip_nodes p))) p (composite width index rgba background)
             (ip_root p) (size_max, 0xFFFFFFFF)) (\<lambda>(nearest, distance).
           if nearest = size_max then fail ''image quantizer could not resolve a palette tile''
           else vec_get (ip_entries p) nearest))"

record quantized =
  qz_colors :: "image_color list"
  qz_walkability :: u32
  qz_height :: u32

definition quantize_cell ::
    "image_tiles \<Rightarrow> image_palette \<Rightarrow> nat \<Rightarrow> u8 list \<Rightarrow> u16 list \<Rightarrow> quantized \<Rightarrow> nat \<Rightarrow> quantized result" where
  "quantize_cell t p width rgba before q index =
     bindE (before_color t (before ! index)) (\<lambda>background.
     bindE (choose_color p width index rgba background) (\<lambda>chosen.
     let other = (im_tile chosen \<noteq> before ! index)
     in Inr \<lparr>qz_colors = qz_colors q @ [chosen],
             qz_walkability = qz_walkability q + (if other \<and> im_walkability chosen \<noteq> im_walkability background then 1 else 0),
             qz_height = qz_height q + (if other \<and> im_height chosen \<noteq> im_height background then 1 else 0)\<rparr>))"

definition quantized_bytes :: "u16 \<Rightarrow> u16 \<Rightarrow> quantized \<Rightarrow> u8 list" where
  "quantized_bytes width height q =
     (let tiles = map im_tile (qz_colors q)
      in [0x4D, 0x49, 0x51, 0x31] @ le16 width @ le16 height @ le32 (of_nat (length (remdups tiles))) @
         le32 (qz_walkability q) @ le32 (qz_height q) @ concat (map le16 tiles) @
         concat (map (\<lambda>c. [im_red c, im_green c, im_blue c]) (qz_colors q)))"

text \<open>\<open>load_tiles\<close> stands for \<open>loadAssets\<close> and the terrain of a tileset in it.\<close>

definition image_quantize ::
    "(string \<Rightarrow> (nat \<Rightarrow> image_tiles) result) \<Rightarrow> string \<Rightarrow> u16 \<Rightarrow> u8 list \<Rightarrow> u16 \<Rightarrow> u16 \<Rightarrow> u16 list \<Rightarrow> u8 list result" where
  "image_quantize load_tiles star_craft tileset rgba width height before =
     (if star_craft = [] \<or> width = 0 \<or> height = 0 \<or> 256 < width \<or> 256 < height \<or> num_tilesets \<le> unat tileset
      then fail ''image quantizer received an invalid argument''
      else
        let cells = unat width * unat height
        in if 65536 < cells \<or> length rgba \<noteq> cells * 4 \<or> length before \<noteq> cells
           then fail ''image quantizer buffer dimensions do not match''
           else
             bindE (load_tiles star_craft) (\<lambda>assets.
             let t = assets (unat tileset)
             in bindE (image_palette_of t) (\<lambda>p.
                bindE (foldE (quantize_cell t p (unat width) rgba before)
                  \<lparr>qz_colors = [], qz_walkability = 0, qz_height = 0\<rparr> [0..<cells]) (\<lambda>q.
                let bytes = quantized_bytes width height q
                in if length bytes \<noteq> 20 + cells * 5 then fail ''image quantizer result length invariant failed''
                   else Inr bytes))))"

end
