(* ===== verification/AgentImageProps.thy ===== *)
theory AgentImageProps
  imports AgentImage "HOL-Library.Tree"
begin

text \<open>
  The image quantiser picks for every visible pixel the tile whose colour is nearest among all tiles of the
  tileset that can be drawn, the first of those that are equally near: dropping tiles of one colour, building
  the k-d tree in an array and cutting off branches of the search lose nothing.
\<close>

section \<open>Distances\<close>

definition exact_distance :: "rgb \<Rightarrow> image_color \<Rightarrow> int" where
  "exact_distance rgb c =
     (channel_delta rgb c 0)\<^sup>2 + (channel_delta rgb c 1)\<^sup>2 + (channel_delta rgb c 2)\<^sup>2"

lemma channel_delta_bounds: "\<bar>channel_delta rgb c axis\<bar> \<le> 255"
proof -
  have "int (unat (w :: u8)) \<le> 255" for w
    using unsigned_less [of w, where 'a = int] by simp
  from this [of "rgb ! axis"] this [of "image_color_channel c axis"] show ?thesis
    unfolding channel_delta_def by linarith
qed

lemma channel_delta_square: "(channel_delta rgb c axis)\<^sup>2 \<le> 65025"
  using abs_le_square_iff [of "channel_delta rgb c axis" 255] channel_delta_bounds [of rgb c axis] by simp

lemma uint_of_int_small: "0 \<le> n \<Longrightarrow> n < 2 ^ 32 \<Longrightarrow> uint (of_int n :: u32) = n"
  by (simp add: unsigned_of_int take_bit_int_eq_self)

lemma uint_color_distance: "uint (color_distance rgb c) = exact_distance rgb c"
  using channel_delta_square [of rgb c 0] channel_delta_square [of rgb c 1] channel_delta_square [of rgb c 2]
  by (simp only: color_distance_def exact_distance_def power2_eq_square [symmetric])
    (rule uint_of_int_small; simp)

lemma exact_distance_bounds: "0 \<le> exact_distance rgb c" "exact_distance rgb c \<le> 195075"
  using channel_delta_square [of rgb c 0] channel_delta_square [of rgb c 1] channel_delta_square [of rgb c 2]
  by (simp_all add: exact_distance_def)

lemma color_distance_small: "color_distance rgb c < 0xFFFFFFFF"
  using exact_distance_bounds [of rgb c] by (simp add: word_less_def uint_color_distance)

text \<open>A colour beyond the cutting plane is at least as far as the plane.\<close>

lemma distance_beyond_plane:
  assumes axis: "axis < 3"
    and beyond: "channel_delta rgb e axis < 0 \<and> image_color_channel e axis \<le> image_color_channel c axis
      \<or> 0 \<le> channel_delta rgb e axis \<and> image_color_channel c axis \<le> image_color_channel e axis"
  shows "(of_int (channel_delta rgb e axis * channel_delta rgb e axis) :: u32) \<le> color_distance rgb c"
proof -
  have "\<bar>channel_delta rgb e axis\<bar> \<le> \<bar>channel_delta rgb c axis\<bar>"
    using beyond by (auto simp: channel_delta_def word_le_def)
  then have "(channel_delta rgb e axis)\<^sup>2 \<le> (channel_delta rgb c axis)\<^sup>2"
    by (simp add: abs_le_square_iff)
  also have "\<dots> \<le> exact_distance rgb c"
    using axis by (auto simp: exact_distance_def numeral_3_eq_3 less_Suc_eq numeral_2_eq_2)
  finally have "(channel_delta rgb e axis)\<^sup>2 \<le> exact_distance rgb c" .
  moreover have "uint (of_int ((channel_delta rgb e axis)\<^sup>2) :: u32) = (channel_delta rgb e axis)\<^sup>2"
    using channel_delta_square [of rgb e axis] by (intro uint_of_int_small) auto
  ultimately show ?thesis
    by (simp only: word_le_def uint_color_distance power2_eq_square [symmetric])
qed

section \<open>The best of a set of entries\<close>

definition entry_key :: "image_color list \<Rightarrow> rgb \<Rightarrow> nat \<Rightarrow> u32 \<times> nat" where
  "entry_key es rgb i = (color_distance rgb (es ! i), i)"

definition best_among :: "image_color list \<Rightarrow> rgb \<Rightarrow> nat set \<Rightarrow> nat \<times> u32 \<Rightarrow> nat \<times> u32" where
  "best_among es rgb A s = prod.swap (Min (insert (prod.swap s) (entry_key es rgb ` A)))"

lemma best_among_empty [simp]: "best_among es rgb {} s = s"
  by (simp add: best_among_def)

lemma closer_min: "closer d i s = prod.swap (min (d, i) (prod.swap s))"
  by (cases s) (auto simp: closer_def min_def)

lemma best_among_insert:
  assumes "finite A"
  shows "best_among es rgb (insert i A) s = best_among es rgb A (closer (color_distance rgb (es ! i)) i s)"
proof -
  have "Min (insert a (insert b B)) = Min (insert (min b a) B)" if "finite B" for a b :: "u32 \<times> nat" and B
    using that by (cases "B = {}") (simp_all add: min.commute min.left_commute)
  with assms show ?thesis by (simp add: best_among_def closer_min entry_key_def)
qed

lemma best_among_union:
  assumes "finite A" and "finite B"
  shows "best_among es rgb B (best_among es rgb A s) = best_among es rgb (A \<union> B) s"
  using assms by (induction A arbitrary: s rule: finite_induct) (simp_all add: best_among_insert)

lemma best_among_far:
  assumes "finite A" and "\<And>i. i \<in> A \<Longrightarrow> snd s < color_distance rgb (es ! i)"
  shows "best_among es rgb A s = s"
proof -
  have "closer (color_distance rgb (es ! i)) i s = s" if "i \<in> A" for i
    using assms(2) [OF that] by (cases s) (auto simp: closer_def)
  with assms(1) show ?thesis
    by (induction A rule: finite_induct) (simp_all add: best_among_insert)
qed

lemma best_among_scan:
  "fold (\<lambda>i. closer (color_distance rgb (es ! i)) i) xs s = best_among es rgb (set xs) s"
  by (induction xs arbitrary: s) (simp_all add: best_among_insert)

section \<open>The tree in the array\<close>

text \<open>The nodes from \<open>lo\<close> on hold the tree \<open>t\<close>, its top at \<open>node\<close> and \<open>d\<close> levels below the top of the whole.\<close>

fun tree_at :: "nat \<Rightarrow> palette_node list \<Rightarrow> nat \<Rightarrow> nat \<Rightarrow> nat tree \<Rightarrow> bool" where
  "tree_at lo ns d node Leaf \<longleftrightarrow> node = size_max"
| "tree_at lo ns d node (Node l e r) \<longleftrightarrow>
     lo \<le> node \<and> node < length ns \<and> node \<noteq> size_max \<and> pn_entry (ns ! node) = e \<and> pn_axis (ns ! node) = d mod 3 \<and>
     tree_at lo ns (Suc d) (pn_lower (ns ! node)) l \<and> tree_at lo ns (Suc d) (pn_upper (ns ! node)) r"

fun kd_ordered :: "image_color list \<Rightarrow> nat \<Rightarrow> nat tree \<Rightarrow> bool" where
  "kd_ordered es d Leaf \<longleftrightarrow> True"
| "kd_ordered es d (Node l e r) \<longleftrightarrow>
     (\<forall>i \<in> set_tree l. image_color_channel (es ! i) (d mod 3) \<le> image_color_channel (es ! e) (d mod 3)) \<and>
     (\<forall>i \<in> set_tree r. image_color_channel (es ! e) (d mod 3) \<le> image_color_channel (es ! i) (d mod 3)) \<and>
     kd_ordered es (Suc d) l \<and> kd_ordered es (Suc d) r"

lemma tree_at_mono:
  assumes "tree_at lo ns d node t" and "lo' \<le> lo"
    and "\<And>i. lo \<le> i \<Longrightarrow> i < length ns \<Longrightarrow> i < length ns' \<and> ns' ! i = ns ! i"
  shows "tree_at lo' ns' d node t"
  using assms by (induction t arbitrary: d node) auto

subsection \<open>The search\<close>

declare nearest_image_tile.simps [simp del]

text \<open>The branch that is cut off holds nothing as near as the best so far.\<close>

lemma cut_off_far:
  assumes ordered: "kd_ordered es d (Node l e r)"
    and cut: "\<not> of_int (channel_delta rgb (es ! e) (d mod 3) * channel_delta rgb (es ! e) (d mod 3)) \<le> snd s"
  shows "best_among es rgb (set_tree (if channel_delta rgb (es ! e) (d mod 3) < 0 then r else l)) s = s"
proof (rule best_among_far)
  fix i
  assume i: "i \<in> set_tree (if channel_delta rgb (es ! e) (d mod 3) < 0 then r else l)"
  have "(of_int (channel_delta rgb (es ! e) (d mod 3) * channel_delta rgb (es ! e) (d mod 3)) :: u32)
      \<le> color_distance rgb (es ! i)"
    using ordered i by (intro distance_beyond_plane) (auto split: if_splits)
  with cut show "snd s < color_distance rgb (es ! i)" by simp
qed simp

lemma nearest_in_tree:
  assumes "tree_at lo (ip_nodes p) d node t" and "kd_ordered (ip_entries p) d t"
    and "set_tree t \<subseteq> {..<length (ip_entries p)}" and "height t < fuel"
  shows "nearest_image_tile fuel p rgb node s = Inr (best_among (ip_entries p) rgb (set_tree t) s)"
  using assms
proof (induction t arbitrary: d node fuel s)
  case Leaf
  then show ?case by (cases fuel) (auto simp: nearest_image_tile.simps)
next
  case (Node l e r)
  let ?es = "ip_entries p" and ?n = "ip_nodes p ! node"
  define s1 where "s1 = closer (color_distance rgb (?es ! e)) e s"
  define delta where "delta = channel_delta rgb (?es ! e) (d mod 3)"
  obtain n where fuel: "fuel = Suc n" and n: "height l < n" "height r < n"
    using Node.prems(4) by (cases fuel) auto
  have lower: "nearest_image_tile n p rgb (pn_lower ?n) u = Inr (best_among ?es rgb (set_tree l) u)" for u
    using Node.prems n by (intro Node.IH(1)) auto
  have upper: "nearest_image_tile n p rgb (pn_upper ?n) u = Inr (best_among ?es rgb (set_tree r) u)" for u
    using Node.prems n by (intro Node.IH(2)) auto
  define near where "near = (if delta < 0 then l else r)"
  define far where "far = (if delta < 0 then r else l)"
  have whole: "best_among ?es rgb (set_tree (Node l e r)) s =
      best_among ?es rgb (set_tree far) (best_among ?es rgb (set_tree near) s1)"
    by (simp add: best_among_union s1_def best_among_insert near_def far_def Un_commute)
  have cut: "best_among ?es rgb (set_tree far) u = u" if "\<not> of_int (delta * delta) \<le> snd u" for u
    using cut_off_far [OF Node.prems(2), of rgb u] that by (simp add: delta_def far_def)
  have "nearest_image_tile fuel p rgb node s =
      (let u = best_among ?es rgb (set_tree near) s1
       in if of_int (delta * delta) \<le> snd u then Inr (best_among ?es rgb (set_tree far) u) else Inr u)"
    using Node.prems(1,3) lower upper
    by (simp add: nearest_image_tile.simps fuel Let_def s1_def delta_def near_def far_def)
  then show ?case unfolding whole Let_def using cut by (simp split: if_splits)
qed

subsection \<open>Building the tree\<close>

definition segment :: "nat \<Rightarrow> nat \<Rightarrow> 'a list \<Rightarrow> 'a list" where
  "segment first beyond xs = take (beyond - first) (drop first xs)"

lemma set_segment: "beyond \<le> length xs \<Longrightarrow> set (segment first beyond xs) = (\<lambda>i. xs ! i) ` {first..<beyond}"
proof -
  assume "beyond \<le> length xs"
  then have "set (segment first beyond xs) = (\<lambda>i. drop first xs ! i) ` {..<beyond - first}"
    using nth_image [of "beyond - first" "drop first xs"] by (simp add: segment_def lessThan_atLeast0)
  also have "\<dots> = (\<lambda>i. xs ! i) ` {first..<beyond}"
  proof (cases "first \<le> beyond")
    case True
    then have "{first..<beyond} = (\<lambda>i. first + i) ` {..<beyond - first}"
      by (simp add: lessThan_atLeast0)
    with True \<open>beyond \<le> length xs\<close> show ?thesis by (simp add: image_image)
  qed simp
  finally show ?thesis .
qed

lemma sort_range_lists:
  assumes "first \<le> beyond" and "beyond \<le> length xs"
  shows "length (sort_range first beyond key xs) = length xs"
    and "take first (sort_range first beyond key xs) = take first xs"
    and "drop beyond (sort_range first beyond key xs) = drop beyond xs"
    and "segment first beyond (sort_range first beyond key xs) = sort_key key (segment first beyond xs)"
    and "set (sort_range first beyond key xs) = set xs"
proof -
  have xs: "xs = take first xs @ segment first beyond xs @ drop beyond xs"
    using assms by (simp add: segment_def)
       (metis append_take_drop_id drop_drop le_add_diff_inverse2)
  have "set xs = set (take first xs) \<union> set (segment first beyond xs) \<union> set (drop beyond xs)"
    by (subst xs) (simp only: set_append Un_assoc)
  then show "set (sort_range first beyond key xs) = set xs"
    by (simp add: sort_range_def segment_def Un_assoc)
qed (use assms in \<open>simp_all add: sort_range_def segment_def\<close>)

lemma sort_range_ordered:
  assumes "beyond \<le> length xs" and "first \<le> i" and "i \<le> j" and "j < beyond"
  shows "key (sort_range first beyond key xs ! i) \<le> key (sort_range first beyond key xs ! j)"
proof -
  let ?ys = "sort_range first beyond key xs"
  have at: "?ys ! k = sort_key key (segment first beyond xs) ! (k - first)" if "first \<le> k" "k < beyond" for k
    using that assms(1) by (simp add: sort_range_def segment_def nth_append)
  have "map key (sort_key key (segment first beyond xs)) ! (i - first)
      \<le> map key (sort_key key (segment first beyond xs)) ! (j - first)"
    using assms by (intro sorted_nth_mono) (simp_all add: segment_def)
  with assms show ?thesis by (simp add: at segment_def)
qed

text \<open>What building the tree of a range leaves behind.\<close>

definition tree_built ::
    "image_color list \<Rightarrow> nat \<Rightarrow> nat \<Rightarrow> nat \<Rightarrow> palette_node list \<times> nat list \<Rightarrow> nat \<times> palette_node list \<times> nat list \<Rightarrow> bool" where
  "tree_built es first beyond d = (\<lambda>(ns, xs) (node, ns', xs').
     length xs' = length xs \<and> take first xs' = take first xs \<and> drop beyond xs' = drop beyond xs \<and>
     set xs' = set xs \<and> length ns' = length ns + (beyond - first) \<and> (\<forall>i < length ns. ns' ! i = ns ! i) \<and>
     (\<exists>t. tree_at (length ns) ns' d node t \<and> set_tree t = set (segment first beyond xs) \<and>
          kd_ordered es d t \<and> size t = beyond - first))"

lemma sorted_range_split:
  assumes range: "beyond \<le> length xs" "first \<le> middle" "middle < beyond"
    and ys: "ys = sort_range first beyond (\<lambda>i. (image_color_channel (es ! i) axis, i)) xs"
  shows "set (segment first beyond xs) =
      insert (ys ! middle) (set (segment first middle ys) \<union> set (segment (Suc middle) beyond ys))"
    and "\<forall>i \<in> set (segment first middle ys). image_color_channel (es ! i) axis \<le> image_color_channel (es ! (ys ! middle)) axis"
    and "\<forall>i \<in> set (segment (Suc middle) beyond ys). image_color_channel (es ! (ys ! middle)) axis \<le> image_color_channel (es ! i) axis"
proof -
  have len: "length ys = length xs" and "set (segment first beyond xs) = set (segment first beyond ys)"
    using range by (simp_all add: ys sort_range_lists)
  moreover have "{first..<beyond} = insert middle ({first..<middle} \<union> {Suc middle..<beyond})" using range by auto
  ultimately show "set (segment first beyond xs) =
      insert (ys ! middle) (set (segment first middle ys) \<union> set (segment (Suc middle) beyond ys))"
    using range by (simp add: set_segment image_Un)
  have channels: "image_color_channel (es ! (ys ! i)) axis \<le> image_color_channel (es ! (ys ! j)) axis"
    if "first \<le> i" "i \<le> j" "j < beyond" for i j
    using sort_range_ordered [OF range(1) that, of "\<lambda>i. (image_color_channel (es ! i) axis, i)"]
    by (auto simp: ys less_eq_prod_def)
  show "\<forall>i \<in> set (segment first middle ys). image_color_channel (es ! i) axis \<le> image_color_channel (es ! (ys ! middle)) axis"
    using range len by (auto simp: set_segment intro: channels)
  show "\<forall>i \<in> set (segment (Suc middle) beyond ys). image_color_channel (es ! (ys ! middle)) axis \<le> image_color_channel (es ! i) axis"
    using range len by (auto simp: set_segment intro: channels)
qed

lemma tree_built_step:
  assumes range: "first < beyond" "beyond \<le> length xs"
    and nodes: "length ns < size_max"
    and ys: "ys = sort_range first beyond (\<lambda>i. (image_color_channel (es ! i) (d mod 3), i)) xs"
    and middle: "middle = first + (beyond - first) div 2"
    and ns1: "ns1 = ns @ [\<lparr>pn_entry = ys ! middle, pn_lower = size_max, pn_upper = size_max, pn_axis = d mod 3\<rparr>]"
    and lower: "tree_built es first middle (Suc d) (ns1, ys) (lower, ns2, ys2)"
    and ns3: "ns3 = ns2[length ns := (ns2 ! length ns)\<lparr>pn_lower := lower\<rparr>]"
    and upper: "tree_built es (Suc middle) beyond (Suc d) (ns3, ys2) (upper, ns4, ys3)"
  shows "tree_built es first beyond d (ns, xs)
    (length ns, ns4[length ns := (ns4 ! length ns)\<lparr>pn_upper := upper\<rparr>], ys3)"
proof -
  define ns5 where "ns5 = ns4[length ns := (ns4 ! length ns)\<lparr>pn_upper := upper\<rparr>]"
  have mid: "first \<le> middle" "middle < beyond" using range(1) middle by auto
  note sorted = sort_range_lists [OF less_imp_le [OF range(1)] range(2), where key = "\<lambda>i. (image_color_channel (es ! i) (d mod 3), i)", folded ys]
  from lower obtain l where l: "tree_at (length ns1) ns2 (Suc d) lower l"
    "set_tree l = set (segment first middle ys)" "kd_ordered es (Suc d) l" "size l = middle - first"
    and ys2: "length ys2 = length ys" "take first ys2 = take first ys" "drop middle ys2 = drop middle ys" "set ys2 = set ys"
    and ns2: "length ns2 = length ns1 + (middle - first)" "\<And>i. i < length ns1 \<Longrightarrow> ns2 ! i = ns1 ! i"
    by (auto simp: tree_built_def)
  from upper obtain r where r: "tree_at (length ns3) ns4 (Suc d) upper r"
    "set_tree r = set (segment (Suc middle) beyond ys2)" "kd_ordered es (Suc d) r" "size r = beyond - Suc middle"
    and ys3: "length ys3 = length ys2" "take (Suc middle) ys3 = take (Suc middle) ys2"
      "drop beyond ys3 = drop beyond ys2" "set ys3 = set ys2"
    and ns4: "length ns4 = length ns3 + (beyond - Suc middle)" "\<And>i. i < length ns3 \<Longrightarrow> ns4 ! i = ns3 ! i"
    by (auto simp: tree_built_def)
  have lens: "length ns1 = Suc (length ns)" "length ns3 = length ns2" using ns1 ns3 by simp_all
  have len5: "length ns5 = length ns4" by (simp add: ns5_def)
  have top: "ns5 ! length ns =
      \<lparr>pn_entry = ys ! middle, pn_lower = lower, pn_upper = upper, pn_axis = d mod 3\<rparr>"
    using ns2 ns4 lens by (simp add: ns5_def ns1 ns3)
  have old: "ns5 ! i = ns ! i" if "i < length ns" for i
    using that ns2 ns4 lens by (simp add: ns5_def ns1 ns3 nth_append)
  have "tree_at (length ns) ns5 (Suc d) lower l"
    using l(1) by (rule tree_at_mono) (use lens ns2 ns4 in \<open>auto simp: ns5_def ns3\<close>)
  moreover have "tree_at (length ns) ns5 (Suc d) upper r"
    using r(1) by (rule tree_at_mono) (use lens ns2 ns4 in \<open>auto simp: ns5_def\<close>)
  ultimately have tree: "tree_at (length ns) ns5 d (length ns) (Node l (ys ! middle) r)"
    using nodes lens ns2 ns4 len5 by (simp add: top)
  have right: "segment (Suc middle) beyond ys2 = segment (Suc middle) beyond ys"
    using arg_cong [OF ys2(3), of "drop 1"] by (simp add: segment_def)
  note split = sorted_range_split [OF range(2) mid ys]
  have members: "set_tree (Node l (ys ! middle) r) = set (segment first beyond xs)"
    using split(1) by (auto simp: l(2) r(2) right)
  have "kd_ordered es d (Node l (ys ! middle) r)"
    using l(3) r(3) split(2,3) by (simp add: l(2) r(2) right)
  with tree members have "\<exists>t. tree_at (length ns) ns5 d (length ns) t \<and>
      set_tree t = set (segment first beyond xs) \<and> kd_ordered es d t \<and> size t = beyond - first"
    by (intro exI [of _ "Node l (ys ! middle) r"]) (use l(4) r(4) mid in simp)
  moreover have "length ys3 = length xs" "take first ys3 = take first xs" "drop beyond ys3 = drop beyond xs" "set ys3 = set xs"
  proof -
    show "length ys3 = length xs" "set ys3 = set xs" using ys2 ys3 sorted by simp_all
    have "take first ys3 = take first ys2" using arg_cong [OF ys3(2), of "take first"] mid by (simp add: min_def)
    with ys2 sorted show "take first ys3 = take first xs" by simp
    have "drop beyond ys2 = drop beyond ys"
      using arg_cong [OF ys2(3), of "drop (beyond - middle)"] mid by simp
    with ys3 sorted show "drop beyond ys3 = drop beyond xs" by simp
  qed
  ultimately show ?thesis
    using old ns2 ns4 lens len5 mid unfolding ns5_def [symmetric] tree_built_def by simp
qed

lemma build_image_palette_tree_built:
  assumes "first \<le> beyond" and "beyond \<le> length xs" and "length ns + (beyond - first) \<le> size_max"
  shows "tree_built es first beyond d (ns, xs) (build_image_palette_tree es first beyond d (ns, xs))"
  using assms
proof (induction "beyond - first" arbitrary: first beyond d ns xs rule: less_induct)
  case less
  show ?case
  proof (cases "beyond \<le> first")
    case True
    with less.prems show ?thesis
      by (auto simp: build_image_palette_tree.simps tree_built_def segment_def intro!: exI [of _ Leaf])
  next
    case False
    define ys where "ys = sort_range first beyond (\<lambda>i. (image_color_channel (es ! i) (d mod 3), i)) xs"
    define middle where "middle = first + (beyond - first) div 2"
    define ns1 where
      "ns1 = ns @ [\<lparr>pn_entry = ys ! middle, pn_lower = size_max, pn_upper = size_max, pn_axis = d mod 3\<rparr>]"
    obtain lower ns2 ys2 where low: "build_image_palette_tree es first middle (Suc d) (ns1, ys) = (lower, ns2, ys2)"
      by (metis prod_cases3)
    define ns3 where "ns3 = ns2[length ns := (ns2 ! length ns)\<lparr>pn_lower := lower\<rparr>]"
    obtain upper ns4 ys3 where up: "build_image_palette_tree es (Suc middle) beyond (Suc d) (ns3, ys2) = (upper, ns4, ys3)"
      by (metis prod_cases3)
    have mid: "first \<le> middle" "middle < beyond" using False by (auto simp: middle_def)
    have "length ys = length xs" using less.prems by (simp add: ys_def sort_range_lists)
    then have lower: "tree_built es first middle (Suc d) (ns1, ys) (lower, ns2, ys2)"
      unfolding low [symmetric] using less.prems mid by (intro less.hyps) (auto simp: ns1_def)
    then have "length ys2 = length xs" "length ns3 = Suc (length ns) + (middle - first)"
      using \<open>length ys = length xs\<close> by (simp_all add: tree_built_def ns3_def ns1_def)
    then have upper: "tree_built es (Suc middle) beyond (Suc d) (ns3, ys2) (upper, ns4, ys3)"
      unfolding up [symmetric] using less.prems mid by (intro less.hyps) auto
    have "build_image_palette_tree es first beyond d (ns, xs) =
        (length ns, ns4[length ns := (ns4 ! length ns)\<lparr>pn_upper := upper\<rparr>], ys3)"
      using False low up
      by (subst build_image_palette_tree.simps)
         (simp add: Let_def ys_def [symmetric] middle_def [symmetric] ns1_def [symmetric] ns3_def [symmetric])
    with less.prems False show ?thesis
      using tree_built_step [OF _ _ _ ys_def middle_def ns1_def lower ns3_def upper] by simp
  qed
qed

subsection \<open>The palette of a tileset\<close>

lemma length_palette_entries: "length (palette_entries t) \<le> 16384"
proof -
  have "length (snd (fold (add_palette_entry t) xs a)) \<le> length (snd a) + length xs" for xs a
  proof (induction xs arbitrary: a)
    case (Cons x xs)
    have "length (snd (add_palette_entry t x a)) \<le> Suc (length (snd a))"
      by (cases a) (simp add: add_palette_entry_def split: option.split)
    with Cons [of "add_palette_entry t x a"] show ?case by simp
  qed simp
  from this [of "[0..<min max_tile_groups (length (tt_groups t)) * 16]" "({}, [])"] show ?thesis
    by (simp add: palette_entries_def max_tile_groups_def)
qed

lemma image_palette_tree:
  assumes "image_palette_of t = Inr p"
  obtains u where "ip_entries p = palette_entries t" and "palette_entries t \<noteq> []"
    and "tree_at 0 (ip_nodes p) 0 (ip_root p) u" and "kd_ordered (ip_entries p) 0 u"
    and "set_tree u = {..<length (ip_entries p)}" and "height u < Suc (length (ip_nodes p))"
proof -
  let ?es = "palette_entries t"
  obtain node ns xs where built: "build_image_palette_tree ?es 0 (length ?es) 0 ([], [0..<length ?es]) = (node, ns, xs)"
    by (metis prod_cases3)
  with assms have p: "p = \<lparr>ip_entries = ?es, ip_nodes = ns, ip_root = node\<rparr>" "?es \<noteq> []"
    by (auto simp: image_palette_of_def Let_def split: if_splits)
  have "tree_built ?es 0 (length ?es) 0 ([], [0..<length ?es]) (node, ns, xs)"
    using length_palette_entries [of t] unfolding built [symmetric]
    by (intro build_image_palette_tree_built) (simp_all add: size_max_def size_limit_def)
  then obtain u where u: "tree_at 0 ns 0 node u" "set_tree u = {..<length ?es}" "kd_ordered ?es 0 u"
    "size u = length ?es" "length ns = length ?es"
    by (auto simp: tree_built_def segment_def lessThan_atLeast0)
  have "height u \<le> size u" by (rule height_le_size_tree)
  with u p show thesis by (intro that [of u]) simp_all
qed

lemma nearest_image_tile_scan:
  assumes "image_palette_of t = Inr p"
  shows "nearest_image_tile (Suc (length (ip_nodes p))) p rgb (ip_root p) s =
    Inr (fold (\<lambda>i. closer (color_distance rgb (ip_entries p ! i)) i) [0..<length (ip_entries p)] s)"
proof -
  from assms obtain u where u: "tree_at 0 (ip_nodes p) 0 (ip_root p) u" "kd_ordered (ip_entries p) 0 u"
    "set_tree u = {..<length (ip_entries p)}" "height u < Suc (length (ip_nodes p))"
    by (rule image_palette_tree)
  from nearest_in_tree [OF u(1,2) _ u(4)] u(3) show ?thesis
    by (simp add: best_among_scan lessThan_atLeast0)
qed

subsection \<open>The tiles behind the palette\<close>

text \<open>Every tile of the tileset that is searched, and the nearest of them, the first among equals.\<close>

definition palette_tiles :: "image_tiles \<Rightarrow> nat" where
  "palette_tiles t = min max_tile_groups (length (tt_groups t)) * 16"

definition eligible_tile :: "image_tiles \<Rightarrow> nat \<Rightarrow> image_color \<Rightarrow> bool" where
  "eligible_tile t n c \<longleftrightarrow> image_tile_color t (of_nat n) = Some c \<and> im_eligible c"

definition is_nearest_tile :: "image_tiles \<Rightarrow> rgb \<Rightarrow> image_color \<Rightarrow> bool" where
  "is_nearest_tile t rgb c \<longleftrightarrow>
     (\<exists>n < palette_tiles t. eligible_tile t n c) \<and>
     (\<forall>n < palette_tiles t. \<forall>c'. eligible_tile t n c' \<longrightarrow>
        (color_distance rgb c, unat (im_tile c)) \<le> (color_distance rgb c', n))"

lemma color_key_channels:
  assumes "color_key c = color_key c'"
  shows "im_red c = im_red c'" and "im_green c = im_green c'" and "im_blue c = im_blue c'"
proof -
  have red: "im_red c = ucast (drop_bit 16 (color_key c))" and green: "im_green c = ucast (drop_bit 8 (color_key c))"
    and blue: "im_blue c = ucast (color_key c)" for c
    by (rule bit_word_eqI; auto simp: color_key_def bit_simps dest: bit_imp_le_length)+
  from assms show "im_red c = im_red c'" "im_green c = im_green c'" "im_blue c = im_blue c'"
    by (simp_all only: red green blue)
qed

lemma color_distance_key: "color_key c = color_key c' \<Longrightarrow> color_distance rgb c = color_distance rgb c'"
  by (simp add: color_distance_def channel_delta_def image_color_channel_def color_key_channels [of c c'])

lemma image_tile_color_tile: "image_tile_color t tile = Some c \<Longrightarrow> im_tile c = tile"
  by (auto simp: image_tile_color_def Let_def split: if_splits prod.splits)

lemma eligible_tile_unique: "eligible_tile t n c \<Longrightarrow> eligible_tile t n c' \<Longrightarrow> c = c'"
  by (simp add: eligible_tile_def)

text \<open>After the tiles below \<open>n\<close>: the entries are eligible tiles in scan order, each the first of its colour.\<close>

definition palette_scanned :: "image_tiles \<Rightarrow> nat \<Rightarrow> u32 set \<times> image_color list \<Rightarrow> bool" where
  "palette_scanned t n = (\<lambda>(seen, es).
     seen = color_key ` set es \<and> sorted_wrt (\<lambda>c c'. unat (im_tile c) < unat (im_tile c')) es \<and>
     (\<forall>c \<in> set es. unat (im_tile c) < n \<and> eligible_tile t (unat (im_tile c)) c) \<and>
     (\<forall>k < n. \<forall>c. eligible_tile t k c \<longrightarrow>
        (\<exists>c' \<in> set es. color_key c' = color_key c \<and> unat (im_tile c') \<le> k)))"

lemma add_palette_entry_scanned:
  assumes "palette_scanned t n a" and "n < 65536"
  shows "palette_scanned t (Suc n) (add_palette_entry t n a)"
proof -
  obtain seen es where a: "a = (seen, es)" by (cases a)
  show ?thesis
  proof (cases "\<exists>c. eligible_tile t n c \<and> color_key c \<notin> seen")
    case True
    then obtain c where c: "eligible_tile t n c" "color_key c \<notin> seen" by blast
    then have "add_palette_entry t n a = (insert (color_key c) seen, es @ [c])"
      by (simp add: a add_palette_entry_def eligible_tile_def)
    moreover have "unat (im_tile c) = n"
      using c(1) assms(2) image_tile_color_tile [of t "of_nat n" c] by (simp add: eligible_tile_def)
    ultimately show ?thesis
      using assms(1) c
      by (auto simp: a palette_scanned_def sorted_wrt_append less_Suc_eq dest: eligible_tile_unique)
  next
    case False
    then have "add_palette_entry t n a = a"
      by (auto simp: a add_palette_entry_def eligible_tile_def split: option.split)
    with assms(1) False show ?thesis
      by (auto simp: a palette_scanned_def less_Suc_eq image_iff) (metis less_imp_le)+
  qed
qed

lemma palette_entries_scanned: "palette_scanned t (palette_tiles t) (color_key ` set (palette_entries t), palette_entries t)"
proof -
  have "palette_scanned t n (fold (add_palette_entry t) [0..<n] ({}, []))" if "n \<le> 65536" for n
    using that
  proof (induction n)
    case 0
    show ?case by (simp add: palette_scanned_def)
  next
    case (Suc n)
    then show ?case using add_palette_entry_scanned [of t n "fold (add_palette_entry t) [0..<n] ({}, [])"] by simp
  qed
  from this [of "palette_tiles t"]
  have scanned: "palette_scanned t (palette_tiles t) (fold (add_palette_entry t) [0..<palette_tiles t] ({}, []))"
    by (simp add: palette_tiles_def max_tile_groups_def)
  obtain seen es where es: "fold (add_palette_entry t) [0..<palette_tiles t] ({}, []) = (seen, es)"
    by (metis prod.exhaust)
  then have "palette_entries t = es" by (simp add: palette_entries_def palette_tiles_def)
  with scanned es show ?thesis by (simp add: palette_scanned_def)
qed

text \<open>Scanning the entries is scanning all eligible tiles.\<close>

lemma nearest_entry:
  assumes "es \<noteq> []"
  obtains i where "i < length es"
    and "fold (\<lambda>i. closer (color_distance rgb (es ! i)) i) [0..<length es] (size_max, 0xFFFFFFFF) =
      (i, color_distance rgb (es ! i))"
    and "\<And>j. j < length es \<Longrightarrow> (color_distance rgb (es ! i), i) \<le> (color_distance rgb (es ! j), j)"
proof -
  let ?keys = "entry_key es rgb ` {..<length es}"
  have ne: "finite ?keys" "?keys \<noteq> {}" using assms by auto
  have "Min ?keys \<in> ?keys" by (rule Min_in [OF ne])
  then obtain i where i: "i < length es" "Min ?keys = entry_key es rgb i" by auto
  have "Min ?keys < (0xFFFFFFFF, size_max)"
    unfolding i(2) using color_distance_small [of rgb "es ! i"] by (simp add: entry_key_def less_prod_def)
  then have "Min (insert (0xFFFFFFFF, size_max) ?keys) = Min ?keys"
    unfolding Min_insert [OF ne] by (intro min.absorb2 less_imp_le)
  then have "fold (\<lambda>i. closer (color_distance rgb (es ! i)) i) [0..<length es] (size_max, 0xFFFFFFFF) =
      (i, color_distance rgb (es ! i))"
    using i by (simp add: best_among_scan best_among_def lessThan_atLeast0 entry_key_def)
  moreover have "(color_distance rgb (es ! i), i) \<le> (color_distance rgb (es ! j), j)" if "j < length es" for j
    using Min_le [OF ne(1), of "entry_key es rgb j"] that unfolding i(2) by (simp add: entry_key_def)
  ultimately show thesis by (rule that [OF i(1)])
qed

lemma nearest_image_tile_finds:
  assumes p: "image_palette_of t = Inr p"
  obtains i where "i < length (ip_entries p)" and "is_nearest_tile t rgb (ip_entries p ! i)"
    and "nearest_image_tile (Suc (length (ip_nodes p))) p rgb (ip_root p) (size_max, 0xFFFFFFFF) =
      Inr (i, color_distance rgb (ip_entries p ! i))"
proof -
  let ?es = "palette_entries t"
  from p have es: "ip_entries p = ?es" "?es \<noteq> []" by (auto elim: image_palette_tree)
  from es(2) obtain i where i: "i < length ?es"
    "fold (\<lambda>i. closer (color_distance rgb (?es ! i)) i) [0..<length ?es] (size_max, 0xFFFFFFFF) =
      (i, color_distance rgb (?es ! i))"
    "\<And>j. j < length ?es \<Longrightarrow> (color_distance rgb (?es ! i), i) \<le> (color_distance rgb (?es ! j), j)"
    by (rule nearest_entry [of ?es rgb]) blast
  note scanned = palette_entries_scanned [of t, unfolded palette_scanned_def prod.case]
  have least: "(color_distance rgb (?es ! i), unat (im_tile (?es ! i))) \<le> (color_distance rgb c, n)"
    if n: "n < palette_tiles t" and c: "eligible_tile t n c" for n c
  proof -
    from scanned n c obtain c' where c': "c' \<in> set ?es" "color_key c' = color_key c" "unat (im_tile c') \<le> n" by blast
    then obtain j where j: "j < length ?es" "c' = ?es ! j" by (auto simp: in_set_conv_nth)
    have "i \<le> j \<Longrightarrow> unat (im_tile (?es ! i)) \<le> unat (im_tile (?es ! j))"
      using scanned j(1) by (cases "i = j") (auto simp: sorted_wrt_iff_nth_less intro: less_imp_le)
    with i(3) [OF j(1)] c' show ?thesis
      using color_distance_key [OF c'(2), of rgb] by (auto simp: j(2) less_eq_prod_def)
  qed
  have "?es ! i \<in> set ?es" using i(1) by simp
  with scanned least have "is_nearest_tile t rgb (?es ! i)" unfolding is_nearest_tile_def by blast
  with i(1,2) es show thesis
    using nearest_image_tile_scan [OF p, of rgb "(size_max, 0xFFFFFFFF)"] by (intro that [of i]) simp_all
qed

section \<open>The quantised image\<close>

text \<open>The tile of a cell: the former one under a transparent pixel, else the nearest one.\<close>

definition chosen_color :: "image_tiles \<Rightarrow> nat \<Rightarrow> u8 list \<Rightarrow> u16 list \<Rightarrow> nat \<Rightarrow> image_color \<Rightarrow> bool" where
  "chosen_color t width rgba before index c \<longleftrightarrow>
     (\<exists>background. image_tile_color t (before ! index) = Some background \<and>
        (if rgba ! (index * 4 + 3) = 0 then c = background
         else is_nearest_tile t (composite width index rgba background) c))"

lemma is_nearest_tile_unique:
  assumes "is_nearest_tile t rgb c" and "is_nearest_tile t rgb c'"
  shows "c = c'"
proof -
  from assms obtain n n' where n: "n < palette_tiles t" "eligible_tile t n c" "n' < palette_tiles t" "eligible_tile t n' c'"
    by (auto simp: is_nearest_tile_def)
  then have tiles: "unat (im_tile c) = n" "unat (im_tile c') = n'"
    using image_tile_color_tile [of t "of_nat n" c] image_tile_color_tile [of t "of_nat n'" c']
    by (simp_all add: eligible_tile_def palette_tiles_def max_tile_groups_def)
  have "(color_distance rgb c, n) \<le> (color_distance rgb c', n')" "(color_distance rgb c', n') \<le> (color_distance rgb c, n)"
    using assms n unfolding is_nearest_tile_def tiles by blast+
  then have "n = n'" by (meson antisym prod.inject)
  with n show ?thesis using eligible_tile_unique by blast
qed

lemma choose_color_nearest:
  assumes p: "image_palette_of t = Inr p" and b: "image_tile_color t (before ! index) = Some background"
  shows "\<exists>c. choose_color p width index rgba background = Inr c \<and> chosen_color t width rgba before index c"
proof (cases "rgba ! (index * 4 + 3) = 0")
  case True
  with b show ?thesis by (simp add: choose_color_def chosen_color_def)
next
  case False
  from p obtain i where i: "i < length (ip_entries p)"
    "is_nearest_tile t (composite width index rgba background) (ip_entries p ! i)"
    "nearest_image_tile (Suc (length (ip_nodes p))) p (composite width index rgba background) (ip_root p)
      (size_max, 0xFFFFFFFF) = Inr (i, color_distance (composite width index rgba background) (ip_entries p ! i))"
    by (rule nearest_image_tile_finds)
  have "length (ip_entries p) \<le> 16384"
    using p length_palette_entries [of t] by (auto elim: image_palette_tree)
  with i(1) have "i \<noteq> size_max" by (simp add: size_max_def size_limit_def)
  with i b False show ?thesis by (simp add: choose_color_def chosen_color_def)
qed

text \<open>How many cells change their walkability or their height.\<close>

definition changed_cells :: "(image_color \<Rightarrow> 'k) \<Rightarrow> image_tiles \<Rightarrow> u16 list \<Rightarrow> image_color list \<Rightarrow> nat" where
  "changed_cells f t before cs =
     length (filter (\<lambda>i. im_tile (cs ! i) \<noteq> before ! i \<and>
       map_option f (image_tile_color t (before ! i)) \<noteq> Some (f (cs ! i))) [0..<length cs])"

lemma changed_cells_snoc:
  "changed_cells f t before (cs @ [c]) = changed_cells f t before cs +
     (if im_tile c \<noteq> before ! length cs \<and> map_option f (image_tile_color t (before ! length cs)) \<noteq> Some (f c) then 1 else 0)"
proof -
  have "filter (\<lambda>i. im_tile ((cs @ [c]) ! i) \<noteq> before ! i \<and>
        map_option f (image_tile_color t (before ! i)) \<noteq> Some (f ((cs @ [c]) ! i))) [0..<length cs] =
      filter (\<lambda>i. im_tile (cs ! i) \<noteq> before ! i \<and>
        map_option f (image_tile_color t (before ! i)) \<noteq> Some (f (cs ! i))) [0..<length cs]"
    by (intro filter_cong) (simp_all add: nth_append)
  then show ?thesis by (simp add: changed_cells_def)
qed

definition quantized_so_far :: "image_tiles \<Rightarrow> nat \<Rightarrow> u8 list \<Rightarrow> u16 list \<Rightarrow> quantized \<Rightarrow> nat \<Rightarrow> bool" where
  "quantized_so_far t width rgba before q n \<longleftrightarrow>
     length (qz_colors q) = n \<and> (\<forall>index < n. chosen_color t width rgba before index (qz_colors q ! index)) \<and>
     qz_walkability q = of_nat (changed_cells im_walkability t before (qz_colors q)) \<and>
     qz_height q = of_nat (changed_cells im_height t before (qz_colors q))"

lemma quantize_cells:
  assumes p: "image_palette_of t = Inr p"
    and before: "\<forall>index < n. image_tile_color t (before ! index) \<noteq> None"
  shows "\<exists>q. foldE (quantize_cell t p width rgba before)
      \<lparr>qz_colors = [], qz_walkability = 0, qz_height = 0\<rparr> [0..<n] = Inr q \<and> quantized_so_far t width rgba before q n"
  using before
proof (induction n)
  case 0
  show ?case by (simp add: quantized_so_far_def changed_cells_def)
next
  case (Suc n)
  then obtain q where q: "foldE (quantize_cell t p width rgba before)
      \<lparr>qz_colors = [], qz_walkability = 0, qz_height = 0\<rparr> [0..<n] = Inr q" "quantized_so_far t width rgba before q n"
    by auto
  from Suc.prems obtain background where b: "image_tile_color t (before ! n) = Some background" by auto
  from choose_color_nearest [OF p b] obtain c where c: "choose_color p width n rgba background = Inr c"
    "chosen_color t width rgba before n c" by blast
  define v where "v = \<lparr>qz_colors = qz_colors q @ [c],
    qz_walkability = qz_walkability q + (if im_tile c \<noteq> before ! n \<and> im_walkability c \<noteq> im_walkability background then 1 else 0),
    qz_height = qz_height q + (if im_tile c \<noteq> before ! n \<and> im_height c \<noteq> im_height background then 1 else 0)\<rparr>"
  have "quantize_cell t p width rgba before q n = Inr v"
    using b c(1) by (simp add: quantize_cell_def before_color_def v_def)
  moreover have "quantized_so_far t width rgba before v (Suc n)"
    using q(2) c(2) b by (auto simp: quantized_so_far_def v_def changed_cells_snoc nth_append less_Suc_eq)
  ultimately show ?case using q(1) by (simp add: foldE_append)
qed

lemma length_quantized_bytes: "length (quantized_bytes width rows q) = 20 + length (qz_colors q) * 5"
proof -
  have "length (concat (map (le16 \<circ> im_tile) cs)) = 2 * length cs" for cs :: "image_color list" by (induction cs) (simp_all add: le16_def)
  moreover have "length (concat (map (\<lambda>c. [im_red c, im_green c, im_blue c]) cs)) = 3 * length cs" for cs :: "image_color list"
    by (induction cs) simp_all
  ultimately show ?thesis by (simp add: quantized_bytes_def Let_def le16_def le32_def)
qed

lemma palette_exists:
  assumes "\<exists>n < palette_tiles t. \<exists>c. eligible_tile t n c"
  shows "\<exists>p. image_palette_of t = Inr p"
proof -
  have "palette_entries t \<noteq> []"
    using assms palette_entries_scanned [of t, unfolded palette_scanned_def prod.case] by fastforce
  then show ?thesis by (simp add: image_palette_of_def Let_def split: prod.splits)
qed

text \<open>
  C14: Whenever the arguments pass the checks of \<open>imageQuantize\<close>, the terrain that is there can be drawn and
  the tileset has a tile with a visible pixel, quantising succeeds. The result is the header with the size, the
  number of different tiles and the numbers of cells whose walkability and height change, then a tile for each
  cell and its mean colour: the former tile under a transparent pixel, else the tile that is nearest to the
  blended and dithered pixel among all tiles of the tileset, the first of those equally near.
\<close>

theorem image_quantize_exact:
  assumes "star_craft \<noteq> []" and "unat tileset < num_tilesets"
    and dims: "0 < width" "width \<le> 256" "0 < rows" "rows \<le> 256"
    and lengths: "length rgba = unat width * unat rows * 4" "length before = unat width * unat rows"
    and assets: "load_tiles star_craft = Inr assets" "t = assets (unat tileset)"
    and eligible: "\<exists>n < palette_tiles t. \<exists>c. eligible_tile t n c"
    and valid: "\<forall>tile \<in> set before. tile_graphics_valid (terrain_tiles.truncate t) tile"
  shows "\<exists>cs. length cs = unat width * unat rows \<and>
      (\<forall>index < length cs. chosen_color t (unat width) rgba before index (cs ! index)) \<and>
      image_quantize load_tiles star_craft tileset rgba width rows before =
        Inr ([0x4D, 0x49, 0x51, 0x31] @ le16 width @ le16 rows @
             le32 (of_nat (card (im_tile ` set cs))) @
             le32 (of_nat (changed_cells im_walkability t before cs)) @
             le32 (of_nat (changed_cells im_height t before cs)) @
             concat (map (\<lambda>c. le16 (im_tile c)) cs) @
             concat (map (\<lambda>c. [im_red c, im_green c, im_blue c]) cs))"
proof -
  let ?cells = "unat width * unat rows"
  have small: "unat width \<le> 256" "unat rows \<le> 256" using dims by (simp_all add: word_le_nat_alt)
  have "?cells \<le> 256 * 256" using small by (rule mult_le_mono)
  then have cells: "?cells \<le> 65536" by simp
  obtain p where p: "image_palette_of t = Inr p" using palette_exists [OF eligible] by blast
  have "\<forall>index < ?cells. image_tile_color t (before ! index) \<noteq> None"
    using valid lengths(2) by (auto simp: image_tile_color_def Let_def split: prod.splits)
  from quantize_cells [OF p this] obtain q where
    q: "foldE (quantize_cell t p (unat width) rgba before)
      \<lparr>qz_colors = [], qz_walkability = 0, qz_height = 0\<rparr> [0..<?cells] = Inr q"
      "quantized_so_far t (unat width) rgba before q ?cells" by blast
  have "image_quantize load_tiles star_craft tileset rgba width rows before = Inr (quantized_bytes width rows q)"
    using assms(1,2) dims lengths assets(1) cells p q
    by (auto simp: image_quantize_def Let_def assets(2) [symmetric] length_quantized_bytes quantized_so_far_def)
  moreover have "length (remdups (map im_tile (qz_colors q))) = card (im_tile ` set (qz_colors q))"
    by (simp add: length_remdups_card_conv)
  ultimately show ?thesis
    using q(2) by (intro exI [of _ "qz_colors q"])
      (simp add: quantized_bytes_def Let_def quantized_so_far_def comp_def)
qed

section \<open>A tileset of one tile\<close>

text \<open>The colour of a tile whose pixels are all one palette entry is that entry.\<close>

lemma tile_samples_uniform:
  assumes "\<And>x y. x < 32 \<Longrightarrow> y < 32 \<Longrightarrow> pixel_palette t mega x y = k" and "k \<noteq> 0"
    and "it_colors t ! unat k = (r, g, b)"
  shows "tile_samples t mega = (1024 * unat r, 1024 * unat g, 1024 * unat b, 1024)"
proof -
  have "fold (add_sample t mega) xs (r0, g0, b0, n) =
      (r0 + length xs * unat r, g0 + length xs * unat g, b0 + length xs * unat b, n + length xs)"
    if "set xs \<subseteq> {..<32} \<times> {..<32}" for xs r0 g0 b0 n
    using that assms by (induction xs arbitrary: r0 g0 b0 n) (auto simp: add_sample_def)
  from this [of "List.product [0..<32] [0..<32]" 0 0 0 0] show ?thesis
    by (simp add: tile_samples_def length_product atLeast0LessThan)
qed

definition gray_tile :: image_tiles where
  "gray_tile = \<lparr>tt_groups = [replicate 16 0], tt_graphics = [replicate 16 0], tt_flags = 1, tt_pixels = 1,
     it_heights = [0], it_walkable = [replicate 16 True], it_pixels = [replicate 64 1],
     it_colors = [(0, 0, 0), (7, 7, 7)]\<rparr>"

lemma gray_tile_graphics: "tile_graphics_valid (terrain_tiles.truncate gray_tile) 0"
  by (simp add: tile_graphics_valid_def gray_tile_def terrain_tiles.defs vr4_index_def Let_def list_all_iff)

lemma gray_tile_eligible: "\<exists>n < palette_tiles gray_tile. \<exists>c. eligible_tile gray_tile n c"
proof -
  have "pixel_palette gray_tile 0 x y = 1" if "x < 32" "y < 32" for x y
  proof -
    have "x div 8 < 4" "y div 8 < 4" using that by auto
    moreover have "y mod 8 * 8 + (7 - x mod 8) < 64" "y mod 8 * 8 + x mod 8 < 64"
      using mod_less_divisor [of 8 x] mod_less_divisor [of 8 y] by linarith+
    ultimately show ?thesis by (simp add: pixel_palette_def gray_tile_def vr4_index_def Let_def)
  qed
  then have "tile_samples gray_tile 0 = (1024 * 7, 1024 * 7, 1024 * 7, 1024)"
    using tile_samples_uniform [of gray_tile 0 1 7 7 7] by (simp add: gray_tile_def)
  then have "\<exists>c. eligible_tile gray_tile 0 c"
    using gray_tile_graphics by (simp add: eligible_tile_def image_tile_color_def Let_def gray_tile_def)
  moreover have "0 < palette_tiles gray_tile" by (simp add: palette_tiles_def gray_tile_def max_tile_groups_def)
  ultimately show ?thesis by blast
qed

lemma image_quantize_exact_witness:
  "\<exists>cs. length cs = 1 \<and> chosen_color gray_tile 1 [9, 9, 9, 255] [0] 0 (cs ! 0) \<and>
     image_quantize (\<lambda>_. Inr (\<lambda>_. gray_tile)) ''game'' 0 [9, 9, 9, 255] 1 1 [0] =
       Inr ([0x4D, 0x49, 0x51, 0x31, 1, 0, 1, 0] @
            le32 (of_nat (card (im_tile ` set cs))) @
            le32 (of_nat (changed_cells im_walkability gray_tile [0] cs)) @
            le32 (of_nat (changed_cells im_height gray_tile [0] cs)) @
            concat (map (\<lambda>c. le16 (im_tile c)) cs) @
            concat (map (\<lambda>c. [im_red c, im_green c, im_blue c]) cs))"
  using image_quantize_exact [of "''game''" 0 1 1 "[9, 9, 9, 255]" "[0]" "\<lambda>_. Inr (\<lambda>_. gray_tile)" "\<lambda>_. gray_tile" gray_tile]
    gray_tile_eligible gray_tile_graphics
  by (fastforce simp: num_tilesets_def le16_def)

end
