(* ===== verification/Spec2Isabelle.thy ===== *)
theory Spec2Isabelle
  imports JsonSerializer Sha256Props IsomTablesProps IsomUndo IsomResize ScenarioObjectsProps AgentMapWitness AgentImageProps
begin

text \<open>
  A verification development of the native map agent of eud-agent: the C++ under \<open>src/native/isom\<close> that
  reads a request as JSON, edits a StarCraft map and writes the result.

  The program and its parts. A command of \<open>IsomTerrain/MapAgentCore.cpp\<close> parses a JSON text, compares the
  digest of the input file with the one the request names, loads the map, runs the operations of the request
  on the scenario in memory, saves to a temporary file, compares the assets of the archive before and after,
  renames the temporary file to the output and reads it back. It calls the JSON library, the SHA-256 class,
  the terrain algorithms (\<open>IsomApi.h\<close>) and the map model (\<open>MappingCoreLib\<close>). Below, \<open>X/Props\<close> means the
  theories \<open>X\<close> and \<open>XProps\<close>.

  Shared vocabulary. \<open>Prelude\<close>: exceptions as the left side of a sum with \<open>bindE\<close>, loops with exceptions
  as \<open>foldE\<close> and \<open>mapE\<close>, \<open>size_t\<close> arithmetic modulo \<open>2^64\<close>, checked vector and span accesses.
  \<open>StdMap\<close>: \<open>std::map\<close> as a sorted association list behind the locale \<open>ordered_map\<close>. \<open>Float64\<close>: the finite
  doubles of JSON numbers.

  JSON (\<open>MapAgentJson.h\<close>, \<open>MapAgentJson.cpp\<close>). \<open>Json\<close>: values and field readers; \<open>JsonParser/Props\<close>: the
  recursive descent parser with line and column of errors, over a recursion budget of the length of the text
  plus one, which is never used up (\<open>parse_json_never_out_of_fuel\<close>); \<open>JsonSerializer\<close>: the serialiser and the
  round trip.

  SHA-256 (\<open>sha256.h\<close>, \<open>sha256.cpp\<close>). \<open>Sha256\<close>: the streaming class; \<open>Sha256Props\<close>: FIPS 180-4 as the
  reference, equality of the unrolled block function with it, and that cutting the input does not matter.

  Isometric terrain (\<open>IsomApi.h\<close>, with the tables of \<open>Sc.h\<close>). \<open>IsomData\<close>, \<open>IsomBrushes\<close>,
  \<open>IsomTables/Props\<close>: the constant tables and the tables a tileset is prepared with; \<open>IsomMap/Props\<close>: the
  section (\<open>sc_map\<close> for \<open>ScMap\<close>, \<open>isom_cache\<close> for \<open>IsomCache\<close>, \<open>isom_rect\<close> with its editor flags);
  \<open>IsomEdit\<close>: neighbour search and tile regeneration; \<open>IsomPlace\<close>: brushes, sets of diamonds, the radial
  update, a work queue whose length is bounded by the number of unmodified diamonds; \<open>IsomResize\<close>: copying
  and resizing. \<open>IsomEditProps\<close> states the contract of one write as a locale and carries any invariant of it
  through the loops; \<open>IsomBrushProps\<close> (well-formedness, values that stay), \<open>IsomUndo\<close> (undo map, changed
  area) and \<open>IsomTilesProps\<close> (regeneration never leaves a table) interpret it.

  Map model (\<open>Scenario.h\<close>, \<open>Scenario.cpp\<close>, \<open>Chk.h\<close>, \<open>Chk.cpp\<close>). \<open>ChkTables\<close>, \<open>ChkTriggers/Props\<close>: the ids
  inside triggers; \<open>Scenario\<close>, \<open>ScenarioObjectsProps\<close>: the record \<open>scenario\<close>, its tiles, objects, players and
  forces; \<open>ScenarioStrings/Props\<close>: the game string table.

  Agent (\<open>MapAgentCore.cpp\<close>). \<open>AgentFields/Props\<close>: field readers, hex text, digests, inventories, paths.
  \<open>AgentSound\<close>, \<open>AgentSoundEdit\<close>, \<open>AgentSoundRemove\<close>: \<open>mapSoundAdd\<close>, \<open>mapSoundAddBatch\<close>,
  \<open>mapSoundReplace\<close>, \<open>mapSoundRemove\<close>, \<open>mapAssetDigest\<close>, \<open>mapAssetExtract\<close>, on a file system state
  (a map from paths to bytes); \<open>AgentIo\<close>: reasoning about such computations, what they may write and what
  holds when they succeed; \<open>AgentSoundProps\<close>, \<open>AgentSoundWitness\<close>: what success and failure mean and runs.
  \<open>AgentObjects\<close>, \<open>AgentEdit\<close>, \<open>AgentEditObjects\<close>, \<open>AgentMapEdit\<close>: \<open>mapEdit\<close> with every operation of a
  batch, one definition per branch of its loop; \<open>AgentNew\<close>: \<open>mapNew\<close>. \<open>AgentEditProps\<close>,
  \<open>AgentEditKept\<close>, \<open>AgentEditLayers\<close> (the locale \<open>edit_layer\<close>, interpreted for doodads, locations, texts,
  players and forces) and \<open>AgentBatchProps\<close>: every operation stays in its layer and keeps the map
  well-formed; \<open>AgentDoodadProps\<close>: adding and deleting a doodad; \<open>AgentIsomProps\<close>: the semantic rectangle;
  \<open>AgentMapEditProps\<close>: the files \<open>mapEdit\<close> and \<open>mapNew\<close> leave; \<open>AgentNewProps\<close>: the map that is
  built is the one specified, and maps that are built and edited stay well-formed; \<open>AgentEditWitness\<close>,
  \<open>AgentMapWitness\<close>: runs. \<open>AgentImage/Props\<close>: \<open>imageQuantize\<close>, a k-d tree in an array, refined by a functional
  tree; the recursion budget of the search is one more than the number of nodes, and the tree is never higher.

  Parameters. \<open>archive_lib\<close> stands for the MPQ library and the map loader and writer (loading, entries and
  assets of an archive, saving, renaming and copying files), \<open>load_assets\<close> for the game data read from the
  installed archives. The theorems hold for every such library; where one needs documented behaviour, it is
  a hypothesis. \<open>lib_read\<close> decides for each path whether the stream that hashes a file opens and reaches its
  end. Failures of \<open>std::filesystem\<close> calls other than renaming, copying and reading are not
  distinguished.

  Not modelled. The editor string table (\<open>KSTR\<close>), the byte format of the CHK sections and their validation,
  unit, upgrade and technology settings, the textual trigger language (\<open>TextTrigCompiler\<close>,
  \<open>TextTrigGenerator\<close>, \<open>EscapeStrings\<close>): not reached by the operations above except through the loader and
  the writer. Rendering, catalogue queries and game assets in \<open>MapAgentCore.cpp\<close>, which
  change no map; of the cache of palettes only what it returns. \<open>MapGenCli.cpp\<close> and \<open>isom_capi.cpp\<close>: argument passing. The vendored StormLib, CascLib,
  IcuLib and RareCpp, and CrossCutLib: third-party code. Null pointers at the C interface, letter case and
  aliases of file names (paths are plain texts here), and sharing of \<open>ScStr\<close> objects between copies of a map.
\<close>

end
